(* ===== verification/Prelude.thy ===== *)
theory Prelude
  imports Main "HOL-Library.Sublist"
begin

text \<open>
  Shared vocabulary of the development: the Python exceptions the service raises or
  catches, the result type of fallible code, the \<open>run\<close> type of code that also changes
  state, Python list slicing, order-preserving duplicate removal, and the collections of
  facts (\<open>pystr\<close>, \<open>pyjson\<close>, \<open>runs\<close>) the component theories feed and use.
\<close>

named_theorems pystr \<open>facts about the string operations\<close>
named_theorems pyjson \<open>facts about JSON values and dictionaries\<close>
named_theorems runs \<open>unfolding rules of the state and exception combinators\<close>

section \<open>Exceptions and results\<close>

text \<open>
  The exceptions the code raises, with the text it gives them. \<open>JSONDecodeError\<close> and
  \<open>BinasciiError\<close> are subclasses of \<open>ValueError\<close> in Python, and so are the service's own
  \<open>TopicPermissionError\<close> and \<open>EnvelopeValidationError\<close>; \<open>is_value_error\<close> says what an
  \<open>except ValueError\<close> clause catches.
\<close>

datatype exn =
    ValueError string
  | JSONDecodeError
  | BinasciiError
  | TopicPermissionError string
  | EnvelopeValidationError string
  | TokenAuthError string
  | RuntimeError string
  | TypeError
  | AttributeError
  | KeyError string
  | OverflowError
  | OSError int
  | LockTimeout
  | HTTPException int string

type_synonym 'a res = "exn + 'a"

fun is_value_error :: "exn \<Rightarrow> bool" where
  "is_value_error (ValueError _) = True"
| "is_value_error JSONDecodeError = True"
| "is_value_error BinasciiError = True"
| "is_value_error (TopicPermissionError _) = True"
| "is_value_error (EnvelopeValidationError _) = True"
| "is_value_error _ = False"

text \<open>Sequencing of fallible code: the first exception ends it.\<close>

definition res_bind :: "'a res \<Rightarrow> ('a \<Rightarrow> 'b res) \<Rightarrow> 'b res" where
  "res_bind m f = (case m of Inl e \<Rightarrow> Inl e | Inr x \<Rightarrow> f x)"

lemma res_bind_simps [simp]:
  "res_bind (Inl e) f = Inl e"
  "res_bind (Inr x) f = f x"
  by (simp_all add: res_bind_def)

lemma res_bind_Inr_iff: "res_bind m f = Inr y \<longleftrightarrow> (\<exists>x. m = Inr x \<and> f x = Inr y)"
  by (cases m) simp_all

lemma res_bind_Inl_iff:
  "res_bind m f = Inl e \<longleftrightarrow> m = Inl e \<or> (\<exists>x. m = Inr x \<and> f x = Inl e)"
  by (cases m) simp_all

section \<open>State with exceptions\<close>

text \<open>
  A method that changes state and may raise: the state after it is kept also when it
  raises, as in Python, where nothing is rolled back.
\<close>

type_synonym ('s, 'a) run = "'s \<Rightarrow> 'a res \<times> 's"

definition run_return :: "'a \<Rightarrow> ('s, 'a) run" where
  "run_return x s = (Inr x, s)"

definition run_raise :: "exn \<Rightarrow> ('s, 'a) run" where
  "run_raise e s = (Inl e, s)"

definition run_bind :: "('s, 'a) run \<Rightarrow> ('a \<Rightarrow> ('s, 'b) run) \<Rightarrow> ('s, 'b) run" where
  "run_bind m f s = (case m s of (Inl e, s') \<Rightarrow> (Inl e, s') | (Inr x, s') \<Rightarrow> f x s')"

definition run_res :: "'a res \<Rightarrow> ('s, 'a) run" where
  "run_res r s = (r, s)"

definition run_get :: "('s \<Rightarrow> 'a) \<Rightarrow> ('s, 'a) run" where
  "run_get f s = (Inr (f s), s)"

definition run_modify :: "('s \<Rightarrow> 's) \<Rightarrow> ('s, unit) run" where
  "run_modify f s = (Inr (), f s)"

text \<open>\<open>try m except e: h e\<close>.\<close>

definition run_catch :: "('s, 'a) run \<Rightarrow> (exn \<Rightarrow> ('s, 'a) run) \<Rightarrow> ('s, 'a) run" where
  "run_catch m h s = (case m s of (Inl e, s') \<Rightarrow> h e s' | (Inr x, s') \<Rightarrow> (Inr x, s'))"

text \<open>Run a component's method on its part of a larger state.\<close>

definition run_lift :: "('w \<Rightarrow> 's) \<Rightarrow> ('s \<Rightarrow> 'w \<Rightarrow> 'w) \<Rightarrow> ('s, 'a) run \<Rightarrow> ('w, 'a) run" where
  "run_lift get put m w = (case m (get w) of (r, s') \<Rightarrow> (r, put s' w))"

declare run_return_def [runs] run_raise_def [runs] run_bind_def [runs] run_res_def [runs]
  run_get_def [runs] run_modify_def [runs] run_catch_def [runs] run_lift_def [runs]

lemma run_bind_assoc:
  "run_bind (run_bind m f) g = run_bind m (\<lambda>x. run_bind (f x) g)"
  by (rule ext) (auto simp: runs split: prod.splits sum.splits)

lemma run_bind_Inr_iff:
  "run_bind m f s = (Inr y, t) \<longleftrightarrow>
     (\<exists>x u. m s = (Inr x, u) \<and> f x u = (Inr y, t))"
  by (auto simp: runs split: prod.splits sum.splits)

section \<open>Slices\<close>

text \<open>\<open>xs[i:]\<close>: a negative index counts from the end and stops at the start.\<close>

definition slice_from :: "'a list \<Rightarrow> int \<Rightarrow> 'a list" where
  "slice_from xs i =
     (if 0 \<le> i then drop (nat i) xs else drop (nat (int (length xs) + i)) xs)"

text \<open>The last \<open>n\<close> elements.\<close>

definition take_last :: "nat \<Rightarrow> 'a list \<Rightarrow> 'a list" where
  "take_last n xs = drop (length xs - n) xs"

lemma length_take_last [simp]: "length (take_last n xs) = min n (length xs)"
  by (simp add: take_last_def)

lemma take_last_all [simp]: "length xs \<le> n \<Longrightarrow> take_last n xs = xs"
  by (simp add: take_last_def)

lemma take_last_0 [simp]: "take_last 0 xs = []"
  by (simp add: take_last_def)

lemma take_last_suffix: "suffix (take_last n xs) xs"
  by (simp add: take_last_def suffix_drop)

lemma set_take_last: "set (take_last n xs) \<subseteq> set xs"
  by (simp add: take_last_def set_drop_subset)

lemma take_last_snoc: "0 < n \<Longrightarrow> take_last n (xs @ [x]) = take_last (n - 1) xs @ [x]"
  by (cases n) (auto simp: take_last_def)

lemma last_take_last: "0 < n \<Longrightarrow> xs \<noteq> [] \<Longrightarrow> last (take_last n xs) = last xs"
  by (simp add: take_last_def)

lemma take_last_append_take_last:
  "take_last n (take_last n xs @ ys) = take_last n (xs @ ys)"
proof (cases "length xs \<le> n")
  case True
  then show ?thesis by simp
next
  case False
  let ?d = "length xs - n"
  have "take_last n (take_last n xs @ ys) = drop (length ys) (drop ?d xs @ ys)"
    using False by (simp add: take_last_def del: drop_append)
  also have "drop ?d xs @ ys = drop ?d (xs @ ys)" by simp
  also have "drop (length ys) (drop ?d (xs @ ys)) = drop (length ys + ?d) (xs @ ys)"
    by (simp only: drop_drop)
  also have "length ys + ?d = length (xs @ ys) - n" using False by simp
  finally show ?thesis by (simp only: take_last_def)
qed

lemma slice_from_neg:
  assumes "0 < n"
  shows "slice_from xs (- int n) = take_last n xs"
proof -
  have "nat (int (length xs) + - int n) = length xs - n" by arith
  with assms show ?thesis by (simp add: slice_from_def take_last_def)
qed

lemma slice_from_0 [simp]: "slice_from xs 0 = xs"
  by (simp add: slice_from_def)

section \<open>Order-preserving duplicate removal\<close>

text \<open>
  The loop \<open>for x in xs: if x in seen: continue; seen.add(x); out.append(x)\<close>, with the
  set of seen elements as a list.
\<close>

fun dedup_seen :: "'a list \<Rightarrow> 'a list \<Rightarrow> 'a list" where
  "dedup_seen seen [] = []"
| "dedup_seen seen (x # xs) =
     (if x \<in> set seen then dedup_seen seen xs else x # dedup_seen (x # seen) xs)"

lemma set_dedup_seen: "set (dedup_seen seen xs) = set xs - set seen"
  by (induction seen xs rule: dedup_seen.induct) auto

lemma distinct_dedup_seen: "distinct (dedup_seen seen xs)"
  by (induction seen xs rule: dedup_seen.induct) (auto simp: set_dedup_seen)

lemma dedup_seen_id: "distinct xs \<Longrightarrow> set xs \<inter> set seen = {} \<Longrightarrow> dedup_seen seen xs = xs"
  by (induction seen xs rule: dedup_seen.induct) auto

lemma dedup_seen_subseq: "subseq (dedup_seen seen xs) xs"
  by (induction seen xs rule: dedup_seen.induct) auto

section \<open>Lists\<close>

lemma list_all_filter: "list_all P xs \<Longrightarrow> list_all P (filter Q xs)"
  by (auto simp: list_all_iff)

lemma hd_dropWhile_not: "dropWhile P xs \<noteq> [] \<Longrightarrow> \<not> P (hd (dropWhile P xs))"
  by (simp add: hd_dropWhile)

end
