(* ===== verification/Py_Str.thy ===== *)
theory Py_Str
  imports Prelude "HOL-Library.List_Lexorder" "HOL-Library.Char_ord"
begin

text \<open>
  The \<open>str\<close> methods of Python that the service uses, on HOL strings. A HOL \<open>char\<close> stands
  for the code point with its number, so a \<open>string\<close> is a Python string over the code points
  U+0000 to U+00FF (Latin-1): white space, lower case and \<open>repr\<close> are those of Python on
  that range, and the order of \<open>sorted\<close> is by code point.
\<close>

section \<open>White space and case\<close>

definition is_space :: "char \<Rightarrow> bool" where
  "is_space c = (let n = (of_char c :: nat) in
     (9 \<le> n \<and> n \<le> 13) \<or> (28 \<le> n \<and> n \<le> 32) \<or> n = 133 \<or> n = 160)"

definition lstrip :: "string \<Rightarrow> string" where
  "lstrip s = dropWhile is_space s"

definition rstrip :: "string \<Rightarrow> string" where
  "rstrip s = rev (dropWhile is_space (rev s))"

definition strip :: "string \<Rightarrow> string" where
  "strip s = rstrip (lstrip s)"

text \<open>\<open>s.rstrip(c)\<close> for one character \<open>c\<close>.\<close>

definition rstrip_char :: "char \<Rightarrow> string \<Rightarrow> string" where
  "rstrip_char c s = rev (dropWhile (\<lambda>x. x = c) (rev s))"

definition lower_char :: "char \<Rightarrow> char" where
  "lower_char c = (let n = (of_char c :: nat) in
     if (65 \<le> n \<and> n \<le> 90) \<or> (192 \<le> n \<and> n \<le> 222 \<and> n \<noteq> 215) then char_of (n + 32) else c)"

definition lower :: "string \<Rightarrow> string" where
  "lower s = map lower_char s"

text \<open>A string with no white space at either end.\<close>

definition stripped :: "string \<Rightarrow> bool" where
  "stripped s = (s = [] \<or> (\<not> is_space (hd s) \<and> \<not> is_space (last s)))"

lemma stripped_Nil [simp]: "stripped []"
  by (simp add: stripped_def)

lemma rev_dropWhile_prefix: "\<exists>t. s = rev (dropWhile P (rev s)) @ t"
proof -
  have "rev s = takeWhile P (rev s) @ dropWhile P (rev s)" by simp
  then have "s = rev (dropWhile P (rev s)) @ rev (takeWhile P (rev s))"
    by (metis rev_append rev_rev_ident)
  then show ?thesis by blast
qed

lemma stripped_strip [simp]: "stripped (strip s)"
proof (cases "strip s = []")
  case True
  then show ?thesis by simp
next
  case False
  let ?l = "lstrip s"
  have r: "strip s = rev (dropWhile is_space (rev ?l))"
    by (simp add: strip_def rstrip_def)
  obtain t where t: "?l = strip s @ t"
    using rev_dropWhile_prefix [of ?l is_space] r by auto
  have ne: "dropWhile is_space (rev ?l) \<noteq> []" using False r by simp
  have "last (strip s) = hd (dropWhile is_space (rev ?l))"
    using r ne by (simp add: last_rev)
  then have lst: "\<not> is_space (last (strip s))"
    using hd_dropWhile_not [OF ne] by simp
  have "?l \<noteq> []" using t False by auto
  then have "\<not> is_space (hd ?l)"
    unfolding lstrip_def by (rule hd_dropWhile_not)
  then have "\<not> is_space (hd (strip s))" using t False by simp
  with lst show ?thesis by (simp add: stripped_def)
qed

lemma strip_id: "stripped s \<Longrightarrow> strip s = s"
proof -
  assume a: "stripped s"
  show "strip s = s"
  proof (cases s)
    case Nil
    then show ?thesis by (simp add: strip_def lstrip_def rstrip_def)
  next
    case (Cons c cs)
    with a have "\<not> is_space c" and "\<not> is_space (last s)" by (auto simp: stripped_def)
    then have "lstrip s = s" using Cons by (simp add: lstrip_def)
    moreover have "rstrip s = s"
    proof -
      have "rev s = last s # rev (butlast s)" using Cons
        by (metis append_butlast_last_id list.discI rev_eq_Cons_iff rev_rev_ident)
      then have "dropWhile is_space (rev s) = rev s"
        using \<open>\<not> is_space (last s)\<close> by (metis dropWhile.simps(2))
      then show ?thesis by (simp add: rstrip_def)
    qed
    ultimately show ?thesis by (simp add: strip_def)
  qed
qed

lemma strip_idem [simp]: "strip (strip s) = strip s"
  by (rule strip_id) simp

lemma strip_Nil [simp]: "strip [] = []"
  by (rule strip_id) simp

lemma set_strip: "set (strip s) \<subseteq> set s"
  by (auto simp: strip_def rstrip_def lstrip_def dest!: set_dropWhileD)

section \<open>Prefixes and substrings\<close>

definition starts_with :: "string \<Rightarrow> string \<Rightarrow> bool" where
  "starts_with s p = (take (length p) s = p)"

lemma starts_with_iff [pystr]: "starts_with s p \<longleftrightarrow> (\<exists>t. s = p @ t)"
proof
  assume "starts_with s p"
  then have "s = p @ drop (length p) s"
    unfolding starts_with_def by (metis append_take_drop_id)
  then show "\<exists>t. s = p @ t" ..
qed (auto simp: starts_with_def)

lemma starts_with_append [simp]: "starts_with (p @ t) p"
  by (simp add: starts_with_def)

lemma starts_with_refl [simp]: "starts_with s s"
  by (simp add: starts_with_def)

lemma starts_with_Nil [simp]: "starts_with s []"
  by (simp add: starts_with_def)

lemma starts_with_NilD: "starts_with [] p \<Longrightarrow> p = []"
  by (simp add: starts_with_def)

lemma starts_with_trans: "starts_with s p \<Longrightarrow> starts_with p q \<Longrightarrow> starts_with s q"
  by (auto simp: starts_with_iff)

text \<open>\<open>sub in s\<close>.\<close>

fun contains :: "string \<Rightarrow> string \<Rightarrow> bool" where
  "contains sub [] = (sub = [])"
| "contains sub (c # s) = (starts_with (c # s) sub \<or> contains sub s)"

lemma contains_iff [pystr]: "contains sub s \<longleftrightarrow> (\<exists>a b. s = a @ sub @ b)"
proof (induction s)
  case Nil
  then show ?case by simp
next
  case (Cons c s)
  show ?case
  proof
    assume "contains sub (c # s)"
    then consider "starts_with (c # s) sub" | "contains sub s" by auto
    then show "\<exists>a b. c # s = a @ sub @ b"
    proof cases
      case 1
      then obtain t where "c # s = [] @ sub @ t" by (auto simp: starts_with_iff)
      then show ?thesis by blast
    next
      case 2
      then obtain a b where "s = a @ sub @ b" using Cons.IH by blast
      then have "c # s = (c # a) @ sub @ b" by simp
      then show ?thesis by blast
    qed
  next
    assume "\<exists>a b. c # s = a @ sub @ b"
    then obtain a b where ab: "c # s = a @ sub @ b" by blast
    show "contains sub (c # s)"
    proof (cases a)
      case Nil
      with ab have "starts_with (c # s) sub" by (auto simp: starts_with_iff)
      then show ?thesis by simp
    next
      case (Cons d a')
      with ab have "s = a' @ sub @ b" by simp
      then have "contains sub s" using Cons.IH by blast
      then show ?thesis by simp
    qed
  qed
qed

lemma contains_singleton: "contains [c] s \<longleftrightarrow> c \<in> set s"
  by (auto simp: contains_iff in_set_conv_decomp)

section \<open>Splitting and joining\<close>

text \<open>\<open>s.split(c)\<close> for one character; the result is never empty.\<close>

fun split_on :: "char \<Rightarrow> string \<Rightarrow> string list" where
  "split_on c [] = [[]]"
| "split_on c (x # s) =
     (if x = c then [] # split_on c s
      else case split_on c s of [] \<Rightarrow> [[x]] | l # ls \<Rightarrow> (x # l) # ls)"

lemma split_on_nonempty [simp]: "split_on c s \<noteq> []"
  by (induction s) (auto split: list.splits)

text \<open>\<open>sep.join(xs)\<close>.\<close>

fun join :: "string \<Rightarrow> string list \<Rightarrow> string" where
  "join sep [] = []"
| "join sep [x] = x"
| "join sep (x # y # ys) = x @ sep @ join sep (y # ys)"

lemma join_split_on: "join [c] (split_on c s) = s"
proof (induction s)
  case Nil
  then show ?case by simp
next
  case (Cons x s)
  obtain l ls where s: "split_on c s = l # ls" by (cases "split_on c s") auto
  then show ?case using Cons by (cases ls) auto
qed

lemma split_on_no_sep: "l \<in> set (split_on c s) \<Longrightarrow> c \<notin> set l"
proof (induction s arbitrary: l)
  case Nil
  then show ?case by simp
next
  case (Cons x s)
  then show ?case by (auto split: if_splits list.splits)
qed

lemma split_on_prefix_level:
  "c \<notin> set a \<Longrightarrow> split_on c (a @ c # s) = a # split_on c s"
  by (induction a) auto

lemma split_on_no_char: "c \<notin> set a \<Longrightarrow> split_on c a = [a]"
  by (induction a) auto

text \<open>The lines of a text file.\<close>

abbreviation newline :: char where
  "newline \<equiv> CHR 0x0A"

definition lines_of :: "string \<Rightarrow> string list" where
  "lines_of s = split_on newline s"

lemma lines_of_join:
  "ls \<noteq> [] \<Longrightarrow> list_all (\<lambda>l. newline \<notin> set l) ls \<Longrightarrow>
   lines_of (join [newline] ls @ [newline]) = ls @ [[]]"
proof (induction ls rule: induct_list012)
  case (2 l)
  then show ?case by (simp add: lines_of_def split_on_prefix_level)
next
  case (3 l m ls)
  then have "lines_of (join [newline] (m # ls) @ [newline]) = (m # ls) @ [[]]" by simp
  with 3 show ?case by (simp add: lines_of_def split_on_prefix_level)
qed simp

text \<open>\<open>s.split()\<close>: the maximal runs of non-white-space characters.\<close>

fun words_acc :: "string \<Rightarrow> string \<Rightarrow> string list" where
  "words_acc w [] = (if w = [] then [] else [rev w])"
| "words_acc w (c # s) =
     (if is_space c then (if w = [] then words_acc [] s else rev w # words_acc [] s)
      else words_acc (c # w) s)"

definition words :: "string \<Rightarrow> string list" where
  "words s = words_acc [] s"

definition is_word :: "string \<Rightarrow> bool" where
  "is_word x = (x \<noteq> [] \<and> list_all (\<lambda>c. \<not> is_space c) x)"

lemma words_acc_no_space:
  "list_all (\<lambda>c. \<not> is_space c) w \<Longrightarrow> list_all is_word (words_acc w s)"
proof (induction s arbitrary: w)
  case Nil
  then show ?case by (simp add: is_word_def list_all_iff)
next
  case (Cons c s)
  show ?case
  proof (cases "is_space c")
    case True
    have "list_all is_word (words_acc [] s)" by (rule Cons.IH) simp
    with True Cons.prems show ?thesis by (simp add: is_word_def list_all_iff)
  next
    case False
    then have "list_all is_word (words_acc (c # w) s)"
      by (intro Cons.IH) (simp add: Cons.prems)
    with False show ?thesis by simp
  qed
qed

lemma words_no_space: "x \<in> set (words s) \<Longrightarrow> x \<noteq> [] \<and> (\<forall>c \<in> set x. \<not> is_space c)"
  using words_acc_no_space [of "[]" s] by (auto simp: words_def is_word_def list_all_iff)

lemma stripped_no_space: "\<forall>c \<in> set x. \<not> is_space c \<Longrightarrow> stripped x"
  by (cases x) (auto simp: stripped_def)

section \<open>Decimal integers\<close>

definition digit_char :: "nat \<Rightarrow> char" where
  "digit_char d = char_of (48 + d)"

definition digit_val :: "char \<Rightarrow> nat option" where
  "digit_val c = (let n = (of_char c :: nat) in if 48 \<le> n \<and> n \<le> 57 then Some (n - 48) else None)"

text \<open>\<open>str(n)\<close>.\<close>

fun nat_to_dec :: "nat \<Rightarrow> string" where
  "nat_to_dec n = (if n < 10 then [digit_char n]
     else nat_to_dec (n div 10) @ [digit_char (n mod 10)])"

declare nat_to_dec.simps [simp del]

definition int_to_dec :: "int \<Rightarrow> string" where
  "int_to_dec i = (if i < 0 then CHR ''-'' # nat_to_dec (nat (- i)) else nat_to_dec (nat i))"

text \<open>
  \<open>int(s)\<close> for a string: white space around it, one sign, digits with single
  underscores between them; \<open>None\<close> is Python's \<open>ValueError\<close>. The flag says that the
  last character read was a digit.
\<close>

fun dec_digits :: "bool \<Rightarrow> nat \<Rightarrow> string \<Rightarrow> nat option" where
  "dec_digits prev acc [] = (if prev then Some acc else None)"
| "dec_digits prev acc (c # s) =
     (case digit_val c of
        Some d \<Rightarrow> dec_digits True (10 * acc + d) s
      | None \<Rightarrow> if c = CHR ''_'' \<and> prev then dec_digits False acc s else None)"

definition int_of_str :: "string \<Rightarrow> int option" where
  "int_of_str s = (case strip s of
     [] \<Rightarrow> None
   | c # cs \<Rightarrow>
       if c = CHR ''-'' then map_option (\<lambda>n. - int n) (dec_digits False 0 cs)
       else if c = CHR ''+'' then map_option int (dec_digits False 0 cs)
       else map_option int (dec_digits False 0 (c # cs)))"

lemma of_char_digit: "d < 10 \<Longrightarrow> (of_char (digit_char d) :: nat) = 48 + d"
  by (simp add: digit_char_def)

lemma digit_val_digit_char [simp]: "d < 10 \<Longrightarrow> digit_val (digit_char d) = Some d"
  by (simp add: digit_val_def of_char_digit)

lemma dec_digits_append:
  assumes "d < 10"
  shows "dec_digits prev acc s = Some n \<Longrightarrow>
     dec_digits prev acc (s @ [digit_char d]) = Some (10 * n + d)"
proof (induction s arbitrary: prev acc)
  case Nil
  then show ?case using assms by (simp split: if_splits)
next
  case (Cons c s)
  show ?case
  proof (cases "digit_val c")
    case None
    with Cons.prems have "c = CHR ''_'' \<and> prev" and "dec_digits False acc s = Some n"
      by (simp_all split: if_splits)
    with Cons.IH None show ?thesis by simp
  next
    case (Some v)
    with Cons show ?thesis by simp
  qed
qed

lemma dec_digits_nat_to_dec: "dec_digits False 0 (nat_to_dec n) = Some n"
proof (induction n rule: nat_to_dec.induct)
  case (1 n)
  show ?case
  proof (cases "n < 10")
    case True
    then show ?thesis by (simp add: nat_to_dec.simps [of n])
  next
    case False
    then have "dec_digits False 0 (nat_to_dec (n div 10)) = Some (n div 10)"
      using "1.IH" by simp
    then have "dec_digits False 0 (nat_to_dec (n div 10) @ [digit_char (n mod 10)])
        = Some (10 * (n div 10) + n mod 10)"
      by (intro dec_digits_append) simp_all
    with False show ?thesis by (simp add: nat_to_dec.simps [of n])
  qed
qed

definition digit_chars :: "char set" where
  "digit_chars = {c. digit_val c \<noteq> None}"

lemma set_nat_to_dec: "set (nat_to_dec n) \<subseteq> digit_chars"
proof (induction n rule: nat_to_dec.induct)
  case (1 n)
  then show ?case
    by (subst nat_to_dec.simps) (auto simp: digit_chars_def)
qed

lemma nat_to_dec_nonempty [simp]: "nat_to_dec n \<noteq> []"
  by (subst nat_to_dec.simps) simp

lemma digit_not_space: "c \<in> digit_chars \<Longrightarrow> \<not> is_space c \<and> c \<noteq> CHR ''-'' \<and> c \<noteq> CHR ''+''"
  by (auto simp: digit_chars_def digit_val_def is_space_def Let_def split: if_splits)

lemma int_of_str_nat_to_dec: "int_of_str (nat_to_dec n) = Some (int n)"
proof -
  have sp: "\<forall>c \<in> set (nat_to_dec n). \<not> is_space c"
    using set_nat_to_dec digit_not_space by blast
  then have st: "strip (nat_to_dec n) = nat_to_dec n"
    by (intro strip_id stripped_no_space)
  obtain c cs where cs: "nat_to_dec n = c # cs"
    by (cases "nat_to_dec n") auto
  then have "c \<in> digit_chars" using set_nat_to_dec [of n] by auto
  then have "c \<noteq> CHR ''-''" "c \<noteq> CHR ''+''" using digit_not_space by auto
  with st cs dec_digits_nat_to_dec [of n] show ?thesis by (simp add: int_of_str_def)
qed

text \<open>\<open>int(str(i)) == i\<close>.\<close>

lemma int_of_str_int_to_dec: "int_of_str (int_to_dec i) = Some i"
proof (cases "i < 0")
  case False
  then show ?thesis by (simp add: int_to_dec_def int_of_str_nat_to_dec)
next
  case True
  have "\<forall>c \<in> set (CHR ''-'' # nat_to_dec (nat (- i))). \<not> is_space c"
    using set_nat_to_dec digit_not_space by (auto simp: is_space_def)
  then have "strip (int_to_dec i) = int_to_dec i"
    using True by (intro strip_id stripped_no_space) (auto simp: int_to_dec_def)
  with True show ?thesis
    by (simp add: int_of_str_def int_to_dec_def dec_digits_nat_to_dec)
qed

lemma int_to_dec_inject: "int_to_dec i = int_to_dec j \<longleftrightarrow> i = j"
  by (metis int_of_str_int_to_dec option.inject)

section \<open>Flags from the environment\<close>

text \<open>\<open>_to_bool\<close>, which several classes of the service repeat.\<close>

definition to_bool :: "string \<Rightarrow> bool" where
  "to_bool raw = (lower (strip raw) \<in> {''1'', ''true'', ''yes'', ''on''})"

text \<open>The process environment and \<open>os.getenv(name, default)\<close>.\<close>

type_synonym env = "string \<Rightarrow> string option"

definition getenv :: "env \<Rightarrow> string \<Rightarrow> string \<Rightarrow> string" where
  "getenv env name dflt = (case env name of None \<Rightarrow> dflt | Some v \<Rightarrow> v)"

end
