(* ===== verification/Py_Json.thy ===== *)
theory Py_Json
  imports Py_Str "HOL-Library.AList"
begin

text \<open>
  JSON values as Python objects: what \<open>json.loads\<close> returns and \<open>json.dumps\<close> writes, with
  the built-in operations the service applies to them (truth value, \<open>str\<close>, \<open>int\<close>,
  \<open>isinstance\<close>, membership in a set of strings, dictionary access), and the JSON files
  it keeps. A dictionary is an association list in insertion order; \<open>AList.update\<close> is
  Python's \<open>d[k] = v\<close>, which keeps the place of an existing key.
\<close>

section \<open>Values\<close>

text \<open>
  A float is represented by what the code can see of it: its \<open>str\<close>, the outcome of \<open>int\<close>
  (which raises for an infinity or a NaN) and its truth value.
\<close>

datatype json =
    JNull
  | JBool bool
  | JInt int
  | JFloat string "int res" bool
  | JStr string
  | JList "json list"
  | JObj "(string \<times> json) list"

type_synonym dict = "(string \<times> json) list"

text \<open>\<open>bool(v)\<close>, and \<open>a or b\<close>.\<close>

fun truthy :: "json \<Rightarrow> bool" where
  "truthy JNull = False"
| "truthy (JBool b) = b"
| "truthy (JInt i) = (i \<noteq> 0)"
| "truthy (JFloat _ _ b) = b"
| "truthy (JStr s) = (s \<noteq> [])"
| "truthy (JList xs) = (xs \<noteq> [])"
| "truthy (JObj d) = (d \<noteq> [])"

definition py_or :: "json \<Rightarrow> json \<Rightarrow> json" where
  "py_or a b = (if truthy a then a else b)"

fun is_obj :: "json \<Rightarrow> bool" where
  "is_obj (JObj _) = True"
| "is_obj _ = False"

fun as_dict :: "json \<Rightarrow> dict" where
  "as_dict (JObj d) = d"
| "as_dict _ = []"

section \<open>\<open>repr\<close> and \<open>str\<close>\<close>

definition hex_digit :: "nat \<Rightarrow> char" where
  "hex_digit n = (if n < 10 then char_of (48 + n) else char_of (87 + n))"

definition repr_char :: "char \<Rightarrow> char \<Rightarrow> string" where
  "repr_char q c = (let n = (of_char c :: nat) in
     if c = q \<or> n = 92 then [CHR 0x5C, c]
     else if n = 10 then [CHR 0x5C, CHR ''n'']
     else if n = 13 then [CHR 0x5C, CHR ''r'']
     else if n = 9 then [CHR 0x5C, CHR ''t'']
     else if n < 32 \<or> (127 \<le> n \<and> n \<le> 160) \<or> n = 173
       then [CHR 0x5C, CHR ''x'', hex_digit (n div 16), hex_digit (n mod 16)]
     else [c])"

definition repr_str :: "string \<Rightarrow> string" where
  "repr_str s = (let q = (if CHR 0x27 \<in> set s \<and> CHR 0x22 \<notin> set s then CHR 0x22 else CHR 0x27)
     in [q] @ concat (map (repr_char q) s) @ [q])"

definition py_bool_str :: "bool \<Rightarrow> string" where
  "py_bool_str b = (if b then ''True'' else ''False'')"

fun py_repr :: "json \<Rightarrow> string" where
  "py_repr JNull = ''None''"
| "py_repr (JBool b) = py_bool_str b"
| "py_repr (JInt i) = int_to_dec i"
| "py_repr (JFloat s _ _) = s"
| "py_repr (JStr s) = repr_str s"
| "py_repr (JList xs) = ''['' @ join '', '' (map py_repr xs) @ '']''"
| "py_repr (JObj d) =
     ''{'' @ join '', '' (map (\<lambda>(k, v). repr_str k @ '': '' @ py_repr v) d) @ ''}''"

text \<open>\<open>str(v)\<close> differs from \<open>repr(v)\<close> on strings only.\<close>

definition py_str :: "json \<Rightarrow> string" where
  "py_str v = (case v of JStr s \<Rightarrow> s | _ \<Rightarrow> py_repr v)"

lemma py_str_JStr [simp]: "py_str (JStr s) = s"
  by (simp add: py_str_def)

section \<open>\<open>int\<close> and set membership\<close>

fun py_int :: "json \<Rightarrow> int res" where
  "py_int JNull = Inl TypeError"
| "py_int (JBool b) = Inr (if b then 1 else 0)"
| "py_int (JInt i) = Inr i"
| "py_int (JFloat _ r _) = r"
| "py_int (JStr s) = (case int_of_str s of
     None \<Rightarrow> Inl (ValueError ''invalid literal for int()'') | Some i \<Rightarrow> Inr i)"
| "py_int (JList _) = Inl TypeError"
| "py_int (JObj _) = Inl TypeError"

text \<open>
  \<open>v in {s1, s2, ...}\<close> for a set of strings: a list or a dictionary is not hashable and
  the test raises.
\<close>

fun in_strings :: "json \<Rightarrow> string list \<Rightarrow> bool res" where
  "in_strings (JStr s) ss = Inr (s \<in> set ss)"
| "in_strings (JList _) ss = Inl TypeError"
| "in_strings (JObj _) ss = Inl TypeError"
| "in_strings _ ss = Inr False"

lemma in_strings_True_iff:
  "in_strings v ss = Inr True \<longleftrightarrow> (\<exists>s \<in> set ss. v = JStr s)"
  by (cases v) auto

section \<open>Dictionaries\<close>

text \<open>\<open>d.get(k, dflt)\<close>, \<open>d.get(k)\<close>, \<open>d[k] = v\<close>, \<open>k in d\<close>.\<close>

definition dget_or :: "dict \<Rightarrow> string \<Rightarrow> json \<Rightarrow> json" where
  "dget_or d k dflt = (case map_of d k of None \<Rightarrow> dflt | Some v \<Rightarrow> v)"

definition dget :: "dict \<Rightarrow> string \<Rightarrow> json" where
  "dget d k = dget_or d k JNull"

definition dset :: "string \<Rightarrow> json \<Rightarrow> dict \<Rightarrow> dict" where
  "dset k v d = AList.update k v d"

definition dhas :: "dict \<Rightarrow> string \<Rightarrow> bool" where
  "dhas d k = (map_of d k \<noteq> None)"

text \<open>\<open>d.update(e)\<close>.\<close>

definition dupdate :: "dict \<Rightarrow> dict \<Rightarrow> dict" where
  "dupdate d e = foldl (\<lambda>d (k, v). dset k v d) d e"

lemma map_of_dset [simp, pyjson]: "map_of (dset k v d) k' = (if k' = k then Some v else map_of d k')"
  by (simp add: dset_def update_conv)

lemma dget_dset [simp, pyjson]: "dget (dset k v d) k' = (if k' = k then v else dget d k')"
  by (simp add: dget_def dget_or_def)

lemma dget_or_dset [simp, pyjson]:
  "dget_or (dset k v d) k' x = (if k' = k then v else dget_or d k' x)"
  by (simp add: dget_or_def)

lemma dget_Nil [simp]: "dget [] k = JNull"
  by (simp add: dget_def dget_or_def)

lemma dget_or_Nil [simp]: "dget_or [] k x = x"
  by (simp add: dget_or_def)

lemma distinct_dset: "distinct (map fst d) \<Longrightarrow> distinct (map fst (dset k v d))"
  by (simp add: dset_def distinct_update)

lemma map_fst_dset: "set (map fst (dset k v d)) = insert k (set (map fst d))"
  by (simp add: dset_def dom_update)

section \<open>Optional strings\<close>

text \<open>\<open>str | None\<close> in JSON, and its validation.\<close>

definition opt_json :: "string option \<Rightarrow> json" where
  "opt_json s = (case s of None \<Rightarrow> JNull | Some t \<Rightarrow> JStr t)"

fun opt_str_of :: "json \<Rightarrow> string option option" where
  "opt_str_of JNull = Some None"
| "opt_str_of (JStr s) = Some (Some s)"
| "opt_str_of _ = None"

fun str_of :: "json \<Rightarrow> string option" where
  "str_of (JStr s) = Some s"
| "str_of _ = None"

lemma opt_str_of_opt_json [simp]: "opt_str_of (opt_json s) = Some s"
  by (cases s) (simp_all add: opt_json_def)

section \<open>Well-formed values and \<open>sort_keys\<close>\<close>

text \<open>Every dictionary inside a value has each key once, as Python's have.\<close>

fun wf_json :: "json \<Rightarrow> bool" where
  "wf_json (JList xs) = list_all wf_json xs"
| "wf_json (JObj d) = (distinct (map fst d) \<and> list_all (\<lambda>(k, v). wf_json v) d)"
| "wf_json _ = True"

text \<open>
  What is read back after \<open>json.dumps(v, sort_keys=True)\<close>: the same value with the keys
  of every dictionary in order.
\<close>

fun sort_keys :: "json \<Rightarrow> json" where
  "sort_keys (JList xs) = JList (map sort_keys xs)"
| "sort_keys (JObj d) = JObj (sort_key fst (map (\<lambda>(k, v). (k, sort_keys v)) d))"
| "sort_keys v = v"

definition sort_dict :: "dict \<Rightarrow> dict" where
  "sort_dict d = sort_key fst (map (\<lambda>(k, v). (k, sort_keys v)) d)"

lemma sort_keys_JObj: "sort_keys (JObj d) = JObj (sort_dict d)"
  by (simp add: sort_dict_def)

lemma is_obj_sort_keys [simp]: "is_obj (sort_keys v) = is_obj v"
  by (cases v) simp_all

lemma wf_json_dget: "wf_json (JObj d) \<Longrightarrow> wf_json (dget d k)"
  by (auto simp: dget_def dget_or_def list_all_iff split: option.splits dest!: map_of_SomeD)

lemma map_fst_map_snd: "map fst (map (\<lambda>(k, v). (k, f v)) d) = map fst d"
  by (induction d) auto

lemma map_of_sort_key:
  assumes "distinct (map fst d)"
  shows "map_of (sort_key fst d) = map_of d"
proof (rule map_of_eqI)
  show "set (map fst (sort_key fst d)) = set (map fst d)" by simp
next
  have "distinct (map fst (sort_key fst d))"
    by (metis assms distinct_map distinct_sort set_sort)
  then show "\<forall>k \<in> set (map fst (sort_key fst d)). map_of (sort_key fst d) k = map_of d k"
    using assms by (metis map_of_inject_set set_sort)
qed

lemma map_of_sort_dict:
  assumes "distinct (map fst d)"
  shows "map_of (sort_dict d) k = map_option sort_keys (map_of d k)"
proof -
  have "map_of (sort_dict d) k = map_of (map (\<lambda>(k, v). (k, sort_keys v)) d) k"
    unfolding sort_dict_def by (rule fun_cong [OF map_of_sort_key])
      (simp only: map_fst_map_snd assms)
  also have "\<dots> = map_option sort_keys (map_of d k)"
    by (simp add: map_of_map)
  finally show ?thesis .
qed

lemma dget_sort_dict:
  "distinct (map fst d) \<Longrightarrow> dget (sort_dict d) k = sort_keys (dget d k)"
  by (simp add: dget_def dget_or_def map_of_sort_dict split: option.splits)

lemma truthy_sort_keys [simp]: "truthy (sort_keys v) = truthy v"
  by (cases v) (auto simp: sort_key_def[symmetric] dest: arg_cong [of _ _ length])

lemma sort_keys_strings [simp]: "sort_keys (JList (map JStr xs)) = JList (map JStr xs)"
  by simp

section \<open>JSON files\<close>

text \<open>
  A file that the service reads with \<open>json.loads\<close>: missing, not JSON, or a document.
\<close>

datatype json_file = Absent | Garbage | Doc json

text \<open>
  \<open>if not path.exists(): return {}\<close>, then \<open>json.loads\<close> with any exception and any
  value that is not a dictionary read as \<open>{}\<close>: how most stores load their file.
\<close>

definition load_object :: "json_file \<Rightarrow> dict" where
  "load_object f = (case f of Doc (JObj d) \<Rightarrow> d | _ \<Rightarrow> [])"

text \<open>The same without the \<open>try\<close>: \<open>ConfigStore\<close> lets a decoding error through.\<close>

definition load_object_strict :: "json_file \<Rightarrow> dict res" where
  "load_object_strict f = (case f of Garbage \<Rightarrow> Inl JSONDecodeError | _ \<Rightarrow> Inr (load_object f))"

lemma load_object_Doc [simp]: "load_object (Doc (JObj d)) = d"
  by (simp add: load_object_def)

lemma load_object_strict_Doc [simp]: "load_object_strict (Doc (JObj d)) = Inr d"
  by (simp add: load_object_strict_def)

end
