(* ===== verification/Mounted_State_Store.thy ===== *)
theory Mounted_State_Store
  imports Py_Json
begin

text \<open>
  app/services/fs_utils.py (\<open>atomic_write\<close>), app/services/lock.py (the file lock, reduced to
  whether it is obtained in time) and app/services/mounted_state_store.py: the desired and
  runtime state files shared with the supervisor. Paths are strings; the file system is
  what the store sees of it, and the outcome of each system call of a write is an input.
\<close>

section \<open>Atomic write\<close>

text \<open>The \<open>errno\<close> each call of \<open>atomic_write\<close> fails with, \<open>None\<close> when it succeeds.\<close>

record io_plan =
  io_mkstemp :: "int option"
  io_write_tmp :: "int option"
  io_chmod_tmp :: "int option"
  io_replace :: "int option"
  io_open_target :: "int option"
  io_write_target :: "int option"
  io_chmod_target :: "int option"

definition EBUSY :: int where "EBUSY = 16"
definition EXDEV :: int where "EXDEV = 18"

text \<open>
  The target file, and whether the temporary file exists. The second step of a write in
  place has already truncated the target when it fails.
\<close>

type_synonym write_state = "json_file \<times> bool"

definition atomic_write :: "io_plan \<Rightarrow> json \<Rightarrow> (write_state, unit) run" where
  "atomic_write io content st =
     (case io_mkstemp io of Some e \<Rightarrow> (Inl (OSError e), (fst st, False)) | None \<Rightarrow>
     (case io_write_tmp io of Some e \<Rightarrow> (Inl (OSError e), (fst st, False)) | None \<Rightarrow>
     (case io_chmod_tmp io of Some e \<Rightarrow> (Inl (OSError e), (fst st, False)) | None \<Rightarrow>
     (case io_replace io of
        None \<Rightarrow> (Inr (), (Doc content, False))
      | Some errno \<Rightarrow>
          if errno \<noteq> EBUSY \<and> errno \<noteq> EXDEV then (Inl (OSError errno), (fst st, False))
          else
            (case io_open_target io of Some e \<Rightarrow> (Inl (OSError e), (fst st, False)) | None \<Rightarrow>
            (case io_write_target io of Some e \<Rightarrow> (Inl (OSError e), (Garbage, False)) | None \<Rightarrow>
            (case io_chmod_target io of Some e \<Rightarrow> (Inl (OSError e), (Doc content, False)) | None \<Rightarrow>
              (Inr (), (Doc content, False)))))))))"

section \<open>The state files\<close>

record state_fs =
  sf_files :: "string \<Rightarrow> json_file"
  sf_dirs :: "string set"
  sf_dockerenv :: bool
  sf_writable :: "string \<Rightarrow> bool"
  sf_lock_free :: bool
  sf_io :: io_plan

definition file_exists :: "state_fs \<Rightarrow> string \<Rightarrow> bool" where
  "file_exists fs p = (sf_files fs p \<noteq> Absent \<or> p \<in> sf_dirs fs)"

text \<open>The directories above a path, which \<open>mkdir(parents=True, exist_ok=True)\<close> creates.\<close>

definition parents :: "string \<Rightarrow> string set" where
  "parents p = set (map (\<lambda>i. take i p) (filter (\<lambda>i. p ! i = CHR ''/'') [0..<length p]))"

definition mkdir_parents :: "string \<Rightarrow> state_fs \<Rightarrow> state_fs" where
  "mkdir_parents p fs = fs\<lparr>sf_dirs := sf_dirs fs \<union> parents p\<rparr>"

record mounted_state_store =
  ms_base_dir :: string
  ms_addon_id :: string

definition resolve_state_path ::
  "string \<Rightarrow> string \<Rightarrow> env \<Rightarrow> state_fs \<Rightarrow> mounted_state_store \<Rightarrow> string \<times> string" where
  "resolve_state_path variable file env fs st =
     (let configured = strip (getenv env variable []) in
      if configured \<noteq> [] then (configured, ''env:'' @ variable)
      else
        let state_mount = ''/state/'' @ file in
        if file_exists fs state_mount \<or> file_exists fs ''/state''
        then (state_mount, ''mounted:/state/'' @ file)
        else
          let mounted = ms_base_dir st @ ''/SynthiaAddons/services/'' @ ms_addon_id st @ ''/'' @ file in
          if file_exists fs mounted
          then (mounted, ''workspace:SynthiaAddons/services/<addon_id>/'' @ file)
          else (ms_base_dir st @ ''/runtime/'' @ file, ''fallback:runtime/'' @ file))"

definition resolve_desired_path :: "env \<Rightarrow> state_fs \<Rightarrow> mounted_state_store \<Rightarrow> string \<times> string" where
  "resolve_desired_path = resolve_state_path ''SYNTHIA_DESIRED_STATE_PATH'' ''desired.json''"

definition resolve_runtime_path :: "env \<Rightarrow> state_fs \<Rightarrow> mounted_state_store \<Rightarrow> string \<times> string" where
  "resolve_runtime_path = resolve_state_path ''SYNTHIA_RUNTIME_STATE_PATH'' ''runtime.json''"

definition read_desired :: "env \<Rightarrow> state_fs \<Rightarrow> mounted_state_store \<Rightarrow> dict" where
  "read_desired env fs st = load_object (sf_files fs (fst (resolve_desired_path env fs st)))"

definition read_runtime :: "env \<Rightarrow> state_fs \<Rightarrow> mounted_state_store \<Rightarrow> dict" where
  "read_runtime env fs st = load_object (sf_files fs (fst (resolve_runtime_path env fs st)))"

text \<open>\<open>desired_writable\<close> of \<open>_state_mount_diagnostics\<close>; the rest is logged only.\<close>

definition desired_writable :: "state_fs \<Rightarrow> bool" where
  "desired_writable fs =
     (if file_exists fs ''/state/desired.json'' then sf_writable fs ''/state/desired.json''
      else sf_writable fs ''/state'')"

definition missing_mount_message :: string where
  "missing_mount_message = ''State mount missing: /state/desired.json is not available in container runtime. Supervisor-generated compose must mount desired/runtime state files.''"

definition read_only_mount_message :: string where
  "read_only_mount_message = ''State mount is read-only: /state/desired.json is not writable in container runtime. Supervisor-generated compose must mount desired/runtime state files as read-write.''"

definition update_desired ::
  "env \<Rightarrow> mounted_state_store \<Rightarrow> (dict \<Rightarrow> dict) \<Rightarrow> (state_fs, dict) run" where
  "update_desired env st mutator fs0 =
     (let (path, source) = resolve_desired_path env fs0 st;
          fs = mkdir_parents path fs0 in
      if starts_with source ''fallback:'' \<and> sf_dockerenv fs
      then (Inl (RuntimeError missing_mount_message), fs)
      else if starts_with source ''mounted:'' \<and> sf_dockerenv fs \<and> \<not> desired_writable fs
      then (Inl (RuntimeError read_only_mount_message), fs)
      else if \<not> sf_lock_free fs then (Inl LockTimeout, fs)
      else
        let current = load_object (sf_files fs path);
            updated = mutator current in
        case atomic_write (sf_io fs) (sort_keys (JObj updated)) (sf_files fs path, False) of
          (r, (f, _)) \<Rightarrow>
            (case r of Inl e \<Rightarrow> Inl e | Inr _ \<Rightarrow> Inr updated,
             fs\<lparr>sf_files := (sf_files fs)(path := f)\<rparr>))"

section \<open>Lemmas\<close>

lemma mkdir_parents_fields [simp]:
  "sf_files (mkdir_parents p fs) = sf_files fs"
  "sf_dockerenv (mkdir_parents p fs) = sf_dockerenv fs"
  "sf_writable (mkdir_parents p fs) = sf_writable fs"
  "sf_lock_free (mkdir_parents p fs) = sf_lock_free fs"
  "sf_io (mkdir_parents p fs) = sf_io fs"
  by (simp_all add: mkdir_parents_def)

lemma slash_suffix_append:
  assumes "q @ CHR ''/'' # f = p @ CHR ''/'' # g" and "CHR ''/'' \<notin> set f" and "CHR ''/'' \<notin> set g"
  shows "q = p \<and> f = g"
proof -
  have "rev f @ CHR ''/'' # rev q = rev g @ CHR ''/'' # rev p"
    using arg_cong [OF assms(1), of rev] by simp
  moreover have "takeWhile (\<lambda>c. c \<noteq> CHR ''/'') (rev f @ CHR ''/'' # rev q) = rev f"
    using assms(2) by (subst takeWhile_append2) auto
  moreover have "takeWhile (\<lambda>c. c \<noteq> CHR ''/'') (rev g @ CHR ''/'' # rev p) = rev g"
    using assms(3) by (subst takeWhile_append2) auto
  ultimately have "rev f = rev g" by simp
  with assms(1) show ?thesis by simp
qed

lemma atomic_write_tmp: "snd (snd (atomic_write io c st)) = False"
  by (simp add: atomic_write_def split: option.splits)

lemma atomic_write_cases:
  "fst (snd (atomic_write io c st)) \<in> {fst st, Doc c, Garbage}"
  by (simp add: atomic_write_def split: option.splits)

lemma atomic_write_Inr: "fst (atomic_write io c st) = Inr () \<Longrightarrow> fst (snd (atomic_write io c st)) = Doc c"
  by (auto simp: atomic_write_def split: option.splits if_splits)

text \<open>The plan on which every call succeeds.\<close>

definition io_ok :: io_plan where
  "io_ok = \<lparr>io_mkstemp = None, io_write_tmp = None, io_chmod_tmp = None, io_replace = None,
     io_open_target = None, io_write_target = None, io_chmod_target = None\<rparr>"

definition example_fs :: state_fs where
  "example_fs = \<lparr>sf_files = (\<lambda>_. Absent), sf_dirs = {''/state''}, sf_dockerenv = True,
     sf_writable = (\<lambda>_. True), sf_lock_free = True, sf_io = io_ok\<lparr>io_replace := Some EBUSY\<rparr>\<rparr>"

definition example_store :: mounted_state_store where
  "example_store = \<lparr>ms_base_dir = ''/app'', ms_addon_id = ''mqtt''\<rparr>"


section \<open>Resolution\<close>

text \<open>
  The directories above a path are shorter than it, so creating them does not create the
  file itself.
\<close>

lemma parents_prefix: "q \<in> parents p \<Longrightarrow> \<exists>f. p = q @ CHR ''/'' # f"
proof -
  assume "q \<in> parents p"
  then obtain i where i: "i < length p" "p ! i = CHR ''/''" "q = take i p"
    by (auto simp: parents_def)
  have "p = take i p @ p ! i # drop (Suc i) p" using i(1) by (rule id_take_nth_drop)
  with i show ?thesis by metis
qed

lemma workspace_not_fallback_parent:
  "b @ ''/SynthiaAddons/services/'' @ a \<notin> parents (b @ ''/runtime/'' @ f)"
  by (auto dest!: parents_prefix)


lemma state_not_parent:
  assumes "\<not> starts_with b ''/state''" and "c \<noteq> CHR ''s''"
  shows "''/state'' \<notin> parents (b @ CHR ''/'' # c # f)"
proof
  assume "''/state'' \<in> parents (b @ CHR ''/'' # c # f)"
  then obtain g where g: "b @ CHR ''/'' # c # f = ''/state'' @ CHR ''/'' # g"
    by (blast dest: parents_prefix)
  have nth: "(b @ CHR ''/'' # c # f) ! i = (''/state'' @ CHR ''/'' # g) ! i" for i
    by (simp only: g)
  show False
  proof (cases "length b < 6")
    case False
    have "take 6 (b @ CHR ''/'' # c # f) = ''/state''" by (simp add: g)
    with False assms(1) show ?thesis by (simp add: starts_with_def numeral_eq_Suc)
  next
    case True
    then consider "length b = 0" | "length b = 1" | "length b = 2" | "length b = 3"
      | "length b = 4" | "length b = 5" by linarith
    then show ?thesis
      using nth [of "length b"] nth [of "Suc (length b)"] assms(2) by cases (simp_all add: nth_append)
  qed
qed

lemma desired_not_parent:
  assumes "''/state'' \<notin> parents p"
  shows "''/state/desired.json'' \<notin> parents p"
proof
  assume "''/state/desired.json'' \<in> parents p"
  then obtain f where "p = ''/state/desired.json'' @ CHR ''/'' # f" by (blast dest: parents_prefix)
  then have "take 6 p = ''/state''" "6 < length p" "p ! 6 = CHR ''/''" by simp_all
  then have "''/state'' \<in> parents p"
    unfolding parents_def set_map by (intro image_eqI [of _ _ 6]) simp_all
  with assms show False ..
qed

lemma env_path_resolved:
  "strip (getenv env variable []) = p \<Longrightarrow> p \<noteq> [] \<Longrightarrow>
   resolve_state_path variable file env fs st = (p, ''env:'' @ variable)"
  by (simp add: resolve_state_path_def)

text \<open>
  The path resolves to itself again once its directory has been created and it has been
  written, provided that creating \<open>runtime/\<close> does not create \<open>/state\<close>.
\<close>

lemma resolve_stable:
  assumes "\<not> starts_with (ms_base_dir st) ''/state''"
    and "resolve_desired_path env fs st = (path, source)" and "f \<noteq> Absent"
  shows "resolve_desired_path env
           ((mkdir_parents path fs)\<lparr>sf_files := (sf_files fs)(path := f)\<rparr>) st = (path, source)"
proof -
  let ?fs = "(mkdir_parents path fs)\<lparr>sf_files := (sf_files fs)(path := f)\<rparr>"
  let ?ws = "ms_base_dir st @ ''/SynthiaAddons/services/'' @ ms_addon_id st @ ''/desired.json''"
  have mono: "file_exists fs q \<Longrightarrow> file_exists ?fs q" for q
    using assms(3) by (auto simp: file_exists_def mkdir_parents_def)
  have wr: "file_exists ?fs path" using assms(3) by (simp add: file_exists_def)
  consider (env) "strip (getenv env ''SYNTHIA_DESIRED_STATE_PATH'' []) \<noteq> []"
    | (state) "strip (getenv env ''SYNTHIA_DESIRED_STATE_PATH'' []) = []"
        "file_exists fs ''/state/desired.json'' \<or> file_exists fs ''/state''"
    | (ws) "strip (getenv env ''SYNTHIA_DESIRED_STATE_PATH'' []) = []"
        "\<not> file_exists fs ''/state/desired.json''" "\<not> file_exists fs ''/state''"
        "file_exists fs ?ws"
    | (fb) "strip (getenv env ''SYNTHIA_DESIRED_STATE_PATH'' []) = []"
        "\<not> file_exists fs ''/state/desired.json''" "\<not> file_exists fs ''/state''"
        "\<not> file_exists fs ?ws"
    by blast
  then show ?thesis
  proof cases
    case env
    with assms(2) show ?thesis by (simp add: resolve_desired_path_def resolve_state_path_def)
  next
    case state
    then have "file_exists ?fs ''/state/desired.json'' \<or> file_exists ?fs ''/state''"
      using mono by blast
    with state assms(2) show ?thesis
      by (simp add: resolve_desired_path_def resolve_state_path_def)
  next
    case ws
    then have path: "path = ?ws" using assms(2)
      by (simp add: resolve_desired_path_def resolve_state_path_def)
    have np: "''/state'' \<notin> parents path"
      using state_not_parent [OF assms(1), of "CHR ''S''"] by (simp add: path)
    have len: "length path > 19" by (simp add: path)
    have "\<not> file_exists ?fs ''/state''" "\<not> file_exists ?fs ''/state/desired.json''"
      using ws np desired_not_parent [OF np] len
      by (auto simp: file_exists_def mkdir_parents_def)
    with ws(1) mono [OF ws(4)] assms(2) ws show ?thesis
      by (simp add: resolve_desired_path_def resolve_state_path_def)
  next
    case fb
    then have path: "path = ms_base_dir st @ ''/runtime/'' @ ''desired.json''" using assms(2)
      by (simp add: resolve_desired_path_def resolve_state_path_def)
    have np: "''/state'' \<notin> parents path"
      using state_not_parent [OF assms(1), of "CHR ''r''"] by (simp add: path)
    have len: "length path > 19" by (simp add: path)
    have "\<not> file_exists ?fs ''/state''" "\<not> file_exists ?fs ''/state/desired.json''"
      using fb np desired_not_parent [OF np] len
      by (auto simp: file_exists_def mkdir_parents_def)
    moreover have "\<not> file_exists ?fs ?ws"
      using fb(4) workspace_not_fallback_parent [of "ms_base_dir st" _ "''desired.json''"]
      by (simp add: file_exists_def mkdir_parents_def path)
    ultimately show ?thesis using fb assms(2)
      by (simp add: resolve_desired_path_def resolve_state_path_def)
  qed
qed


section \<open>Properties\<close>

lemma update_desired_cases:
  assumes "resolve_desired_path env fs st = (path, source)"
  obtains (refused) e where "fst (update_desired env st g fs) = Inl e"
      "snd (update_desired env st g fs) = mkdir_parents path fs"
  | (tried) "sf_lock_free fs" "\<not> (starts_with source ''fallback:'' \<and> sf_dockerenv fs)"
      "\<not> (starts_with source ''mounted:'' \<and> sf_dockerenv fs \<and> \<not> desired_writable (mkdir_parents path fs))"
      "fst (update_desired env st g fs) =
         (case fst (atomic_write (sf_io fs) (sort_keys (JObj (g (load_object (sf_files fs path)))))
             (sf_files fs path, False)) of
            Inl e \<Rightarrow> Inl e | Inr _ \<Rightarrow> Inr (g (load_object (sf_files fs path))))"
      "snd (update_desired env st g fs) =
         (mkdir_parents path fs)\<lparr>sf_files := (sf_files fs)(path :=
            fst (snd (atomic_write (sf_io fs) (sort_keys (JObj (g (load_object (sf_files fs path)))))
             (sf_files fs path, False))))\<rparr>"
proof -
  consider "starts_with source ''fallback:'' \<and> sf_dockerenv fs"
    | "starts_with source ''mounted:'' \<and> sf_dockerenv fs \<and> \<not> desired_writable (mkdir_parents path fs)"
    | "\<not> sf_lock_free fs"
    | "sf_lock_free fs" "\<not> (starts_with source ''fallback:'' \<and> sf_dockerenv fs)"
      "\<not> (starts_with source ''mounted:'' \<and> sf_dockerenv fs \<and> \<not> desired_writable (mkdir_parents path fs))"
    by blast
  then show thesis
  proof cases
    case 4
    show thesis
      by (rule tried [OF 4]) (simp_all add: update_desired_def assms 4 Let_def split: prod.splits)
  next
    case 1
    show thesis by (rule refused) (simp_all add: update_desired_def assms 1 Let_def)
  next
    case 2
    show thesis
      by (rule refused [of "RuntimeError (if starts_with source ''fallback:''
          then missing_mount_message else read_only_mount_message)"])
        (simp_all add: update_desired_def assms 2 Let_def)
  next
    case 3
    show thesis
      by (rule refused [of "if starts_with source ''fallback:'' \<and> sf_dockerenv fs
          then RuntimeError missing_mount_message
          else if starts_with source ''mounted:'' \<and> sf_dockerenv fs \<and>
            \<not> desired_writable (mkdir_parents path fs)
          then RuntimeError read_only_mount_message else LockTimeout"])
        (simp_all add: update_desired_def assms 3 Let_def)
  qed
qed

lemma update_desired_success:
  assumes "fst (update_desired env st g fs) = Inr d"
    and "\<not> starts_with (ms_base_dir st) ''/state''"
  shows "d = g (read_desired env fs st) \<and>
    read_desired env (snd (update_desired env st g fs)) st = sort_dict d \<and>
    sf_files (snd (update_desired env st g fs)) =
      (sf_files fs)(fst (resolve_desired_path env fs st) := Doc (JObj (sort_dict d)))"
proof -
  obtain path source where r: "resolve_desired_path env fs st = (path, source)" by fastforce
  from r show ?thesis
  proof (cases rule: update_desired_cases [of env fs st path source g])
    case refused
    with assms(1) show ?thesis by simp
  next
    case tried
    let ?w = "atomic_write (sf_io fs) (sort_keys (JObj (g (load_object (sf_files fs path)))))
      (sf_files fs path, False)"
    have ok: "fst ?w = Inr ()" and d: "d = g (load_object (sf_files fs path))"
      using assms(1) tried(4) by (auto split: sum.splits)
    have f: "fst (snd ?w) = Doc (JObj (sort_dict d))"
      using atomic_write_Inr [OF ok] by (simp only: d sort_keys_JObj)
    have s: "snd (update_desired env st g fs) =
      (mkdir_parents path fs)\<lparr>sf_files := (sf_files fs)(path := Doc (JObj (sort_dict d)))\<rparr>"
      using tried(5) by (simp only: f)
    show ?thesis
      using resolve_stable [OF assms(2) r, of "Doc (JObj (sort_dict d))"] d
      by (simp add: s read_desired_def r)
  qed
qed

text \<open>
  C29: an update of the desired state that succeeds is durable and touches nothing else: the
  mutator was given the state stored before, the file it resolved to now holds its result,
  every other file is as it was, and a later read resolves to the same file and returns the
  mutator's result with sorted keys.
\<close>

theorem update_desired_read_back:
  assumes "fst (update_desired env st g fs) = Inr d"
    and "\<not> starts_with (ms_base_dir st) ''/state''"
  shows "d = g (read_desired env fs st) \<and>
    read_desired env (snd (update_desired env st g fs)) st = sort_dict d \<and>
    sf_files (snd (update_desired env st g fs)) =
      (sf_files fs)(fst (resolve_desired_path env fs st) := Doc (JObj (sort_dict d)))"
  using update_desired_success [OF assms] .

lemma update_desired_read_back_witness:
  "read_desired (\<lambda>_. None) (snd (update_desired (\<lambda>_. None) example_store
     (dset ''enabled'' (JBool True)) example_fs)) example_store = [(''enabled'', JBool True)]"
proof -
  have ok: "fst (update_desired (\<lambda>_. None) example_store (dset ''enabled'' (JBool True)) example_fs)
    = Inr [(''enabled'', JBool True)]" by code_simp
  have b: "\<not> starts_with (ms_base_dir example_store) ''/state''" by code_simp
  have d: "sort_dict [(''enabled'', JBool True)] = [(''enabled'', JBool True)]" by code_simp
  show ?thesis using update_desired_read_back [OF ok b] by (simp only: d)
qed

text \<open>
  C30: an update that fails leaves every file as it was, whatever call failed, when the
  rename does not have to fall back to writing in place (errno EBUSY or EXDEV); and a
  refusal by the mount guards always does.
\<close>

theorem update_desired_failure_keeps_files:
  assumes "fst (update_desired env st g fs) = Inl e"
    and "io_replace (sf_io fs) \<notin> {Some EBUSY, Some EXDEV} \<or> e \<in> range RuntimeError"
  shows "sf_files (snd (update_desired env st g fs)) = sf_files fs"
proof -
  obtain path source where r: "resolve_desired_path env fs st = (path, source)" by fastforce
  from r show ?thesis
  proof (cases rule: update_desired_cases [of env fs st path source g])
    case refused
    then show ?thesis by simp
  next
    case tried
    let ?w = "atomic_write (sf_io fs) (sort_keys (JObj (g (load_object (sf_files fs path)))))
      (sf_files fs path, False)"
    have w: "fst ?w = Inl e" using assms(1) tried(4) by (auto split: sum.splits)
    have "fst (snd ?w) = sf_files fs path"
      using w assms(2) by (auto simp: atomic_write_def split: option.splits if_splits)
    then show ?thesis using tried(5) by simp
  qed
qed

lemma update_desired_failure_keeps_files_witness:
  "sf_files (snd (update_desired (\<lambda>_. None) example_store (\<lambda>d. d)
     (example_fs\<lparr>sf_io := io_ok\<lparr>io_write_tmp := Some 28\<rparr>\<rparr>))) = sf_files example_fs"
proof -
  let ?fs = "example_fs\<lparr>sf_io := io_ok\<lparr>io_write_tmp := Some 28\<rparr>\<rparr>"
  have e: "fst (update_desired (\<lambda>_. None) example_store (\<lambda>d. d) ?fs) = Inl (OSError 28)" by code_simp
  have r: "io_replace (sf_io ?fs) \<notin> {Some EBUSY, Some EXDEV} \<or> OSError 28 \<in> range RuntimeError"
    by (simp add: io_ok_def)
  from update_desired_failure_keeps_files [OF e r] show ?thesis by simp
qed

text \<open>
  inside a container the desired state is never written to the fallback file or to a
  read-only mount: an update that succeeds went to the configured path, to a \<open>/state\<close>
  mount that is there and writable, or to the workspace file that already existed.
\<close>

theorem container_update_needs_mount:
  assumes "fst (update_desired env st g fs) = Inr d" and "sf_dockerenv fs"
  shows "strip (getenv env ''SYNTHIA_DESIRED_STATE_PATH'' []) \<noteq> [] \<or>
    (file_exists fs ''/state/desired.json'' \<or> file_exists fs ''/state'') \<and>
      desired_writable (mkdir_parents ''/state/desired.json'' fs) \<or>
    file_exists fs (ms_base_dir st @ ''/SynthiaAddons/services/'' @ ms_addon_id st @ ''/desired.json'')"
proof -
  obtain path source where r: "resolve_desired_path env fs st = (path, source)" by fastforce
  from r show ?thesis
  proof (cases rule: update_desired_cases [of env fs st path source g])
    case refused
    with assms(1) show ?thesis by simp
  next
    case tried
    have guard: "\<not> starts_with source ''fallback:''"
      "starts_with source ''mounted:'' \<Longrightarrow> desired_writable (mkdir_parents path fs)"
      using tried(2,3) assms(2) by auto
    show ?thesis
    proof (cases "strip (getenv env ''SYNTHIA_DESIRED_STATE_PATH'' []) = []")
      case True
      then show ?thesis using r guard
        by (simp add: resolve_desired_path_def resolve_state_path_def Let_def split: if_split_asm)
          (auto simp: starts_with_def)
    qed simp
  qed
qed

lemma container_update_needs_mount_witness:
  "desired_writable (mkdir_parents ''/state/desired.json'' example_fs)"
proof -
  have "fst (update_desired (\<lambda>_. None) example_store (\<lambda>d. d) example_fs) = Inr []" by code_simp
  from container_update_needs_mount [OF this] show ?thesis by code_simp
qed

end
