(* ===== verification/Optional_Groups.thy ===== *)
theory Optional_Groups
  imports Py_Json
begin

text \<open>
  The optional docker groups of app/services/config_store.py:
  \<open>_normalize_string_list\<close> and \<open>_resolve_requested_optional_groups\<close>, which closes a
  selection of groups under \<open>depends_on\<close> and puts each group after what it needs. The
  closure is the set reachable over the supported groups; without a dependency cycle the
  order is topological.
\<close>

section \<open>Normalising a list of names\<close>

definition normalize_string_list :: "json \<Rightarrow> string list" where
  "normalize_string_list raw =
     (case raw of
        JList items \<Rightarrow> dedup_seen [] (filter (\<lambda>v. v \<noteq> []) (map (\<lambda>item. strip (py_str item)) items))
      | _ \<Rightarrow> [])"

text \<open>A list that normalising leaves alone: no duplicates, no blanks, no outer white space.\<close>

definition normal_names :: "string list \<Rightarrow> bool" where
  "normal_names xs = (distinct xs \<and> list_all (\<lambda>x. x \<noteq> [] \<and> stripped x) xs)"

lemma normal_names_normalize: "normal_names (normalize_string_list raw)"
proof (cases raw)
  case (JList items)
  then show ?thesis
    by (simp add: normalize_string_list_def normal_names_def distinct_dedup_seen
        list_all_iff set_dedup_seen) (auto simp: stripped_strip)
qed (simp_all add: normalize_string_list_def normal_names_def)

lemma normalize_normal_names:
  assumes "normal_names xs"
  shows "normalize_string_list (JList (map JStr xs)) = xs"
proof -
  from assms have f: "filter (\<lambda>v. v \<noteq> []) (map (\<lambda>item. strip (py_str item)) (map JStr xs)) = xs"
    unfolding normal_names_def by (induction xs) (auto simp: strip_id)
  from assms have "dedup_seen [] xs = xs"
    by (intro dedup_seen_id) (simp_all add: normal_names_def)
  then show ?thesis unfolding normalize_string_list_def json.case f .
qed

lemma normal_names_filter: "normal_names xs \<Longrightarrow> normal_names (filter P xs)"
  by (simp add: normal_names_def list_all_filter)

section \<open>Dependency resolution\<close>

text \<open>
  \<open>supported_groups.get(group_id)\<close> when it is a dictionary, and its dependencies.
\<close>

definition group_metadata :: "dict \<Rightarrow> string \<Rightarrow> dict option" where
  "group_metadata groups g = (case map_of groups g of Some (JObj d) \<Rightarrow> Some d | _ \<Rightarrow> None)"

definition group_deps :: "dict \<Rightarrow> string \<Rightarrow> string list" where
  "group_deps groups g = (case group_metadata groups g of
     None \<Rightarrow> [] | Some d \<Rightarrow> normalize_string_list (dget d ''depends_on''))"

lemma group_metadata_dom: "group_metadata groups g = Some d \<Longrightarrow> g \<in> set (map fst groups)"
  unfolding group_metadata_def
  by (auto split: option.splits json.splits dest!: map_of_SomeD intro: rev_image_eqI)

text \<open>
  The loop \<open>for x in xs: visit(x)\<close>, with the state \<open>(visited, ordered)\<close> passed on. Each
  \<open>visit\<close> takes back what it added to \<open>visiting\<close>, so that set is the path of the calls in
  progress and an argument. It grows with the depth of the recursion inside the supported
  groups, which is why the recursion ends on cyclic dependencies too.
\<close>

function visit_all :: "dict \<Rightarrow> string list \<Rightarrow> string list \<Rightarrow> string list \<times> string list
    \<Rightarrow> string list \<times> string list" where
  "visit_all groups visiting [] st = st"
| "visit_all groups visiting (g # gs) st =
     visit_all groups visiting gs
       (if g \<in> set (fst st) then st
        else if g \<in> set visiting then st
        else if group_metadata groups g = None then st
        else (case visit_all groups (g # visiting) (group_deps groups g) st of
          (visited, ordered) \<Rightarrow> (g # visited, ordered @ [g])))"
  by pat_completeness auto

termination
proof (relation "measures [\<lambda>(groups, visiting, gs, st). card (set (map fst groups) - set visiting),
    \<lambda>(groups, visiting, gs, st). length gs]", goal_cases)
  case (2 groups visiting g gs st)
  then have "g \<in> set (map fst groups) - set visiting" by (auto dest: group_metadata_dom)
  then have "set (map fst groups) - set (g # visiting) \<subset> set (map fst groups) - set visiting" by auto
  then have "card (set (map fst groups) - set (g # visiting)) < card (set (map fst groups) - set visiting)"
    by (intro psubset_card_mono) simp_all
  then show ?case by simp
qed simp_all

definition resolve_requested_optional_groups :: "string list \<Rightarrow> dict \<Rightarrow> string list" where
  "resolve_requested_optional_groups requested groups = snd (visit_all groups [] requested ([], []))"

section \<open>Correctness of the resolution\<close>

text \<open>The dependencies between supported groups.\<close>

definition dep_rel :: "dict \<Rightarrow> (string \<times> string) set" where
  "dep_rel groups = {(g, d). group_metadata groups g \<noteq> None \<and> d \<in> set (group_deps groups g) \<and>
     group_metadata groups d \<noteq> None}"

text \<open>Every dependency of a group that was finished is finished or in progress.\<close>

definition closed_upto :: "dict \<Rightarrow> string list \<Rightarrow> string list \<Rightarrow> bool" where
  "closed_upto groups visiting visited =
     (\<forall>g \<in> set visited. dep_rel groups `` {g} \<subseteq> set visited \<union> set visiting)"


text \<open>
  The visits as a relation between the state before and the state after, for rule
  induction.
\<close>

inductive visits :: "dict \<Rightarrow> string list \<Rightarrow> string list \<Rightarrow> string list \<times> string list
    \<Rightarrow> string list \<times> string list \<Rightarrow> bool" for groups where
  stop: "visits groups visiting [] st st"
| skip: "visits groups visiting (g # gs) st r"
    if "g \<in> set (fst st) \<or> g \<in> set visiting \<or> group_metadata groups g = None"
      and "visits groups visiting gs st r"
| enter: "visits groups visiting (g # gs) st r"
    if "g \<notin> set (fst st)" and "g \<notin> set visiting" and "group_metadata groups g \<noteq> None"
      and "visits groups (g # visiting) (group_deps groups g) st (visited, ordered)"
      and "visits groups visiting gs (g # visited, ordered @ [g]) r"

lemma visits_visit_all: "visits groups visiting gs st (visit_all groups visiting gs st)"
proof (induction groups visiting gs st rule: visit_all.induct)
  case (1 groups visiting st)
  then show ?case by (simp add: visits.stop)
next
  case (2 groups visiting g gs st)
  show ?case
  proof (cases "g \<in> set (fst st) \<or> g \<in> set visiting \<or> group_metadata groups g = None")
    case True
    then have eq: "(if g \<in> set (fst st) then st else if g \<in> set visiting then st
        else if group_metadata groups g = None then st else x) = st" for x by auto
    from 2(2) have "visits groups visiting gs st (visit_all groups visiting gs st)"
      unfolding eq .
    from visits.skip [OF True this] show ?thesis by (simp only: visit_all.simps eq)
  next
    case False
    obtain visited ordered where
      inner: "visit_all groups (g # visiting) (group_deps groups g) st = (visited, ordered)"
      by fastforce
    from False have eq: "(if g \<in> set (fst st) then st else if g \<in> set visiting then st
        else if group_metadata groups g = None then st else x) = x" for x by auto
    from 2(1) False have 1: "visits groups (g # visiting) (group_deps groups g) st (visited, ordered)"
      by (simp add: inner)
    from 2(2) have 2: "visits groups visiting gs (g # visited, ordered @ [g])
        (visit_all groups visiting gs (g # visited, ordered @ [g]))"
      unfolding eq inner by simp
    from False show ?thesis
      by (simp only: visit_all.simps eq inner prod.case) (rule visits.enter [OF _ _ _ 1 2], auto)
  qed
qed

lemma visits_rev:
  assumes "visits groups visiting gs st r" and "rev (fst st) = snd st"
  shows "rev (fst r) = snd r"
  using assms by (induction rule: visits.induct) simp_all

lemma visits_distinct:
  assumes "visits groups visiting gs st r"
    and "rev (fst st) = snd st" and "distinct (snd st)" and "set visiting \<inter> set (snd st) = {}"
  shows "distinct (snd r) \<and> set visiting \<inter> set (snd r) = {}"
  using assms
proof (induction rule: visits.induct)
  case (enter g st visiting visited ordered gs r)
  have rv: "rev visited = ordered" using visits_rev [OF enter.hyps(4) enter.prems(1)] by simp
  have "g \<notin> set (snd st)" using enter.hyps(1) enter.prems(1) by (metis set_rev)
  then have "distinct ordered \<and> set (g # visiting) \<inter> set ordered = {}"
    using enter.IH(1) enter.prems by simp
  with enter.IH(2) rv enter.hyps(2) show ?case by simp
qed simp_all

lemma visits_mono:
  assumes "visits groups visiting gs st r"
  shows "set (fst st) \<subseteq> set (fst r)"
  using assms by (induction rule: visits.induct) auto

text \<open>Completeness: everything asked for is finished or in progress, and so on downwards.\<close>

lemma visits_closed:
  assumes "visits groups visiting gs st r" and "closed_upto groups visiting (fst st)"
  shows "closed_upto groups visiting (fst r) \<and>
    (\<forall>g \<in> set gs. group_metadata groups g \<noteq> None \<longrightarrow> g \<in> set (fst r) \<union> set visiting)"
  using assms
proof (induction rule: visits.induct)
  case (skip g st visiting gs r)
  then show ?case using visits_mono [OF skip(2)] by auto
next
  case (enter g st visiting visited ordered gs r)
  have weak: "closed_upto groups (g # visiting) (fst st)"
    using enter.prems by (auto simp: closed_upto_def)
  with enter.IH(1) have c: "closed_upto groups (g # visiting) visited"
    and d: "\<forall>d \<in> set (group_deps groups g). group_metadata groups d \<noteq> None \<longrightarrow>
      d \<in> set visited \<union> set (g # visiting)" by auto
  have "closed_upto groups visiting (g # visited)"
    using c d by (auto simp: closed_upto_def dep_rel_def)
  with enter.IH(2) have "closed_upto groups visiting (fst r)"
    "\<forall>g \<in> set gs. group_metadata groups g \<noteq> None \<longrightarrow> g \<in> set (fst r) \<union> set visiting"
    by auto
  moreover have "g \<in> set (fst r)" using visits_mono [OF enter.hyps(5)] by auto
  ultimately show ?case by auto
qed auto

text \<open>Soundness: what is finished was there before or is reachable.\<close>

lemma visits_reachable:
  assumes "visits groups visiting gs st r"
  shows "set (fst r) \<subseteq> set (fst st) \<union> (dep_rel groups)\<^sup>* `` {g \<in> set gs. group_metadata groups g \<noteq> None}"
  using assms
proof (induction rule: visits.induct)
  case (enter g st visiting visited ordered gs r)
  have "(dep_rel groups)\<^sup>* `` {d \<in> set (group_deps groups g). group_metadata groups d \<noteq> None}
      \<subseteq> (dep_rel groups)\<^sup>* `` {g}"
    using enter.hyps(3) by (auto simp: dep_rel_def intro: converse_rtrancl_into_rtrancl)
  moreover have "set visited \<subseteq> set (fst st) \<union> (dep_rel groups)\<^sup>* ``
      {d \<in> set (group_deps groups g). group_metadata groups d \<noteq> None}"
    using enter.IH(1) by simp
  moreover have "(dep_rel groups)\<^sup>* `` {g} \<subseteq>
      (dep_rel groups)\<^sup>* `` {x \<in> set (g # gs). group_metadata groups x \<noteq> None}"
    using enter.hyps(3) by auto
  moreover have "g \<in> (dep_rel groups)\<^sup>* `` {g}" by blast
  moreover have "set (fst r) \<subseteq> insert g (set visited) \<union> (dep_rel groups)\<^sup>* ``
      {x \<in> set gs. group_metadata groups x \<noteq> None}"
    using enter.IH(2) by simp
  moreover have "(dep_rel groups)\<^sup>* `` {x \<in> set gs. group_metadata groups x \<noteq> None} \<subseteq>
      (dep_rel groups)\<^sup>* `` {x \<in> set (g # gs). group_metadata groups x \<noteq> None}"
    by (rule Image_mono) auto
  ultimately show ?case by blast
next
  case (skip g st visiting gs r)
  moreover have "(dep_rel groups)\<^sup>* `` {x \<in> set gs. group_metadata groups x \<noteq> None} \<subseteq>
      (dep_rel groups)\<^sup>* `` {x \<in> set (g # gs). group_metadata groups x \<noteq> None}"
    by (rule Image_mono) auto
  ultimately show ?case by blast
qed auto

text \<open>
  Order: when nothing in progress is needed again, each finished group comes after its
  dependencies.
\<close>

definition deps_first :: "dict \<Rightarrow> string list \<Rightarrow> bool" where
  "deps_first groups ordered =
     (\<forall>xs g ys. ordered = xs @ g # ys \<longrightarrow> dep_rel groups `` {g} \<subseteq> set xs)"

lemma deps_first_snoc:
  "deps_first groups xs \<Longrightarrow> dep_rel groups `` {g} \<subseteq> set xs \<Longrightarrow> deps_first groups (xs @ [g])"
  unfolding deps_first_def by (auto simp: append_eq_append_conv2 append_eq_Cons_conv Cons_eq_append_conv)

lemma visits_deps_first:
  assumes "visits groups visiting gs st r" and "acyclic (dep_rel groups)"
    and "\<forall>v \<in> set visiting. \<forall>g \<in> set gs. group_metadata groups g \<noteq> None \<longrightarrow> (v, g) \<in> (dep_rel groups)\<^sup>+"
    and "rev (fst st) = snd st" and "closed_upto groups visiting (fst st)"
    and "deps_first groups (snd st)"
  shows "deps_first groups (snd r)"
  using assms
proof (induction rule: visits.induct)
  case (enter g st visiting visited ordered gs r)
  have rv: "rev visited = ordered" using visits_rev [OF enter.hyps(4) enter.prems(3)] by simp
  have weak: "closed_upto groups (g # visiting) (fst st)"
    using enter.prems(4) by (auto simp: closed_upto_def)
  from visits_closed [OF enter.hyps(4) this] have c: "closed_upto groups (g # visiting) visited"
    and d: "\<forall>d \<in> set (group_deps groups g). group_metadata groups d \<noteq> None \<longrightarrow>
      d \<in> set visited \<union> set (g # visiting)" by auto
  have path: "(v, g) \<in> (dep_rel groups)\<^sup>+" if "v \<in> set visiting" for v
    using enter.prems(2) enter.hyps(3) that by auto
  have below: "(v, d) \<in> (dep_rel groups)\<^sup>+"
    if "v \<in> set (g # visiting)" "(g, d) \<in> dep_rel groups" for v d
    using that path by (cases "v = g") (auto intro: trancl_into_trancl)
  have dep: "dep_rel groups `` {g} \<subseteq> set ordered"
  proof
    fix x assume "x \<in> dep_rel groups `` {g}"
    then have x: "(g, x) \<in> dep_rel groups" by simp
    have "x \<notin> set (g # visiting)"
      using below [OF _ x] enter.prems(1) by (auto simp: acyclic_def)
    moreover have "x \<in> set visited \<union> set (g # visiting)"
      using x d by (auto simp: dep_rel_def)
    ultimately have "x \<in> set visited" by blast
    then show "x \<in> set ordered" using rv by (metis set_rev)
  qed
  have "deps_first groups ordered"
    using enter.IH(1) enter.prems weak below enter.hyps(3) by (auto simp: dep_rel_def)
  then have "deps_first groups (ordered @ [g])" using dep by (rule deps_first_snoc)
  moreover have "closed_upto groups visiting (g # visited)"
    using c d by (auto simp: closed_upto_def dep_rel_def)
  ultimately show ?case using enter.IH(2) enter.prems rv by simp
qed auto

section \<open>Properties\<close>

lemma resolve_visits:
  "visits groups [] requested ([], [])
     (rev (resolve_requested_optional_groups requested groups),
      resolve_requested_optional_groups requested groups)"
proof -
  let ?r = "visit_all groups [] requested ([], [])"
  have v: "visits groups [] requested ([], []) ?r" by (rule visits_visit_all)
  have "rev (fst ?r) = snd ?r" by (rule visits_rev [OF v]) simp
  then have "?r = (rev (snd ?r), snd ?r)" by (metis prod.collapse rev_rev_ident)
  with v show ?thesis unfolding resolve_requested_optional_groups_def by simp
qed

lemma resolve_closure:
  "distinct (resolve_requested_optional_groups requested groups) \<and>
   set (resolve_requested_optional_groups requested groups) =
     (dep_rel groups)\<^sup>* `` {g \<in> set requested. group_metadata groups g \<noteq> None}"
proof
  let ?o = "resolve_requested_optional_groups requested groups"
  note v = resolve_visits [of groups requested]
  show "distinct ?o" using visits_distinct [OF v] by simp
  have c: "closed_upto groups [] (rev ?o)" and r: "\<forall>g \<in> set requested.
      group_metadata groups g \<noteq> None \<longrightarrow> g \<in> set ?o"
    using visits_closed [OF v] by (simp_all add: closed_upto_def)
  have "y \<in> set ?o" if "(x, y) \<in> (dep_rel groups)\<^sup>*" "x \<in> set ?o" for x y
    using that c by (induction rule: rtrancl_induct) (auto simp: closed_upto_def)
  with r have "(dep_rel groups)\<^sup>* `` {g \<in> set requested. group_metadata groups g \<noteq> None} \<subseteq> set ?o"
    by blast
  with visits_reachable [OF v] show "set ?o =
      (dep_rel groups)\<^sup>* `` {g \<in> set requested. group_metadata groups g \<noteq> None}" by auto
qed

lemma resolve_normal:
  assumes "normal_names requested"
  shows "normal_names (resolve_requested_optional_groups requested groups)"
    and "g \<in> set (resolve_requested_optional_groups requested groups) \<Longrightarrow> dhas groups g"
proof -
  have "group_metadata groups y \<noteq> None \<and> y \<noteq> [] \<and> stripped y"
    if "(x, y) \<in> (dep_rel groups)\<^sup>*" "group_metadata groups x \<noteq> None" "x \<noteq> []" "stripped x" for x y
    using that
  proof (induction rule: rtrancl_induct)
    case (step y z)
    then have "z \<in> set (group_deps groups y)" "group_metadata groups z \<noteq> None"
      by (simp_all add: dep_rel_def)
    moreover have "normal_names (group_deps groups y)"
      by (simp add: group_deps_def normal_names_normalize normal_names_def [of "[]"] split: option.split)
    ultimately show ?case by (auto simp: normal_names_def list_all_iff)
  qed simp
  moreover have "\<forall>x \<in> set requested. x \<noteq> [] \<and> stripped x"
    using assms by (simp add: normal_names_def list_all_iff)
  ultimately have all: "\<forall>y \<in> set (resolve_requested_optional_groups requested groups).
      group_metadata groups y \<noteq> None \<and> y \<noteq> [] \<and> stripped y"
    using resolve_closure [of requested groups] by fastforce
  then show "normal_names (resolve_requested_optional_groups requested groups)"
    using resolve_closure [of requested groups] by (simp add: normal_names_def list_all_iff)
  show "g \<in> set (resolve_requested_optional_groups requested groups) \<Longrightarrow> dhas groups g"
    using all by (auto simp: dhas_def group_metadata_def split: option.splits)
qed

text \<open>
  C31: resolving a selection of optional groups gives, without duplicates, exactly the
  supported groups that were asked for and all their supported dependencies, direct and
  transitive, whether or not the dependencies have cycles.
\<close>

theorem resolved_groups_closure:
  "distinct (resolve_requested_optional_groups requested groups) \<and>
   set (resolve_requested_optional_groups requested groups) =
     (dep_rel groups)\<^sup>* `` {g \<in> set requested. group_metadata groups g \<noteq> None}"
  by (rule resolve_closure)

text \<open>
  when the dependencies have no cycle, every group of the resolved selection comes after
  all its supported dependencies, so the supervisor can start the groups in that order.
\<close>

theorem resolved_groups_deps_first:
  assumes "acyclic (dep_rel groups)"
    and "resolve_requested_optional_groups requested groups = before @ g # after"
  shows "dep_rel groups `` {g} \<subseteq> set before"
proof -
  have "deps_first groups (resolve_requested_optional_groups requested groups)"
    using visits_deps_first [OF resolve_visits [of groups requested] assms(1)]
    by (simp add: closed_upto_def deps_first_def)
  with assms(2) show ?thesis by (simp add: deps_first_def)
qed

definition example_groups :: dict where
  "example_groups =
     [(''grafana'', JObj [(''depends_on'', JList [JStr ''influx''])]),
      (''influx'', JObj [(''depends_on'', JList [JStr ''missing''])])]"

lemma example_dep_rel: "dep_rel example_groups = {(''grafana'', ''influx'')}"
proof -
  have m: "(group_metadata example_groups g \<noteq> None) = (g = ''grafana'' \<or> g = ''influx'')" for g
    by (auto simp: group_metadata_def example_groups_def)
  have g: "group_deps example_groups ''grafana'' = [''influx'']" by code_simp
  have i: "group_deps example_groups ''influx'' = [''missing'']" by code_simp
  show ?thesis
  proof (rule set_eqI)
    fix e :: "string \<times> string"
    obtain a b where e: "e = (a, b)" by fastforce
    consider "a = ''grafana''" | "a = ''influx''" | "a \<noteq> ''grafana''" "a \<noteq> ''influx''" by blast
    then show "e \<in> dep_rel example_groups \<longleftrightarrow> e \<in> {(''grafana'', ''influx'')}"
    proof cases
      case 1
      then show ?thesis unfolding dep_rel_def e mem_Collect_eq prod.case m by (auto simp: g)
    next
      case 2
      then show ?thesis unfolding dep_rel_def e mem_Collect_eq prod.case m by (auto simp: i)
    next
      case 3
      then show ?thesis unfolding dep_rel_def e mem_Collect_eq prod.case m by auto
    qed
  qed
qed

lemma resolved_groups_deps_first_witness:
  "dep_rel example_groups `` {''grafana''} \<subseteq> set [''influx'']"
proof -
  have a: "acyclic (dep_rel example_groups)"
    by (simp add: example_dep_rel acyclic_def trancl_insert)
  have "resolve_requested_optional_groups [''grafana''] example_groups = [''influx''] @ ''grafana'' # []"
    by code_simp
  from resolved_groups_deps_first [OF a this] show ?thesis .
qed

end
