(* ===== verification/Config_Store.thy ===== *)
theory Config_Store
  imports Mounted_State_Store Optional_Groups
begin

text \<open>
  app/services/config_store.py with the request models of app/models/install_models.py and
  app/models/addon_models.py: the configuration overrides (runtime/config.json), the install
  session (runtime/install_state.json) and what the store reads and writes of the desired
  and runtime state. Both own files are written in place and without a lock, and a write is
  taken to succeed; the desired state goes through \<open>MountedStateStore\<close>, whose failures are
  modelled. Reading a file that is not JSON raises here.
\<close>

section \<open>State\<close>

text \<open>
  \<open>cs_assets\<close> has, for each directory under runtime/optional_groups, its group.json.
\<close>

record config_store =
  cs_config :: json_file
  cs_install :: json_file
  cs_fs :: state_fs
  cs_mounts :: mounted_state_store
  cs_assets :: dict

definition load_overrides :: "config_store \<Rightarrow> dict res" where
  "load_overrides st = load_object_strict (cs_config st)"

definition save_overrides :: "dict \<Rightarrow> config_store \<Rightarrow> config_store" where
  "save_overrides d st = st\<lparr>cs_config := Doc (sort_keys (JObj d))\<rparr>"

text \<open>The loader returns an empty dictionary for a missing file and for a non-dictionary.\<close>

definition load_install_session_state :: "config_store \<Rightarrow> json res" where
  "load_install_session_state st = res_bind (load_object_strict (cs_install st)) (\<lambda>d. Inr (JObj d))"

definition save_install_session_state :: "dict \<Rightarrow> config_store \<Rightarrow> config_store" where
  "save_install_session_state d st = st\<lparr>cs_install := Doc (sort_keys (JObj d))\<rparr>"

section \<open>Reading the environment and loose values\<close>

text \<open>\<open>os.getenv(name) or None\<close>, \<open>int(os.getenv(name, default))\<close>.\<close>

definition env_or_none :: "env \<Rightarrow> string \<Rightarrow> json" where
  "env_or_none env name = (let v = getenv env name [] in if v \<noteq> [] then JStr v else JNull)"

definition env_int :: "env \<Rightarrow> string \<Rightarrow> string \<Rightarrow> int res" where
  "env_int env name dflt = py_int (JStr (getenv env name dflt))"

definition env_bool :: "env \<Rightarrow> string \<Rightarrow> string \<Rightarrow> bool" where
  "env_bool env name dflt = to_bool (getenv env name dflt)"

definition default_embedded_broker_host :: "env \<Rightarrow> string" where
  "default_embedded_broker_host env =
     getenv env ''SYNTHIA_EMBEDDED_BROKER_HOST'' ''synthia-addon-mqtt-mosquitto''"

text \<open>\<open>if v not in {...}: v = default\<close>, and \<open>v.get(k)\<close> on a value that need not be a dictionary.\<close>

definition choice :: "json \<Rightarrow> string list \<Rightarrow> string \<Rightarrow> string res" where
  "choice v options dflt = res_bind (in_strings v options) (\<lambda>b. Inr (if b then py_str v else dflt))"

definition json_get :: "json \<Rightarrow> string \<Rightarrow> json res" where
  "json_get v k = (case v of JObj d \<Rightarrow> Inr (dget d k) | _ \<Rightarrow> Inl AttributeError)"

definition install_modes :: "string list" where
  "install_modes = [''external'', ''embedded'']"

definition direct_access_modes :: "string list" where
  "direct_access_modes = [''gateway_only'', ''manual_direct_access'']"

definition mask_secret :: "json \<Rightarrow> json" where
  "mask_secret raw = (if raw = JNull then JNull
     else let value = py_str raw in
       if value = [] then JNull
       else if length value \<le> 2 then JStr (replicate (length value) CHR ''*'')
       else JStr ([hd value] @ replicate (length value - 2) CHR ''*'' @ [last value]))"

section \<open>Effective configuration\<close>

record eff_config =
  eff_host :: json
  eff_port :: int
  eff_username :: json
  eff_password :: json
  eff_tls :: bool
  eff_client_id :: json
  eff_base_topic :: json
  eff_qos :: int

definition get_effective_config :: "env \<Rightarrow> bool \<Rightarrow> config_store \<Rightarrow> eff_config res" where
  "get_effective_config env mask_secrets st =
     res_bind (env_int env ''MQTT_PORT'' ''1883'') (\<lambda>port0.
     res_bind (env_int env ''MQTT_QOS'' ''1'') (\<lambda>qos0.
     res_bind (load_overrides st) (\<lambda>overrides.
     res_bind (py_int (dget_or overrides ''mqtt_port'' (JInt port0))) (\<lambda>port.
     res_bind (py_int (dget_or overrides ''mqtt_qos'' (JInt qos0))) (\<lambda>qos.
     let password = dget_or overrides ''mqtt_password'' (env_or_none env ''MQTT_PASSWORD'') in
     Inr \<lparr>eff_host = dget_or overrides ''mqtt_host''
            (JStr (getenv env ''MQTT_HOST'' (default_embedded_broker_host env))),
          eff_port = port,
          eff_username = dget_or overrides ''mqtt_username'' (env_or_none env ''MQTT_USERNAME''),
          eff_password = (if mask_secrets then mask_secret password else password),
          eff_tls = truthy (dget_or overrides ''mqtt_tls'' (JBool (env_bool env ''MQTT_TLS'' ''false''))),
          eff_client_id = dget_or overrides ''mqtt_client_id''
            (JStr (getenv env ''MQTT_CLIENT_ID'' ''synthia-addon-mqtt'')),
          eff_base_topic = dget_or overrides ''mqtt_base_topic''
            (JStr (getenv env ''MQTT_BASE_TOPIC'' ''synthia'')),
          eff_qos = qos\<rparr>)))))"

section \<open>The base URL of the core\<close>

definition get_core_base_url :: "env \<Rightarrow> config_store \<Rightarrow> string res" where
  "get_core_base_url env st =
     res_bind (load_overrides st) (\<lambda>overrides.
     let raw = strip (py_str (py_or (dget overrides ''core_base_url'') (JStr []))) in
     if raw \<noteq> [] then Inr raw
     else
       let desired = read_desired env (cs_fs st) (cs_mounts st);
           core = (case dget desired ''config'' of
               JObj config \<Rightarrow>
                 (case dget config ''env'' of
                    JObj e \<Rightarrow> strip (py_str (py_or (dget e ''CORE_URL'') (JStr [])))
                  | _ \<Rightarrow> [])
             | _ \<Rightarrow> []) in
       if core \<noteq> [] then Inr core
       else
         let base = strip (getenv env ''CORE_BASE_URL'' []) in
         Inr (if base \<noteq> [] then base else strip (getenv env ''CORE_URL'' [])))"

definition core_url_mutator :: "string \<Rightarrow> int \<Rightarrow> dict \<Rightarrow> dict" where
  "core_url_mutator url time_ns payload =
     (let config = as_dict (dget payload ''config'');
          e = as_dict (dget config ''env'') in
      dset ''desired_revision'' (JStr (int_to_dec time_ns))
        (dset ''config'' (JObj (dset ''env'' (JObj (dset ''CORE_URL'' (JStr url) e)) config)) payload))"

definition set_core_base_url :: "env \<Rightarrow> int \<Rightarrow> string \<Rightarrow> (config_store, string) run" where
  "set_core_base_url env time_ns core_base_url st =
     (let normalized = strip core_base_url in
      if normalized = [] then (Inl (ValueError ''core_base_url is required''), st)
      else
        (case load_overrides st of
           Inl e \<Rightarrow> (Inl e, st)
         | Inr overrides \<Rightarrow>
             let st1 = save_overrides (dset ''core_base_url'' (JStr normalized) overrides) st in
             (case update_desired env (cs_mounts st1) (core_url_mutator normalized time_ns) (cs_fs st1) of
                (r, fs) \<Rightarrow>
                  (case r of Inl e \<Rightarrow> Inl e | Inr _ \<Rightarrow> Inr normalized, st1\<lparr>cs_fs := fs\<rparr>))))"

section \<open>Updating the configuration\<close>

text \<open>\<open>AddonConfigUpdate\<close>, and \<open>model_dump(exclude_none=True)\<close>.\<close>

record addon_config_update =
  acu_mqtt_host :: "string option"
  acu_mqtt_port :: "int option"
  acu_mqtt_username :: "string option"
  acu_mqtt_password :: "string option"
  acu_mqtt_tls :: "bool option"
  acu_mqtt_client_id :: "string option"
  acu_mqtt_base_topic :: "string option"
  acu_mqtt_qos :: "int option"

definition opt_field :: "string \<Rightarrow> ('a \<Rightarrow> json) \<Rightarrow> 'a option \<Rightarrow> dict" where
  "opt_field k f v = (case v of None \<Rightarrow> [] | Some x \<Rightarrow> [(k, f x)])"

definition dump_config_update :: "addon_config_update \<Rightarrow> dict" where
  "dump_config_update u =
     opt_field ''mqtt_host'' JStr (acu_mqtt_host u) @
     opt_field ''mqtt_port'' JInt (acu_mqtt_port u) @
     opt_field ''mqtt_username'' JStr (acu_mqtt_username u) @
     opt_field ''mqtt_password'' JStr (acu_mqtt_password u) @
     opt_field ''mqtt_tls'' JBool (acu_mqtt_tls u) @
     opt_field ''mqtt_client_id'' JStr (acu_mqtt_client_id u) @
     opt_field ''mqtt_base_topic'' JStr (acu_mqtt_base_topic u) @
     opt_field ''mqtt_qos'' JInt (acu_mqtt_qos u)"

definition update_config :: "env \<Rightarrow> addon_config_update \<Rightarrow> (config_store, eff_config) run" where
  "update_config env config_update st =
     (case load_overrides st of
        Inl e \<Rightarrow> (Inl e, st)
      | Inr overrides \<Rightarrow>
          let st1 = save_overrides (dupdate overrides (dump_config_update config_update)) st in
          (get_effective_config env False st1, st1))"

section \<open>Install state\<close>

record install_config =
  ic_mode :: string
  ic_external :: dict
  ic_embedded :: dict
  ic_base_topic :: json
  ic_ha_discovery_prefix :: json
  ic_external_direct_access_mode :: string
  ic_qos_default :: int

definition default_external :: "env \<Rightarrow> dict \<Rightarrow> dict res" where
  "default_external env overrides =
     res_bind (env_int env ''MQTT_PORT'' ''1883'') (\<lambda>port0.
     res_bind (py_int (dget_or overrides ''mqtt_port'' (JInt port0))) (\<lambda>port.
     Inr [(''host'', dget_or overrides ''mqtt_host'' (JStr (getenv env ''MQTT_HOST'' ''mosquitto''))),
          (''port'', JInt port),
          (''tls'', JBool (truthy (dget_or overrides ''mqtt_tls''
             (JBool (env_bool env ''MQTT_TLS'' ''false''))))),
          (''username'', dget_or overrides ''mqtt_username'' (env_or_none env ''MQTT_USERNAME'')),
          (''password'', dget_or overrides ''mqtt_password'' (env_or_none env ''MQTT_PASSWORD''))]))"

text \<open>\<open>os.getenv(name) or external.get(k)\<close>.\<close>

definition env_or_get :: "env \<Rightarrow> string \<Rightarrow> json \<Rightarrow> string \<Rightarrow> json res" where
  "env_or_get env name v k = (if getenv env name [] \<noteq> [] then Inr (env_or_none env name) else json_get v k)"

definition default_embedded :: "env \<Rightarrow> json \<Rightarrow> dict res" where
  "default_embedded env external =
     res_bind (env_int env ''EMBEDDED_PORT'' ''1883'') (\<lambda>port.
     res_bind (env_or_get env ''EMBEDDED_ADMIN_USER'' external ''username'') (\<lambda>user.
     res_bind (env_or_get env ''EMBEDDED_ADMIN_PASS'' external ''password'') (\<lambda>pass.
     Inr [(''allow_anonymous'', JBool (env_bool env ''EMBEDDED_ALLOW_ANONYMOUS'' ''false'')),
          (''persistence'', JBool (env_bool env ''EMBEDDED_PERSISTENCE'' ''true'')),
          (''log_type'', JStr (getenv env ''EMBEDDED_LOG_TYPE'' ''stdout'')),
          (''port'', JInt port),
          (''admin_user'', user),
          (''admin_pass'', pass)])))"

text \<open>\<open>d[k] = _mask_secret(d.get(k))\<close>.\<close>

definition mask_field :: "string \<Rightarrow> json \<Rightarrow> dict res" where
  "mask_field k v = res_bind (json_get v k) (\<lambda>x. Inr (dset k (mask_secret x) (as_dict v)))"

definition get_install_state :: "env \<Rightarrow> config_store \<Rightarrow> install_config res" where
  "get_install_state env st =
     res_bind (load_overrides st) (\<lambda>overrides.
     res_bind (choice (dget overrides ''mode'') install_modes ''external'') (\<lambda>mode.
     res_bind (if truthy (dget overrides ''external'') then Inr (dget overrides ''external'')
       else res_bind (default_external env overrides) (\<lambda>d. Inr (JObj d))) (\<lambda>external.
     res_bind (if truthy (dget overrides ''embedded'') then Inr (dget overrides ''embedded'')
       else res_bind (default_embedded env external) (\<lambda>d. Inr (JObj d))) (\<lambda>embedded.
     res_bind (choice (dget_or overrides ''external_direct_access_mode'' (JStr ''gateway_only''))
       direct_access_modes ''gateway_only'') (\<lambda>direct_mode.
     res_bind (env_int env ''MQTT_QOS'' ''1'') (\<lambda>qos0.
     res_bind (py_int (dget_or overrides ''qos_default'' (dget_or overrides ''mqtt_qos'' (JInt qos0)))) (\<lambda>qos.
     res_bind (mask_field ''password'' external) (\<lambda>ext.
     res_bind (mask_field ''admin_pass'' embedded) (\<lambda>emb.
     Inr \<lparr>ic_mode = mode, ic_external = ext, ic_embedded = emb,
       ic_base_topic = dget_or overrides ''base_topic''
         (dget_or overrides ''mqtt_base_topic'' (JStr (getenv env ''MQTT_BASE_TOPIC'' ''synthia''))),
       ic_ha_discovery_prefix = dget_or overrides ''ha_discovery_prefix''
         (JStr (getenv env ''HA_DISCOVERY_PREFIX'' ''homeassistant'')),
       ic_external_direct_access_mode = direct_mode, ic_qos_default = qos\<rparr>)))))))))"

section \<open>Optional groups in the desired and runtime state\<close>

definition name_list :: "string list \<Rightarrow> json" where
  "name_list xs = JList (map JStr xs)"

definition get_desired_optional_groups :: "env \<Rightarrow> config_store \<Rightarrow> string list" where
  "get_desired_optional_groups env st =
     (let desired = read_desired env (cs_fs st) (cs_mounts st);
          enabled = normalize_string_list (dget desired ''enabled_docker_groups'') in
      if enabled \<noteq> [] then enabled
      else
        let requested = (case dget desired ''runtime'' of
            JObj runtime \<Rightarrow>
              (case dget runtime ''optional_docker_groups'' of
                 JObj og \<Rightarrow> normalize_string_list (dget og ''requested'')
               | _ \<Rightarrow> [])
          | _ \<Rightarrow> []) in
        if requested \<noteq> [] then requested
        else normalize_string_list (dget desired ''optional_groups_requested''))"

record groups_feedback =
  gf_requested :: "string list"
  gf_active :: "string list"
  gf_starting :: "string list"
  gf_failed :: "string list"
  gf_pending_reconcile :: "bool option"

text \<open>\<open>xs or _normalize_string_list(d.get(k))\<close>.\<close>

definition or_names :: "string list \<Rightarrow> dict \<Rightarrow> string \<Rightarrow> string list" where
  "or_names xs d k = (if xs \<noteq> [] then xs else normalize_string_list (dget d k))"

definition get_runtime_optional_groups_feedback :: "env \<Rightarrow> config_store \<Rightarrow> groups_feedback" where
  "get_runtime_optional_groups_feedback env st =
     (let rs = read_runtime env (cs_fs st) (cs_mounts st);
          requested = or_names (normalize_string_list (dget rs ''requested_docker_groups'')) rs ''optional_groups_requested'';
          active = or_names (normalize_string_list (dget rs ''active_docker_groups'')) rs ''optional_groups_active'';
          starting = or_names (normalize_string_list (dget rs ''starting_docker_groups'')) rs ''optional_groups_starting'';
          failed = or_names (normalize_string_list (dget rs ''failed_docker_groups'')) rs ''optional_groups_failed'';
          plain = \<lparr>gf_requested = requested, gf_active = active, gf_starting = starting,
            gf_failed = failed, gf_pending_reconcile = None\<rparr> in
      case dget rs ''runtime'' of
        JObj runtime \<Rightarrow>
          (case dget runtime ''optional_docker_groups'' of
             JObj og \<Rightarrow>
               \<lparr>gf_requested = or_names requested og ''requested'',
                gf_active = or_names active og ''active'',
                gf_starting = or_names starting og ''starting'',
                gf_failed = or_names failed og ''failed'',
                gf_pending_reconcile =
                  (case dget og ''pending_reconcile'' of JBool b \<Rightarrow> Some b | _ \<Rightarrow> None)\<rparr>
           | _ \<Rightarrow> plain)
      | _ \<Rightarrow> plain)"

section \<open>Install session\<close>

definition default_install_session_state :: dict where
  "default_install_session_state =
     [(''mode'', JStr ''external''),
      (''setup_state'', JStr ''unconfigured''),
      (''configured'', JBool False),
      (''verified'', JBool False),
      (''registered_to_core'', JBool False),
      (''last_error'', JNull),
      (''external_test_ok'', JBool False),
      (''external_test_signature'', JNull),
      (''external_direct_access_mode'', JStr ''gateway_only''),
      (''optional_groups_requested'', JList []),
      (''optional_groups_active'', JList []),
      (''optional_groups_failed'', JList [])]"

text \<open>\<open>int(d.get(k) or 0)\<close> with any exception read as 0; a host and a port that are set.\<close>

definition port_or_0 :: "json \<Rightarrow> int" where
  "port_or_0 v = (case py_int (py_or v (JInt 0)) of Inr p \<Rightarrow> p | Inl _ \<Rightarrow> 0)"

definition text_or_empty :: "json \<Rightarrow> string" where
  "text_or_empty v = strip (py_str (py_or v (JStr [])))"

definition host_port_set :: "json \<Rightarrow> json \<Rightarrow> bool" where
  "host_port_set host port = (text_or_empty host \<noteq> [] \<and> 0 < port_or_0 port)"

definition reconstruct_install_session_from_overrides :: "dict \<Rightarrow> dict option" where
  "reconstruct_install_session_from_overrides overrides =
     (let mode = text_or_empty (dget overrides ''mode'') in
      if mode \<notin> set install_modes then None
      else
        let direct0 = py_str (py_or (dget overrides ''external_direct_access_mode'') (JStr ''gateway_only''));
            direct = (if direct0 \<in> set direct_access_modes then direct0 else ''gateway_only'');
            configured =
              (if mode = ''external'' then
                 (case dget overrides ''external'' of
                    JObj external \<Rightarrow> host_port_set (dget external ''host'') (dget external ''port'')
                  | _ \<Rightarrow> False)
                 \<or> host_port_set (dget overrides ''mqtt_host'') (dget overrides ''mqtt_port'')
               else
                 (case dget overrides ''embedded'' of
                    JObj embedded \<Rightarrow>
                      truthy (dget_or embedded ''allow_anonymous'' (JBool False)) \<or>
                      (text_or_empty (dget embedded ''admin_user'') \<noteq> [] \<and>
                       text_or_empty (dget embedded ''admin_pass'') \<noteq> [])
                  | _ \<Rightarrow> False)) in
        if \<not> configured
        then Some [(''mode'', JStr mode), (''external_direct_access_mode'', JStr direct)]
        else Some [(''mode'', JStr mode), (''setup_state'', JStr ''ready''),
          (''configured'', JBool True), (''verified'', JBool True),
          (''external_direct_access_mode'', JStr direct), (''last_error'', JNull)])"

text \<open>The fields of the stored session, each with its default.\<close>

definition session_of_raw :: "dict \<Rightarrow> dict \<Rightarrow> dict" where
  "session_of_raw raw state =
     (let copy = (\<lambda>k s. dset k (dget_or raw k (dget s k)) s);
          flag = (\<lambda>k s. dset k (JBool (truthy (dget_or raw k (dget s k)))) s);
          names = (\<lambda>k s. dset k (name_list (normalize_string_list (dget raw k))) s) in
      names ''optional_groups_failed'' (names ''optional_groups_active''
        (names ''optional_groups_requested'' (copy ''external_direct_access_mode''
        (copy ''external_test_signature'' (flag ''external_test_ok'' (copy ''last_error''
        (flag ''registered_to_core'' (flag ''verified'' (flag ''configured''
        (copy ''setup_state'' (copy ''mode'' state))))))))))))"

definition get_install_session_state :: "env \<Rightarrow> config_store \<Rightarrow> dict res" where
  "get_install_session_state env st =
     (let state0 = default_install_session_state in
      res_bind (load_install_session_state st) (\<lambda>raw.
      res_bind (case raw of
          JObj d \<Rightarrow> Inr (session_of_raw d state0)
        | _ \<Rightarrow> res_bind (load_overrides st) (\<lambda>overrides.
            case reconstruct_install_session_from_overrides overrides of
              Some r \<Rightarrow> Inr (if r \<noteq> [] then dupdate state0 r else state0)
            | None \<Rightarrow> Inr state0)) (\<lambda>state1.
      res_bind (get_install_state env st) (\<lambda>install_config.
      let state2 = (if ic_mode install_config \<in> set install_modes
            then dset ''mode'' (JStr (ic_mode install_config)) state1 else state1);
          desired = get_desired_optional_groups env st in
      Inr (if desired \<noteq> [] \<and> normalize_string_list (dget state2 ''optional_groups_requested'') = []
           then dset ''optional_groups_requested'' (name_list desired) state2 else state2)))))"

definition session_keys :: "string list" where
  "session_keys = [''mode'', ''setup_state'', ''configured'', ''verified'', ''registered_to_core'',
     ''last_error'', ''external_test_ok'', ''external_test_signature'',
     ''external_direct_access_mode'', ''optional_groups_requested'', ''optional_groups_active'',
     ''optional_groups_failed'']"

text \<open>The keyword arguments are a dictionary; only the session's keys are taken.\<close>

definition merge_session :: "dict \<Rightarrow> dict \<Rightarrow> dict" where
  "merge_session updates state =
     foldl (\<lambda>s k. if dhas updates k then dset k (dget updates k) s else s) state session_keys"

definition update_install_session_state :: "env \<Rightarrow> dict \<Rightarrow> (config_store, dict) run" where
  "update_install_session_state env updates st =
     (case get_install_session_state env st of
        Inl e \<Rightarrow> (Inl e, st)
      | Inr state0 \<Rightarrow>
          let state = merge_session updates state0 in
          (Inr state, save_install_session_state state st))"

definition set_selected_mode :: "env \<Rightarrow> string \<Rightarrow> string \<Rightarrow> (config_store, dict) run" where
  "set_selected_mode env mode direct0 st =
     (if mode \<notin> set install_modes then (Inl (ValueError ''Unsupported install mode''), st)
      else
        let direct = (if direct0 \<notin> set direct_access_modes then ''gateway_only'' else direct0) in
        (case load_overrides st of
           Inl e \<Rightarrow> (Inl e, st)
         | Inr overrides \<Rightarrow>
             update_install_session_state env
               [(''mode'', JStr mode), (''external_direct_access_mode'', JStr direct),
                (''setup_state'', JStr ''configuring''), (''configured'', JBool False),
                (''verified'', JBool False), (''last_error'', JNull)]
               (save_overrides (dset ''external_direct_access_mode'' (JStr direct)
                  (dset ''mode'' (JStr mode) overrides)) st)))"

definition reset_install_session_state :: "string \<Rightarrow> (config_store, dict) run" where
  "reset_install_session_state mode st =
     (let state = (if mode \<in> set install_modes
            then dset ''mode'' (JStr mode) default_install_session_state
            else default_install_session_state) in
      (Inr state, save_install_session_state state st))"

section \<open>Applying an install\<close>

record external_config =
  ext_host :: string
  ext_port :: int
  ext_tls :: bool
  ext_username :: "string option"
  ext_password :: "string option"

record embedded_config =
  emb_allow_anonymous :: bool
  emb_persistence :: bool
  emb_log_type :: string
  emb_port :: int
  emb_admin_user :: "string option"
  emb_admin_pass :: "string option"

record install_apply_request =
  iar_mode :: string
  iar_external :: "external_config option"
  iar_embedded :: "embedded_config option"
  iar_base_topic :: "string option"
  iar_ha_discovery_prefix :: "string option"
  iar_external_direct_access_mode :: string
  iar_qos_default :: "int option"
  iar_allow_unvalidated :: bool

text \<open>What the request model lets through.\<close>

definition port_ok :: "int \<Rightarrow> bool" where
  "port_ok p = (1 \<le> p \<and> p \<le> 65535)"

definition install_apply_request_ok :: "install_apply_request \<Rightarrow> bool" where
  "install_apply_request_ok r =
     (iar_mode r \<in> set install_modes \<and>
      (case iar_external r of None \<Rightarrow> iar_mode r \<noteq> ''external''
       | Some x \<Rightarrow> ext_host x \<noteq> [] \<and> port_ok (ext_port x)) \<and>
      (case iar_embedded r of None \<Rightarrow> iar_mode r \<noteq> ''embedded'' | Some x \<Rightarrow> port_ok (emb_port x)) \<and>
      iar_external_direct_access_mode r \<in> set direct_access_modes \<and>
      (case iar_qos_default r of None \<Rightarrow> True | Some q \<Rightarrow> 0 \<le> q \<and> q \<le> 2))"

definition dump_external :: "external_config \<Rightarrow> dict" where
  "dump_external x =
     [(''host'', JStr (ext_host x)), (''port'', JInt (ext_port x)), (''tls'', JBool (ext_tls x))] @
     opt_field ''username'' JStr (ext_username x) @ opt_field ''password'' JStr (ext_password x)"

definition dump_embedded :: "embedded_config \<Rightarrow> dict" where
  "dump_embedded x =
     [(''allow_anonymous'', JBool (emb_allow_anonymous x)), (''persistence'', JBool (emb_persistence x)),
      (''log_type'', JStr (emb_log_type x)), (''port'', JInt (emb_port x))] @
     opt_field ''admin_user'' JStr (emb_admin_user x) @ opt_field ''admin_pass'' JStr (emb_admin_pass x)"

text \<open>\<open>if k in data: overrides[k'] = data[k]\<close>.\<close>

definition dset_opt :: "string \<Rightarrow> ('a \<Rightarrow> json) \<Rightarrow> 'a option \<Rightarrow> dict \<Rightarrow> dict" where
  "dset_opt k f v d = (case v of None \<Rightarrow> d | Some x \<Rightarrow> dset k (f x) d)"

definition connection_overrides :: "env \<Rightarrow> install_apply_request \<Rightarrow> dict \<Rightarrow> dict res" where
  "connection_overrides env r overrides =
     (if iar_mode r = ''external'' then
        (case iar_external r of
           None \<Rightarrow> Inl (KeyError ''external'')
         | Some x \<Rightarrow>
             Inr (dset ''mqtt_password'' (dget (dump_external x) ''password'')
               (dset ''mqtt_username'' (dget (dump_external x) ''username'')
               (dset ''mqtt_tls'' (JBool (ext_tls x))
               (dset ''mqtt_port'' (JInt (ext_port x))
               (dset ''mqtt_host'' (JStr (ext_host x)) overrides))))))
      else
        (case iar_embedded r of
           None \<Rightarrow> Inl (KeyError ''embedded'')
         | Some x \<Rightarrow>
             Inr (dset ''mqtt_password'' (dget (dump_embedded x) ''admin_pass'')
               (dset ''mqtt_username'' (dget (dump_embedded x) ''admin_user'')
               (dset ''mqtt_tls'' (JBool False)
               (dset ''mqtt_port'' (JInt 1883)
               (dset ''mqtt_host'' (JStr (default_embedded_broker_host env)) overrides)))))))"

definition install_overrides :: "env \<Rightarrow> install_apply_request \<Rightarrow> dict \<Rightarrow> dict res" where
  "install_overrides env r overrides =
     res_bind (connection_overrides env r
       (dset_opt ''qos_default'' JInt (iar_qos_default r)
       (dset ''external_direct_access_mode'' (JStr (iar_external_direct_access_mode r))
       (dset_opt ''ha_discovery_prefix'' JStr (iar_ha_discovery_prefix r)
       (dset_opt ''base_topic'' JStr (iar_base_topic r)
       (dset_opt ''embedded'' (\<lambda>x. JObj (dump_embedded x)) (iar_embedded r)
       (dset_opt ''external'' (\<lambda>x. JObj (dump_external x)) (iar_external r)
       (dset ''mode'' (JStr (iar_mode r)) overrides)))))))) (\<lambda>overrides'.
     Inr (dset_opt ''mqtt_qos'' JInt (iar_qos_default r)
       (dset_opt ''mqtt_base_topic'' JStr (iar_base_topic r) overrides')))"

definition apply_install_config :: "env \<Rightarrow> install_apply_request \<Rightarrow> (config_store, eff_config) run" where
  "apply_install_config env r st =
     (case load_overrides st of
        Inl e \<Rightarrow> (Inl e, st)
      | Inr overrides0 \<Rightarrow>
          if iar_mode r \<notin> set install_modes then (Inl (ValueError ''Unsupported install mode''), st)
          else
            (case install_overrides env r overrides0 of
               Inl e \<Rightarrow> (Inl e, st)
             | Inr overrides \<Rightarrow>
                 (case update_install_session_state env
                     [(''mode'', JStr (iar_mode r)), (''configured'', JBool True), (''last_error'', JNull)]
                     (save_overrides overrides st) of
                    (Inl e, st2) \<Rightarrow> (Inl e, st2)
                  | (Inr _, st2) \<Rightarrow> (get_effective_config env False st2, st2))))"

section \<open>Selecting optional groups\<close>

definition desired_groups_mutator :: "string list \<Rightarrow> int \<Rightarrow> dict \<Rightarrow> dict" where
  "desired_groups_mutator requested time_ns payload0 =
     (let runtime = as_dict (dget payload0 ''runtime'');
          og = as_dict (dget runtime ''optional_docker_groups'');
          payload = dset ''desired_revision'' (JStr (int_to_dec time_ns))
            (dset ''optional_groups_requested'' (name_list requested)
            (dset ''enabled_docker_groups'' (name_list requested)
            (dset ''runtime'' (JObj (dset ''optional_docker_groups''
               (JObj (dset ''requested'' (name_list requested) og)) runtime)) payload0))) in
      dset ''force_rebuild'' (JBool (truthy (dget_or payload ''force_rebuild'' (JBool False)))) payload)"

definition write_desired_optional_groups :: "env \<Rightarrow> int \<Rightarrow> string list \<Rightarrow> (config_store, unit) run" where
  "write_desired_optional_groups env time_ns requested st =
     (case update_desired env (cs_mounts st) (desired_groups_mutator requested time_ns) (cs_fs st) of
        (r, fs) \<Rightarrow> (case r of Inl e \<Rightarrow> Inl e | Inr _ \<Rightarrow> Inr (), st\<lparr>cs_fs := fs\<rparr>))"

definition group_document :: "dict \<Rightarrow> string \<Rightarrow> json" where
  "group_document supported group_id =
     (let metadata = as_dict (dget supported group_id) in
      JObj [(''id'', JStr group_id),
        (''name'', JStr (py_str (dget_or metadata ''name'' (JStr group_id)))),
        (''compose_file'', JStr (py_str (dget_or metadata ''compose_file'' (JStr [])))),
        (''setup_required'', JBool (truthy (dget_or metadata ''setup_required'' (JBool False))))])"

definition prepare_optional_group_assets :: "string list \<Rightarrow> dict \<Rightarrow> dict \<Rightarrow> dict" where
  "prepare_optional_group_assets requested supported assets =
     filter (\<lambda>(k, _). k \<in> set requested)
       (foldl (\<lambda>a g. dset g (sort_keys (group_document supported g)) a) assets requested)"

definition set_requested_optional_groups ::
  "env \<Rightarrow> int \<Rightarrow> string list \<Rightarrow> dict \<Rightarrow> (config_store, dict) run" where
  "set_requested_optional_groups env time_ns requested_ids supported st =
     (let requested = filter (\<lambda>g. dhas supported g)
            (resolve_requested_optional_groups (normalize_string_list (name_list requested_ids)) supported);
          st1 = st\<lparr>cs_assets := prepare_optional_group_assets requested supported (cs_assets st)\<rparr> in
      case get_install_session_state env st1 of
        Inl e \<Rightarrow> (Inl e, st1)
      | Inr state \<Rightarrow>
          let active = filter (\<lambda>g. g \<in> set requested)
                (normalize_string_list (dget state ''optional_groups_active''));
              failed = filter (\<lambda>g. g \<in> set requested)
                (normalize_string_list (dget state ''optional_groups_failed'')) in
          (case write_desired_optional_groups env time_ns requested st1 of
             (Inl e, st2) \<Rightarrow> (Inl e, st2)
           | (Inr _, st2) \<Rightarrow>
               update_install_session_state env
                 [(''optional_groups_requested'', name_list requested),
                  (''optional_groups_active'', name_list active),
                  (''optional_groups_failed'', name_list failed)] st2))"

end
