(* ===== verification/Token_Auth.thy ===== *)
theory Token_Auth
  imports Py_Json
begin

text \<open>
  app/services/token_auth.py and app/api/auth.py: validation of the service token (a JWT
  signed with HMAC-SHA256) and the dependency that turns a rejected token into HTTP 401.
  The keyed hash and the reading of a decoded segment (UTF-8, then \<open>json.loads\<close>) are
  parameters: nothing here depends on how they compute.
\<close>

record service_token_claims =
  sub :: string
  aud :: string
  jti :: string
  scopes :: "string set"
  raw :: dict

section \<open>Base64\<close>

text \<open>The value of a character of the standard alphabet.\<close>

definition b64_value :: "char \<Rightarrow> nat option" where
  "b64_value c = (let n = (of_char c :: nat) in
     if 65 \<le> n \<and> n \<le> 90 then Some (n - 65)
     else if 97 \<le> n \<and> n \<le> 122 then Some (n - 71)
     else if 48 \<le> n \<and> n \<le> 57 then Some (n + 4)
     else if n = 43 then Some 62
     else if n = 47 then Some 63
     else None)"

text \<open>
  \<open>binascii.a2b_base64\<close>, not strict: characters outside the alphabet are skipped, padding
  ends the input once it completes a group, and input that ends inside a group raises.
  \<open>quad\<close> is the position in the group of four, \<open>left\<close> the bits not yet written.
\<close>

fun a2b_base64 :: "nat \<Rightarrow> nat \<Rightarrow> nat \<Rightarrow> string \<Rightarrow> string \<Rightarrow> string res" where
  "a2b_base64 quad left pads out [] = (if quad = 0 then Inr (rev out) else Inl BinasciiError)"
| "a2b_base64 quad left pads out (c # s) =
     (if c = CHR ''='' then
        (if 2 \<le> quad \<and> 4 \<le> quad + (pads + 1) then Inr (rev out)
         else a2b_base64 quad left (if 2 \<le> quad then pads + 1 else pads) out s)
      else case b64_value c of
        None \<Rightarrow> a2b_base64 quad left pads out s
      | Some v \<Rightarrow>
          if quad = 0 then a2b_base64 1 v 0 out s
          else if quad = 1 then a2b_base64 2 (v mod 16) 0 (char_of (left * 4 + v div 16) # out) s
          else if quad = 2 then a2b_base64 3 (v mod 4) 0 (char_of (left * 16 + v div 4) # out) s
          else a2b_base64 0 0 0 (char_of (left * 64 + v) # out) s)"

definition urlsafe_char :: "char \<Rightarrow> char" where
  "urlsafe_char c = (if c = CHR ''-'' then CHR ''+'' else if c = CHR ''_'' then CHR ''/'' else c)"

definition is_ascii :: "string \<Rightarrow> bool" where
  "is_ascii s = list_all (\<lambda>c. (of_char c :: nat) < 128) s"

definition urlsafe_b64decode :: "string \<Rightarrow> string res" where
  "urlsafe_b64decode s =
     (if \<not> is_ascii s then Inl (ValueError ''string argument should contain only ASCII characters'')
      else a2b_base64 0 0 0 [] (map urlsafe_char s))"

text \<open>\<open>_b64url_decode\<close> adds the padding: \<open>-len(value) % 4\<close> characters.\<close>

definition b64url_decode :: "string \<Rightarrow> string res" where
  "b64url_decode value =
     (let padding = replicate (nat ((- int (length value)) mod 4)) (CHR ''='')
      in urlsafe_b64decode (value @ padding))"

section \<open>The validator\<close>

definition decode_json_segment :: "(string \<Rightarrow> json option) \<Rightarrow> string \<Rightarrow> dict res" where
  "decode_json_segment loads segment =
     (case b64url_decode segment of
        Inl e \<Rightarrow> Inl (TokenAuthError ''Invalid JWT encoding'')
      | Inr bytes \<Rightarrow>
          (case loads bytes of
             None \<Rightarrow> Inl (TokenAuthError ''Invalid JWT encoding'')
           | Some (JObj d) \<Rightarrow> Inr d
           | Some _ \<Rightarrow> Inl (TokenAuthError ''JWT segment is not an object'')))"

definition verify_signature ::
  "(string \<Rightarrow> string \<Rightarrow> string) \<Rightarrow> string \<Rightarrow> string \<Rightarrow> string \<Rightarrow> string \<Rightarrow> unit res" where
  "verify_signature hmac header_b64 payload_b64 signature_b64 signing_key =
     (let message = header_b64 @ ''.'' @ payload_b64;
          expected_sig = hmac signing_key message in
      res_bind (b64url_decode signature_b64) (\<lambda>token_sig.
      if expected_sig \<noteq> token_sig then Inl (TokenAuthError ''Invalid token signature'')
      else Inr ()))"

definition validate_required_claim :: "dict \<Rightarrow> string \<Rightarrow> unit res" where
  "validate_required_claim payload claim_name =
     (let missing = Inl (TokenAuthError (''Missing required claim: '' @ claim_name)) in
      case dget payload claim_name of
        JNull \<Rightarrow> missing
      | JStr s \<Rightarrow> if strip s = [] then missing else Inr ()
      | _ \<Rightarrow> Inr ())"

definition validate_exp :: "int \<Rightarrow> dict \<Rightarrow> unit res" where
  "validate_exp now payload =
     (if dget payload ''exp'' = JNull then Inl (TokenAuthError ''Missing required claim: exp'')
      else case py_int (dget payload ''exp'') of
        Inl _ \<Rightarrow> Inl (TokenAuthError ''Invalid exp claim'')
      | Inr exp_ts \<Rightarrow> if exp_ts \<le> now then Inl (TokenAuthError ''Token expired'') else Inr ())"

definition extract_scopes :: "dict \<Rightarrow> string set" where
  "extract_scopes payload =
     (case dget_or payload ''scp'' (dget payload ''scopes'') of
        JStr s \<Rightarrow> set (filter (\<lambda>p. p \<noteq> []) (map strip (words s)))
      | JList xs \<Rightarrow> set (filter (\<lambda>p. p \<noteq> []) (map (\<lambda>x. strip (py_str x)) xs))
      | _ \<Rightarrow> {})"

definition auth_required :: "env \<Rightarrow> bool" where
  "auth_required env = to_bool (getenv env ''SYNTHIA_AUTH_REQUIRED'' ''false'')"

definition expected_audience :: "env \<Rightarrow> string \<Rightarrow> string" where
  "expected_audience env addon_id = getenv env ''SYNTHIA_TOKEN_AUDIENCE'' addon_id"

text \<open>\<open>authorization[7:].strip()\<close> of a header that starts with \<open>Bearer\<close> and a blank.\<close>

definition bearer_token :: "string option \<Rightarrow> string res" where
  "bearer_token authorization =
     (case authorization of
        None \<Rightarrow> Inl (TokenAuthError ''Missing bearer token'')
      | Some a \<Rightarrow>
          if a = [] \<or> \<not> starts_with a ''Bearer '' then Inl (TokenAuthError ''Missing bearer token'')
          else let token = strip (drop 7 a) in
            if token = [] then Inl (TokenAuthError ''Missing bearer token'') else Inr token)"

definition validate_bearer ::
  "(string \<Rightarrow> string \<Rightarrow> string) \<Rightarrow> (string \<Rightarrow> json option) \<Rightarrow> env \<Rightarrow> string \<Rightarrow> int \<Rightarrow>
   string option \<Rightarrow> string \<Rightarrow> service_token_claims res" where
  "validate_bearer hmac loads env addon_id now authorization required_scope =
     (if \<not> auth_required env
      then Inr \<lparr>sub = ''anonymous'', aud = expected_audience env addon_id,
                jti = ''auth-disabled'', scopes = {required_scope}, raw = []\<rparr>
      else
        let signing_key = getenv env ''SYNTHIA_JWT_SIGNING_KEY'' [] in
        if signing_key = []
        then Inl (TokenAuthError
          ''SYNTHIA_JWT_SIGNING_KEY is required when SYNTHIA_AUTH_REQUIRED=true'')
        else res_bind (bearer_token authorization) (\<lambda>token.
          case split_on (CHR ''.'') token of
            [header_b64, payload_b64, signature_b64] \<Rightarrow>
              res_bind (decode_json_segment loads header_b64) (\<lambda>header.
              res_bind (decode_json_segment loads payload_b64) (\<lambda>payload.
              if py_str (dget_or header ''alg'' (JStr [])) \<noteq> ''HS256''
              then Inl (TokenAuthError ''Unsupported JWT algorithm'')
              else
                res_bind (verify_signature hmac header_b64 payload_b64 signature_b64 signing_key) (\<lambda>_.
                res_bind (validate_exp now payload) (\<lambda>_.
                res_bind (validate_required_claim payload ''sub'') (\<lambda>_.
                res_bind (validate_required_claim payload ''aud'') (\<lambda>_.
                res_bind (validate_required_claim payload ''jti'') (\<lambda>_.
                let token_aud = py_str (dget payload ''aud'') in
                if token_aud \<noteq> expected_audience env addon_id
                then Inl (TokenAuthError ''Invalid token audience'')
                else let scs = extract_scopes payload in
                  if required_scope \<notin> scs
                  then Inl (TokenAuthError (''Missing required scope: '' @ required_scope))
                  else Inr \<lparr>sub = py_str (dget payload ''sub''), aud = token_aud,
                            jti = py_str (dget payload ''jti''), scopes = scs,
                            raw = payload\<rparr>)))))))
          | _ \<Rightarrow> Inl (TokenAuthError ''Malformed JWT token'')))"

text \<open>The FastAPI dependency: only \<open>TokenAuthError\<close> becomes a 401.\<close>

definition require_scope ::
  "(string \<Rightarrow> string \<Rightarrow> string) \<Rightarrow> (string \<Rightarrow> json option) \<Rightarrow> env \<Rightarrow> string \<Rightarrow> int \<Rightarrow>
   string option \<Rightarrow> string \<Rightarrow> service_token_claims res" where
  "require_scope hmac loads env addon_id now authorization required_scope =
     (case validate_bearer hmac loads env addon_id now authorization required_scope of
        Inl (TokenAuthError m) \<Rightarrow> Inl (HTTPException 401 m)
      | r \<Rightarrow> r)"

section \<open>Abstract specification\<close>

definition claim_present :: "dict \<Rightarrow> string \<Rightarrow> bool" where
  "claim_present payload name = (case dget payload name of
     JNull \<Rightarrow> False | JStr s \<Rightarrow> strip s \<noteq> [] | _ \<Rightarrow> True)"

definition not_expired :: "int \<Rightarrow> dict \<Rightarrow> bool" where
  "not_expired now payload = (dget payload ''exp'' \<noteq> JNull \<and>
     (case py_int (dget payload ''exp'') of Inl _ \<Rightarrow> False | Inr t \<Rightarrow> now < t))"

text \<open>
  What a header must contain to be accepted: three segments, the first two decoding to
  objects, the third to the keyed hash of the first two.
\<close>

definition signed_token ::
  "(string \<Rightarrow> string \<Rightarrow> string) \<Rightarrow> (string \<Rightarrow> json option) \<Rightarrow> string \<Rightarrow> string \<Rightarrow> dict \<Rightarrow> bool" where
  "signed_token hmac loads key token payload =
     (\<exists>h p s header. split_on (CHR ''.'') token = [h, p, s] \<and>
        decode_json_segment loads h = Inr header \<and> decode_json_segment loads p = Inr payload \<and>
        py_str (dget_or header ''alg'' (JStr [])) = ''HS256'' \<and>
        b64url_decode s = Inr (hmac key (h @ ''.'' @ p)))"

definition acceptable_claims :: "env \<Rightarrow> string \<Rightarrow> int \<Rightarrow> string \<Rightarrow> dict \<Rightarrow> bool" where
  "acceptable_claims env addon_id now scope payload =
     (not_expired now payload \<and> claim_present payload ''sub'' \<and> claim_present payload ''aud'' \<and>
      claim_present payload ''jti'' \<and> py_str (dget payload ''aud'') = expected_audience env addon_id \<and>
      scope \<in> extract_scopes payload)"

definition claims_of :: "dict \<Rightarrow> service_token_claims" where
  "claims_of payload = \<lparr>sub = py_str (dget payload ''sub''), aud = py_str (dget payload ''aud''),
     jti = py_str (dget payload ''jti''), scopes = extract_scopes payload, raw = payload\<rparr>"

section \<open>Lemmas\<close>

lemma validate_required_claim_iff:
  "validate_required_claim p n = Inr () \<longleftrightarrow> claim_present p n"
  by (auto simp: validate_required_claim_def claim_present_def Let_def split: json.splits)

lemma validate_exp_iff: "validate_exp now p = Inr () \<longleftrightarrow> not_expired now p"
  by (auto simp: validate_exp_def not_expired_def split: sum.splits)

lemma verify_signature_iff:
  "verify_signature hmac h p s key = Inr () \<longleftrightarrow> b64url_decode s = Inr (hmac key (h @ ''.'' @ p))"
  by (auto simp: verify_signature_def Let_def res_bind_Inr_iff)

lemmas auth_checks_iff = validate_required_claim_iff validate_exp_iff verify_signature_iff

lemma decode_json_segment_error:
  "decode_json_segment loads s = Inl e \<Longrightarrow> \<exists>m. e = TokenAuthError m"
  by (auto simp: decode_json_segment_def split: sum.splits option.splits json.splits)

lemma validate_required_claim_error:
  "validate_required_claim p n = Inl e \<Longrightarrow> \<exists>m. e = TokenAuthError m"
  by (auto simp: validate_required_claim_def Let_def split: json.splits if_splits)

lemma validate_exp_error: "validate_exp now p = Inl e \<Longrightarrow> \<exists>m. e = TokenAuthError m"
  by (auto simp: validate_exp_def split: sum.splits if_splits)

lemma bearer_token_error: "bearer_token a = Inl e \<Longrightarrow> \<exists>m. e = TokenAuthError m"
  by (auto simp: bearer_token_def Let_def split: option.splits if_splits)

lemma verify_signature_error:
  "verify_signature hmac h p s key = Inl e \<Longrightarrow> (\<exists>m. e = TokenAuthError m) \<or> b64url_decode s = Inl e"
  by (auto simp: verify_signature_def Let_def res_bind_Inl_iff split: if_splits)

lemma a2b_base64_error: "a2b_base64 q l p out s = Inl e \<Longrightarrow> e = BinasciiError"
  by (induction q l p out s rule: a2b_base64.induct) (simp_all split: if_splits option.splits)

lemma b64url_decode_error: "b64url_decode s = Inl e \<Longrightarrow> is_value_error e"
  by (auto simp: b64url_decode_def urlsafe_b64decode_def Let_def dest: a2b_base64_error split: if_splits)

text \<open>What the steps after the header check accept.\<close>

lemma validate_bearer_required:
  assumes "auth_required env" and "getenv env ''SYNTHIA_JWT_SIGNING_KEY'' [] \<noteq> []"
    and "bearer_token authorization = Inr token"
  shows "validate_bearer hmac loads env addon_id now authorization scope = Inr c \<longleftrightarrow>
    (\<exists>payload. signed_token hmac loads (getenv env ''SYNTHIA_JWT_SIGNING_KEY'' []) token payload \<and>
       acceptable_claims env addon_id now scope payload \<and> c = claims_of payload)"
proof (cases "\<exists>h p s. split_on (CHR ''.'') token = [h, p, s]")
  case True
  then obtain h p s where "split_on (CHR ''.'') token = [h, p, s]" by blast
  with assms show ?thesis
    by (auto simp: validate_bearer_def signed_token_def acceptable_claims_def claims_of_def Let_def
        res_bind_Inr_iff auth_checks_iff)
next
  case False
  with assms show ?thesis
    by (auto simp: validate_bearer_def signed_token_def Let_def split: list.splits)
qed

lemma validate_bearer_error:
  assumes "validate_bearer hmac loads env addon_id now authorization scope = Inl e"
  shows "(\<exists>m. e = TokenAuthError m) \<or>
    (\<exists>token h p s. bearer_token authorization = Inr token \<and>
       split_on (CHR ''.'') token = [h, p, s] \<and> b64url_decode s = Inl e)"
proof (cases "auth_required env \<and> getenv env ''SYNTHIA_JWT_SIGNING_KEY'' [] \<noteq> []")
  case False
  with assms show ?thesis by (auto simp: validate_bearer_def Let_def split: if_splits)
next
  case True
  show ?thesis
  proof (cases "bearer_token authorization")
    case (Inl e')
    with True assms have "e' = e" by (simp add: validate_bearer_def Let_def)
    with Inl show ?thesis using bearer_token_error by blast
  next
    case (Inr token)
    show ?thesis
    proof (cases "\<exists>h p s. split_on (CHR ''.'') token = [h, p, s]")
      case False
      with True Inr assms show ?thesis
        by (auto simp: validate_bearer_def Let_def split: list.splits)
    next
      case segments: True
      then obtain h p s where "split_on (CHR ''.'') token = [h, p, s]" by blast
      with True Inr assms show ?thesis
        by (auto simp: validate_bearer_def Let_def res_bind_Inl_iff split: if_splits
            dest: decode_json_segment_error verify_signature_error validate_exp_error
              validate_required_claim_error)
    qed
  qed
qed

definition example_auth_env :: env where
  "example_auth_env = (\<lambda>_. None)
     (''SYNTHIA_AUTH_REQUIRED'' := Some ''true'', ''SYNTHIA_JWT_SIGNING_KEY'' := Some ''k'')"

definition example_payload :: dict where
  "example_payload = [(''exp'', JInt 200), (''sub'', JStr ''vision''), (''aud'', JStr ''mqtt''),
     (''jti'', JStr ''t1''), (''scp'', JStr ''mqtt.publish core.register'')]"

text \<open>A reader of segments that knows two of them, \<open>e30\<close> and \<open>e31\<close> in base64.\<close>

definition example_loads :: "string \<Rightarrow> json option" where
  "example_loads b = (if b = ''{}'' then Some (JObj [(''alg'', JStr ''HS256'')])
     else if b = ''{]'' then Some (JObj example_payload) else None)"

section \<open>Properties\<close>

text \<open>C8: with authentication on, a request is let in exactly when the signing key is set, the
  header carries a bearer token signed with it under HS256, and the token's claims are
  present, not expired, for this service and include the required scope; with authentication
  off every request is the anonymous caller with just the scope asked for.\<close>

theorem validate_bearer_iff:
  "validate_bearer hmac loads env addon_id now authorization scope = Inr c \<longleftrightarrow>
     (if auth_required env then
        getenv env ''SYNTHIA_JWT_SIGNING_KEY'' [] \<noteq> [] \<and>
        (\<exists>token payload. bearer_token authorization = Inr token \<and>
           signed_token hmac loads (getenv env ''SYNTHIA_JWT_SIGNING_KEY'' []) token payload \<and>
           acceptable_claims env addon_id now scope payload \<and> c = claims_of payload)
      else c = \<lparr>sub = ''anonymous'', aud = expected_audience env addon_id, jti = ''auth-disabled'',
                scopes = {scope}, raw = []\<rparr>)"
proof (cases "auth_required env \<and> getenv env ''SYNTHIA_JWT_SIGNING_KEY'' [] \<noteq> []")
  case True
  then show ?thesis
  proof (cases "bearer_token authorization")
    case (Inl e)
    with True show ?thesis by (simp add: validate_bearer_def Let_def)
  next
    case (Inr token)
    with True show ?thesis using validate_bearer_required [of env authorization token] by simp
  qed
next
  case False
  then show ?thesis by (auto simp: validate_bearer_def Let_def)
qed

text \<open>a rejected request is answered with HTTP 401, unless the signature segment is not
  base64: then the decoder's own exception leaves the dependency.\<close>

theorem require_scope_rejects:
  assumes "require_scope hmac loads env addon_id now authorization scope = Inl e"
  shows "(\<exists>m. e = HTTPException 401 m) \<or>
    (\<exists>token h p s. bearer_token authorization = Inr token \<and>
       split_on (CHR ''.'') token = [h, p, s] \<and> b64url_decode s = Inl e)"
proof -
  obtain e' where v: "validate_bearer hmac loads env addon_id now authorization scope = Inl e'"
    using assms by (auto simp: require_scope_def split: sum.splits)
  show ?thesis
  proof (cases "\<exists>m. e' = TokenAuthError m")
    case True
    with v assms show ?thesis by (auto simp: require_scope_def)
  next
    case False
    with v assms have "e = e'" by (auto simp: require_scope_def split: exn.splits)
    with validate_bearer_error [OF v] False show ?thesis by auto
  qed
qed

lemma example_bad_signature:
  "require_scope (\<lambda>k m. ''sig'') example_loads example_auth_env ''mqtt'' 100
     (Some ''Bearer e30.e10.A'') ''mqtt.publish'' = Inl BinasciiError"
  by code_simp

theorem require_scope_rejects_witness:
  "(\<exists>m. BinasciiError = HTTPException 401 m) \<or>
    (\<exists>token h p s. bearer_token (Some ''Bearer e30.e10.A'') = Inr token \<and>
       split_on (CHR ''.'') token = [h, p, s] \<and> b64url_decode s = Inl BinasciiError)"
  by (rule require_scope_rejects [OF example_bad_signature])

text \<open>A token that is accepted: the hypotheses of the first property can hold together.\<close>

lemma example_good_token:
  "map_sum id sub (require_scope (\<lambda>k m. ''hi'') example_loads example_auth_env ''mqtt'' 100
     (Some ''Bearer e30.e10.aGk'') ''mqtt.publish'') = Inr ''vision''"
  by code_simp

end
