(* ===== verification/Policy_Cache.thy ===== *)
theory Policy_Cache
  imports Token_Auth
begin

text \<open>
  app/services/policy_cache.py: the grants and revocations received over MQTT, and the
  authorization of a caller against them. The lock that each method holds makes it one
  step; \<open>authorize\<close> reads the revoked token ids before it takes the lock, and that read and
  the locked part are taken as one step here.
\<close>

record grant_record =
  grant_id :: "string option"
  consumer_addon_id :: string
  service :: "string option"
  status :: string
  grant_scopes :: "string set"

record policy_cache =
  service_name :: string
  grants_by_consumer :: "string \<Rightarrow> grant_record option"
  revoked_jti :: "string set"
  revoked_grant_ids :: "string set"
  revoked_consumers :: "string set"

definition new_policy_cache :: "string \<Rightarrow> policy_cache" where
  "new_policy_cache name = \<lparr>service_name = name, grants_by_consumer = (\<lambda>_. None),
     revoked_jti = {}, revoked_grant_ids = {}, revoked_consumers = {}\<rparr>"

section \<open>Operations\<close>

definition enforcement_enabled :: "env \<Rightarrow> bool" where
  "enforcement_enabled env = to_bool (getenv env ''SYNTHIA_POLICY_ENFORCEMENT'' ''false'')"

definition policy_scopes :: "dict \<Rightarrow> string set" where
  "policy_scopes data =
     (case dget_or data ''scp'' (dget data ''scopes'') of
        JStr s \<Rightarrow> set (filter (\<lambda>p. p \<noteq> []) (map strip (words s)))
      | JList xs \<Rightarrow> set (filter (\<lambda>p. p \<noteq> []) (map (\<lambda>x. strip (py_str x)) xs))
      | _ \<Rightarrow> {})"

text \<open>\<open>str(data.get(k1) or data.get(k2) or "").strip()\<close>.\<close>

definition first_text :: "dict \<Rightarrow> string list \<Rightarrow> string" where
  "first_text data keys = strip (py_str (foldr (\<lambda>k rest. py_or (dget data k) rest) keys (JStr [])))"

definition nonempty :: "string \<Rightarrow> string option" where
  "nonempty s = (if s = [] then None else Some s)"

definition apply_grant :: "dict \<Rightarrow> policy_cache \<Rightarrow> policy_cache" where
  "apply_grant data pc =
     (let consumer = first_text data [''consumer_addon_id'', ''addon_id'', ''sub''] in
      if consumer = [] then pc
      else let svc = nonempty (first_text data [''service'']) in
        if svc \<noteq> None \<and> svc \<noteq> Some (service_name pc) then pc
        else
          let st = lower (strip (py_str (py_or (dget data ''status'') (JStr ''active''))));
              gid = (if truthy (dget data ''grant_id'')
                     then Some (strip (py_str (dget data ''grant_id''))) else None);
              record = \<lparr>grant_id = gid, consumer_addon_id = consumer, service = svc,
                        status = st, grant_scopes = policy_scopes data\<rparr> in
          if st \<in> {''revoked'', ''expired''} then
            (let pc1 = pc\<lparr>grants_by_consumer := (grants_by_consumer pc)(consumer := None)\<rparr> in
             case gid of
               None \<Rightarrow> pc1
             | Some g \<Rightarrow> if g = [] then pc1
                 else pc1\<lparr>revoked_grant_ids := insert g (revoked_grant_ids pc1)\<rparr>)
          else
            (let pc1 = pc\<lparr>grants_by_consumer := (grants_by_consumer pc)(consumer := Some record),
                         revoked_consumers := revoked_consumers pc - {consumer}\<rparr> in
             case gid of
               None \<Rightarrow> pc1
             | Some g \<Rightarrow> if g = [] then pc1
                 else pc1\<lparr>revoked_grant_ids := revoked_grant_ids pc1 - {g}\<rparr>))"

definition apply_revocation :: "dict \<Rightarrow> policy_cache \<Rightarrow> policy_cache" where
  "apply_revocation data pc =
     (let j = first_text data [''jti'', ''token_jti''];
          gid = first_text data [''grant_id''];
          consumer = first_text data [''consumer_addon_id'', ''addon_id''];
          pc1 = (if j \<noteq> [] then pc\<lparr>revoked_jti := insert j (revoked_jti pc)\<rparr> else pc);
          pc2 = (if gid \<noteq> [] then pc1\<lparr>
                   revoked_grant_ids := insert gid (revoked_grant_ids pc1),
                   grants_by_consumer := (\<lambda>a. case grants_by_consumer pc1 a of
                     None \<Rightarrow> None
                   | Some g \<Rightarrow> if grant_id g = Some gid then None else Some g)\<rparr>
                 else pc1)
      in if consumer \<noteq> [] then pc2\<lparr>
           revoked_consumers := insert consumer (revoked_consumers pc2),
           grants_by_consumer := (grants_by_consumer pc2)(consumer := None)\<rparr>
         else pc2)"

text \<open>\<open>ingest\<close>: \<open>loads\<close> is \<open>json.loads\<close>, with \<open>None\<close> for text it rejects.\<close>

definition ingest ::
  "(string \<Rightarrow> json option) \<Rightarrow> env \<Rightarrow> string \<Rightarrow> string \<Rightarrow> policy_cache \<Rightarrow> policy_cache" where
  "ingest loads env topic payload_text pc =
     (if \<not> enforcement_enabled env then pc
      else case loads payload_text of
        Some (JObj data) \<Rightarrow>
          if contains ''/policy/grants/'' topic then apply_grant data pc
          else if contains ''/policy/revocations/'' topic then apply_revocation data pc
          else pc
      | _ \<Rightarrow> pc)"

text \<open>The pair \<open>(allowed, reason)\<close>.\<close>

definition authorize ::
  "env \<Rightarrow> policy_cache \<Rightarrow> service_token_claims \<Rightarrow> string \<Rightarrow> bool \<times> string option" where
  "authorize env pc claims required_scope =
     (if \<not> enforcement_enabled env then (True, None)
      else if sub claims = ''anonymous''
      then (False, Some ''Policy enforcement requires authenticated service token'')
      else if jti claims \<in> revoked_jti pc then (False, Some ''Token has been revoked'')
      else if required_scope \<notin> scopes claims
      then (False, Some (''Missing required scope: '' @ required_scope))
      else if sub claims \<in> revoked_consumers pc
      then (False, Some ''Consumer addon has been revoked'')
      else case grants_by_consumer pc (sub claims) of
        None \<Rightarrow> (False, Some (''No active grant for consumer addon: '' @ sub claims))
      | Some grant \<Rightarrow>
          if status grant \<noteq> ''active''
          then (False, Some (''Grant is not active (status='' @ status grant @ '')''))
          else if (case grant_id grant of None \<Rightarrow> False
                   | Some g \<Rightarrow> g \<noteq> [] \<and> g \<in> revoked_grant_ids pc)
          then (False, Some ''Grant has been revoked'')
          else if (case service grant of None \<Rightarrow> False
                   | Some s \<Rightarrow> s \<noteq> [] \<and> s \<noteq> service_name pc)
          then (False, Some (''Grant service mismatch ('' @ the (service grant) @ '' != ''
                             @ service_name pc @ '')''))
          else if grant_scopes grant \<noteq> {} \<and> required_scope \<notin> grant_scopes grant
          then (False, Some (''Grant missing scope: '' @ required_scope))
          else (True, None))"

section \<open>The cache as a state machine\<close>

text \<open>The messages that reach the cache, and a run of them.\<close>

datatype policy_event = Grant dict | Revocation dict

fun policy_step :: "policy_event \<Rightarrow> policy_cache \<Rightarrow> policy_cache" where
  "policy_step (Grant d) pc = apply_grant d pc"
| "policy_step (Revocation d) pc = apply_revocation d pc"

inductive policy_reach :: "string \<Rightarrow> policy_cache \<Rightarrow> bool" for name where
  policy_start: "policy_reach name (new_policy_cache name)"
| policy_next: "policy_reach name pc \<Longrightarrow> policy_reach name (policy_step e pc)"

text \<open>
  What every reachable cache satisfies: a stored grant is filed under its own consumer,
  is for this service, is neither revoked nor expired, and its consumer is not revoked.
\<close>

definition filed_under :: "string \<Rightarrow> string \<Rightarrow> grant_record \<Rightarrow> bool" where
  "filed_under name c g =
     (consumer_addon_id g = c \<and> c \<noteq> [] \<and> (service g = None \<or> service g = Some name) \<and>
      status g \<noteq> ''revoked'' \<and> status g \<noteq> ''expired'')"

definition policy_inv :: "policy_cache \<Rightarrow> bool" where
  "policy_inv pc = (\<forall>c g. grants_by_consumer pc c = Some g \<longrightarrow>
     filed_under (service_name pc) c g \<and> c \<notin> revoked_consumers pc)"

definition grant_live :: "policy_cache \<Rightarrow> grant_record \<Rightarrow> string \<Rightarrow> bool" where
  "grant_live pc g scope =
     (status g = ''active'' \<and>
      (case grant_id g of None \<Rightarrow> True | Some i \<Rightarrow> i = [] \<or> i \<notin> revoked_grant_ids pc) \<and>
      (grant_scopes g = {} \<or> scope \<in> grant_scopes g))"

section \<open>Lemmas\<close>

lemma policy_scopes_eq: "policy_scopes d = extract_scopes d"
  by (simp add: policy_scopes_def extract_scopes_def)

lemma apply_grant_service_name [simp]: "service_name (apply_grant d pc) = service_name pc"
  by (simp add: apply_grant_def Let_def split: option.splits)

lemma apply_revocation_service_name [simp]: "service_name (apply_revocation d pc) = service_name pc"
  by (simp add: apply_revocation_def Let_def)

lemma apply_grant_revoked_jti [simp]: "revoked_jti (apply_grant d pc) = revoked_jti pc"
  by (simp add: apply_grant_def Let_def split: option.splits)

lemma apply_revocation_revoked_jti: "revoked_jti pc \<subseteq> revoked_jti (apply_revocation d pc)"
  by (auto simp: apply_revocation_def Let_def)

lemma policy_inv_new: "policy_inv (new_policy_cache name)"
  by (simp add: policy_inv_def new_policy_cache_def)

lemma policy_inv_grant: "policy_inv pc \<Longrightarrow> policy_inv (apply_grant d pc)"
  by (auto simp: policy_inv_def filed_under_def apply_grant_def Let_def split: option.splits)

lemma apply_revocation_grants:
  "grants_by_consumer (apply_revocation d pc) c = Some g \<Longrightarrow>
     grants_by_consumer pc c = Some g \<and> (c = [] \<or> first_text d [''consumer_addon_id'', ''addon_id''] \<noteq> c)"
  by (auto simp: apply_revocation_def Let_def split: option.splits if_splits)

lemma apply_revocation_consumers:
  "revoked_consumers (apply_revocation d pc)
     \<subseteq> insert (first_text d [''consumer_addon_id'', ''addon_id'']) (revoked_consumers pc)"
  by (auto simp: apply_revocation_def Let_def)

lemma policy_inv_revocation:
  assumes "policy_inv pc"
  shows "policy_inv (apply_revocation d pc)"
  unfolding policy_inv_def apply_revocation_service_name
proof (intro allI impI conjI)
  fix c g
  assume "grants_by_consumer (apply_revocation d pc) c = Some g"
  note after = apply_revocation_grants [OF this]
  with assms have inv: "filed_under (service_name pc) c g" "c \<notin> revoked_consumers pc"
    by (simp_all add: policy_inv_def)
  then show "filed_under (service_name pc) c g" by simp
  have "c \<noteq> []" using inv by (simp add: filed_under_def)
  with after inv show "c \<notin> revoked_consumers (apply_revocation d pc)"
    using apply_revocation_consumers [of d pc] by blast
qed

lemma policy_inv_step: "policy_inv pc \<Longrightarrow> policy_inv (policy_step e pc)"
  by (cases e) (auto intro: policy_inv_grant policy_inv_revocation)

lemma policy_step_service_name [simp]: "service_name (policy_step e pc) = service_name pc"
  by (cases e) auto

lemma policy_step_revoked_jti: "revoked_jti pc \<subseteq> revoked_jti (policy_step e pc)"
  using apply_revocation_revoked_jti by (cases e) auto

lemma ingest_cases: "ingest loads env t p pc = pc \<or> (\<exists>e. ingest loads env t p pc = policy_step e pc)"
proof -
  have "ingest loads env t p pc \<in> {pc} \<union> range (\<lambda>d. apply_grant d pc) \<union> range (\<lambda>d. apply_revocation d pc)"
    by (auto simp: ingest_def split: option.splits json.splits)
  then show ?thesis by (auto intro: exI [of _ "Grant _"] exI [of _ "Revocation _"])
qed

lemma policy_reach_inv: "policy_reach name pc \<Longrightarrow> policy_inv pc \<and> service_name pc = name"
  by (induction rule: policy_reach.induct)
    (auto simp: policy_inv_new policy_inv_step, simp add: new_policy_cache_def)

lemma fold_revoked_jti: "revoked_jti pc \<subseteq> revoked_jti (fold policy_step es pc)"
proof (induction es arbitrary: pc)
  case (Cons e es)
  have "revoked_jti pc \<subseteq> revoked_jti (policy_step e pc)" by (rule policy_step_revoked_jti)
  also have "\<dots> \<subseteq> revoked_jti (fold policy_step es (policy_step e pc))" by (rule Cons.IH)
  finally show ?case by simp
qed simp

lemma authorize_allowed_iff:
  "fst (authorize env pc c scope) \<longleftrightarrow>
     (enforcement_enabled env \<longrightarrow>
        sub c \<noteq> ''anonymous'' \<and> jti c \<notin> revoked_jti pc \<and> scope \<in> scopes c \<and>
        sub c \<notin> revoked_consumers pc \<and>
        (\<exists>g. grants_by_consumer pc (sub c) = Some g \<and> grant_live pc g scope \<and>
           (service g = None \<or> service g = Some [] \<or> service g = Some (service_name pc))))"
  by (auto simp: authorize_def grant_live_def split: option.splits)

lemma authorize_cases:
  "authorize env pc c scope = (True, None) \<or> (\<exists>r. authorize env pc c scope = (False, Some r) \<and> r \<noteq> [])"
  unfolding authorize_def by (simp split: option.split)

text \<open>The consumer a grant names, and what only a grant can do: lift a consumer's revocation.\<close>

definition grant_consumer :: "dict \<Rightarrow> string" where
  "grant_consumer d = first_text d [''consumer_addon_id'', ''addon_id'', ''sub'']"

fun grants_to :: "string \<Rightarrow> policy_event \<Rightarrow> bool" where
  "grants_to c (Grant d) = (grant_consumer d = c)"
| "grants_to c (Revocation d) = False"

lemma apply_grant_keeps_revoked:
  "c \<in> revoked_consumers pc \<Longrightarrow> grant_consumer d \<noteq> c \<Longrightarrow> c \<in> revoked_consumers (apply_grant d pc)"
  by (auto simp: apply_grant_def grant_consumer_def Let_def split: option.splits)

lemma apply_revocation_keeps_revoked:
  "c \<in> revoked_consumers pc \<Longrightarrow> c \<in> revoked_consumers (apply_revocation d pc)"
  by (simp add: apply_revocation_def Let_def)

lemma fold_keeps_revoked:
  "c \<in> revoked_consumers pc \<Longrightarrow> list_all (\<lambda>e. \<not> grants_to c e) es \<Longrightarrow>
     c \<in> revoked_consumers (fold policy_step es pc)"
proof (induction es arbitrary: pc)
  case (Cons e es)
  then have "c \<in> revoked_consumers (policy_step e pc)"
    by (cases e) (auto intro: apply_grant_keeps_revoked apply_revocation_keeps_revoked)
  with Cons show ?case by simp
qed simp

lemma revocation_revokes_consumer:
  "first_text d [''consumer_addon_id'', ''addon_id''] = c \<Longrightarrow> c \<noteq> [] \<Longrightarrow>
     c \<in> revoked_consumers (apply_revocation d pc)"
  by (simp add: apply_revocation_def Let_def)

definition example_policy_env :: env where
  "example_policy_env = (\<lambda>_. None)(''SYNTHIA_POLICY_ENFORCEMENT'' := Some ''true'')"

definition example_grant :: dict where
  "example_grant = [(''consumer_addon_id'', JStr ''vision''), (''service'', JStr ''mqtt''),
     (''grant_id'', JStr ''g1''), (''scopes'', JList [JStr ''mqtt.publish''])]"

definition example_claims :: service_token_claims where
  "example_claims = \<lparr>sub = ''vision'', aud = ''mqtt'', jti = ''t1'',
     scopes = {''mqtt.publish''}, raw = []\<rparr>"

lemma example_enforced: "enforcement_enabled example_policy_env"
  by code_simp

section \<open>Properties\<close>

text \<open>in every reachable policy cache a stored grant is filed under its own consumer, is for
  this service or for any, is neither revoked nor expired, and its consumer is not revoked.\<close>

theorem policy_cache_invariant:
  assumes "policy_reach name pc" and "grants_by_consumer pc c = Some g"
  shows "filed_under name c g \<and> c \<notin> revoked_consumers pc"
  using policy_reach_inv [OF assms(1)] assms(2) by (auto simp: policy_inv_def)

lemma example_reach: "policy_reach ''mqtt'' (policy_step (Grant example_grant) (new_policy_cache ''mqtt''))"
  by (intro policy_next policy_start)

theorem policy_cache_invariant_witness:
  "\<exists>g. filed_under ''mqtt'' ''vision'' g \<and>
     ''vision'' \<notin> revoked_consumers (policy_step (Grant example_grant) (new_policy_cache ''mqtt''))"
proof -
  have "grants_by_consumer (policy_step (Grant example_grant) (new_policy_cache ''mqtt'')) ''vision'' \<noteq> None"
    by code_simp
  then show ?thesis using policy_cache_invariant [OF example_reach] by blast
qed

text \<open>C9: over a reachable cache, and with enforcement on, authorize allows exactly the
  authenticated callers whose token is not revoked and has the scope, who are not revoked
  themselves, and who hold an active, unrevoked grant that covers the scope.\<close>

theorem authorize_iff_live_grant:
  assumes "policy_reach name pc"
  shows "fst (authorize env pc c scope) =
    (if enforcement_enabled env then
       sub c \<noteq> ''anonymous'' \<and> jti c \<notin> revoked_jti pc \<and> scope \<in> scopes c \<and>
       sub c \<notin> revoked_consumers pc \<and>
       (\<exists>g. grants_by_consumer pc (sub c) = Some g \<and> grant_live pc g scope)
     else True)"
proof -
  have "service g = None \<or> service g = Some (service_name pc)"
    if "grants_by_consumer pc (sub c) = Some g" for g
    using policy_reach_inv [OF assms] that by (auto simp: policy_inv_def filed_under_def)
  then show ?thesis by (auto simp: authorize_allowed_iff)
qed

lemma example_authorized:
  "fst (authorize example_policy_env (policy_step (Grant example_grant) (new_policy_cache ''mqtt''))
     example_claims ''mqtt.publish'')"
  by code_simp

theorem authorize_iff_live_grant_witness:
  "\<exists>g. grants_by_consumer (policy_step (Grant example_grant) (new_policy_cache ''mqtt''))
        (sub example_claims) = Some g \<and>
     grant_live (policy_step (Grant example_grant) (new_policy_cache ''mqtt'')) g ''mqtt.publish''"
  using example_authorized example_enforced
  unfolding authorize_iff_live_grant [OF example_reach] by simp

text \<open>once a token id is revoked, no later sequence of grants and revocations makes the
  cache accept that token again.\<close>

theorem revoked_token_stays_revoked:
  assumes "enforcement_enabled env" and "jti c \<in> revoked_jti pc"
  shows "\<not> fst (authorize env (fold policy_step es pc) c scope)"
  using assms fold_revoked_jti [of pc es] by (auto simp: authorize_allowed_iff)

theorem revoked_token_stays_revoked_witness:
  "\<not> fst (authorize example_policy_env
     (fold policy_step [Grant example_grant]
        (policy_step (Revocation [(''jti'', JStr ''t1'')]) (new_policy_cache ''mqtt'')))
     example_claims ''mqtt.publish'')"
proof (rule revoked_token_stays_revoked [OF example_enforced])
  show "jti example_claims \<in> revoked_jti (policy_step (Revocation [(''jti'', JStr ''t1'')])
      (new_policy_cache ''mqtt''))"
    by code_simp
qed

text \<open>after a revocation of a consumer the cache denies that consumer for as long as no
  grant naming it arrives, whatever else does.\<close>

theorem revoked_consumer_denied_until_granted:
  assumes "enforcement_enabled env" and "sub c \<noteq> []"
    and "first_text d [''consumer_addon_id'', ''addon_id''] = sub c"
    and "list_all (\<lambda>e. \<not> grants_to (sub c) e) es"
  shows "\<not> fst (authorize env (fold policy_step es (policy_step (Revocation d) pc)) c scope)"
proof -
  have "sub c \<in> revoked_consumers (policy_step (Revocation d) pc)"
    using assms(2,3) by (simp add: revocation_revokes_consumer)
  then have "sub c \<in> revoked_consumers (fold policy_step es (policy_step (Revocation d) pc))"
    using assms(4) by (rule fold_keeps_revoked)
  with assms(1) show ?thesis by (simp add: authorize_allowed_iff)
qed

theorem revoked_consumer_denied_until_granted_witness:
  "\<not> fst (authorize example_policy_env
     (fold policy_step [Grant [(''sub'', JStr ''other'')], Revocation [(''jti'', JStr ''t9'')]]
        (policy_step (Revocation [(''addon_id'', JStr ''vision'')])
           (policy_step (Grant example_grant) (new_policy_cache ''mqtt''))))
     example_claims ''mqtt.publish'')"
  by (rule revoked_consumer_denied_until_granted [OF example_enforced]; code_simp)

end
