(* ===== verification/Health_Service.thy ===== *)
theory Health_Service
  imports Py_Json
begin

text \<open>
  app/services/health.py (connection health of the service), app/services/lifecycle_topics.py
  (the announce and health topics and their payloads) and app/services/mqtt_metrics_store.py
  (the persisted reconnect counter). The monotonic clock counts nanoseconds and the wall
  clock seconds; \<open>isoformat\<close> is how an instant is written.
\<close>

section \<open>Health\<close>

record health =
  started_monotonic :: int
  mqtt_connected :: bool
  last_error :: "string option"
  offline :: bool

record health_snapshot =
  snap_status :: string
  snap_mqtt_connected :: bool
  snap_last_error :: "string option"
  uptime_seconds :: int

definition new_health :: "int \<Rightarrow> health" where
  "new_health now = \<lparr>started_monotonic = now, mqtt_connected = False, last_error = None, offline = False\<rparr>"

definition set_mqtt_connected :: "bool \<Rightarrow> health \<Rightarrow> health" where
  "set_mqtt_connected connected h =
     (let h1 = h\<lparr>mqtt_connected := connected\<rparr>;
          h2 = (if connected then h1\<lparr>offline := False\<rparr> else h1)
      in if connected then h2\<lparr>last_error := None\<rparr> else h2)"

definition set_last_error :: "string option \<Rightarrow> health \<Rightarrow> health" where
  "set_last_error e h = h\<lparr>last_error := e\<rparr>"

definition mark_offline :: "health \<Rightarrow> health" where
  "mark_offline h = h\<lparr>offline := True\<rparr>"

definition snapshot :: "int \<Rightarrow> health \<Rightarrow> health_snapshot" where
  "snapshot now h =
     (let status = (if offline h then ''offline''
        else if \<not> mqtt_connected h \<or> (last_error h \<noteq> None \<and> last_error h \<noteq> Some [])
        then ''degraded'' else ''healthy'')
      in \<lparr>snap_status = status, snap_mqtt_connected = mqtt_connected h,
          snap_last_error = last_error h,
          uptime_seconds = (now - started_monotonic h) div 1000000000\<rparr>)"

datatype health_event = Connected bool | Error_Set "string option" | Went_Offline

fun health_step :: "health_event \<Rightarrow> health \<Rightarrow> health" where
  "health_step (Connected b) h = set_mqtt_connected b h"
| "health_step (Error_Set e) h = set_last_error e h"
| "health_step Went_Offline h = mark_offline h"

section \<open>Lifecycle topics\<close>

record lifecycle =
  lc_base :: string
  lc_addon_id :: string
  lc_qos_default :: int

definition new_lifecycle :: "string \<Rightarrow> string \<Rightarrow> int \<Rightarrow> lifecycle" where
  "new_lifecycle mqtt_base_topic addon_id qos_default =
     (let base = (if strip mqtt_base_topic = [] then ''synthia'' else strip mqtt_base_topic)
      in \<lparr>lc_base = rstrip_char (CHR ''/'') base, lc_addon_id = addon_id, lc_qos_default = qos_default\<rparr>)"

definition announce_topic :: "lifecycle \<Rightarrow> string" where
  "announce_topic l = lc_base l @ ''/addons/'' @ lc_addon_id l @ ''/announce''"

definition health_topic :: "lifecycle \<Rightarrow> string" where
  "health_topic l = lc_base l @ ''/addons/'' @ lc_addon_id l @ ''/health''"

definition announce_payload ::
  "(int \<Rightarrow> string) \<Rightarrow> int \<Rightarrow> lifecycle \<Rightarrow> string \<Rightarrow> string \<Rightarrow> string \<Rightarrow> string \<Rightarrow> string list \<Rightarrow> dict" where
  "announce_payload isoformat now l base_url version api_version mode capabilities =
     [(''id'', JStr (lc_addon_id l)), (''addon_id'', JStr (lc_addon_id l)),
      (''base_url'', JStr base_url), (''version'', JStr version),
      (''api_version'', JStr api_version), (''mode'', JStr mode),
      (''capabilities'', JList (map JStr capabilities)), (''timestamp'', JStr (isoformat now))]"

definition health_payload :: "(int \<Rightarrow> string) \<Rightarrow> int \<Rightarrow> bool \<Rightarrow> int \<Rightarrow> dict" where
  "health_payload isoformat now connected heartbeat_interval_s =
     (let fresh_until = now + max (heartbeat_interval_s * 2) 1
      in [(''status'', JStr (if connected then ''healthy'' else ''degraded'')),
          (''last_seen'', JStr (isoformat now)), (''fresh_until'', JStr (isoformat fresh_until)),
          (''stale_after_s'', JInt (max (heartbeat_interval_s * 2) 1))])"

definition offline_payload :: "(int \<Rightarrow> string) \<Rightarrow> int \<Rightarrow> string \<Rightarrow> dict" where
  "offline_payload isoformat now reason =
     [(''status'', JStr ''offline''), (''last_seen'', JStr (isoformat now)),
      (''fresh_until'', JStr (isoformat now)), (''stale_after_s'', JInt 0),
      (''offline_reason'', JStr reason)]"

section \<open>Reconnect counter\<close>

definition metrics_load :: "json_file \<Rightarrow> dict res" where
  "metrics_load f =
     (case f of
        Doc (JObj d) \<Rightarrow>
          res_bind (py_int (dget_or d ''reconnect_count'' (JInt 0))) (\<lambda>n.
          Inr [(''reconnect_count'', JInt n)])
      | _ \<Rightarrow> Inr [(''reconnect_count'', JInt 0)])"

definition reconnect_count :: "json_file \<Rightarrow> int res" where
  "reconnect_count f =
     res_bind (metrics_load f) (\<lambda>state. py_int (dget_or state ''reconnect_count'' (JInt 0)))"

definition increment_reconnects :: "(json_file, int) run" where
  "increment_reconnects f =
     (case metrics_load f of
        Inl e \<Rightarrow> (Inl e, f)
      | Inr state \<Rightarrow>
          (case py_int (dget_or state ''reconnect_count'' (JInt 0)) of
             Inl e \<Rightarrow> (Inl e, f)
           | Inr n \<Rightarrow> (Inr (n + 1), Doc (sort_keys (JObj (dset ''reconnect_count'' (JInt (n + 1)) state))))))"

section \<open>Lemmas\<close>

text \<open>What the health events leave, as a function of the whole history.\<close>

fun last_connected :: "bool \<Rightarrow> health_event list \<Rightarrow> bool" where
  "last_connected b [] = b"
| "last_connected b (Connected c # es) = last_connected c es"
| "last_connected b (_ # es) = last_connected b es"

text \<open>The error that stands: set by an error, cleared by a connection.\<close>

fun last_fault :: "string option \<Rightarrow> health_event list \<Rightarrow> string option" where
  "last_fault f [] = f"
| "last_fault f (Connected c # es) = last_fault (if c then None else f) es"
| "last_fault f (Error_Set e # es) = last_fault e es"
| "last_fault f (Went_Offline # es) = last_fault f es"

text \<open>Offline until the next connection.\<close>

fun last_offline :: "bool \<Rightarrow> health_event list \<Rightarrow> bool" where
  "last_offline b [] = b"
| "last_offline b (Connected c # es) = last_offline (if c then False else b) es"
| "last_offline b (Error_Set e # es) = last_offline b es"
| "last_offline b (Went_Offline # es) = last_offline True es"

lemma health_history:
  "mqtt_connected (fold health_step es h) = last_connected (mqtt_connected h) es \<and>
   last_error (fold health_step es h) = last_fault (last_error h) es \<and>
   offline (fold health_step es h) = last_offline (offline h) es"
proof (induction es arbitrary: h)
  case (Cons e es)
  then show ?case
    by (cases e) (simp_all add: set_mqtt_connected_def set_last_error_def mark_offline_def Let_def)
qed simp

lemma rstrip_char_last: "rstrip_char c s \<noteq> [] \<Longrightarrow> last (rstrip_char c s) \<noteq> c"
proof -
  assume ne: "rstrip_char c s \<noteq> []"
  then have "dropWhile (\<lambda>x. x = c) (rev s) \<noteq> []" by (simp add: rstrip_char_def)
  from hd_dropWhile_not [OF this] ne show ?thesis by (simp add: rstrip_char_def last_rev)
qed

lemma increment_reconnects_ok:
  assumes "reconnect_count f = Inr n"
  shows "\<exists>f'. increment_reconnects f = (Inr (n + 1), f') \<and> reconnect_count f' = Inr (n + 1)"
proof -
  obtain st where st: "metrics_load f = Inr st" "py_int (dget_or st ''reconnect_count'' (JInt 0)) = Inr n"
    using assms by (auto simp: reconnect_count_def res_bind_Inr_iff)
  then have d: "dset ''reconnect_count'' (JInt (n + 1)) st = [(''reconnect_count'', JInt (n + 1))]"
    by (auto simp: metrics_load_def dset_def res_bind_Inr_iff split: json_file.splits json.splits)
  have "increment_reconnects f = (Inr (n + 1), Doc (JObj [(''reconnect_count'', JInt (n + 1))]))"
    using st d by (simp add: increment_reconnects_def)
  then show ?thesis by (simp add: reconnect_count_def metrics_load_def dget_or_def)
qed

fun increment_times :: "nat \<Rightarrow> json_file \<Rightarrow> json_file" where
  "increment_times 0 f = f"
| "increment_times (Suc k) f = increment_times k (snd (increment_reconnects f))"

section \<open>Properties\<close>

text \<open>the snapshot is a function of the history: offline since the last shutdown without a
  later connection, otherwise healthy exactly when connected with no standing error.\<close>

theorem snapshot_of_history:
  "snap_status (snapshot now (fold health_step es (new_health t0))) =
     (if last_offline False es then ''offline''
      else if last_connected False es \<and> (last_fault None es = None \<or> last_fault None es = Some [])
      then ''healthy'' else ''degraded'')"
  using health_history [of es "new_health t0"] by (auto simp: snapshot_def new_health_def Let_def)

text \<open>k increments of the persisted reconnect counter add exactly k to any count that could
  be read.\<close>

theorem reconnect_counter_counts:
  assumes "reconnect_count f = Inr n"
  shows "reconnect_count (increment_times k f) = Inr (n + int k)"
  using assms
proof (induction k arbitrary: f n)
  case (Suc k)
  obtain f' where f': "increment_reconnects f = (Inr (n + 1), f')" "reconnect_count f' = Inr (n + 1)"
    using increment_reconnects_ok [OF Suc.prems] by blast
  with Suc.IH [OF f'(2)] show ?case by simp
qed simp

theorem reconnect_counter_counts_witness:
  "reconnect_count (increment_times 3 Garbage) = Inr (0 + int 3)"
  by (rule reconnect_counter_counts) (simp add: reconnect_count_def metrics_load_def dget_or_def)

end
