(* ===== verification/Mqtt_Client.thy ===== *)
theory Mqtt_Client
  imports Config_Store Policy_Cache Health_Service
begin

text \<open>
  app/services/mqtt_client.py: the service around the paho client. paho is a parameter: what
  its \<open>publish\<close> answers (a return code, or an exception) to a message, given the messages
  before it. What the service asks of it is recorded in the state. The callbacks are
  operations that paho calls; the service shares its health, its policy cache and its metrics
  file with the rest of the program.
\<close>

section \<open>State\<close>

text \<open>A message body is a text or the \<open>json.dumps\<close> of a value.\<close>

datatype wire_body = Text string | Dumped json

record mqtt_message =
  mm_topic :: string
  mm_body :: wire_body
  mm_qos :: int
  mm_retain :: bool

type_synonym paho = "mqtt_message list \<Rightarrow> mqtt_message \<Rightarrow> int res"

text \<open>The parameters of one call: environment, clock, \<open>isoformat\<close>, \<open>json.loads\<close> and paho.\<close>

record runtime =
  rt_env :: env
  rt_now :: int
  rt_isoformat :: "int \<Rightarrow> string"
  rt_loads :: "string \<Rightarrow> json option"
  rt_paho :: paho

text \<open>The fields of \<open>MqttClientService\<close> that do not change after \<open>__init__\<close>.\<close>

record mqtt_service =
  ms_config :: eff_config
  ms_capabilities :: "string list"
  ms_version :: string
  ms_api_version :: string
  ms_mode :: string
  ms_announce_base_url :: string
  ms_lifecycle :: lifecycle
  ms_has_policy :: bool
  ms_has_metrics :: bool

record client_world =
  cw_health :: health
  cw_policy :: policy_cache
  cw_metrics :: json_file
  cw_outbox :: "mqtt_message list"
  cw_subscriptions :: "(string \<times> int) list"
  cw_credentials :: "(string \<times> string option) option"
  cw_tls :: bool
  cw_will :: "mqtt_message option"
  cw_connection :: "(string \<times> int) option"
  cw_running :: bool

section \<open>Construction, start and stop\<close>

definition ms_qos :: "mqtt_service \<Rightarrow> int" where
  "ms_qos s = eff_qos (ms_config s)"

definition health_interval_s :: int where
  "health_interval_s = 15"

text \<open>
  Constructing the service asks three things of paho's client; two of them may raise:
  \<open>tls_set\<close> and \<open>will_set\<close>. What they raise is a parameter; paho documents that \<open>will_set\<close>
  raises \<open>ValueError\<close> exactly when the QoS is not 0, 1 or 2 or the topic is empty.
\<close>

record paho_setup =
  ps_tls_set :: "exn option"
  ps_will_set :: "mqtt_message \<Rightarrow> exn option"

definition documented_paho :: "paho_setup \<Rightarrow> bool" where
  "documented_paho ps =
     (\<forall>m. if 0 \<le> mm_qos m \<and> mm_qos m \<le> 2 \<and> mm_topic m \<noteq> [] then ps_will_set ps m = None
        else \<exists>why. ps_will_set ps m = Some (ValueError why))"

text \<open>The client that cannot be built is dropped: what was asked of the one before stays.\<close>

definition new_mqtt_service ::
  "runtime \<Rightarrow> paho_setup \<Rightarrow> eff_config \<Rightarrow> string list \<Rightarrow> string \<Rightarrow> string \<Rightarrow> string \<Rightarrow> string \<Rightarrow> string \<Rightarrow> bool \<Rightarrow> bool \<Rightarrow>
   ('a client_world_scheme, mqtt_service) run" where
  "new_mqtt_service rt ps config capabilities addon_id version api_version mode base_url policy metrics w =
     (let lc = new_lifecycle (py_str (eff_base_topic config)) addon_id (eff_qos config);
          s = \<lparr>ms_config = config, ms_capabilities = capabilities, ms_version = version,
            ms_api_version = api_version, ms_mode = mode, ms_announce_base_url = base_url,
            ms_lifecycle = lc, ms_has_policy = policy, ms_has_metrics = metrics\<rparr>;
          will = \<lparr>mm_topic = health_topic lc,
            mm_body = Dumped (JObj (offline_payload (rt_isoformat rt) (rt_now rt) ''lwt'')),
            mm_qos = eff_qos config, mm_retain = True\<rparr> in
      case (if eff_tls config then ps_tls_set ps else None) of
        Some e \<Rightarrow> (Inl e, w)
      | None \<Rightarrow>
      (case ps_will_set ps will of
        Some e \<Rightarrow> (Inl e, w)
      | None \<Rightarrow>
      (Inr s, w\<lparr>cw_credentials := (if truthy (eff_username config)
               then Some (py_str (eff_username config),
                 if truthy (eff_password config) then Some (py_str (eff_password config)) else None)
               else None),
            cw_tls := eff_tls config, cw_will := Some will\<rparr>)))"

definition start :: "mqtt_service \<Rightarrow> 'a client_world_scheme \<Rightarrow> 'a client_world_scheme" where
  "start s w = w\<lparr>cw_connection := Some (py_str (eff_host (ms_config s)), eff_port (ms_config s)),
     cw_running := True\<rparr>"

definition stop :: "mqtt_service \<Rightarrow> 'a client_world_scheme \<Rightarrow> 'a client_world_scheme" where
  "stop s w = w\<lparr>cw_health := mark_offline (cw_health w), cw_running := False, cw_connection := None\<rparr>"

section \<open>Publishing\<close>

definition message_body :: "json \<Rightarrow> wire_body" where
  "message_body payload = (case payload of JStr s \<Rightarrow> Text s | _ \<Rightarrow> Dumped payload)"

definition publish_failed :: "int \<Rightarrow> string" where
  "publish_failed rc = ''Publish failed with rc='' @ int_to_dec rc"

definition mqtt_publish ::
  "runtime \<Rightarrow> string \<Rightarrow> json \<Rightarrow> bool \<Rightarrow> int \<Rightarrow> ('a client_world_scheme, bool) run" where
  "mqtt_publish rt topic payload retain qos w =
     (let message = \<lparr>mm_topic = topic, mm_body = message_body payload, mm_qos = qos, mm_retain = retain\<rparr> in
      case rt_paho rt (cw_outbox w) message of
        Inl e \<Rightarrow> (Inl e, w)
      | Inr rc \<Rightarrow>
          let ok = (rc = 0);
              w1 = w\<lparr>cw_outbox := cw_outbox w @ [message]\<rparr> in
          (Inr ok, if \<not> ok then w1\<lparr>cw_health := set_last_error (Some (publish_failed rc)) (cw_health w1)\<rparr>
                   else w1))"

definition publish_announce :: "runtime \<Rightarrow> mqtt_service \<Rightarrow> ('a client_world_scheme, bool) run" where
  "publish_announce rt s =
     mqtt_publish rt (announce_topic (ms_lifecycle s))
       (JObj (announce_payload (rt_isoformat rt) (rt_now rt) (ms_lifecycle s) (ms_announce_base_url s)
          (ms_version s) (ms_api_version s) (ms_mode s) (ms_capabilities s)))
       True (ms_qos s)"

text \<open>Also the body of the loop of the health thread.\<close>

definition publish_health :: "runtime \<Rightarrow> mqtt_service \<Rightarrow> ('a client_world_scheme, bool) run" where
  "publish_health rt s w =
     mqtt_publish rt (health_topic (ms_lifecycle s))
       (JObj (health_payload (rt_isoformat rt) (rt_now rt) (mqtt_connected (cw_health w)) health_interval_s))
       True (ms_qos s) w"

definition policy_active :: "runtime \<Rightarrow> mqtt_service \<Rightarrow> bool" where
  "policy_active rt s = (ms_has_policy s \<and> enforcement_enabled (rt_env rt))"

definition subscribe_policy_topics ::
  "runtime \<Rightarrow> mqtt_service \<Rightarrow> 'a client_world_scheme \<Rightarrow> 'a client_world_scheme" where
  "subscribe_policy_topics rt s w =
     (if \<not> policy_active rt s then w
      else
        let base_topic = py_str (eff_base_topic (ms_config s)) in
        w\<lparr>cw_subscriptions := cw_subscriptions w @
            [(base_topic @ ''/policy/grants/+'', ms_qos s), (base_topic @ ''/policy/revocations/+'', ms_qos s)]\<rparr>)"

section \<open>Callbacks\<close>

definition on_connect :: "runtime \<Rightarrow> mqtt_service \<Rightarrow> int \<Rightarrow> ('a client_world_scheme, unit) run" where
  "on_connect rt s rc w =
     (if rc = 0 then
        let w1 = w\<lparr>cw_health := set_mqtt_connected True (cw_health w)\<rparr>;
            w2 = subscribe_policy_topics rt s w1 in
        run_bind (publish_announce rt s) (\<lambda>_.
        run_bind (publish_health rt s) (\<lambda>_.
        run_return ())) w2
      else
        (Inr (), w\<lparr>cw_health := set_last_error (Some (''MQTT connect failed with rc='' @ int_to_dec rc))
           (set_mqtt_connected False (cw_health w))\<rparr>))"

definition on_disconnect :: "mqtt_service \<Rightarrow> int \<Rightarrow> ('a client_world_scheme, unit) run" where
  "on_disconnect s rc w =
     (let w1 = w\<lparr>cw_health := set_mqtt_connected False (cw_health w)\<rparr> in
      if rc \<noteq> 0 then
        (case (if ms_has_metrics s then increment_reconnects (cw_metrics w1) else (Inr 0, cw_metrics w1)) of
           (Inl e, f) \<Rightarrow> (Inl e, w1\<lparr>cw_metrics := f\<rparr>)
         | (Inr _, f) \<Rightarrow>
             (Inr (), w1\<lparr>cw_metrics := f, cw_health := set_last_error
                (Some (''MQTT disconnected unexpectedly rc='' @ int_to_dec rc)) (cw_health w1)\<rparr>))
      else (Inr (), w1))"

text \<open>The payload is already decoded (\<open>errors="replace"\<close>, which does not fail).\<close>

definition on_message ::
  "runtime \<Rightarrow> mqtt_service \<Rightarrow> string \<Rightarrow> string \<Rightarrow> 'a client_world_scheme \<Rightarrow> 'a client_world_scheme" where
  "on_message rt s topic payload_text w =
     (if \<not> policy_active rt s then w
      else w\<lparr>cw_policy := ingest (rt_loads rt) (rt_env rt) topic payload_text (cw_policy w)\<rparr>)"

text \<open>When the service can be built, and what it then is.\<close>

definition service_built :: "paho_setup \<Rightarrow> eff_config \<Rightarrow> bool" where
  "service_built ps config =
     (0 \<le> eff_qos config \<and> eff_qos config \<le> 2 \<and> (eff_tls config \<longrightarrow> ps_tls_set ps = None))"

lemma new_mqtt_service_fields:
  assumes "new_mqtt_service rt ps config caps a v api mode url p m w = (res, w')"
  shows "cw_policy w' = cw_policy w \<and> cw_outbox w' = cw_outbox w \<and> cw_health w' = cw_health w \<and>
    cw_metrics w' = cw_metrics w \<and> client_world.more w' = client_world.more w \<and> cw_running w' = cw_running w \<and>
    cw_connection w' = cw_connection w"
  using assms by (auto simp: new_mqtt_service_def Let_def split: option.splits)

lemma health_topic_nonempty: "health_topic (new_lifecycle b a q) \<noteq> []"
  by (simp add: health_topic_def)

lemma new_mqtt_service_built:
  assumes "documented_paho ps" and "service_built ps config"
  shows "\<exists>s w'. new_mqtt_service rt ps config caps a v api mode url p m w = (Inr s, w') \<and> ms_config s = config"
proof -
  have "ps_will_set ps \<lparr>mm_topic = health_topic (new_lifecycle b a q), mm_body = body, mm_qos = eff_qos config,
      mm_retain = True\<rparr> = None" for b q body
    using assms health_topic_nonempty [of b a q] by (auto simp: documented_paho_def service_built_def)
  with assms(2) show ?thesis by (simp add: new_mqtt_service_def service_built_def Let_def)
qed

text \<open>With a QoS that is not one of MQTT's, which no model of the service refuses, it cannot.\<close>

lemma new_mqtt_service_bad_qos:
  assumes "documented_paho ps" and "\<not> (0 \<le> eff_qos config \<and> eff_qos config \<le> 2)"
  shows "\<exists>e. new_mqtt_service rt ps config caps a v api mode url p m w = (Inl e, w)"
proof -
  have "\<exists>why. ps_will_set ps \<lparr>mm_topic = t, mm_body = body, mm_qos = eff_qos config, mm_retain = True\<rparr>
      = Some (ValueError why)" for t body
    using assms by (auto simp: documented_paho_def split: if_splits dest: spec [of _ "\<lparr>mm_topic = t, mm_body = body, mm_qos = eff_qos config, mm_retain = True\<rparr>"])
  then obtain why where "ps_will_set ps \<lparr>mm_topic = health_topic (new_lifecycle (py_str (eff_base_topic config)) a
        (eff_qos config)), mm_body = Dumped (JObj (offline_payload (rt_isoformat rt) (rt_now rt) ''lwt'')),
      mm_qos = eff_qos config, mm_retain = True\<rparr> = Some (ValueError why)" by blast
  then show ?thesis by (simp add: new_mqtt_service_def Let_def split: option.splits)
qed

section \<open>Testing an external broker\<close>

text \<open>
  The callbacks that arrive before the wait ends, in order. The wait ends with the first
  connect callback; with none of them it times out.
\<close>

datatype test_event = Test_Connect int | Test_Disconnect int

fun wait_connected :: "string option \<Rightarrow> test_event list \<Rightarrow> (bool \<times> string option) option" where
  "wait_connected reason [] = None"
| "wait_connected reason (Test_Connect rc # es) =
     Some (let reason' = (if rc = 0 then reason else Some (''MQTT connect failed with rc='' @ int_to_dec rc)) in
       (reason' = None, reason'))"
| "wait_connected reason (Test_Disconnect rc # es) =
     wait_connected (if rc \<noteq> 0 \<and> reason = None
       then Some (''MQTT disconnected unexpectedly rc='' @ int_to_dec rc) else reason) es"

text \<open>\<open>connect_error\<close> is the text of the exception \<open>client.connect\<close> raises, if it does.\<close>

definition test_external_connection ::
  "string \<Rightarrow> int \<Rightarrow> string option \<Rightarrow> test_event list \<Rightarrow> bool \<times> string option" where
  "test_external_connection host port connect_error events =
     (case connect_error of
        Some e \<Rightarrow> (False, Some e)
      | None \<Rightarrow>
          (case wait_connected None events of
             None \<Rightarrow> (False, Some (''Timed out connecting to '' @ host @ '':'' @ int_to_dec port))
           | Some r \<Rightarrow> r))"

section \<open>The service as a machine\<close>

text \<open>What happens to the client, and a run of it; exceptions of callbacks stay in paho's thread.\<close>

datatype client_event = Ev_Connect int | Ev_Disconnect int | Ev_Message string string | Ev_Heartbeat

fun client_step :: "runtime \<Rightarrow> mqtt_service \<Rightarrow> client_event \<Rightarrow> 'a client_world_scheme \<Rightarrow> 'a client_world_scheme" where
  "client_step rt s (Ev_Connect rc) w = snd (on_connect rt s rc w)"
| "client_step rt s (Ev_Disconnect rc) w = snd (on_disconnect s rc w)"
| "client_step rt s (Ev_Message t p) w = on_message rt s t p w"
| "client_step rt s Ev_Heartbeat w = snd (publish_health rt s w)"

section \<open>Lemmas\<close>

lemma mqtt_publish_fields:
  "cw_policy (snd (mqtt_publish rt t p r q w)) = cw_policy w"
  "cw_metrics (snd (mqtt_publish rt t p r q w)) = cw_metrics w"
  "mqtt_connected (cw_health (snd (mqtt_publish rt t p r q w))) = mqtt_connected (cw_health w)"
  "offline (cw_health (snd (mqtt_publish rt t p r q w))) = offline (cw_health w)"
  "cw_subscriptions (snd (mqtt_publish rt t p r q w)) = cw_subscriptions w"
  by (simp_all add: mqtt_publish_def Let_def set_last_error_def split: sum.splits)

lemma mqtt_publish_outbox:
  "cw_outbox (snd (mqtt_publish rt t p r q w)) =
     cw_outbox w @ (case fst (mqtt_publish rt t p r q w) of Inl _ \<Rightarrow> []
       | Inr _ \<Rightarrow> [\<lparr>mm_topic = t, mm_body = message_body p, mm_qos = q, mm_retain = r\<rparr>])"
  by (simp add: mqtt_publish_def Let_def split: sum.splits)

lemma on_connect_snd:
  "snd (on_connect rt s rc w) =
     (if rc = 0 then
        let w2 = subscribe_policy_topics rt s (w\<lparr>cw_health := set_mqtt_connected True (cw_health w)\<rparr>);
            w3 = snd (publish_announce rt s w2) in
        (case fst (publish_announce rt s w2) of Inl _ \<Rightarrow> w3 | Inr _ \<Rightarrow> snd (publish_health rt s w3))
      else w\<lparr>cw_health := set_last_error (Some (''MQTT connect failed with rc='' @ int_to_dec rc))
           (set_mqtt_connected False (cw_health w))\<rparr>)"
  by (auto simp: on_connect_def Let_def runs split: prod.splits sum.splits)

lemma subscribe_fields [simp]:
  "cw_health (subscribe_policy_topics rt s w) = cw_health w"
  "cw_policy (subscribe_policy_topics rt s w) = cw_policy w"
  "cw_metrics (subscribe_policy_topics rt s w) = cw_metrics w"
  "cw_outbox (subscribe_policy_topics rt s w) = cw_outbox w"
  by (simp_all add: subscribe_policy_topics_def Let_def)

lemma set_mqtt_connected_fields [simp]:
  "mqtt_connected (set_mqtt_connected b h) = b"
  "mqtt_connected (set_last_error e h) = mqtt_connected h"
  by (simp_all add: set_mqtt_connected_def set_last_error_def Let_def)

lemma on_connect_fields:
  "mqtt_connected (cw_health (snd (on_connect rt s rc w))) = (rc = 0)"
  "cw_policy (snd (on_connect rt s rc w)) = cw_policy w"
  "cw_metrics (snd (on_connect rt s rc w)) = cw_metrics w"
  by (simp_all add: on_connect_snd Let_def publish_announce_def publish_health_def
      mqtt_publish_fields split: sum.splits)

lemma on_disconnect_fields:
  "mqtt_connected (cw_health (snd (on_disconnect s rc w))) = False"
  "cw_policy (snd (on_disconnect s rc w)) = cw_policy w"
  "cw_outbox (snd (on_disconnect s rc w)) = cw_outbox w"
  by (simp_all add: on_disconnect_def Let_def split: sum.splits prod.splits)


lemma step_policy:
  "cw_policy (client_step rt s e w) =
     (case e of Ev_Message t p \<Rightarrow>
        if policy_active rt s then ingest (rt_loads rt) (rt_env rt) t p (cw_policy w) else cw_policy w
      | _ \<Rightarrow> cw_policy w)"
  by (cases e) (simp_all add: on_connect_fields on_disconnect_fields on_message_def publish_health_def
      mqtt_publish_fields)

lemma step_connected:
  "mqtt_connected (cw_health (client_step rt s e w)) =
     (case e of Ev_Connect rc \<Rightarrow> rc = 0 | Ev_Disconnect rc \<Rightarrow> False | _ \<Rightarrow> mqtt_connected (cw_health w))"
  by (cases e) (simp_all add: on_connect_fields on_disconnect_fields on_message_def publish_health_def
      mqtt_publish_fields)

lemma step_metrics:
  assumes "ms_has_metrics s" and "reconnect_count (cw_metrics w) = Inr n"
  shows "reconnect_count (cw_metrics (client_step rt s e w)) =
    Inr (case e of Ev_Disconnect rc \<Rightarrow> if rc = 0 then n else n + 1 | _ \<Rightarrow> n)"
proof (cases e)
  case (Ev_Disconnect rc)
  obtain f' where "increment_reconnects (cw_metrics w) = (Inr (n + 1), f')" "reconnect_count f' = Inr (n + 1)"
    using increment_reconnects_ok [OF assms(2)] by blast
  then show ?thesis using assms by (simp add: Ev_Disconnect on_disconnect_def Let_def)
qed (use assms in \<open>simp_all add: on_connect_fields on_message_def publish_health_def mqtt_publish_fields\<close>)

text \<open>What a run says of the connection, the messages and the lost connections.\<close>

fun connected_after :: "bool \<Rightarrow> client_event list \<Rightarrow> bool" where
  "connected_after b [] = b"
| "connected_after b (Ev_Connect rc # es) = connected_after (rc = 0) es"
| "connected_after b (Ev_Disconnect rc # es) = connected_after False es"
| "connected_after b (_ # es) = connected_after b es"

fun messages_of :: "client_event list \<Rightarrow> (string \<times> string) list" where
  "messages_of [] = []"
| "messages_of (Ev_Message t p # es) = (t, p) # messages_of es"
| "messages_of (_ # es) = messages_of es"

fun losses_of :: "client_event list \<Rightarrow> nat" where
  "losses_of [] = 0"
| "losses_of (Ev_Disconnect rc # es) = (if rc = 0 then losses_of es else Suc (losses_of es))"
| "losses_of (_ # es) = losses_of es"

definition example_runtime :: runtime where
  "example_runtime = \<lparr>rt_env = (\<lambda>_. None)(''SYNTHIA_POLICY_ENFORCEMENT'' := Some ''true''), rt_now = 100,
     rt_isoformat = int_to_dec, rt_loads = (\<lambda>_. None), rt_paho = (\<lambda>_ _. Inr 0)\<rparr>"

definition example_eff :: eff_config where
  "example_eff = \<lparr>eff_host = JStr ''broker'', eff_port = 1883, eff_username = JNull, eff_password = JNull,
     eff_tls = False, eff_client_id = JStr ''c'', eff_base_topic = JStr ''synthia'', eff_qos = 1\<rparr>"

definition example_world :: client_world where
  "example_world = \<lparr>cw_health = new_health 0, cw_policy = new_policy_cache ''mqtt'', cw_metrics = Absent,
     cw_outbox = [], cw_subscriptions = [], cw_credentials = None, cw_tls = False, cw_will = None,
     cw_connection = None, cw_running = False\<rparr>"

text \<open>A paho that does what its documentation says.\<close>

definition example_paho :: paho_setup where
  "example_paho = \<lparr>ps_tls_set = None, ps_will_set = (\<lambda>m. if 0 \<le> mm_qos m \<and> mm_qos m \<le> 2 \<and> mm_topic m \<noteq> [] then None
     else Some (ValueError ''Invalid QoS level.''))\<rparr>"

lemma example_paho_documented: "documented_paho example_paho"
  by (simp add: documented_paho_def example_paho_def)

definition example_service :: mqtt_service where
  "example_service = (case fst (new_mqtt_service example_runtime example_paho example_eff [''publish''] ''mqtt'' ''1.0'' ''1''
     ''standalone_service'' ''http://mqtt-addon:8080'' True True example_world) of
       Inr s \<Rightarrow> s
     | Inl _ \<Rightarrow> \<lparr>ms_config = example_eff, ms_capabilities = [], ms_version = [], ms_api_version = [], ms_mode = [],
         ms_announce_base_url = [], ms_lifecycle = new_lifecycle [] [] 0, ms_has_policy = False, ms_has_metrics = False\<rparr>)"

section \<open>Properties\<close>

text \<open>
  the service takes itself for connected exactly when the last connect or disconnect
  callback was a successful connect, whatever messages, heartbeats and failed publishes came
  between.
\<close>

theorem connected_follows_callbacks:
  "mqtt_connected (cw_health (fold (client_step rt s) es w)) =
     connected_after (mqtt_connected (cw_health w)) es"
proof (induction es arbitrary: w)
  case (Cons e es)
  then show ?case by (cases e) (simp_all add: step_connected del: client_step.simps)
qed simp

text \<open>
  the policy cache is fed by the messages and by nothing else: after any run it is what
  ingesting the messages in order gives, and with enforcement off it never changes.
\<close>

theorem policy_follows_messages:
  "cw_policy (fold (client_step rt s) es w) =
     (if policy_active rt s
      then fold (\<lambda>(t, p). ingest (rt_loads rt) (rt_env rt) t p) (messages_of es) (cw_policy w)
      else cw_policy w)"
proof (induction es arbitrary: w)
  case (Cons e es)
  then show ?case by (cases e) (simp_all add: step_policy del: client_step.simps)
qed simp

text \<open>
  with a metrics file that can be read, the persisted reconnect count grows by exactly the
  number of unexpected disconnects of the run.
\<close>

theorem reconnects_counted:
  assumes "ms_has_metrics s" and "reconnect_count (cw_metrics w) = Inr n"
  shows "reconnect_count (cw_metrics (fold (client_step rt s) es w)) = Inr (n + int (losses_of es))"
  using assms(2)
proof (induction es arbitrary: w n)
  case (Cons e es)
  have "reconnect_count (cw_metrics (client_step rt s e w)) =
    Inr (case e of Ev_Disconnect rc \<Rightarrow> if rc = 0 then n else n + 1 | _ \<Rightarrow> n)"
    by (rule step_metrics [OF assms(1) Cons.prems])
  from Cons.IH [OF this] show ?case by (cases e) (simp_all del: client_step.simps)
qed simp

lemma reconnects_counted_witness:
  "reconnect_count (cw_metrics (fold (client_step example_runtime example_service)
     [Ev_Connect 0, Ev_Disconnect 7, Ev_Connect 0, Ev_Disconnect 0] example_world)) = Inr 1"
proof -
  have "ms_has_metrics example_service" "reconnect_count (cw_metrics example_world) = Inr 0" by code_simp+
  from reconnects_counted [OF this, of example_runtime
      "[Ev_Connect 0, Ev_Disconnect 7, Ev_Connect 0, Ev_Disconnect 0]"]
  show ?thesis by (simp del: client_step.simps fold_simps)
qed

text \<open>
  a successful connect, when paho accepts what it is given, clears the last error, sends
  exactly the retained announcement and then the retained health message that says
  \<open>healthy\<close>, on the addon's two lifecycle topics, and subscribes to the two policy topics
  exactly when the policy is enforced.
\<close>

theorem connect_announces:
  assumes "\<And>sent m. rt_paho rt sent m = Inr 0"
  shows "\<exists>w'. on_connect rt s 0 w = (Inr (), w') \<and>
    mqtt_connected (cw_health w') \<and> last_error (cw_health w') = None \<and>
    map (\<lambda>m. (mm_topic m, mm_retain m, mm_qos m)) (cw_outbox w') =
      map (\<lambda>m. (mm_topic m, mm_retain m, mm_qos m)) (cw_outbox w) @
      [(announce_topic (ms_lifecycle s), True, ms_qos s), (health_topic (ms_lifecycle s), True, ms_qos s)] \<and>
    mm_body (last (cw_outbox w')) =
      Dumped (JObj (health_payload (rt_isoformat rt) (rt_now rt) True health_interval_s)) \<and>
    length (cw_subscriptions w') = length (cw_subscriptions w) + (if policy_active rt s then 2 else 0)"
  by (simp add: on_connect_def runs publish_announce_def publish_health_def mqtt_publish_def assms
      message_body_def subscribe_policy_topics_def set_mqtt_connected_def Let_def)

lemma connect_announces_witness:
  "\<exists>w'. on_connect example_runtime example_service 0 example_world = (Inr (), w') \<and>
     length (cw_subscriptions w') = 2"
proof -
  have p: "rt_paho example_runtime sent m = Inr 0" for sent m by (simp add: example_runtime_def)
  have a: "policy_active example_runtime example_service" by code_simp
  have l: "cw_subscriptions example_world = []" by (simp add: example_world_def)
  from connect_announces [of example_runtime example_service example_world, OF p] a l
  show ?thesis by auto
qed

lemma wait_connected_fault:
  "wait_connected reason es = Some (b, r) \<Longrightarrow> reason \<noteq> None \<Longrightarrow> \<not> b"
  by (induction reason es rule: wait_connected.induct) (auto simp: Let_def split: if_splits)

lemma wait_connected_ok:
  "(\<exists>r. wait_connected None es = Some (True, r)) \<longleftrightarrow>
     (\<exists>before after. es = before @ Test_Connect 0 # after \<and> set before \<subseteq> {Test_Disconnect 0})"
proof (induction es)
  case Nil
  then show ?case by simp
next
  case (Cons e es)
  show ?case
  proof (cases "e = Test_Disconnect 0")
    case True
    have "(\<exists>before after. e # es = before @ Test_Connect 0 # after \<and> set before \<subseteq> {Test_Disconnect 0}) \<longleftrightarrow>
        (\<exists>before after. es = before @ Test_Connect 0 # after \<and> set before \<subseteq> {Test_Disconnect 0})"
      (is "?l \<longleftrightarrow> ?r")
    proof
      assume ?l
      then obtain before after where "e # es = before @ Test_Connect 0 # after"
        "set before \<subseteq> {Test_Disconnect 0}" by blast
      with True show ?r by (cases before) auto
    next
      assume ?r
      then obtain before after where "es = before @ Test_Connect 0 # after"
        "set before \<subseteq> {Test_Disconnect 0}" by blast
      then have "e # es = (e # before) @ Test_Connect 0 # after" "set (e # before) \<subseteq> {Test_Disconnect 0}"
        using True by auto
      then show ?l by blast
    qed
    with True Cons.IH show ?thesis by simp
  next
    case False
    have "(\<exists>before after. e # es = before @ Test_Connect 0 # after \<and> set before \<subseteq> {Test_Disconnect 0}) \<longleftrightarrow>
        e = Test_Connect 0"
      using False by (auto simp: Cons_eq_append_conv)
    moreover have "(\<exists>r. wait_connected None (e # es) = Some (True, r)) \<longleftrightarrow> e = Test_Connect 0"
    proof (cases e)
      case (Test_Connect rc)
      then show ?thesis by (simp add: Let_def)
    next
      case (Test_Disconnect rc)
      with False have "rc \<noteq> 0" by simp
      with Test_Disconnect show ?thesis by (auto dest: wait_connected_fault)
    qed
    ultimately show ?thesis by simp
  qed
qed

text \<open>
  a test of an external broker succeeds exactly when the connection could be opened and
  the first connect callback reports success with no unexpected disconnect before it.
\<close>

theorem external_test_ok_iff:
  "fst (test_external_connection host port connect_error events) \<longleftrightarrow>
     connect_error = None \<and>
     (\<exists>before after. events = before @ Test_Connect 0 # after \<and> set before \<subseteq> {Test_Disconnect 0})"
  using wait_connected_ok [of events]
  by (auto simp: test_external_connection_def split: option.splits)

text \<open>
  The lifecycle topics take the base topic without outer white space and trailing slashes,
  and \<open>synthia\<close> for a blank one; the policy topics take it as it is. With a base topic that
  ends in a slash the service subscribes to other topics than the ones under its base.
\<close>

lemma policy_topics_not_normalised:
  "(case new_mqtt_service example_runtime example_paho (example_eff\<lparr>eff_base_topic := JStr ''synthia/''\<rparr>) [] ''mqtt'' ''1'' ''1''
      ''m'' ''u'' True True example_world of
       (Inr s, w) \<Rightarrow> (health_topic (ms_lifecycle s), map fst (cw_subscriptions (subscribe_policy_topics example_runtime s w)))
     | (Inl _, w) \<Rightarrow> ([], []))
   = (''synthia/addons/mqtt/health'', [''synthia//policy/grants/+'', ''synthia//policy/revocations/+''])"
  by code_simp

end
