(* ===== verification/Topic_Permissions.thy ===== *)
theory Topic_Permissions
  imports Py_Json
begin

text \<open>
  app/services/topic_permissions.py: which topics an addon may publish and subscribe to,
  the matching of a topic against the granted filters, and the check of a single publish
  topic. Then app/services/envelope_validation.py: the message envelope that platform
  topics require.
\<close>

section \<open>Namespaces\<close>

definition RESERVED_NAMESPACE_PREFIXES :: "string list" where
  "RESERVED_NAMESPACE_PREFIXES =
     [''synthia/system/'', ''synthia/core/'', ''synthia/supervisor/'',
      ''synthia/scheduler/'', ''synthia/policy/'', ''synthia/telemetry/'']"

text \<open>The prefix \<open>f"synthia/addons/{addon_id}/"\<close> of the topics an addon owns.\<close>

definition addon_prefix :: "string \<Rightarrow> string" where
  "addon_prefix addon_id = ''synthia/addons/'' @ addon_id @ ''/''"

definition is_reserved_topic :: "string \<Rightarrow> bool" where
  "is_reserved_topic topic = list_ex (starts_with topic) RESERVED_NAMESPACE_PREFIXES"

record realized_permissions =
  publish :: "string list"
  subscribe :: "string list"

section \<open>The checks\<close>

definition validate_nonempty_topic :: "string \<Rightarrow> unit res" where
  "validate_nonempty_topic topic =
     (if topic = [] then Inl (TopicPermissionError ''Topic must not be empty'') else Inr ())"

definition validate_lifecycle_pattern :: "string \<Rightarrow> string \<Rightarrow> unit res" where
  "validate_lifecycle_pattern topic addon_id =
     (if \<not> starts_with topic (addon_prefix addon_id) then Inr ()
      else let lifecycle_tail = drop (length (addon_prefix addon_id)) topic in
        if lifecycle_tail \<in> {''announce'', ''health''} then Inr ()
        else if contains ''/announce'' lifecycle_tail \<or> contains ''/health'' lifecycle_tail
        then Inl (TopicPermissionError
          (''Lifecycle topics must be exact and not nested under addon namespace: '' @ topic))
        else Inr ())"

text \<open>The loop of \<open>_normalize_topics\<close>, with the set of topics seen as a list.\<close>

fun normalize_topics_from :: "string list \<Rightarrow> string list \<Rightarrow> string list" where
  "normalize_topics_from seen [] = []"
| "normalize_topics_from seen (raw # topics) =
     (let topic = strip raw in
      if topic = [] \<or> topic \<in> set seen then normalize_topics_from seen topics
      else topic # normalize_topics_from (topic # seen) topics)"

definition normalize_topics :: "string list \<Rightarrow> string list" where
  "normalize_topics topics = normalize_topics_from [] topics"

text \<open>The body of the two loops of \<open>realize_topic_permissions\<close>.\<close>

definition check_publish_topic :: "string \<Rightarrow> string \<Rightarrow> unit res" where
  "check_publish_topic addon_id topic =
     res_bind (validate_nonempty_topic topic) (\<lambda>_.
     res_bind (validate_lifecycle_pattern topic addon_id) (\<lambda>_.
     if is_reserved_topic topic
     then Inl (TopicPermissionError (''Reserved namespace is publish-restricted: '' @ topic))
     else if \<not> starts_with topic (addon_prefix addon_id)
     then Inl (TopicPermissionError
       (''Publish topic must be within addon-owned namespace '' @ addon_prefix addon_id @ '': '' @ topic))
     else Inr ()))"

definition check_subscribe_topic :: "string \<Rightarrow> string \<Rightarrow> unit res" where
  "check_subscribe_topic addon_id topic =
     res_bind (validate_nonempty_topic topic) (\<lambda>_.
     res_bind (validate_lifecycle_pattern topic addon_id) (\<lambda>_.
     if \<not> (starts_with topic (addon_prefix addon_id) \<or> is_reserved_topic topic)
     then Inl (TopicPermissionError
       (''Subscribe topic must be addon-owned or reserved namespace topic: '' @ topic))
     else Inr ()))"

fun check_all :: "('a \<Rightarrow> unit res) \<Rightarrow> 'a list \<Rightarrow> unit res" where
  "check_all f [] = Inr ()"
| "check_all f (x # xs) = res_bind (f x) (\<lambda>_. check_all f xs)"

definition realize_topic_permissions ::
  "string \<Rightarrow> string list \<Rightarrow> string list \<Rightarrow> realized_permissions res" where
  "realize_topic_permissions addon_id publish_topics subscribe_topics =
     (let normalized_addon_id = strip addon_id in
      if normalized_addon_id = [] then Inl (TopicPermissionError ''addon_id is required'')
      else let pub = normalize_topics publish_topics;
               sub = normalize_topics subscribe_topics in
        res_bind (check_all (check_publish_topic normalized_addon_id) pub) (\<lambda>_.
        res_bind (check_all (check_subscribe_topic normalized_addon_id) sub) (\<lambda>_.
        Inr \<lparr>publish = pub, subscribe = sub\<rparr>)))"

definition validate_publish_topic :: "string \<Rightarrow> string option \<Rightarrow> string res" where
  "validate_publish_topic topic addon_id =
     (let normalized = strip topic in
      res_bind (validate_nonempty_topic normalized) (\<lambda>_.
      if contains ''+'' normalized \<or> contains ''#'' normalized
      then Inl (TopicPermissionError (''Publish topic must not contain MQTT wildcards: '' @ normalized))
      else if is_reserved_topic normalized
      then Inl (TopicPermissionError (''Reserved namespace is publish-restricted: '' @ normalized))
      else case addon_id of
          None \<Rightarrow> Inr normalized
        | Some a \<Rightarrow>
            if a \<noteq> [] \<and> strip a \<noteq> [] \<and> a \<noteq> ''anonymous'' then
              (if \<not> starts_with normalized (addon_prefix (strip a))
               then Inl (TopicPermissionError
                 (''Publish topic must be within addon-owned namespace ''
                    @ addon_prefix (strip a) @ '': '' @ normalized))
               else res_bind (validate_lifecycle_pattern normalized (strip a)) (\<lambda>_.
                 Inr normalized))
            else Inr normalized))"

section \<open>Matching a topic against a filter\<close>

text \<open>
  The loop over \<open>enumerate(filter_levels)\<close>; \<open>n\<close> is \<open>len(filter_levels)\<close> and \<open>idx\<close> the
  position of the first level of the third argument. The fourth is \<open>topic_levels\<close>.
\<close>

fun match_levels :: "nat \<Rightarrow> nat \<Rightarrow> string list \<Rightarrow> string list \<Rightarrow> bool" where
  "match_levels n idx [] topic_levels = (length topic_levels = n)"
| "match_levels n idx (level # levels) topic_levels =
     (if level = ''#'' then idx = n - 1
      else if idx \<ge> length topic_levels then False
      else if level = ''+'' then match_levels n (Suc idx) levels topic_levels
      else if level \<noteq> topic_levels ! idx then False
      else match_levels n (Suc idx) levels topic_levels)"

definition mqtt_topic_matches :: "string \<Rightarrow> string \<Rightarrow> bool" where
  "mqtt_topic_matches filter_topic topic =
     (let filter_levels = split_on (CHR ''/'') filter_topic;
          topic_levels = split_on (CHR ''/'') topic
      in match_levels (length filter_levels) 0 filter_levels topic_levels)"

definition topic_allowed_by_scopes :: "string \<Rightarrow> string list \<Rightarrow> bool" where
  "topic_allowed_by_scopes topic scopes =
     list_ex (\<lambda>scope. mqtt_topic_matches scope topic) scopes"

section \<open>The envelope of platform messages\<close>

definition PLATFORM_MESSAGE_TYPES :: "string list" where
  "PLATFORM_MESSAGE_TYPES =
     [''announce'', ''health'', ''event'', ''state'', ''command'', ''telemetry'', ''policy'']"

definition is_platform_topic :: "string \<Rightarrow> bool" where
  "is_platform_topic topic =
     (if starts_with topic ''synthia/addons/'' then True
      else list_ex (starts_with topic) RESERVED_NAMESPACE_PREFIXES)"

definition validate_platform_envelope :: "string \<Rightarrow> json \<Rightarrow> unit res" where
  "validate_platform_envelope topic payload =
     (if \<not> is_platform_topic (strip topic) then Inr ()
      else case payload of
        JObj d \<Rightarrow>
          (let message_type = lower (strip (py_str (dget_or d ''type'' (JStr []))));
               source_addon_id = strip (py_str (dget_or d ''source_addon_id'' (JStr [])));
               timestamp = strip (py_str (dget_or d ''timestamp'' (JStr []))) in
           if message_type \<notin> set PLATFORM_MESSAGE_TYPES
           then Inl (EnvelopeValidationError
             ''Platform payload type must be one of: announce, health, event, state, command, telemetry, policy'')
           else if source_addon_id = []
           then Inl (EnvelopeValidationError ''Platform payload requires source_addon_id'')
           else if timestamp = []
           then Inl (EnvelopeValidationError ''Platform payload requires timestamp'')
           else if \<not> dhas d ''data''
           then Inl (EnvelopeValidationError ''Platform payload requires data field'')
           else Inr ())
      | _ \<Rightarrow> Inl (EnvelopeValidationError ''Platform topic payload must be a JSON object''))"

section \<open>Abstract specifications\<close>

text \<open>
  A topic an addon may be granted for publishing: its own prefix, then a tail that is
  exactly a lifecycle name or has no level that begins with one.
\<close>

definition lifecycle_tail_ok :: "string \<Rightarrow> bool" where
  "lifecycle_tail_ok tail =
     (tail = ''announce'' \<or> tail = ''health'' \<or>
      (\<not> contains ''/announce'' tail \<and> \<not> contains ''/health'' tail))"

definition grantable_topic :: "string \<Rightarrow> string \<Rightarrow> bool" where
  "grantable_topic a t = (\<exists>tail. t = addon_prefix a @ tail \<and> lifecycle_tail_ok tail)"

text \<open>
  MQTT matching on topic levels: \<open>#\<close> as the last level takes any number of levels, none
  included, \<open>+\<close> takes one level, any other level takes itself.
\<close>

inductive mqtt_match :: "string list \<Rightarrow> string list \<Rightarrow> bool" where
  match_end: "mqtt_match [] []"
| match_hash: "mqtt_match [''#''] ts"
| match_plus: "mqtt_match fs ts \<Longrightarrow> mqtt_match (''+'' # fs) (t # ts)"
| match_level: "l \<noteq> ''#'' \<Longrightarrow> l \<noteq> ''+'' \<Longrightarrow> mqtt_match fs ts \<Longrightarrow> mqtt_match (l # fs) (l # ts)"

inductive_simps mqtt_match_Nil: "mqtt_match [] ts"
inductive_simps mqtt_match_Cons: "mqtt_match (l # fs) ts"
inductive_simps mqtt_match_topic_Nil: "mqtt_match fs []"

section \<open>Lemmas\<close>

lemma check_all_iff: "check_all f xs = Inr () \<longleftrightarrow> list_all (\<lambda>x. f x = Inr ()) xs"
  by (induction xs) (auto simp: res_bind_Inr_iff)

lemma normalize_topics_from_dedup:
  "normalize_topics_from seen ts = dedup_seen seen (filter (\<lambda>t. t \<noteq> []) (map strip ts))"
  by (induction seen ts rule: normalize_topics_from.induct) (auto simp: Let_def)

lemma normalize_topics_dedup:
  "normalize_topics ts = dedup_seen [] (filter (\<lambda>t. t \<noteq> []) (map strip ts))"
  by (simp add: normalize_topics_def normalize_topics_from_dedup)

lemma set_normalize_topics: "set (normalize_topics ts) = strip ` set ts - {[]}"
  by (auto simp: normalize_topics_dedup set_dedup_seen)

lemma distinct_normalize_topics: "distinct (normalize_topics ts)"
  by (simp add: normalize_topics_dedup distinct_dedup_seen)

lemma normalize_topics_id:
  assumes "distinct ts" and "\<And>t. t \<in> set ts \<Longrightarrow> t \<noteq> [] \<and> stripped t"
  shows "normalize_topics ts = ts"
proof -
  have "map strip ts = ts" using assms(2) by (intro map_idI) (simp add: strip_id)
  moreover have "filter (\<lambda>t. t \<noteq> []) ts = ts" using assms(2) by (simp add: filter_id_conv)
  ultimately show ?thesis
    using assms(1) by (simp add: normalize_topics_dedup dedup_seen_id)
qed

lemma normalize_topics_idem: "normalize_topics (normalize_topics ts) = normalize_topics ts"
  by (rule normalize_topics_id) (auto simp: distinct_normalize_topics set_normalize_topics)

lemma addon_prefix_nonempty [simp]: "addon_prefix a \<noteq> []"
  by (simp add: addon_prefix_def)

lemma addon_prefix_eq [simp]: "addon_prefix a = addon_prefix b \<longleftrightarrow> a = b"
  by (simp add: addon_prefix_def)

text \<open>An addon's own topics are never reserved, so the two namespaces cannot clash.\<close>

lemma owned_not_reserved: "starts_with t (addon_prefix a) \<Longrightarrow> \<not> is_reserved_topic t"
  by (auto simp: starts_with_iff is_reserved_topic_def RESERVED_NAMESPACE_PREFIXES_def
      addon_prefix_def)

lemma owned_is_platform: "starts_with t (addon_prefix a) \<Longrightarrow> is_platform_topic t"
  by (auto simp: starts_with_iff is_platform_topic_def addon_prefix_def)

lemma validate_lifecycle_pattern_iff:
  "validate_lifecycle_pattern t a = Inr () \<longleftrightarrow>
     (starts_with t (addon_prefix a) \<longrightarrow> grantable_topic a t)"
  by (auto simp: validate_lifecycle_pattern_def grantable_topic_def lifecycle_tail_ok_def
      starts_with_iff Let_def split: if_splits)

lemma check_publish_topic_iff: "check_publish_topic a t = Inr () \<longleftrightarrow> grantable_topic a t"
proof
  assume "check_publish_topic a t = Inr ()"
  then show "grantable_topic a t"
    by (auto simp: check_publish_topic_def res_bind_Inr_iff validate_lifecycle_pattern_iff
        split: if_splits)
next
  assume g: "grantable_topic a t"
  then have o: "starts_with t (addon_prefix a)" by (auto simp: grantable_topic_def)
  then have "t \<noteq> []" by (auto dest: starts_with_NilD)
  with g o owned_not_reserved [OF o] show "check_publish_topic a t = Inr ()"
    by (simp add: check_publish_topic_def res_bind_Inr_iff validate_lifecycle_pattern_iff
        validate_nonempty_topic_def)
qed

lemma check_subscribe_topic_iff:
  "t \<noteq> [] \<Longrightarrow>
   check_subscribe_topic a t = Inr () \<longleftrightarrow> grantable_topic a t \<or> is_reserved_topic t"
  using owned_not_reserved
  by (auto simp: check_subscribe_topic_def res_bind_Inr_iff validate_lifecycle_pattern_iff
      validate_nonempty_topic_def grantable_topic_def)

lemma match_levels_iff:
  "n = idx + length fs \<Longrightarrow> idx \<le> length ts \<Longrightarrow>
     match_levels n idx fs ts \<longleftrightarrow> mqtt_match fs (drop idx ts)"
proof (induction fs arbitrary: idx)
  case Nil
  then show ?case by (auto simp: mqtt_match_Nil)
next
  case (Cons l fs)
  show ?case
  proof (cases "l = ''#''")
    case True
    with Cons.prems show ?thesis by (auto simp: mqtt_match_Cons)
  next
    case False
    show ?thesis
    proof (cases "idx < length ts")
      case True
      then have d: "drop idx ts = ts ! idx # drop (Suc idx) ts" by (simp add: Cons_nth_drop_Suc)
      have "match_levels n (Suc idx) fs ts \<longleftrightarrow> mqtt_match fs (drop (Suc idx) ts)"
        using Cons.prems True by (intro Cons.IH) auto
      with True False show ?thesis by (auto simp: mqtt_match_Cons d)
    next
      case shorter: False
      with Cons.prems have "drop idx ts = []" by simp
      with False shorter show ?thesis by (auto simp: mqtt_match_Cons)
    qed
  qed
qed

lemma split_on_append: "split_on c (a @ c # s) = split_on c a @ split_on c s"
proof (induction a)
  case Nil
  then show ?case by simp
next
  case (Cons x a)
  obtain l ls where "split_on c a = l # ls" by (cases "split_on c a") auto
  with Cons show ?case by simp
qed

lemma join_append: "xs \<noteq> [] \<Longrightarrow> ys \<noteq> [] \<Longrightarrow> join sep (xs @ ys) = join sep xs @ sep @ join sep ys"
proof (induction sep xs rule: join.induct)
  case (2 sep x)
  then show ?case by (cases ys) auto
qed auto

definition literal_level :: "string \<Rightarrow> bool" where
  "literal_level l = (l \<noteq> ''+'' \<and> l \<noteq> ''#'')"

lemma mqtt_match_literals:
  "list_all literal_level ps \<Longrightarrow> mqtt_match (ps @ fs) ts \<Longrightarrow> \<exists>us. ts = ps @ us \<and> mqtt_match fs us"
proof (induction ps arbitrary: ts)
  case Nil
  then show ?case by simp
next
  case (Cons p ps)
  then obtain us where "ts = p # us" and "mqtt_match (ps @ fs) us"
    by (auto simp: mqtt_match_Cons literal_level_def)
  with Cons show ?case by auto
qed

text \<open>The levels of a prefix without wildcards.\<close>

definition plain_addon_id :: "string \<Rightarrow> bool" where
  "plain_addon_id a = list_all literal_level (split_on (CHR ''/'') a)"

lemma split_on_addon_prefix:
  "split_on (CHR ''/'') (addon_prefix a @ tail)
     = ''synthia'' # ''addons'' # split_on (CHR ''/'') a @ split_on (CHR ''/'') tail"
  by (simp add: addon_prefix_def split_on_append)

lemma plain_addon_levels:
  "plain_addon_id a \<Longrightarrow> list_all literal_level (''synthia'' # ''addons'' # split_on (CHR ''/'') a)"
  by (simp add: plain_addon_id_def literal_level_def)

lemma join_addon_levels:
  "join ''/'' (''synthia'' # ''addons'' # split_on (CHR ''/'') a) = ''synthia/addons/'' @ a"
proof -
  obtain l ls where s: "split_on (CHR ''/'') a = l # ls" by (cases "split_on (CHR ''/'') a") auto
  have "join ''/'' (l # ls) = a" using join_split_on [of "CHR ''/''" a] s by simp
  with s show ?thesis by simp
qed

lemma owned_filter_matches:
  assumes plain: "plain_addon_id a" and m: "mqtt_match (split_on (CHR ''/'') (addon_prefix a @ tail))
    (split_on (CHR ''/'') t)"
  shows "starts_with t (addon_prefix a) \<or> t = ''synthia/addons/'' @ a"
proof -
  let ?ps = "''synthia'' # ''addons'' # split_on (CHR ''/'') a"
  obtain us where us: "split_on (CHR ''/'') t = ?ps @ us"
    using mqtt_match_literals [OF plain_addon_levels [OF plain]] m
    by (metis append_Cons split_on_addon_prefix)
  have t: "t = join ''/'' (?ps @ us)" using us join_split_on by metis
  show ?thesis
  proof (cases "us = []")
    case True
    with t show ?thesis using join_addon_levels by simp
  next
    case False
    have "t = join ''/'' ?ps @ ''/'' @ join ''/'' us"
      unfolding t by (rule join_append) (use False in simp_all)
    then have "t = addon_prefix a @ join ''/'' us"
      using join_addon_levels by (simp add: addon_prefix_def)
    then show ?thesis by (simp add: starts_with_iff)
  qed
qed

text \<open>The only exception these functions raise is the one their callers catch.\<close>

lemma check_all_Inl: "check_all f xs = Inl e \<Longrightarrow> \<exists>x \<in> set xs. f x = Inl e"
  by (induction xs) (auto simp: res_bind_Inl_iff)

lemma check_publish_topic_error:
  "check_publish_topic a t = Inl e \<Longrightarrow> \<exists>m. e = TopicPermissionError m"
  by (auto simp: check_publish_topic_def validate_nonempty_topic_def validate_lifecycle_pattern_def
      res_bind_Inl_iff Let_def split: if_splits)

lemma check_subscribe_topic_error:
  "check_subscribe_topic a t = Inl e \<Longrightarrow> \<exists>m. e = TopicPermissionError m"
  by (auto simp: check_subscribe_topic_def validate_nonempty_topic_def validate_lifecycle_pattern_def
      res_bind_Inl_iff Let_def split: if_splits)

lemma realize_topic_permissions_error:
  "realize_topic_permissions a ps ss = Inl e \<Longrightarrow> \<exists>m. e = TopicPermissionError m"
  by (auto simp: realize_topic_permissions_def Let_def res_bind_Inl_iff split: if_splits
      dest!: check_all_Inl check_publish_topic_error check_subscribe_topic_error)

lemma validate_publish_topic_error:
  "validate_publish_topic t ao = Inl e \<Longrightarrow> \<exists>m. e = TopicPermissionError m"
  by (auto simp: validate_publish_topic_def validate_nonempty_topic_def validate_lifecycle_pattern_def
      res_bind_Inl_iff Let_def split: if_splits option.splits)

lemma validate_platform_envelope_error:
  "validate_platform_envelope t p = Inl e \<Longrightarrow> \<exists>m. e = EnvelopeValidationError m"
  by (auto simp: validate_platform_envelope_def Let_def split: if_splits json.splits)

text \<open>The addon whose namespace a publish is held to, if any.\<close>

definition publish_owner :: "string option \<Rightarrow> string option" where
  "publish_owner ao = (case ao of None \<Rightarrow> None
     | Some a \<Rightarrow> if strip a = [] \<or> a = ''anonymous'' then None else Some (strip a))"

definition publish_topic_ok :: "string option \<Rightarrow> string \<Rightarrow> bool" where
  "publish_topic_ok owner n =
     (n \<noteq> [] \<and> CHR ''+'' \<notin> set n \<and> CHR ''#'' \<notin> set n \<and> \<not> is_reserved_topic n \<and>
      (case owner of None \<Rightarrow> True | Some a \<Rightarrow> grantable_topic a n))"

definition envelope_ok :: "json \<Rightarrow> bool" where
  "envelope_ok p = (case p of
     JObj d \<Rightarrow>
       lower (strip (py_str (dget_or d ''type'' (JStr [])))) \<in> set PLATFORM_MESSAGE_TYPES \<and>
       strip (py_str (dget_or d ''source_addon_id'' (JStr []))) \<noteq> [] \<and>
       strip (py_str (dget_or d ''timestamp'' (JStr []))) \<noteq> [] \<and> dhas d ''data''
   | _ \<Rightarrow> False)"

lemma grantable_starts: "grantable_topic a t \<Longrightarrow> starts_with t (addon_prefix a)"
  by (auto simp: grantable_topic_def)

section \<open>Properties\<close>

text \<open>realize_topic_permissions succeeds exactly when the addon id is not blank, every
  normalized publish topic is the addon's own and respects the lifecycle pattern, and every
  normalized subscribe topic is that or reserved; the permissions granted are the normalized
  lists.\<close>

theorem realize_topic_permissions_iff:
  "realize_topic_permissions a ps ss = Inr r \<longleftrightarrow>
     strip a \<noteq> [] \<and> publish r = normalize_topics ps \<and> subscribe r = normalize_topics ss \<and>
     list_all (grantable_topic (strip a)) (publish r) \<and>
     list_all (\<lambda>t. grantable_topic (strip a) t \<or> is_reserved_topic t) (subscribe r)"
proof -
  have "list_all (\<lambda>t. check_subscribe_topic (strip a) t = Inr ()) (normalize_topics ss)
      = list_all (\<lambda>t. grantable_topic (strip a) t \<or> is_reserved_topic t) (normalize_topics ss)"
    by (rule list.pred_cong) (auto simp: set_normalize_topics check_subscribe_topic_iff)
  then show ?thesis
    by (auto simp: realize_topic_permissions_def Let_def res_bind_Inr_iff check_all_iff
        check_publish_topic_iff)
qed

text \<open>the normalized topic list is the stripped topics, blanks dropped, each kept once at
  its first place.\<close>

theorem normalize_topics_spec:
  "normalize_topics ts = dedup_seen [] (filter (\<lambda>t. t \<noteq> []) (map strip ts)) \<and>
   distinct (normalize_topics ts) \<and> set (normalize_topics ts) = strip ` set ts - {[]} \<and>
   normalize_topics (normalize_topics ts) = normalize_topics ts"
  by (simp add: normalize_topics_dedup [symmetric] distinct_normalize_topics set_normalize_topics
      normalize_topics_idem)

text \<open>C37: the matching loop computes MQTT topic filter matching.\<close>

theorem mqtt_topic_matches_spec:
  "mqtt_topic_matches filter_topic topic
     = mqtt_match (split_on (CHR ''/'') filter_topic) (split_on (CHR ''/'') topic)"
  by (simp add: mqtt_topic_matches_def match_levels_iff)

text \<open>
  C36: a topic allowed by the publish scopes granted to an addon whose id has no wildcard
  level lies below synthia/addons/<id>/, the addon's namespace, or is the root
  synthia/addons/<id> itself, which a scope that ends in a multi-level wildcard also matches
  (and which the prefix check of \<open>validate_publish_topic\<close> refuses).
\<close>

theorem scopes_stay_in_namespace:
  assumes "realize_topic_permissions a ps ss = Inr r" and "plain_addon_id (strip a)"
    and "topic_allowed_by_scopes t (publish r)"
  shows "starts_with t (addon_prefix (strip a)) \<or> t = ''synthia/addons/'' @ strip a"
proof -
  have g: "list_all (grantable_topic (strip a)) (publish r)"
    using assms(1) by (auto simp: realize_topic_permissions_def Let_def res_bind_Inr_iff check_all_iff
        check_publish_topic_iff split: if_splits)
  obtain s where s: "s \<in> set (publish r)" and m: "mqtt_topic_matches s t"
    using assms(3) by (auto simp: topic_allowed_by_scopes_def list_ex_iff)
  obtain tail where "s = addon_prefix (strip a) @ tail"
    using g s by (auto simp: list_all_iff grantable_topic_def)
  with m assms(2) show ?thesis
    by (intro owned_filter_matches) (auto simp: mqtt_topic_matches_def match_levels_iff)
qed

theorem scopes_stay_in_namespace_witness:
  "starts_with ''synthia/addons/vision/event'' (addon_prefix (strip '' vision''))
     \<or> ''synthia/addons/vision/event'' = ''synthia/addons/'' @ strip '' vision''"
  by (rule scopes_stay_in_namespace
        [of "'' vision''" "[''synthia/addons/vision/# '']" "[]"
            "\<lparr>publish = [''synthia/addons/vision/#''], subscribe = []\<rparr>"]; code_simp)

lemma publish_topic_iff:
  "validate_publish_topic t ao = Inr n \<longleftrightarrow>
     n = strip t \<and> publish_topic_ok (publish_owner ao) n"
proof (cases "publish_owner ao")
  case None
  then show ?thesis
    by (auto simp: validate_publish_topic_def publish_topic_ok_def publish_owner_def Let_def
        res_bind_Inr_iff validate_nonempty_topic_def contains_singleton split: option.splits if_splits)
next
  case (Some a)
  then show ?thesis
    using grantable_starts
    by (auto simp: validate_publish_topic_def publish_topic_ok_def publish_owner_def Let_def
        res_bind_Inr_iff validate_nonempty_topic_def contains_singleton validate_lifecycle_pattern_iff
        split: option.splits if_splits)
qed

text \<open>C10: a topic passes validate_publish_topic exactly when, stripped, it is not empty, has no
  wildcard, is not reserved and, for a named addon, is grantable to that addon; the result is
  the stripped topic.\<close>

theorem validate_publish_topic_iff:
  "validate_publish_topic t ao = Inr n \<longleftrightarrow>
     n = strip t \<and> publish_topic_ok (publish_owner ao) n"
  by (rule publish_topic_iff)

lemma platform_envelope_iff:
  "(validate_platform_envelope t p = Inr ()) =
     (if is_platform_topic (strip t) then envelope_ok p else True)"
  by (auto simp: validate_platform_envelope_def envelope_ok_def Let_def split: json.splits)

text \<open>an envelope passes on a platform topic exactly when it is an object with a known
  type, a source addon, a timestamp and a data field; elsewhere everything passes.\<close>

theorem validate_platform_envelope_iff:
  "(validate_platform_envelope t p = Inr ()) =
     (if is_platform_topic (strip t) then envelope_ok p else True)"
  by (rule platform_envelope_iff)

text \<open>
  Without the hypothesis on the addon id the namespace is not kept: an addon that calls
  itself \<open>+\<close> is granted a filter that covers every addon.
\<close>

lemma wildcard_addon_id_escapes:
  "realize_topic_permissions ''+'' [''synthia/addons/+/command''] []
     = Inr \<lparr>publish = [''synthia/addons/+/command''], subscribe = []\<rparr> \<and>
   topic_allowed_by_scopes ''synthia/addons/vision/command'' [''synthia/addons/+/command'']"
  by code_simp

text \<open>An addon registered as \<open>anonymous\<close> is not held to any namespace.\<close>

lemma anonymous_addon_has_no_namespace:
  "validate_publish_topic t (Some ''anonymous'') = validate_publish_topic t None"
  by (simp add: validate_publish_topic_def Let_def cong: if_cong)

end
