(* ===== verification/Registration_Store.thy ===== *)
theory Registration_Store
  imports Topic_Permissions Optional_Groups
begin

text \<open>
  app/models/registration_models.py and app/services/registration_store.py: the registrations
  of addons (runtime/mqtt_registrations.json), the credentials issued for direct MQTT access,
  and the ACL file or the note written for each registration. SHA-256, its keyed form, the
  two ways an instant is written and how pydantic reads it back are parameters, and so is
  what opening the ACL file or the note raises: its name is made of the addon id, which may
  hold a separator, a NUL or too many characters. The registrations file and the seed, whose
  names are fixed, are taken to be writable.
\<close>

section \<open>Data\<close>

datatype access_mode = Gateway_Only | Direct_Mqtt | Both

fun access_mode_text :: "access_mode \<Rightarrow> string" where
  "access_mode_text Gateway_Only = ''gateway_only''"
| "access_mode_text Direct_Mqtt = ''direct_mqtt''"
| "access_mode_text Both = ''both''"

definition access_mode_of :: "json \<Rightarrow> access_mode option" where
  "access_mode_of v = (if v = JStr ''gateway_only'' then Some Gateway_Only
     else if v = JStr ''direct_mqtt'' then Some Direct_Mqtt
     else if v = JStr ''both'' then Some Both else None)"

datatype ha_mode = Ha_None | Gateway_Managed | Direct_Allowed

fun ha_mode_text :: "ha_mode \<Rightarrow> string" where
  "ha_mode_text Ha_None = ''none''"
| "ha_mode_text Gateway_Managed = ''gateway_managed''"
| "ha_mode_text Direct_Allowed = ''direct_allowed''"

definition ha_mode_of :: "json \<Rightarrow> ha_mode option" where
  "ha_mode_of v = (if v = JStr ''none'' then Some Ha_None
     else if v = JStr ''gateway_managed'' then Some Gateway_Managed
     else if v = JStr ''direct_allowed'' then Some Direct_Allowed else None)"

type_synonym str_dict = "(string \<times> string) list"

record registration_request =
  rq_addon_id :: string
  rq_access_mode :: access_mode
  rq_publish_topics :: "string list"
  rq_subscribe_topics :: "string list"
  rq_capabilities :: dict
  rq_ha_mode :: ha_mode
  rq_manual_direct_mqtt :: "str_dict option"
  rq_reprovision :: bool

record direct_credentials =
  dc_username :: string
  dc_password :: string

record registration =
  rg_addon_id :: string
  rg_access_mode :: access_mode
  rg_publish_topics :: "string list"
  rg_subscribe_topics :: "string list"
  rg_permissions :: realized_permissions
  rg_ha_mode :: ha_mode
  rg_capabilities :: dict
  rg_manual :: "str_dict option"
  rg_direct :: "direct_credentials option"
  rg_updated_at :: int

text \<open>
  The standard library's hashes and dates, and what making the directory of a file of this
  name and opening it raises, if anything.
\<close>

record reg_lib =
  lib_hmac :: "string \<Rightarrow> string \<Rightarrow> string"
  lib_sha256_hex :: "string \<Rightarrow> string"
  lib_iso :: "int \<Rightarrow> string"
  lib_isoformat :: "int \<Rightarrow> string"
  lib_parse_dt :: "json \<Rightarrow> int option"
  lib_open_fault :: "string \<Rightarrow> exn option"

section \<open>JSON of a registration\<close>

definition str_list :: "string list \<Rightarrow> json" where
  "str_list xs = JList (map JStr xs)"

definition str_dict_json :: "str_dict \<Rightarrow> json" where
  "str_dict_json d = JObj (map (\<lambda>(k, v). (k, JStr v)) d)"

text \<open>\<open>record.model_dump(mode="json")\<close>.\<close>

definition dump_registration :: "reg_lib \<Rightarrow> registration \<Rightarrow> dict" where
  "dump_registration lib r =
     [(''addon_id'', JStr (rg_addon_id r)),
      (''status'', JStr ''approved''),
      (''access_mode'', JStr (access_mode_text (rg_access_mode r))),
      (''publish_topics'', str_list (rg_publish_topics r)),
      (''subscribe_topics'', str_list (rg_subscribe_topics r)),
      (''permissions'', JObj [(''publish'', str_list (publish (rg_permissions r))),
         (''subscribe'', str_list (subscribe (rg_permissions r)))]),
      (''ha_mode'', JStr (ha_mode_text (rg_ha_mode r))),
      (''capabilities'', JObj (rg_capabilities r)),
      (''manual_direct_mqtt'', case rg_manual r of None \<Rightarrow> JNull | Some d \<Rightarrow> str_dict_json d),
      (''direct_mqtt'', case rg_direct r of None \<Rightarrow> JNull
         | Some c \<Rightarrow> JObj [(''username'', JStr (dc_username c)), (''password'', JStr (dc_password c))]),
      (''updated_at'', JStr (lib_iso lib (rg_updated_at r)))]"

text \<open>What \<open>MqttRegistrationRecord.model_validate\<close> accepts of each field.\<close>

fun strs_of :: "json list \<Rightarrow> string list option" where
  "strs_of [] = Some []"
| "strs_of (JStr s # vs) = map_option (\<lambda>xs. s # xs) (strs_of vs)"
| "strs_of (_ # vs) = None"

definition str_list_of :: "json \<Rightarrow> string list option" where
  "str_list_of v = (case v of JList vs \<Rightarrow> strs_of vs | _ \<Rightarrow> None)"

fun str_items_of :: "dict \<Rightarrow> str_dict option" where
  "str_items_of [] = Some []"
| "str_items_of ((k, JStr s) # d) = map_option (\<lambda>xs. (k, s) # xs) (str_items_of d)"
| "str_items_of (_ # d) = None"

definition manual_of :: "json \<Rightarrow> str_dict option option" where
  "manual_of v = (case v of JNull \<Rightarrow> Some None | JObj d \<Rightarrow> map_option Some (str_items_of d) | _ \<Rightarrow> None)"

definition direct_of :: "json \<Rightarrow> direct_credentials option option" where
  "direct_of v = (case v of
       JNull \<Rightarrow> Some None
     | JObj d \<Rightarrow> (case (str_of (dget d ''username''), str_of (dget d ''password'')) of
           (Some u, Some p) \<Rightarrow> Some (Some \<lparr>dc_username = u, dc_password = p\<rparr>)
         | _ \<Rightarrow> None)
     | _ \<Rightarrow> None)"

definition permissions_of :: "json \<Rightarrow> realized_permissions option" where
  "permissions_of v = (case v of
       JObj d \<Rightarrow> (case (str_list_of (dget d ''publish''), str_list_of (dget d ''subscribe'')) of
           (Some p, Some s) \<Rightarrow> Some \<lparr>publish = p, subscribe = s\<rparr>
         | _ \<Rightarrow> None)
     | _ \<Rightarrow> None)"

definition obj_of :: "json \<Rightarrow> dict option" where
  "obj_of v = (case v of JObj d \<Rightarrow> Some d | _ \<Rightarrow> None)"

definition validate_registration :: "reg_lib \<Rightarrow> dict \<Rightarrow> registration option" where
  "validate_registration lib d =
     (case (str_of (dget d ''addon_id''), access_mode_of (dget d ''access_mode''),
            str_list_of (dget d ''publish_topics''), str_list_of (dget d ''subscribe_topics''),
            permissions_of (dget d ''permissions''), ha_mode_of (dget d ''ha_mode'')) of
        (Some a, Some m, Some p, Some s, Some pr, Some h) \<Rightarrow>
          (case (obj_of (dget d ''capabilities''), manual_of (dget d ''manual_direct_mqtt''),
                 direct_of (dget d ''direct_mqtt''), lib_parse_dt lib (dget d ''updated_at'')) of
             (Some c, Some ma, Some di, Some t) \<Rightarrow>
               if dget d ''status'' = JStr ''approved'' then
                 Some \<lparr>rg_addon_id = a, rg_access_mode = m, rg_publish_topics = p,
                   rg_subscribe_topics = s, rg_permissions = pr, rg_ha_mode = h,
                   rg_capabilities = c, rg_manual = ma, rg_direct = di, rg_updated_at = t\<rparr>
               else None
           | _ \<Rightarrow> None)
      | _ \<Rightarrow> None)"

section \<open>The store\<close>

text \<open>
  \<open>rs_acl\<close> and \<open>rs_notes\<close> are the directories acl_generated and external_acl_notes, from the
  path relative to the directory to the content.
\<close>

record registration_store =
  rs_file :: json_file
  rs_seed :: "string option"
  rs_acl :: "string \<Rightarrow> string option"
  rs_notes :: "string \<Rightarrow> json option"

definition load_all :: "registration_store \<Rightarrow> dict" where
  "load_all st = filter (\<lambda>(k, v). is_obj v) (load_object (rs_file st))"

definition save_all :: "dict \<Rightarrow> registration_store \<Rightarrow> registration_store" where
  "save_all payload st = st\<lparr>rs_file := Doc (sort_keys (JObj payload))\<rparr>"

definition get_registration :: "reg_lib \<Rightarrow> string \<Rightarrow> registration_store \<Rightarrow> registration option" where
  "get_registration lib addon_id st =
     (case dget (load_all st) (strip addon_id) of
        JObj d \<Rightarrow> validate_registration lib d
      | _ \<Rightarrow> None)"

definition list_registrations :: "reg_lib \<Rightarrow> registration_store \<Rightarrow> registration list" where
  "list_registrations lib st =
     sort_key (\<lambda>r. - rg_updated_at r)
       (List.map_filter (\<lambda>(k, v). validate_registration lib (as_dict v)) (load_all st))"

definition broker_profile_for :: "string \<Rightarrow> registration_store \<Rightarrow> string" where
  "broker_profile_for addon_id st =
     (case dget (load_all st) (strip addon_id) of
        JObj d \<Rightarrow>
          (case dget d ''acl_mode'' of
             JStr p \<Rightarrow> if strip p \<noteq> [] then strip p else ''unknown''
           | _ \<Rightarrow> ''unknown'')
      | _ \<Rightarrow> ''unknown'')"

section \<open>Credentials\<close>

text \<open>\<open>urlsafe_b64encode\<close>, and the UTF-8 encoding of a Latin-1 string.\<close>

definition b64_char :: "nat \<Rightarrow> char" where
  "b64_char v = (if v < 26 then char_of (v + 65) else if v < 52 then char_of (v + 71)
     else if v < 62 then char_of (v - 4) else if v = 62 then CHR ''-'' else CHR ''_'')"

fun urlsafe_b64encode :: "string \<Rightarrow> string" where
  "urlsafe_b64encode [] = []"
| "urlsafe_b64encode [a] = (let x = (of_char a :: nat) in
     [b64_char (x div 4), b64_char (x mod 4 * 16), CHR ''='', CHR ''=''])"
| "urlsafe_b64encode [a, b] = (let x = (of_char a :: nat); y = (of_char b :: nat) in
     [b64_char (x div 4), b64_char (x mod 4 * 16 + y div 16), b64_char (y mod 16 * 4), CHR ''=''])"
| "urlsafe_b64encode (a # b # c # s) =
     (let x = (of_char a :: nat); y = (of_char b :: nat); z = (of_char c :: nat) in
     [b64_char (x div 4), b64_char (x mod 4 * 16 + y div 16), b64_char (y mod 16 * 4 + z div 64),
      b64_char (z mod 64)] @ urlsafe_b64encode s)"

definition utf8_char :: "char \<Rightarrow> string" where
  "utf8_char c = (let n = (of_char c :: nat) in
     if n < 128 then [c] else [char_of (192 + n div 64), char_of (128 + n mod 64)])"

definition utf8_encode :: "string \<Rightarrow> string" where
  "utf8_encode s = concat (map utf8_char s)"

text \<open>\<open>random_seed\<close> is what \<open>secrets.token_bytes(32)\<close> gives.\<close>

definition load_or_create_seed :: "string \<Rightarrow> registration_store \<Rightarrow> string \<times> registration_store" where
  "load_or_create_seed random_seed st =
     (case rs_seed st of
        Some seed \<Rightarrow> (seed, st)
      | None \<Rightarrow> (random_seed, st\<lparr>rs_seed := Some random_seed\<rparr>))"

definition direct_username :: "string \<Rightarrow> string" where
  "direct_username addon_id = ''addon_'' @ addon_id @ ''_mqtt''"

definition direct_password :: "reg_lib \<Rightarrow> string \<Rightarrow> string \<Rightarrow> int \<Rightarrow> string" where
  "direct_password lib seed addon_id version =
     take 32 (rstrip_char (CHR ''='') (urlsafe_b64encode
       (lib_hmac lib seed (utf8_encode (addon_id @ '':'' @ int_to_dec version)))))"

definition issue_direct_credentials ::
  "reg_lib \<Rightarrow> int \<Rightarrow> string \<Rightarrow> string \<Rightarrow> bool \<Rightarrow> dict option \<Rightarrow>
   (registration_store, direct_credentials \<times> dict) run" where
  "issue_direct_credentials lib now random_seed addon_id reprovision existing_meta st =
     (let (seed, st1) = load_or_create_seed random_seed st in
      case (case existing_meta of Some m \<Rightarrow> py_int (dget_or m ''version'' (JInt 1)) | None \<Rightarrow> Inr 1) of
        Inl e \<Rightarrow> (Inl e, st1)
      | Inr current_version \<Rightarrow>
          let version = (if reprovision then current_version + 1 else current_version);
              username = direct_username addon_id;
              password = direct_password lib seed addon_id version in
          (Inr (\<lparr>dc_username = username, dc_password = password\<rparr>,
                [(''version'', JInt version), (''username'', JStr username),
                 (''password_hash'', JStr (lib_sha256_hex lib (utf8_encode password))),
                 (''updated_at'', JStr (lib_isoformat lib now))]), st1))"

section \<open>Registering\<close>

definition acl_lines :: "registration \<Rightarrow> string list" where
  "acl_lines r =
     (''user addon_'' @ rg_addon_id r @ ''_mqtt'')
     # map (\<lambda>t. ''topic write '' @ t) (publish (rg_permissions r))
     @ map (\<lambda>t. ''topic read '' @ t) (subscribe (rg_permissions r))"

definition acl_text :: "registration \<Rightarrow> string" where
  "acl_text r = join [CHR 0x0A] (acl_lines r) @ [CHR 0x0A]"

definition write_embedded_acl :: "reg_lib \<Rightarrow> registration \<Rightarrow> (registration_store, unit) run" where
  "write_embedded_acl lib r st =
     (let name = rg_addon_id r @ ''.acl'' in
      case lib_open_fault lib name of
        Some e \<Rightarrow> (Inl e, st)
      | None \<Rightarrow> (Inr (), st\<lparr>rs_acl := (rs_acl st)(name \<mapsto> acl_text r)\<rparr>))"

definition write_external_acl_note :: "reg_lib \<Rightarrow> int \<Rightarrow> registration \<Rightarrow> (registration_store, unit) run" where
  "write_external_acl_note lib now r st =
     (let name = rg_addon_id r @ ''.json'' in
      case lib_open_fault lib name of
        Some e \<Rightarrow> (Inl e, st)
      | None \<Rightarrow> (Inr (), st\<lparr>rs_notes := (rs_notes st)(name \<mapsto>
           JObj [(''addon_id'', JStr (rg_addon_id r)),
                 (''publish'', str_list (publish (rg_permissions r))),
                 (''subscribe'', str_list (subscribe (rg_permissions r))),
                 (''generated_at'', JStr (lib_isoformat lib now))])\<rparr>))"

definition str_get :: "str_dict \<Rightarrow> string \<Rightarrow> string" where
  "str_get d k = (case map_of d k of None \<Rightarrow> [] | Some v \<Rightarrow> v)"

text \<open>
  The part of \<open>upsert\<close> that decides on access: the issued credentials, the manual mapping
  and the metadata to keep.
\<close>

definition grant_access ::
  "reg_lib \<Rightarrow> int \<Rightarrow> string \<Rightarrow> string \<Rightarrow> string \<Rightarrow> registration_request \<Rightarrow> json \<Rightarrow>
   (registration_store, direct_credentials option \<times> str_dict option \<times> json) run" where
  "grant_access lib now random_seed broker_mode addon_id request credential_meta st =
     (if rq_access_mode request \<in> {Direct_Mqtt, Both} then
        if broker_mode = ''embedded'' then
          (case issue_direct_credentials lib now random_seed addon_id (rq_reprovision request)
              (obj_of credential_meta) st of
             (Inl e, st1) \<Rightarrow> (Inl e, st1)
           | (Inr (creds, meta), st1) \<Rightarrow> (Inr (Some creds, None, JObj meta), st1))
        else
          let manual_raw = (case rq_manual_direct_mqtt request of None \<Rightarrow> [] | Some d \<Rightarrow> d);
              username = strip (str_get manual_raw ''username'');
              credential_ref = strip (str_get manual_raw ''credential_ref'') in
          if username = [] then
            (Inl (ValueError ''External direct access mode requires manual_direct_mqtt.username for direct_mqtt/both registrations''), st)
          else
            (Inr (None, Some ((''username'', username)
               # (if credential_ref \<noteq> [] then [(''credential_ref'', credential_ref)] else [])), JNull), st)
      else (Inr (None, None, JNull), st))"

definition stored_payload ::
  "reg_lib \<Rightarrow> string \<Rightarrow> string \<Rightarrow> json \<Rightarrow> registration \<Rightarrow> dict" where
  "stored_payload lib broker_mode direct_mode credential_meta record =
     dset ''external_direct_access_mode'' (JStr direct_mode)
       (dset ''acl_mode'' (JStr (if broker_mode = ''embedded'' then ''embedded-generated'' else ''external-manual''))
       (if credential_meta \<noteq> JNull then dset ''credential_meta'' credential_meta (dump_registration lib record)
        else dump_registration lib record))"

definition upsert ::
  "reg_lib \<Rightarrow> int \<Rightarrow> string \<Rightarrow> registration_request \<Rightarrow> string \<Rightarrow> string \<Rightarrow>
   (registration_store, registration) run" where
  "upsert lib now random_seed request broker_mode direct_mode0 st =
     (let data = load_all st;
          addon_id = strip (rq_addon_id request);
          existing = dget_or data addon_id (JObj []) in
      case realize_topic_permissions addon_id (rq_publish_topics request) (rq_subscribe_topics request) of
        Inl e \<Rightarrow> (Inl e, st)
      | Inr realized \<Rightarrow>
          let direct_mode = (if direct_mode0 \<in> {''gateway_only'', ''manual_direct_access''}
                then direct_mode0 else ''gateway_only'');
              credential_meta = dget (as_dict existing) ''credential_meta'' in
          (case grant_access lib now random_seed broker_mode addon_id request credential_meta st of
             (Inl e, st1) \<Rightarrow> (Inl e, st1)
           | (Inr (creds, manual, meta), st1) \<Rightarrow>
               let record = \<lparr>rg_addon_id = addon_id, rg_access_mode = rq_access_mode request,
                     rg_publish_topics = publish realized, rg_subscribe_topics = subscribe realized,
                     rg_permissions = realized, rg_ha_mode = rq_ha_mode request,
                     rg_capabilities = rq_capabilities request, rg_manual = manual,
                     rg_direct = creds, rg_updated_at = now\<rparr>;
                   st2 = save_all (dset (rg_addon_id record)
                     (JObj (stored_payload lib broker_mode direct_mode meta record)) data) st1 in
               (case (if broker_mode = ''embedded'' then write_embedded_acl lib record st2
                     else write_external_acl_note lib now record st2) of
                  (Inl e, st3) \<Rightarrow> (Inl e, st3)
                | (Inr _, st3) \<Rightarrow> (Inr record, st3))))"

end
