(* ===== verification/Bounded_Log.thy ===== *)
theory Bounded_Log
  imports Prelude
begin

text \<open>
  The interface two components of the service provide: a log that takes one entry at a time
  and keeps the newest \<open>cap\<close>. The trace store (a JSON file) and the telemetry queue (a
  list in memory) interpret it in their own theories.
\<close>

locale bounded_log =
  fixes push :: "'a \<Rightarrow> 'l \<Rightarrow> 'l"
    and contents :: "'l \<Rightarrow> 'a list"
    and invar :: "'l \<Rightarrow> bool"
    and cap :: nat
  assumes cap_pos: "0 < cap"
    and contents_push: "invar l \<Longrightarrow> contents (push x l) = take_last cap (contents l @ [x])"
    and invar_push: "invar l \<Longrightarrow> invar (push x l)"
begin

lemma length_push: "invar l \<Longrightarrow> length (contents (push x l)) \<le> cap"
  by (simp add: contents_push)

lemma last_push: "invar l \<Longrightarrow> contents (push x l) \<noteq> [] \<and> last (contents (push x l)) = x"
  using cap_pos by (simp add: contents_push take_last_snoc)

lemma invar_fold: "invar l \<Longrightarrow> invar (fold push xs l)"
  by (induction xs arbitrary: l) (auto intro: invar_push)

text \<open>A sequence of entries leaves the newest \<open>cap\<close> of everything, in order.\<close>

lemma contents_fold:
  "invar l \<Longrightarrow> xs \<noteq> [] \<Longrightarrow> contents (fold push xs l) = take_last cap (contents l @ xs)"
proof (induction xs arbitrary: l)
  case (Cons x xs)
  show ?case
  proof (cases "xs = []")
    case True
    with Cons.prems show ?thesis by (simp add: contents_push)
  next
    case False
    then have "contents (fold push (x # xs) l) = take_last cap (contents (push x l) @ xs)"
      using Cons by (simp add: invar_push)
    also have "\<dots> = take_last cap ((contents l @ [x]) @ xs)"
      by (simp only: contents_push [OF Cons.prems(1)] take_last_append_take_last)
    finally show ?thesis by simp
  qed
qed simp

lemma recent_kept:
  assumes "invar l" and "length xs < cap"
  shows "x \<in> set (contents (fold push xs (push x l)))"
proof -
  have "contents (fold push (x # xs) l) = take_last cap (contents l @ x # xs)"
    by (rule contents_fold [OF assms(1)]) simp
  also have "\<dots> = drop (length (contents l @ x # xs) - cap) (contents l @ x # xs)"
    by (simp add: take_last_def)
  finally show ?thesis
    using assms(2) by (cases "length (contents l) + Suc (length xs) \<le> cap") auto
qed

end

end
