(* ===== verification/Publish_Trace_Store.thy ===== *)
theory Publish_Trace_Store
  imports Py_Json Bounded_Log
begin

text \<open>
  app/models/trace_models.py and app/services/publish_trace_store.py: the record of recent
  publish decisions, a JSON file that keeps the newest entries. A \<open>datetime\<close> is a number
  (its instant) and pydantic's two conversions of it are parameters: \<open>iso\<close> writes it
  into JSON, \<open>parse_dt\<close> reads it back.
\<close>

section \<open>Data\<close>

record dt_codec =
  iso :: "int \<Rightarrow> string"
  parse_dt :: "json \<Rightarrow> int option"

text \<open>What the code relies on: a written instant is read back as itself.\<close>

definition dt_roundtrip :: "dt_codec \<Rightarrow> bool" where
  "dt_roundtrip cd = (\<forall>t. parse_dt cd (JStr (iso cd t)) = Some t)"

datatype outcome = Success | Denied | Failed

fun outcome_text :: "outcome \<Rightarrow> string" where
  "outcome_text Success = ''success''"
| "outcome_text Denied = ''denied''"
| "outcome_text Failed = ''error''"

definition outcome_of :: "json \<Rightarrow> outcome option" where
  "outcome_of v = (if v = JStr ''success'' then Some Success
     else if v = JStr ''denied'' then Some Denied
     else if v = JStr ''error'' then Some Failed else None)"

lemma outcome_of_text [simp]: "outcome_of (JStr (outcome_text x)) = Some x"
  by (cases x) (simp_all add: outcome_of_def)

record trace_request =
  tr_operation :: string
  tr_outcome :: outcome
  tr_addon_id :: "string option"
  tr_caller_sub :: "string option"
  tr_topic :: "string option"
  tr_detail :: "string option"
  tr_message_id :: "string option"
  tr_correlation_id :: "string option"

record trace_record = trace_request +
  tr_timestamp :: int

definition trace_record_of :: "int \<Rightarrow> trace_request \<Rightarrow> trace_record" where
  "trace_record_of now req = trace_request.extend req \<lparr>tr_timestamp = now\<rparr>"

text \<open>\<open>record.model_dump(mode="json")\<close>: the fields in the order of the class.\<close>

definition dump_trace :: "dt_codec \<Rightarrow> trace_record \<Rightarrow> dict" where
  "dump_trace cd r =
     [(''timestamp'', JStr (iso cd (tr_timestamp r))),
      (''operation'', JStr (tr_operation r)),
      (''outcome'', JStr (outcome_text (tr_outcome r))),
      (''addon_id'', opt_json (tr_addon_id r)),
      (''caller_sub'', opt_json (tr_caller_sub r)),
      (''topic'', opt_json (tr_topic r)),
      (''detail'', opt_json (tr_detail r)),
      (''message_id'', opt_json (tr_message_id r)),
      (''correlation_id'', opt_json (tr_correlation_id r))]"

text \<open>
  \<open>PublishTraceRecord.model_validate(item)\<close>: \<open>None\<close> for a missing or ill-typed field; a
  field with a default may be missing, other keys are ignored.
\<close>

definition validate_trace :: "dt_codec \<Rightarrow> dict \<Rightarrow> trace_record option" where
  "validate_trace cd d =
     (case (parse_dt cd (dget d ''timestamp''), str_of (dget d ''operation''),
            outcome_of (dget d ''outcome'')) of
        (Some ts, Some op, Some oc) \<Rightarrow>
          (case (opt_str_of (dget d ''addon_id''), opt_str_of (dget d ''caller_sub''),
                 opt_str_of (dget d ''topic''), opt_str_of (dget d ''detail''),
                 opt_str_of (dget d ''message_id''), opt_str_of (dget d ''correlation_id'')) of
             (Some a, Some c, Some t, Some de, Some m, Some co) \<Rightarrow>
               Some \<lparr>tr_operation = op, tr_outcome = oc, tr_addon_id = a, tr_caller_sub = c,
                     tr_topic = t, tr_detail = de, tr_message_id = m, tr_correlation_id = co,
                     tr_timestamp = ts\<rparr>
           | _ \<Rightarrow> None)
      | _ \<Rightarrow> None)"

section \<open>The store\<close>

record trace_store =
  trace_file :: json_file
  max_entries :: int

text \<open>\<open>__init__\<close>: at least 25 entries are kept.\<close>

definition new_trace_store :: "json_file \<Rightarrow> int \<Rightarrow> trace_store" where
  "new_trace_store f n = \<lparr>trace_file = f, max_entries = max 25 n\<rparr>"

definition trace_load_all :: "trace_store \<Rightarrow> json list" where
  "trace_load_all s = (case trace_file s of Doc (JList items) \<Rightarrow> filter is_obj items | _ \<Rightarrow> [])"

definition trace_save_all :: "json list \<Rightarrow> trace_store \<Rightarrow> trace_store" where
  "trace_save_all payload s = s\<lparr>trace_file := Doc (JList payload)\<rparr>"

text \<open>The entry already dumped, then the whole of \<open>append\<close>.\<close>

definition push_entry :: "dict \<Rightarrow> trace_store \<Rightarrow> trace_store" where
  "push_entry entry s =
     (let data = trace_load_all s @ [JObj entry];
          data = (if int (length data) > max_entries s then slice_from data (- max_entries s) else data)
      in trace_save_all data s)"

definition trace_append :: "dt_codec \<Rightarrow> int \<Rightarrow> trace_request \<Rightarrow> trace_store \<Rightarrow> trace_record \<times> trace_store" where
  "trace_append cd now request s =
     (let record = trace_record_of now request in (record, push_entry (dump_trace cd record) s))"

text \<open>The loop of \<open>list_recent\<close> over the entries, newest first.\<close>

fun collect_recent :: "dt_codec \<Rightarrow> int \<Rightarrow> trace_record list \<Rightarrow> json list \<Rightarrow> trace_record list" where
  "collect_recent cd limit records [] = records"
| "collect_recent cd limit records (item # items) =
     (case item of
        JObj d \<Rightarrow>
          (case validate_trace cd d of
             None \<Rightarrow> collect_recent cd limit records items
           | Some r \<Rightarrow>
               if int (length (records @ [r])) \<ge> limit then records @ [r]
               else collect_recent cd limit (records @ [r]) items)
      | _ \<Rightarrow> collect_recent cd limit records items)"

definition list_recent :: "dt_codec \<Rightarrow> int \<Rightarrow> trace_store \<Rightarrow> trace_record list" where
  "list_recent cd limit s =
     (let bounded_limit = max 1 (min limit (max_entries s))
      in collect_recent cd bounded_limit [] (rev (trace_load_all s)))"

section \<open>Lemmas\<close>

lemma trace_record_of_simps [simp]:
  "tr_operation (trace_record_of now req) = tr_operation req"
  "tr_outcome (trace_record_of now req) = tr_outcome req"
  "tr_addon_id (trace_record_of now req) = tr_addon_id req"
  "tr_caller_sub (trace_record_of now req) = tr_caller_sub req"
  "tr_topic (trace_record_of now req) = tr_topic req"
  "tr_detail (trace_record_of now req) = tr_detail req"
  "tr_timestamp (trace_record_of now req) = now"
  by (simp_all add: trace_record_of_def trace_request.defs)

lemma dump_trace_dget:
  "dget (dump_trace cd r) ''timestamp'' = JStr (iso cd (tr_timestamp r))"
  "dget (dump_trace cd r) ''operation'' = JStr (tr_operation r)"
  "dget (dump_trace cd r) ''outcome'' = JStr (outcome_text (tr_outcome r))"
  "dget (dump_trace cd r) ''addon_id'' = opt_json (tr_addon_id r)"
  "dget (dump_trace cd r) ''caller_sub'' = opt_json (tr_caller_sub r)"
  "dget (dump_trace cd r) ''topic'' = opt_json (tr_topic r)"
  "dget (dump_trace cd r) ''detail'' = opt_json (tr_detail r)"
  "dget (dump_trace cd r) ''message_id'' = opt_json (tr_message_id r)"
  "dget (dump_trace cd r) ''correlation_id'' = opt_json (tr_correlation_id r)"
  by (simp_all add: dump_trace_def dget_def dget_or_def)

lemma validate_dump_trace:
  assumes "dt_roundtrip cd"
  shows "validate_trace cd (dump_trace cd r) = Some r"
  using assms by (simp add: validate_trace_def dump_trace_dget dt_roundtrip_def)

text \<open>The dictionaries the file holds, as the contents of a bounded log.\<close>

definition trace_contents :: "trace_store \<Rightarrow> dict list" where
  "trace_contents s = map as_dict (trace_load_all s)"

lemma trace_load_all_objs: "list_all is_obj (trace_load_all s)"
  by (auto simp: trace_load_all_def list_all_iff split: json_file.splits json.splits)

lemma is_obj_as_dict: "is_obj v \<Longrightarrow> JObj (as_dict v) = v"
  by (cases v) simp_all

lemma trace_load_all_contents: "trace_load_all s = map JObj (trace_contents s)"
  using trace_load_all_objs [of s]
  by (simp add: trace_contents_def list_all_iff is_obj_as_dict map_idI)

lemma trace_load_save: "list_all is_obj xs \<Longrightarrow> trace_load_all (trace_save_all xs s) = xs"
  by (simp add: trace_load_all_def trace_save_all_def filter_id_conv list_all_iff)

lemma max_entries_push [simp]: "max_entries (push_entry e s) = max_entries s"
  by (simp add: push_entry_def trace_save_all_def Let_def)

lemma push_entry_data:
  assumes "max_entries s = int n" and "0 < n"
  shows "push_entry e s = trace_save_all (take_last n (trace_load_all s @ [JObj e])) s"
  using assms by (auto simp: push_entry_def Let_def slice_from_neg)

lemma trace_contents_push:
  assumes "max_entries s = int n" and "0 < n"
  shows "trace_contents (push_entry e s) = take_last n (trace_contents s @ [e])"
proof -
  let ?d = "take_last n (trace_load_all s @ [JObj e])"
  have "list_all is_obj ?d"
    using trace_load_all_objs [of s] set_take_last [of n "trace_load_all s @ [JObj e]"]
    by (auto simp: list_all_iff)
  then have "trace_load_all (push_entry e s) = ?d"
    using assms by (simp add: push_entry_data trace_load_save)
  then show ?thesis
    by (simp add: trace_contents_def take_last_def drop_map [symmetric])
qed

interpretation trace_log: bounded_log push_entry trace_contents
    "\<lambda>s. max_entries s = int (25 + n)" "25 + n" for n
  by unfold_locales (simp_all add: trace_contents_push)

lemma collect_recent_take:
  assumes "length records < n"
  shows "collect_recent cd (int n) records items
     = records @ take (n - length records) (List.map_filter (validate_trace cd) (map as_dict (filter is_obj items)))"
  using assms
proof (induction items arbitrary: records)
  case Nil
  then show ?case by (simp add: List.map_filter_def)
next
  case (Cons item items)
  show ?case
  proof (cases "\<exists>d r. item = JObj d \<and> validate_trace cd d = Some r")
    case True
    then obtain d r where item: "item = JObj d" "validate_trace cd d = Some r" by blast
    show ?thesis
    proof (cases "Suc (length records) < n")
      case True
      then have "n - length records = Suc (n - Suc (length records))" by simp
      with True item Cons.IH [of "records @ [r]"] show ?thesis
        by (simp add: List.map_filter_simps)
    next
      case False
      with Cons.prems have "n = Suc (length records)" by simp
      with item show ?thesis by (simp add: List.map_filter_simps)
    qed
  next
    case False
    then have "collect_recent cd (int n) records (item # items) = collect_recent cd (int n) records items"
      by (auto split: json.splits option.splits)
    with False Cons show ?thesis
      by (cases item) (auto simp: List.map_filter_simps split: option.splits)
  qed
qed

lemma trace_contents_filter: "map as_dict (filter is_obj (trace_load_all s)) = trace_contents s"
  using trace_load_all_objs [of s] by (simp add: trace_contents_def list_all_iff filter_id_conv)

text \<open>Appending a sequence of requests, each with the instant of its call.\<close>

definition append_all :: "dt_codec \<Rightarrow> (int \<times> trace_request) list \<Rightarrow> trace_store \<Rightarrow> trace_store" where
  "append_all cd rs s = fold (\<lambda>(now, req) s. snd (trace_append cd now req s)) rs s"

lemma append_all_push:
  "append_all cd rs s = fold push_entry (map (\<lambda>(now, req). dump_trace cd (trace_record_of now req)) rs) s"
  by (induction rs arbitrary: s) (auto simp: append_all_def trace_append_def Let_def)

definition example_codec :: dt_codec where
  "example_codec = \<lparr>iso = int_to_dec, parse_dt = (\<lambda>v. case v of JStr s \<Rightarrow> int_of_str s | _ \<Rightarrow> None)\<rparr>"

lemma example_codec_roundtrip: "dt_roundtrip example_codec"
  by (simp add: dt_roundtrip_def example_codec_def int_of_str_int_to_dec)

definition example_request :: trace_request where
  "example_request = \<lparr>tr_operation = ''mqtt.publish'', tr_outcome = Denied, tr_addon_id = None,
     tr_caller_sub = Some ''vision'', tr_topic = None, tr_detail = None, tr_message_id = None,
     tr_correlation_id = None\<rparr>"

lemma list_recent_readable:
  "list_recent cd limit s = take (nat (max 1 (min limit (max_entries s))))
     (List.map_filter (validate_trace cd) (rev (trace_contents s)))"
proof -
  let ?n = "nat (max 1 (min limit (max_entries s)))"
  have "list_recent cd limit s = collect_recent cd (int ?n) [] (rev (trace_load_all s))"
  proof -
    have "int ?n = max 1 (min limit (max_entries s))" by linarith
    then show ?thesis by (simp only: list_recent_def Let_def)
  qed
  also have "\<dots> = take ?n (List.map_filter (validate_trace cd)
      (map as_dict (filter is_obj (rev (trace_load_all s)))))"
    by (subst collect_recent_take) simp_all
  also have "map as_dict (filter is_obj (rev (trace_load_all s))) = rev (trace_contents s)"
    by (simp add: trace_contents_filter [symmetric] rev_filter [symmetric] rev_map)
  finally show ?thesis .
qed

lemma append_lists_newest:
  assumes "dt_roundtrip cd" and "25 \<le> max_entries s"
  shows "\<exists>rest. list_recent cd limit (snd (trace_append cd now req s)) = trace_record_of now req # rest"
proof -
  let ?e = "dump_trace cd (trace_record_of now req)" and ?m = "nat (max_entries s)"
  obtain n where n: "?m = 25 + n" using assms(2) by (metis le_Suc_ex nat_le_iff nat_mono nat_numeral)
  with assms(2) have m: "max_entries s = int (25 + n)" by simp
  have "trace_contents (push_entry ?e s) = take_last (25 + n) (trace_contents s @ [?e])"
    by (rule trace_log.contents_push [OF m])
  then have c: "rev (trace_contents (push_entry ?e s))
      = ?e # rev (take_last (24 + n) (trace_contents s))"
    by (simp add: take_last_snoc)
  obtain k where k: "nat (max 1 (min limit (max_entries s))) = Suc k"
    by (metis Suc_pred max.cobounded1 nat_1 nat_mono zero_less_nat_eq zero_less_one less_le_trans)
  show ?thesis
    by (simp add: list_recent_readable trace_append_def Let_def c k List.map_filter_simps
        validate_dump_trace [OF assms(1)])
qed

section \<open>Properties\<close>

text \<open>C35: after any sequence of appends the trace file holds the newest entries of everything
  it held and everything appended, in order, and never more than the configured number.\<close>

theorem trace_store_keeps_newest:
  assumes "max_entries s = int (25 + n)" and "rs \<noteq> []"
  shows "trace_contents (append_all cd rs s) = take_last (25 + n)
    (trace_contents s @ map (\<lambda>(now, req). dump_trace cd (trace_record_of now req)) rs)"
  unfolding append_all_push by (rule trace_log.contents_fold) (use assms in simp_all)

theorem trace_store_keeps_newest_witness:
  "trace_contents (append_all example_codec [(7, example_request)] (new_trace_store Absent 3))
     = take_last (25 + 0) (trace_contents (new_trace_store Absent 3)
         @ map (\<lambda>(now, req). dump_trace example_codec (trace_record_of now req)) [(7, example_request)])"
  by (rule trace_store_keeps_newest) (simp_all add: new_trace_store_def)

text \<open>list_recent returns the newest readable entries first, and at most as many as asked for
  and as the store may hold.\<close>

theorem list_recent_spec:
  "list_recent cd limit s = take (nat (max 1 (min limit (max_entries s))))
     (List.map_filter (validate_trace cd) (rev (trace_contents s)))"
  by (rule list_recent_readable)

text \<open>the entry appended last is the first one listed, whatever limit is asked for.\<close>

theorem append_then_list_recent:
  assumes "dt_roundtrip cd" and "25 \<le> max_entries s"
  shows "\<exists>rest. list_recent cd limit (snd (trace_append cd now req s)) = trace_record_of now req # rest"
  by (rule append_lists_newest [OF assms])

theorem append_then_list_recent_witness:
  "\<exists>rest. list_recent example_codec 1
      (snd (trace_append example_codec 7 example_request (new_trace_store Garbage 0)))
     = trace_record_of 7 example_request # rest"
  by (rule append_then_list_recent [OF example_codec_roundtrip]) (simp add: new_trace_store_def)

end
