(* ===== verification/Http.thy ===== *)
theory Http
  imports Py_Json
begin

text \<open>
  The HTTP client the service uses (\<open>urllib.request\<close>) as seen by its callers: a request
  with its headers and JSON body, and the three ways a call ends. The network is a
  parameter \<open>http\<close> of the definitions that call it: the reply to the \<open>k\<close>-th request.
\<close>

record http_request =
  req_url :: string
  req_headers :: "(string \<times> string) list"
  req_body :: dict

text \<open>
  \<open>urlopen\<close> returned a response with a status and a body, raised \<open>HTTPError\<close> with a
  code and a body, or raised something else with this text (as does a response whose body
  cannot be read). A body is a list of bytes; the body of an \<open>HTTPError\<close> is read outside
  every \<open>try\<close>, so it may also be the exception that reading it raises.
\<close>

datatype http_reply = Replied int string | HttpErrorReply int "string res" | NoReply string

type_synonym network = "nat \<Rightarrow> http_request \<Rightarrow> http_reply"

section \<open>Building a request\<close>

text \<open>
  \<open>request.Request(url)\<close> takes the address apart and raises \<open>ValueError\<close> when it has no
  type: \<open>unwrap\<close>, then the part before the last number sign, then what stands before the
  first colon, which no slash may precede.
\<close>

definition unwrap :: "string \<Rightarrow> string" where
  "unwrap url =
     (let u = strip url;
          v = (if u \<noteq> [] \<and> hd u = CHR ''<'' \<and> last u = CHR ''>'' then strip (butlast (tl u)) else u)
      in if take 4 v = ''URL:'' then strip (drop 4 v) else v)"

definition splittag :: "string \<Rightarrow> string" where
  "splittag url =
     (if CHR ''#'' \<in> set url then rev (tl (dropWhile (\<lambda>c. c \<noteq> CHR ''#'') (rev url))) else url)"

definition splittype :: "string \<Rightarrow> string option" where
  "splittype url =
     (let scheme = takeWhile (\<lambda>c. c \<noteq> CHR ''/'' \<and> c \<noteq> CHR '':'') url in
      if scheme \<noteq> [] \<and> take 1 (drop (length scheme) url) = '':'' then Some (lower scheme) else None)"

definition url_typed :: "string \<Rightarrow> bool" where
  "url_typed url = (splittype (splittag (unwrap url)) \<noteq> None)"

definition unknown_url_type :: exn where
  "unknown_url_type = ValueError ''unknown url type''"

lemma url_typed_examples:
  "url_typed ''http://core:8080/api''" "url_typed '' <URL:http://core/api> ''"
  "\<not> url_typed ''core/api''" "\<not> url_typed ''//core:80/api''" "\<not> url_typed ''core#x:80/api''" "url_typed ''core:80/api''"
  by code_simp+

definition success_status :: "int \<Rightarrow> bool" where
  "success_status s = (200 \<le> s \<and> s < 300)"

end
