(* ===== verification/Telemetry_Reporter.thy ===== *)
theory Telemetry_Reporter
  imports Http Bounded_Log
begin

text \<open>
  app/services/telemetry_reporter.py: the buffered usage reports. The lock is part of the
  state: \<open>threading.Lock\<close> is not reentrant, so a thread that takes it while it holds it
  waits for ever, which is the result \<open>None\<close>. The queue file is the list of its
  non-blank lines, each with the value \<open>json.loads\<close> gives it (\<open>None\<close> when it raises).
  An exception leaves a method with the state it has reached; \<open>with\<close> releases the lock.
\<close>

record telemetry =
  tel_addon_id :: string
  tel_service_name :: string
  tel_queue :: "dict list"
  tel_file :: "json option list option"
  tel_max_queue :: int
  tel_lock_held :: bool

text \<open>
  What the file system makes of one access to the runtime directory: the error number with
  which \<open>mkdir\<close> raises \<open>OSError\<close>, and the one with which \<open>write_text\<close> does, with the lines a
  write that was cut short has left (\<open>None\<close> when the file was not opened).
\<close>

record tel_disk =
  td_mkdir :: "int option"
  td_write :: "(int \<times> json option list option) option"

definition good_disk :: tel_disk where
  "good_disk = \<lparr>td_mkdir = None, td_write = None\<rparr>"

section \<open>Operations\<close>

definition tel_enabled :: "env \<Rightarrow> bool" where
  "tel_enabled env = to_bool (getenv env ''SYNTHIA_TELEMETRY_ENABLED'' ''true'')"

definition tel_core_base_url :: "env \<Rightarrow> string" where
  "tel_core_base_url env =
     (let a = strip (getenv env ''CORE_BASE_URL'' []) in
      if a \<noteq> [] then a else strip (getenv env ''CORE_URL'' []))"

text \<open>The loop of \<open>_load_queue\<close>: a line that is not JSON loses the whole file.\<close>

fun load_lines :: "json option list \<Rightarrow> dict list option" where
  "load_lines [] = Some []"
| "load_lines (None # ls) = None"
| "load_lines (Some v # ls) =
     (case load_lines ls of
        None \<Rightarrow> None
      | Some items \<Rightarrow> (case v of JObj d \<Rightarrow> Some (d # items) | _ \<Rightarrow> Some items))"

definition load_queue :: "int \<Rightarrow> json option list option \<Rightarrow> dict list" where
  "load_queue max_queue file =
     (case file of
        None \<Rightarrow> []
      | Some ls \<Rightarrow> (case load_lines ls of None \<Rightarrow> [] | Some items \<Rightarrow> slice_from items (- max_queue)))"

text \<open>
  Whether \<open>float(s)\<close> accepts a text: white space around it, one sign, an infinity or a NaN by
  name, or digits (with single underscores between them), a point and an exponent.
  \<open>digit_part\<close> reads one group of digits and gives the rest.
\<close>

fun digit_part :: "bool \<Rightarrow> string \<Rightarrow> string option" where
  "digit_part prev [] = (if prev then Some [] else None)"
| "digit_part prev (c # s) =
     (if digit_val c \<noteq> None then digit_part True s
      else if \<not> prev then None
      else if c = CHR ''_'' then digit_part False s
      else Some (c # s))"

definition drop_sign :: "string \<Rightarrow> string" where
  "drop_sign s = (if take 1 s = ''+'' \<or> take 1 s = ''-'' then tl s else s)"

definition exponent_ok :: "string \<Rightarrow> bool" where
  "exponent_ok s = (s = [] \<or> hd s \<in> {CHR ''e'', CHR ''E''} \<and> digit_part False (drop_sign (tl s)) = Some [])"

definition float_digits_ok :: "string \<Rightarrow> bool" where
  "float_digits_ok s =
     (if take 1 s = ''.'' then
        (case digit_part False (tl s) of None \<Rightarrow> False | Some r \<Rightarrow> exponent_ok r)
      else case digit_part False s of
          None \<Rightarrow> False
        | Some r \<Rightarrow>
            if take 1 r = ''.'' \<and> tl r \<noteq> [] \<and> digit_val (hd (tl r)) \<noteq> None then
              (case digit_part False (tl r) of None \<Rightarrow> False | Some r' \<Rightarrow> exponent_ok r')
            else exponent_ok (if take 1 r = ''.'' then tl r else r))"

definition float_text_ok :: "string \<Rightarrow> bool" where
  "float_text_ok s =
     (let u = drop_sign (strip s) in
      lower u \<in> {''inf'', ''infinity'', ''nan''} \<or> float_digits_ok u)"

lemma float_text_examples:
  "list_all float_text_ok [''15'', '' -3.5e+1_0 '', ''1_000.'', ''.5E2'', ''+Infinity'', ''nan'', ''00.1'']"
  "list_all (\<lambda>s. \<not> float_text_ok s)
     [[], ''.'', ''1_'', ''_1'', ''1__0'', ''1e'', ''1 2'', ''0x1'', ''1._5'', ''--1'', ''15s'']"
  by code_simp+

definition new_telemetry ::
  "env \<Rightarrow> string \<Rightarrow> string \<Rightarrow> json option list option \<Rightarrow> telemetry res" where
  "new_telemetry env addon_id service_name file =
     (case int_of_str (getenv env ''SYNTHIA_TELEMETRY_MAX_QUEUE'' ''500'') of
        None \<Rightarrow> Inl (ValueError ''invalid literal for int()'')
      | Some m \<Rightarrow>
          if \<not> float_text_ok (getenv env ''SYNTHIA_TELEMETRY_FLUSH_INTERVAL_S'' ''15'') then
            Inl (ValueError ''could not convert string to float'')
          else if \<not> float_text_ok (getenv env ''SYNTHIA_TELEMETRY_TIMEOUT_S'' ''3'') then
            Inl (ValueError ''could not convert string to float'')
          else Inr \<lparr>tel_addon_id = addon_id, tel_service_name = service_name,
            tel_queue = load_queue m file, tel_file = file, tel_max_queue = m,
            tel_lock_held = False\<rparr>)"

text \<open>\<open>with self._lock: body\<close>.\<close>

definition with_lock :: "(telemetry \<Rightarrow> ('a \<times> telemetry) option) \<Rightarrow> telemetry \<Rightarrow> ('a \<times> telemetry) option" where
  "with_lock body t =
     (if tel_lock_held t then None
      else case body (t\<lparr>tel_lock_held := True\<rparr>) of
        None \<Rightarrow> None
      | Some (x, t') \<Rightarrow> Some (x, t'\<lparr>tel_lock_held := False\<rparr>))"

text \<open>The directory is made before the lock is taken, the file is written after it is released.\<close>

definition persist_queue :: "tel_disk \<Rightarrow> telemetry \<Rightarrow> (unit res \<times> telemetry) option" where
  "persist_queue disk t =
     (case td_mkdir disk of
        Some n \<Rightarrow> Some (Inl (OSError n), t)
      | None \<Rightarrow>
          (case with_lock (\<lambda>t. Some (map (\<lambda>item. Some (JObj item)) (tel_queue t), t)) t of
             None \<Rightarrow> None
           | Some (lines, t') \<Rightarrow>
               (case td_write disk of
                  None \<Rightarrow> Some (Inr (), t'\<lparr>tel_file := Some lines\<rparr>)
                | Some (n, None) \<Rightarrow> Some (Inl (OSError n), t')
                | Some (n, Some left) \<Rightarrow> Some (Inl (OSError n), t'\<lparr>tel_file := Some left\<rparr>))))"

definition usage_event :: "string \<Rightarrow> telemetry \<Rightarrow> string \<Rightarrow> string \<Rightarrow> int \<Rightarrow> dict" where
  "usage_event now t consumer operation count =
     [(''addon_id'', JStr (tel_addon_id t)), (''service'', JStr operation),
      (''tokens_used'', JInt count), (''cost_estimate'', JInt 0), (''timestamp'', JStr now),
      (''consumer_addon_id'', JStr consumer), (''service_name'', JStr (tel_service_name t))]"

definition append_event :: "dict \<Rightarrow> telemetry \<Rightarrow> telemetry" where
  "append_event event t =
     (let q = tel_queue t @ [event] in
      if int (length q) > tel_max_queue t
      then t\<lparr>tel_queue := slice_from q (- tel_max_queue t)\<rparr> else t\<lparr>tel_queue := q\<rparr>)"

definition enqueue_usage ::
  "env \<Rightarrow> tel_disk \<Rightarrow> string \<Rightarrow> string \<Rightarrow> string \<Rightarrow> int \<Rightarrow> telemetry \<Rightarrow> (unit res \<times> telemetry) option" where
  "enqueue_usage env disk now consumer operation count t =
     (if \<not> tel_enabled env then Some (Inr (), t)
      else case with_lock (\<lambda>t. Some ((), append_event (usage_event now t consumer operation count) t)) t of
        None \<Rightarrow> None
      | Some (_, t') \<Rightarrow> persist_queue disk t')"

text \<open>The request is built outside the \<open>try\<close>: an address without a type raises.\<close>

definition post_event :: "network \<Rightarrow> env \<Rightarrow> nat \<Rightarrow> string \<Rightarrow> dict \<Rightarrow> bool res" where
  "post_event http env k url payload =
     (let service_token = strip (getenv env ''SYNTHIA_SERVICE_TOKEN'' []);
          headers = (''Content-Type'', ''application/json'')
            # (if service_token \<noteq> [] then [(''Authorization'', ''Bearer '' @ service_token)] else [])
      in if \<not> url_typed url then Inl unknown_url_type
         else case http k \<lparr>req_url = url, req_headers = headers, req_body = payload\<rparr> of
           Replied status _ \<Rightarrow> Inr (success_status status)
         | HttpErrorReply _ _ \<Rightarrow> Inr False
         | NoReply _ \<Rightarrow> Inr False)"

text \<open>
  The first block of the loop of \<open>_flush_once\<close>: with the lock held, an empty queue is
  persisted, which takes the lock again.
\<close>

definition peek_event :: "tel_disk \<Rightarrow> telemetry \<Rightarrow> (dict option res \<times> telemetry) option" where
  "peek_event disk t = with_lock
     (\<lambda>t. case tel_queue t of
        [] \<Rightarrow> (case persist_queue disk t of
            None \<Rightarrow> None
          | Some (Inl e, t') \<Rightarrow> Some (Inl e, t')
          | Some (Inr _, t') \<Rightarrow> Some (Inr None, t'))
      | event # _ \<Rightarrow> Some (Inr (Some event), t)) t"

definition pop_event :: "telemetry \<Rightarrow> (unit \<times> telemetry) option" where
  "pop_event t = with_lock (\<lambda>t. Some ((), t\<lparr>tel_queue := tl (tel_queue t)\<rparr>)) t"

lemma peek_event_Some:
  "peek_event disk t = Some (Inr (Some e), t') \<Longrightarrow> tel_queue t' = tel_queue t \<and> tel_queue t \<noteq> []"
  by (auto simp: peek_event_def with_lock_def split: if_splits list.splits option.splits prod.splits sum.splits)

lemma pop_event_queue: "pop_event t = Some (u, t') \<Longrightarrow> tel_queue t' = tl (tel_queue t)"
  by (auto simp: pop_event_def with_lock_def split: if_splits)

function flush_loop ::
  "(nat \<Rightarrow> dict \<Rightarrow> bool res) \<Rightarrow> tel_disk \<Rightarrow> nat \<Rightarrow> telemetry \<Rightarrow> (unit res \<times> telemetry) option" where
  "flush_loop post disk k t =
     (case peek_event disk t of
        None \<Rightarrow> None
      | Some (Inl e, t1) \<Rightarrow> Some (Inl e, t1)
      | Some (Inr None, t1) \<Rightarrow> Some (Inr (), t1)
      | Some (Inr (Some event), t1) \<Rightarrow>
          (case post k event of
             Inl e \<Rightarrow> Some (Inl e, t1)
           | Inr True \<Rightarrow>
               (case pop_event t1 of
                  None \<Rightarrow> None
                | Some (_, t2) \<Rightarrow> flush_loop post disk (Suc k) t2)
           | Inr False \<Rightarrow> persist_queue disk t1))"
  by pat_completeness auto
termination
  by (relation "measure (\<lambda>(post, disk, k, t). length (tel_queue t))")
    (simp, use peek_event_Some pop_event_queue in fastforce)

declare flush_loop.simps [simp del]

definition telemetry_url :: "env \<Rightarrow> string" where
  "telemetry_url env = rstrip_char (CHR ''/'') (tel_core_base_url env) @ ''/api/telemetry/usage''"

definition flush_once :: "network \<Rightarrow> env \<Rightarrow> tel_disk \<Rightarrow> telemetry \<Rightarrow> (unit res \<times> telemetry) option" where
  "flush_once http env disk t =
     (if \<not> tel_enabled env then Some (Inr (), t)
      else if tel_core_base_url env = [] then Some (Inr (), t)
      else flush_loop (\<lambda>k event. post_event http env k (telemetry_url env) event) disk 0 t)"

text \<open>\<open>stop()\<close>, once the background thread has been joined.\<close>

definition tel_stop :: "network \<Rightarrow> env \<Rightarrow> tel_disk \<Rightarrow> telemetry \<Rightarrow> (unit res \<times> telemetry) option" where
  "tel_stop http env disk t =
     (case flush_once http env disk t of
        None \<Rightarrow> None
      | Some (Inl e, t') \<Rightarrow> Some (Inl e, t')
      | Some (Inr _, t') \<Rightarrow> persist_queue disk t')"

section \<open>Lemmas\<close>

definition queue_lines :: "dict list \<Rightarrow> json option list" where
  "queue_lines q = map (\<lambda>item. Some (JObj item)) q"

lemma lock_free_update: "\<not> tel_lock_held t \<Longrightarrow> t\<lparr>tel_lock_held := False\<rparr> = t"
  by simp

text \<open>Persisting while the lock is free.\<close>

definition persisted :: "tel_disk \<Rightarrow> telemetry \<Rightarrow> unit res \<times> telemetry" where
  "persisted disk t =
     (case td_mkdir disk of
        Some n \<Rightarrow> (Inl (OSError n), t)
      | None \<Rightarrow>
          (case td_write disk of
             None \<Rightarrow> (Inr (), t\<lparr>tel_file := Some (queue_lines (tel_queue t))\<rparr>)
           | Some (n, None) \<Rightarrow> (Inl (OSError n), t)
           | Some (n, Some left) \<Rightarrow> (Inl (OSError n), t\<lparr>tel_file := Some left\<rparr>)))"

definition disk_ok :: "tel_disk \<Rightarrow> bool" where
  "disk_ok disk = (td_mkdir disk = None \<and> td_write disk = None)"

lemma disk_ok_good [simp]: "disk_ok good_disk"
  by (simp add: disk_ok_def good_disk_def)

lemma persisted_fields [simp]:
  "tel_lock_held (snd (persisted disk t)) = tel_lock_held t"
  "tel_queue (snd (persisted disk t)) = tel_queue t"
  by (simp_all add: persisted_def split: option.splits prod.splits)

lemma persisted_ok_iff: "fst (persisted disk t) = Inr () \<longleftrightarrow> disk_ok disk"
  by (auto simp: persisted_def disk_ok_def split: option.splits)

lemma persisted_ok: "disk_ok disk \<Longrightarrow> persisted disk t = (Inr (), t\<lparr>tel_file := Some (queue_lines (tel_queue t))\<rparr>)"
  by (simp add: persisted_def disk_ok_def)

lemma persisted_error: "fst (persisted disk t) = Inl e \<Longrightarrow> \<not> disk_ok disk \<and> (\<exists>n. e = OSError n)"
  by (auto simp: persisted_def disk_ok_def split: option.splits)

lemma persist_queue_free: "\<not> tel_lock_held t \<Longrightarrow> persist_queue disk t = Some (persisted disk t)"
  by (simp add: persist_queue_def with_lock_def persisted_def queue_lines_def split: option.splits prod.splits)

lemma persist_queue_held: "tel_lock_held t \<Longrightarrow>
  persist_queue disk t = (case td_mkdir disk of None \<Rightarrow> None | Some n \<Rightarrow> Some (Inl (OSError n), t))"
  by (simp add: persist_queue_def with_lock_def split: option.splits)

lemma peek_event_free:
  "\<not> tel_lock_held t \<Longrightarrow> peek_event disk t =
     (case tel_queue t of
        [] \<Rightarrow> (case td_mkdir disk of None \<Rightarrow> None | Some n \<Rightarrow> Some (Inl (OSError n), t))
      | event # _ \<Rightarrow> Some (Inr (Some event), t))"
  by (simp add: peek_event_def with_lock_def persist_queue_held split: list.splits option.splits)

lemma pop_event_free:
  "\<not> tel_lock_held t \<Longrightarrow> pop_event t = Some ((), t\<lparr>tel_queue := tl (tel_queue t)\<rparr>)"
  by (simp add: pop_event_def with_lock_def)

text \<open>What is left of a queue when the first event that is not accepted stops the sending.\<close>

fun first_refused :: "(nat \<Rightarrow> dict \<Rightarrow> bool) \<Rightarrow> nat \<Rightarrow> dict list \<Rightarrow> dict list option" where
  "first_refused post k [] = None"
| "first_refused post k (e # q) = (if post k e then first_refused post (Suc k) q else Some (e # q))"

lemma first_refused_suffix: "first_refused post k q = Some r \<Longrightarrow> suffix r q \<and> r \<noteq> []"
  by (induction post k q rule: first_refused.induct) (auto simp: suffix_ConsI split: if_splits)

lemma flush_loop_free:
  "\<not> tel_lock_held t \<Longrightarrow> flush_loop (\<lambda>k e. Inr (post k e)) disk k t =
     (case first_refused post k (tel_queue t) of
        None \<Rightarrow> (case td_mkdir disk of None \<Rightarrow> None | Some n \<Rightarrow> Some (Inl (OSError n), t\<lparr>tel_queue := []\<rparr>))
      | Some q \<Rightarrow> Some (persisted disk (t\<lparr>tel_queue := q\<rparr>)))"
proof (induction "tel_queue t" arbitrary: k t)
  case Nil
  then have "t\<lparr>tel_queue := []\<rparr> = t" by simp
  with Nil show ?case by (subst flush_loop.simps) (simp add: peek_event_free split: option.splits)
next
  case (Cons e q)
  let ?t = "t\<lparr>tel_queue := q\<rparr>"
  have q: "tel_queue t = e # q" using Cons.hyps(2) by simp
  have IH: "flush_loop (\<lambda>k e. Inr (post k e)) disk (Suc k) ?t = (case first_refused post (Suc k) (tel_queue ?t) of
        None \<Rightarrow> (case td_mkdir disk of None \<Rightarrow> None | Some n \<Rightarrow> Some (Inl (OSError n), ?t\<lparr>tel_queue := []\<rparr>))
      | Some r \<Rightarrow> Some (persisted disk (?t\<lparr>tel_queue := r\<rparr>)))"
    using Cons.prems by (intro Cons.hyps(1)) simp_all
  have "flush_loop (\<lambda>k e. Inr (post k e)) disk k t =
      (if post k e then flush_loop (\<lambda>k e. Inr (post k e)) disk (Suc k) ?t else persist_queue disk t)"
    by (subst flush_loop.simps) (simp add: peek_event_free pop_event_free Cons.prems q)
  moreover have "t\<lparr>tel_queue := e # q\<rparr> = t" using q by simp
  then have "persisted disk (t\<lparr>tel_queue := e # q\<rparr>) = persisted disk t" by (rule arg_cong)
  ultimately show ?case
    using IH Cons.prems by (simp add: q persist_queue_free split: option.splits)
qed

lemma flush_loop_raises:
  assumes "\<not> tel_lock_held t" and "tel_queue t = e # q" and "post k e = Inl x"
  shows "flush_loop post disk k t = Some (Inl x, t)"
  by (subst flush_loop.simps) (simp add: peek_event_free assms)

text \<open>Whether the Core takes an event that is sent to it.\<close>

definition accepted :: "network \<Rightarrow> env \<Rightarrow> nat \<Rightarrow> dict \<Rightarrow> bool" where
  "accepted http env k event = (post_event http env k (telemetry_url env) event = Inr True)"

lemma post_event_typed:
  "url_typed (telemetry_url env) \<Longrightarrow>
   (\<lambda>k e. post_event http env k (telemetry_url env) e) = (\<lambda>k e. Inr (accepted http env k e))"
  by (intro ext) (auto simp: accepted_def post_event_def Let_def split: http_reply.splits)

lemma flush_once_free:
  assumes "tel_enabled env" and "tel_core_base_url env \<noteq> []" and "\<not> tel_lock_held t"
  shows "flush_once http env disk t =
    (if tel_queue t \<noteq> [] \<and> \<not> url_typed (telemetry_url env) then Some (Inl unknown_url_type, t)
     else case first_refused (accepted http env) 0 (tel_queue t) of
       None \<Rightarrow> (case td_mkdir disk of None \<Rightarrow> None | Some n \<Rightarrow> Some (Inl (OSError n), t\<lparr>tel_queue := []\<rparr>))
     | Some q \<Rightarrow> Some (persisted disk (t\<lparr>tel_queue := q\<rparr>)))"
proof (cases "url_typed (telemetry_url env)")
  case True
  with assms show ?thesis by (simp add: flush_once_def post_event_typed flush_loop_free)
next
  case False
  show ?thesis
  proof (cases "tel_queue t")
    case Nil
    then have "t\<lparr>tel_queue := []\<rparr> = t" by simp
    with Nil assms show ?thesis
      by (simp add: flush_once_def) (subst flush_loop.simps, simp add: peek_event_free split: option.splits)
  next
    case (Cons e q)
    with False assms show ?thesis
      by (simp add: flush_once_def flush_loop_raises [OF assms(3) Cons] post_event_def Let_def)
  qed
qed

lemma flush_once_off:
  "\<not> (tel_enabled env \<and> tel_core_base_url env \<noteq> []) \<Longrightarrow> flush_once http env disk t = Some (Inr (), t)"
  by (auto simp: flush_once_def)

text \<open>A flush that returns leaves the lock free.\<close>

lemma flush_once_lock:
  assumes "flush_once http env disk t = Some (res, t')" and "\<not> tel_lock_held t"
  shows "\<not> tel_lock_held t'"
proof (cases "tel_enabled env \<and> tel_core_base_url env \<noteq> []")
  case True
  have p: "persisted disk (t\<lparr>tel_queue := q\<rparr>) = (res, t') \<Longrightarrow> \<not> tel_lock_held t'" for q
    using persisted_fields(1) [of disk "t\<lparr>tel_queue := q\<rparr>"] assms(2) by simp
  show ?thesis
  proof (cases "tel_queue t \<noteq> [] \<and> \<not> url_typed (telemetry_url env)")
    case True
    with assms \<open>tel_enabled env \<and> _\<close> show ?thesis by (simp add: flush_once_free)
  next
    case False
    with assms True p show ?thesis
      by (cases "first_refused (accepted http env) 0 (tel_queue t)"; cases "td_mkdir disk")
        (auto simp: flush_once_free)
  qed
next
  case False
  with assms show ?thesis by (simp add: flush_once_off)
qed

text \<open>An event stored by a thread that finds the lock free.\<close>

definition store_event :: "dict \<Rightarrow> telemetry \<Rightarrow> telemetry" where
  "store_event event t =
     (let t' = append_event event t in t'\<lparr>tel_file := Some (queue_lines (tel_queue t'))\<rparr>)"

lemma append_event_fields [simp]:
  "tel_lock_held (append_event e t) = tel_lock_held t"
  "tel_max_queue (append_event e t) = tel_max_queue t"
  "tel_addon_id (append_event e t) = tel_addon_id t"
  "tel_service_name (append_event e t) = tel_service_name t"
  by (simp_all add: append_event_def Let_def)

lemma append_event_queue:
  "tel_max_queue t = int (Suc n) \<Longrightarrow> tel_queue (append_event e t) = take_last (Suc n) (tel_queue t @ [e])"
proof -
  assume m: "tel_max_queue t = int (Suc n)"
  have "slice_from (tel_queue t @ [e]) (- int (Suc n)) = take_last (Suc n) (tel_queue t @ [e])"
    by (rule slice_from_neg) simp
  with m show ?thesis by (simp add: append_event_def Let_def)
qed

interpretation telemetry_log: bounded_log store_event tel_queue
    "\<lambda>t. \<not> tel_lock_held t \<and> tel_max_queue t = int (Suc n)" "Suc n" for n
  by unfold_locales (simp_all add: store_event_def Let_def append_event_queue)

text \<open>What a report leaves while the lock is free.\<close>

lemma enqueue_usage_persisted:
  assumes "tel_enabled env" and "\<not> tel_lock_held t"
  shows "enqueue_usage env disk now consumer operation count t
     = Some (persisted disk (append_event (usage_event now t consumer operation count) t))"
proof -
  let ?e = "usage_event now t consumer operation count"
  have "usage_event now (t\<lparr>tel_lock_held := True\<rparr>) consumer operation count = ?e"
    by (simp add: usage_event_def)
  moreover have "append_event ?e (t\<lparr>tel_lock_held := True\<rparr>)\<lparr>tel_lock_held := False\<rparr> = append_event ?e t"
    using assms(2) by (simp add: append_event_def Let_def)
  ultimately show ?thesis
    using assms by (simp add: enqueue_usage_def with_lock_def persist_queue_free)
qed

lemma enqueue_usage_free:
  assumes "tel_enabled env" and "\<not> tel_lock_held t" and "disk_ok disk"
  shows "enqueue_usage env disk now consumer operation count t
     = Some (Inr (), store_event (usage_event now t consumer operation count) t)"
  using assms by (simp add: enqueue_usage_persisted persisted_ok store_event_def Let_def)

text \<open>With the lock free a report returns and leaves it free; it raises only what the disk raises.\<close>

definition usage_reported :: "env \<Rightarrow> tel_disk \<Rightarrow> bool" where
  "usage_reported env disk = (\<not> tel_enabled env \<or> disk_ok disk)"

lemma enqueue_usage_returns:
  assumes "\<not> tel_lock_held t"
  shows "\<exists>r t'. enqueue_usage env disk now consumer operation count t = Some (r, t') \<and> \<not> tel_lock_held t' \<and>
    (r = Inr () \<longleftrightarrow> usage_reported env disk) \<and> (\<forall>e. r = Inl e \<longrightarrow> (\<exists>n. e = OSError n))"
proof (cases "tel_enabled env")
  case True
  let ?p = "persisted disk (append_event (usage_event now t consumer operation count) t)"
  have "\<not> tel_lock_held (snd ?p)" using assms by simp
  moreover have "fst ?p = Inr () \<longleftrightarrow> usage_reported env disk"
    using True by (simp add: persisted_ok_iff usage_reported_def)
  moreover have "\<forall>e. fst ?p = Inl e \<longrightarrow> (\<exists>n. e = OSError n)" using persisted_error by blast
  ultimately show ?thesis
    by (intro exI [of _ "fst ?p"] exI [of _ "snd ?p"]) (simp add: enqueue_usage_persisted True assms)
next
  case False
  with assms show ?thesis by (simp add: enqueue_usage_def usage_reported_def)
qed

text \<open>With the lock held it waits for ever, unless telemetry is off.\<close>

lemma enqueue_usage_held:
  "tel_lock_held t \<Longrightarrow>
   enqueue_usage env disk now consumer operation count t = (if tel_enabled env then None else Some (Inr (), t))"
  by (simp add: enqueue_usage_def with_lock_def)

text \<open>A sequence of reports, each with its time stamp, caller, operation and count.\<close>

fun enqueue_all ::
  "env \<Rightarrow> tel_disk \<Rightarrow> (string \<times> string \<times> string \<times> int) list \<Rightarrow> telemetry \<Rightarrow> telemetry option" where
  "enqueue_all env disk [] t = Some t"
| "enqueue_all env disk ((now, consumer, operation, count) # us) t =
     (case enqueue_usage env disk now consumer operation count t of
        None \<Rightarrow> None | Some (_, t') \<Rightarrow> enqueue_all env disk us t')"

definition events_of :: "telemetry \<Rightarrow> (string \<times> string \<times> string \<times> int) list \<Rightarrow> dict list" where
  "events_of t us = map (\<lambda>(now, consumer, operation, count). usage_event now t consumer operation count) us"

lemma usage_event_store [simp]: "usage_event now (store_event e t) = usage_event now t"
  by (intro ext) (simp add: usage_event_def store_event_def Let_def)

lemma events_of_store [simp]: "events_of (store_event e t) us = events_of t us"
  by (simp add: events_of_def)

lemma store_event_lock [simp]: "tel_lock_held (store_event e t) = tel_lock_held t"
  by (simp add: store_event_def Let_def)

lemma enqueue_all_fold:
  "tel_enabled env \<Longrightarrow> \<not> tel_lock_held t \<Longrightarrow> disk_ok disk \<Longrightarrow>
   enqueue_all env disk us t = Some (fold store_event (events_of t us) t)"
proof (induction us arbitrary: t)
  case (Cons u us)
  then show ?case by (cases u) (simp add: enqueue_usage_free, simp add: events_of_def)
qed (simp add: events_of_def)

lemma load_lines_queue: "load_lines (queue_lines q) = Some q"
  by (induction q) (simp_all add: queue_lines_def)

definition example_telemetry :: telemetry where
  "example_telemetry = \<lparr>tel_addon_id = ''mqtt'', tel_service_name = ''mqtt'', tel_queue = [],
     tel_file = None, tel_max_queue = 2, tel_lock_held = False\<rparr>"

definition example_tel_env :: env where
  "example_tel_env = (\<lambda>_. None)(''CORE_URL'' := Some ''http://core/'')"

lemma example_tel_env: "tel_enabled example_tel_env" "tel_core_base_url example_tel_env = ''http://core/''"
  by code_simp+

lemma example_tel_url: "url_typed (telemetry_url example_tel_env)"
  by code_simp

section \<open>Properties\<close>

text \<open>Any sequence of usage reports on a disk that takes them leaves the newest \<open>max_queue\<close>
  events of the queue, oldest first, in memory and never blocks while the lock is free.\<close>

theorem telemetry_keeps_newest:
  assumes "tel_enabled env" and "\<not> tel_lock_held t" and "disk_ok disk"
    and "tel_max_queue t = int (Suc n)" and "us \<noteq> []"
  shows "\<exists>t'. enqueue_all env disk us t = Some t' \<and>
    tel_queue t' = take_last (Suc n) (tel_queue t @ events_of t us)"
proof -
  have "tel_queue (fold store_event (events_of t us) t) = take_last (Suc n) (tel_queue t @ events_of t us)"
    using assms by (intro telemetry_log.contents_fold) (simp_all add: events_of_def)
  with enqueue_all_fold [OF assms(1,2,3)] show ?thesis by simp
qed

text \<open>
  C39: a flush sends events oldest first. When the Core refuses one, that event and all after
  it stay queued in order and are written to the queue file (if the disk takes it; what it
  raises is what the flush raises). When the Core accepts every event the flush never returns,
  because it persists the empty queue under its own lock, unless making the directory raises
  first. A Core address without a type makes the flush of a queue that is not empty raise a
  ValueError and lose nothing.
\<close>

theorem flush_once_outcome:
  assumes "tel_enabled env" and "tel_core_base_url env \<noteq> []" and "\<not> tel_lock_held t"
  shows "flush_once http env disk t =
    (if tel_queue t \<noteq> [] \<and> \<not> url_typed (telemetry_url env) then Some (Inl unknown_url_type, t)
     else case first_refused (\<lambda>k event. post_event http env k (telemetry_url env) event = Inr True) 0 (tel_queue t) of
       None \<Rightarrow> (case td_mkdir disk of None \<Rightarrow> None | Some n \<Rightarrow> Some (Inl (OSError n), t\<lparr>tel_queue := []\<rparr>))
     | Some q \<Rightarrow> Some (persisted disk (t\<lparr>tel_queue := q\<rparr>)))"
  using flush_once_free [OF assms, of http disk] unfolding accepted_def .

theorem flush_once_outcome_witness:
  "flush_once (\<lambda>k r. NoReply ''down'') example_tel_env good_disk
     (example_telemetry\<lparr>tel_queue := [[(''a'', JInt 1)], [(''a'', JInt 2)]]\<rparr>)
   = Some (Inr (), example_telemetry\<lparr>tel_queue := [[(''a'', JInt 1)], [(''a'', JInt 2)]],
       tel_file := Some (queue_lines [[(''a'', JInt 1)], [(''a'', JInt 2)]])\<rparr>)"
  by (subst flush_once_outcome)
    (simp_all add: example_tel_env, simp_all add: example_telemetry_def post_event_def Let_def persisted_ok example_tel_url)

text \<open>The shortest run that blocks: nothing is queued.\<close>

lemma flush_empty_queue_blocks:
  "tel_enabled env \<Longrightarrow> tel_core_base_url env \<noteq> [] \<Longrightarrow> \<not> tel_lock_held t \<Longrightarrow> tel_queue t = [] \<Longrightarrow>
     flush_once http env good_disk t = None"
  by (simp add: flush_once_free good_disk_def)

text \<open>A queue written to disk within the bound is loaded again unchanged by a new reporter.\<close>

theorem telemetry_queue_reloads:
  assumes "persist_queue disk t = Some (Inr (), t')" and "length (tel_queue t) \<le> Suc n"
  shows "load_queue (int (Suc n)) (tel_file t') = tel_queue t"
proof -
  have free: "\<not> tel_lock_held t"
    using assms(1) persist_queue_held [of t disk] by (auto split: option.splits)
  with assms(1) have p: "persisted disk t = (Inr (), t')" by (simp add: persist_queue_free)
  then have "disk_ok disk" using persisted_ok_iff [of disk t] by simp
  with p have "tel_file t' = Some (queue_lines (tel_queue t))" by (auto simp: persisted_ok)
  then show ?thesis
    using assms(2) slice_from_neg [of "Suc n" "tel_queue t"]
    by (simp add: load_queue_def load_lines_queue)
qed

text \<open>A bound of zero is no bound: \<open>q[-0:]\<close> is the whole queue.\<close>

lemma zero_bound_keeps_all: "tel_max_queue t = 0 \<Longrightarrow> tel_queue (append_event e t) = tel_queue t @ [e]"
  by (simp add: append_event_def Let_def)

text \<open>A Core address without a type: the thread that flushes ends with the exception.\<close>

lemma untyped_core_url_raises:
  "flush_once (\<lambda>k r. Replied 200 []) (example_tel_env(''CORE_BASE_URL'' := Some ''core/api'')) good_disk
     (example_telemetry\<lparr>tel_queue := [[(''a'', JInt 1)]]\<rparr>) =
   Some (Inl unknown_url_type, example_telemetry\<lparr>tel_queue := [[(''a'', JInt 1)]]\<rparr>)"
proof -
  let ?e = "example_tel_env(''CORE_BASE_URL'' := Some ''core/api'')"
  have "tel_enabled ?e" "tel_core_base_url ?e \<noteq> []" "\<not> url_typed (telemetry_url ?e)" by code_simp+
  then show ?thesis by (subst flush_once_free) (simp_all add: example_telemetry_def)
qed

end
