(* ===== verification/Gateway.thy ===== *)
theory Gateway
  imports Mqtt_Client Registration_Store Publish_Trace_Store Telemetry_Reporter
begin

text \<open>
  What the publishing endpoints share: the state they work on, the setup check, the trace of
  a decision, and the two ways an endpoint ends, refusing (a trace, then the HTTP error) and
  finishing (a trace, then the usage report, whose file may not be writable: then the
  exception is the answer). A handler that waits for the telemetry lock for ever is \<open>None\<close>.
\<close>

record api_runtime = runtime +
  rt_codec :: dt_codec
  rt_lib :: reg_lib
  rt_disk :: tel_disk

record gateway_world = client_world +
  gw_config :: config_store
  gw_regs :: registration_store
  gw_traces :: trace_store
  gw_telemetry :: telemetry
  gw_service :: "mqtt_service option"

type_synonym 'a handler = "gateway_world \<Rightarrow> ('a res \<times> gateway_world) option"

text \<open>\<open>mqtt_service.publish\<close> in the larger state, with the larger parameters.\<close>

definition base_runtime :: "api_runtime \<Rightarrow> runtime" where
  "base_runtime rt = runtime.truncate rt"

definition gw_publish :: "api_runtime \<Rightarrow> string \<Rightarrow> json \<Rightarrow> bool \<Rightarrow> int \<Rightarrow> (gateway_world, bool) run" where
  "gw_publish rt = mqtt_publish (base_runtime rt)"

text \<open>\<open>setup_state\<close> in \<open>{"ready", "degraded"}\<close> of the install session.\<close>

definition setup_complete :: "api_runtime \<Rightarrow> gateway_world \<Rightarrow> bool res" where
  "setup_complete rt w =
     res_bind (get_install_session_state (rt_env rt) (gw_config w)) (\<lambda>state.
     in_strings (dget state ''setup_state'') [''ready'', ''degraded''])"

text \<open>\<open>reason or dflt\<close>.\<close>

definition reason_or :: "string option \<Rightarrow> string \<Rightarrow> string" where
  "reason_or reason dflt = (case reason of Some r \<Rightarrow> if r \<noteq> [] then r else dflt | None \<Rightarrow> dflt)"

definition add_trace :: "api_runtime \<Rightarrow> trace_request \<Rightarrow> gateway_world \<Rightarrow> gateway_world" where
  "add_trace rt request w =
     w\<lparr>gw_traces := snd (trace_append (rt_codec rt) (rt_now rt) request (gw_traces w))\<rparr>"

text \<open>Record the decision, then raise \<open>HTTPException\<close>.\<close>

definition refuse :: "api_runtime \<Rightarrow> trace_request \<Rightarrow> int \<Rightarrow> string \<Rightarrow> 'a handler" where
  "refuse rt request code detail w = Some (Inl (HTTPException code detail), add_trace rt request w)"

text \<open>Record the success and report one use.\<close>

definition finish :: "api_runtime \<Rightarrow> trace_request \<Rightarrow> string \<Rightarrow> 'a \<Rightarrow> 'a handler" where
  "finish rt request consumer result w =
     (let w1 = add_trace rt request w in
      case enqueue_usage (rt_env rt) (rt_disk rt) (rt_isoformat rt (rt_now rt)) consumer (tr_operation request) 1
          (gw_telemetry w1) of
        None \<Rightarrow> None
      | Some (Inl e, t) \<Rightarrow> Some (Inl e, w1\<lparr>gw_telemetry := t\<rparr>)
      | Some (Inr _, t) \<Rightarrow> Some (Inr result, w1\<lparr>gw_telemetry := t\<rparr>))"

definition raise_as_is :: "exn \<Rightarrow> 'a handler" where
  "raise_as_is e w = Some (Inl e, w)"

section \<open>Lemmas\<close>

lemma add_trace_fields [simp]:
  "cw_outbox (add_trace rt q w) = cw_outbox w"
  "cw_policy (add_trace rt q w) = cw_policy w"
  "cw_health (add_trace rt q w) = cw_health w"
  "cw_metrics (add_trace rt q w) = cw_metrics w"
  "gw_config (add_trace rt q w) = gw_config w"
  "gw_regs (add_trace rt q w) = gw_regs w"
  "gw_telemetry (add_trace rt q w) = gw_telemetry w"
  "gw_service (add_trace rt q w) = gw_service w"
  by (simp_all add: add_trace_def)

lemma gw_publish_fields [simp]:
  "cw_policy (snd (gw_publish rt t p r q w)) = cw_policy w"
  "gw_config (snd (gw_publish rt t p r q w)) = gw_config w"
  "gw_regs (snd (gw_publish rt t p r q w)) = gw_regs w"
  "gw_traces (snd (gw_publish rt t p r q w)) = gw_traces w"
  "gw_telemetry (snd (gw_publish rt t p r q w)) = gw_telemetry w"
  "gw_service (snd (gw_publish rt t p r q w)) = gw_service w"
  by (simp_all add: gw_publish_def mqtt_publish_def Let_def split: sum.splits)

lemma gw_publish_outbox:
  assumes "gw_publish rt t p r q w = (res, w')"
  shows "cw_outbox w' = cw_outbox w @ (case res of Inl _ \<Rightarrow> []
    | Inr _ \<Rightarrow> [\<lparr>mm_topic = t, mm_body = message_body p, mm_qos = q, mm_retain = r\<rparr>])"
  using mqtt_publish_outbox [of "base_runtime rt" t p r q w] assms by (simp add: gw_publish_def)

lemma gw_publish_keeps:
  assumes "gw_publish rt t p r q w = (res, w')"
  shows "cw_policy w' = cw_policy w \<and> gw_config w' = gw_config w \<and> gw_regs w' = gw_regs w \<and>
    gw_traces w' = gw_traces w \<and> gw_telemetry w' = gw_telemetry w \<and> gw_service w' = gw_service w"
  using gw_publish_fields [of rt t p r q w] assms by simp

lemma refuse_result:
  "refuse rt q code detail w = Some (res, w') \<longleftrightarrow> res = Inl (HTTPException code detail) \<and> w' = add_trace rt q w"
  by (auto simp: refuse_def)

text \<open>Finishing: with the lock free it returns, and raises only what the disk raises.\<close>

abbreviation reports :: "api_runtime \<Rightarrow> bool" where
  "reports rt \<equiv> usage_reported (rt_env rt) (rt_disk rt)"

lemma finish_keeps:
  "finish rt q consumer x w = Some (res, w') \<Longrightarrow>
   gw_traces w' = gw_traces (add_trace rt q w) \<and> cw_outbox w' = cw_outbox w \<and> gw_service w' = gw_service w \<and>
   cw_policy w' = cw_policy w \<and> gw_config w' = gw_config w \<and> gw_regs w' = gw_regs w"
  by (auto simp: finish_def Let_def split: option.splits sum.splits)

lemma finish_returns:
  assumes "\<not> tel_lock_held (gw_telemetry w)"
  shows "\<exists>res w'. finish rt q consumer x w = Some (res, w') \<and> \<not> tel_lock_held (gw_telemetry w') \<and>
    (if reports rt then res = Inr x else \<exists>n. res = Inl (OSError n))"
proof -
  obtain r t where e: "enqueue_usage (rt_env rt) (rt_disk rt) (rt_isoformat rt (rt_now rt)) consumer (tr_operation q) 1
      (gw_telemetry (add_trace rt q w)) = Some (r, t)" "\<not> tel_lock_held t"
    "r = Inr () \<longleftrightarrow> reports rt" "\<forall>e. r = Inl e \<longrightarrow> (\<exists>n. e = OSError n)"
    using enqueue_usage_returns [of "gw_telemetry (add_trace rt q w)" "rt_env rt" "rt_disk rt"
        "rt_isoformat rt (rt_now rt)" consumer "tr_operation q" 1] assms by auto
  then show ?thesis by (cases r) (auto simp: finish_def Let_def)
qed

text \<open>With the lock held it does not, while telemetry is on; with telemetry off it succeeds.\<close>

lemma finish_blocked:
  assumes "tel_lock_held (gw_telemetry w)"
  shows "finish rt q consumer x w = (if tel_enabled (rt_env rt) then None else Some (Inr x, add_trace rt q w))"
proof -
  have "add_trace rt q w\<lparr>gw_telemetry := gw_telemetry (add_trace rt q w)\<rparr> = add_trace rt q w" by simp
  then show ?thesis using assms by (simp add: finish_def enqueue_usage_held Let_def)
qed

text \<open>When finishing ends in success, and what else can come of it.\<close>

definition finishes :: "api_runtime \<Rightarrow> gateway_world \<Rightarrow> bool" where
  "finishes rt w = (\<not> tel_enabled (rt_env rt) \<or>
     \<not> tel_lock_held (gw_telemetry w) \<and> td_mkdir (rt_disk rt) = None \<and> td_write (rt_disk rt) = None)"

lemma finish_success_iff: "(\<exists>w'. finish rt q consumer x w = Some (Inr y, w')) \<longleftrightarrow> finishes rt w \<and> y = x"
proof (cases "tel_lock_held (gw_telemetry w)")
  case True
  then show ?thesis by (auto simp: finish_blocked finishes_def)
next
  case False
  then show ?thesis
    using finish_returns [OF False, of rt q consumer x]
    by (cases "td_write (rt_disk rt)") (auto simp: finishes_def usage_reported_def disk_ok_def split: if_splits)
qed

lemma finish_outcome:
  assumes "finish rt q consumer x w = Some (res, w')"
  shows "res = Inr x \<or> \<not> reports rt \<and> (\<exists>n. res = Inl (OSError n))"
proof (cases "tel_lock_held (gw_telemetry w)")
  case True
  with assms show ?thesis by (simp add: finish_blocked split: if_splits)
next
  case False
  with assms finish_returns [OF False, of rt q consumer x] show ?thesis by (auto split: if_splits)
qed

section \<open>How a handler ends\<close>

text \<open>
  An exception that passes through, untraced; a traced refusal; an exception, a rejection or
  a success of the one message the handler may send, or a usage report that cannot be written
  after that success. \<open>R\<close> says which exceptions pass
  through, \<open>T\<close> which traces the handler writes, \<open>S\<close> what it may send.
\<close>

inductive handler_end ::
  "api_runtime \<Rightarrow> (exn \<Rightarrow> bool) \<Rightarrow> (trace_request \<Rightarrow> bool) \<Rightarrow> (string \<Rightarrow> json \<Rightarrow> bool \<Rightarrow> int \<Rightarrow> bool) \<Rightarrow> gateway_world \<Rightarrow>
   'a res \<Rightarrow> gateway_world \<Rightarrow> bool" for rt R T S w where
  raised: "handler_end rt R T S w (Inl e) w" if "R e"
| refused: "handler_end rt R T S w (Inl (HTTPException code m)) (add_trace rt q w)"
    if "T q" and "tr_outcome q = (if code = 500 then Failed else Denied)"
| lib_error: "handler_end rt R T S w (Inl e) w1"
    if "S t p r n" and "gw_publish rt t p r n w = (Inl e, w1)"
| rejected: "handler_end rt R T S w (Inl (HTTPException 500 m)) (add_trace rt q w1)"
    if "S t p r n" and "gw_publish rt t p r n w = (Inr False, w1)" and "T q" and "tr_outcome q = Failed"
| sent: "handler_end rt R T S w (Inr x) w'"
    if "S t p r n" and "gw_publish rt t p r n w = (Inr True, w1)" and "T q" and "tr_outcome q = Success"
      and "finish rt q c x w1 = Some (Inr x, w')"
| unreported: "handler_end rt R T S w (Inl (OSError k)) w'"
    if "S t p r n" and "gw_publish rt t p r n w = (Inr True, w1)" and "T q" and "tr_outcome q = Success"
      and "\<not> reports rt" and "finish rt q c (x :: 'a) w1 = Some (Inl (OSError k), w')"

lemma refuse_end:
  "T q \<Longrightarrow> tr_outcome q = (if code = 500 then Failed else Denied) \<Longrightarrow>
   refuse rt q code m w = Some (res, w') \<Longrightarrow> handler_end rt R T S w res w'"
  by (auto simp: refuse_def intro: handler_end.refused)

lemma raise_end: "R e \<Longrightarrow> raise_as_is e w = Some (res, w') \<Longrightarrow> handler_end rt R T S w res w'"
  by (auto simp: raise_as_is_def intro: handler_end.raised)

text \<open>The last step of every handler: send, then refuse or finish.\<close>

lemma send_end:
  assumes "(case gw_publish rt t p r n w of
        (Inl e, w1) \<Rightarrow> raise_as_is e w1
      | (Inr ok, w1) \<Rightarrow> if \<not> ok then refuse rt qf 500 m w1 else finish rt qs c x w1) = Some (res, w')"
    and "S t p r n" and "T qf" and "tr_outcome qf = Failed" and "T qs" and "tr_outcome qs = Success"
  shows "handler_end rt R T S w res w'"
proof -
  obtain res1 w1 where g: "gw_publish rt t p r n w = (res1, w1)" by fastforce
  show ?thesis
  proof (cases res1)
    case (Inl e)
    with assms(1) g have "res = Inl e" "w' = w1" by (simp_all add: raise_as_is_def)
    with g Inl assms(2) show ?thesis by (auto intro: handler_end.lib_error)
  next
    case (Inr ok)
    show ?thesis
    proof (cases ok)
      case True
      with assms(1) g Inr have f: "finish rt qs c x w1 = Some (res, w')" by simp
      with f g Inr True assms finish_outcome [OF f] show ?thesis
        by (auto intro: handler_end.sent handler_end.unreported)
    next
      case False
      with assms(1) g Inr have "res = Inl (HTTPException 500 m)" "w' = add_trace rt qf w1"
        by (simp_all add: refuse_def)
      with g Inr False assms show ?thesis by (auto intro: handler_end.rejected)
    qed
  qed
qed

text \<open>
  The end of a handler's answer, branch by branch: what each construct of a handler needs of
  its parts. With these rules a handler is followed along its code.
\<close>

definition ends ::
  "api_runtime \<Rightarrow> (exn \<Rightarrow> bool) \<Rightarrow> (trace_request \<Rightarrow> bool) \<Rightarrow> (string \<Rightarrow> json \<Rightarrow> bool \<Rightarrow> int \<Rightarrow> bool) \<Rightarrow> gateway_world \<Rightarrow>
   ('a res \<times> gateway_world) option \<Rightarrow> bool" where
  "ends rt R T S w answer = (\<forall>res w'. answer = Some (res, w') \<longrightarrow> handler_end rt R T S w res w')"

lemma endsD: "ends rt R T S w answer \<Longrightarrow> answer = Some (res, w') \<Longrightarrow> handler_end rt R T S w res w'"
  by (simp add: ends_def)

lemma ends_refuse:
  "T q \<Longrightarrow> tr_outcome q = (if code = 500 then Failed else Denied) \<Longrightarrow> ends rt R T S w (refuse rt q code m w)"
  by (auto simp: ends_def intro: refuse_end)

lemma ends_raise: "R e \<Longrightarrow> ends rt R T S w (raise_as_is e w)"
  by (auto simp: ends_def intro: raise_end)

lemma ends_send:
  assumes "S t p r n" and "T qf" and "tr_outcome qf = Failed" and "T qs" and "tr_outcome qs = Success"
  shows "ends rt R T S w (case gw_publish rt t p r n w of
        (Inl e, w1) \<Rightarrow> raise_as_is e w1
      | (Inr ok, w1) \<Rightarrow> if \<not> ok then refuse rt qf 500 m w1 else finish rt qs c x w1)"
  unfolding ends_def
proof (intro allI impI)
  fix res w'
  assume "(case gw_publish rt t p r n w of
        (Inl e, w1) \<Rightarrow> raise_as_is e w1
      | (Inr ok, w1) \<Rightarrow> if \<not> ok then refuse rt qf 500 m w1 else finish rt qs c x w1) = Some (res, w')"
  then show "handler_end rt R T S w res w'" by (rule send_end [where S = S]) (rule assms)+
qed

lemma ends_if:
  "(b \<Longrightarrow> ends rt R T S w f) \<Longrightarrow> (\<not> b \<Longrightarrow> ends rt R T S w g) \<Longrightarrow> ends rt R T S w (if b then f else g)"
  by simp

lemma ends_sum:
  "(\<And>e. s = Inl e \<Longrightarrow> ends rt R T S w (f e)) \<Longrightarrow> (\<And>x. s = Inr x \<Longrightarrow> ends rt R T S w (g x)) \<Longrightarrow>
   ends rt R T S w (case_sum f g s)"
  by (cases s) simp_all

lemma ends_option:
  "(s = None \<Longrightarrow> ends rt R T S w f) \<Longrightarrow> (\<And>x. s = Some x \<Longrightarrow> ends rt R T S w (g x)) \<Longrightarrow>
   ends rt R T S w (case_option f g s)"
  by (cases s) simp_all

lemma ends_prod:
  "(\<And>x y. p = (x, y) \<Longrightarrow> ends rt R T S w (f x y)) \<Longrightarrow> ends rt R T S w (case_prod f p)"
  by (cases p) simp

lemma ends_topic:
  assumes "\<And>m. validate_publish_topic t a = Inl (TopicPermissionError m) \<Longrightarrow> ends rt R T S w (f m)"
    and "\<And>x. validate_publish_topic t a = Inr x \<Longrightarrow> ends rt R T S w (g x)"
  shows "ends rt R T S w (case validate_publish_topic t a of
      Inl (TopicPermissionError m) \<Rightarrow> f m | Inl e \<Rightarrow> raise_as_is e w | Inr x \<Rightarrow> g x)"
proof (cases "validate_publish_topic t a")
  case (Inl e)
  then obtain m where "e = TopicPermissionError m" using validate_publish_topic_error by blast
  with Inl assms(1) show ?thesis by simp
qed (use assms(2) in simp)

lemma ends_envelope:
  assumes "\<And>m. validate_platform_envelope t p = Inl (EnvelopeValidationError m) \<Longrightarrow> ends rt R T S w (f m)"
    and "\<And>x. validate_platform_envelope t p = Inr x \<Longrightarrow> ends rt R T S w (g x)"
  shows "ends rt R T S w (case validate_platform_envelope t p of
      Inl (EnvelopeValidationError m) \<Rightarrow> f m | Inl e \<Rightarrow> raise_as_is e w | Inr x \<Rightarrow> g x)"
proof (cases "validate_platform_envelope t p")
  case (Inl e)
  then obtain m where "e = EnvelopeValidationError m" using validate_platform_envelope_error by blast
  with Inl assms(1) show ?thesis by simp
qed (use assms(2) in simp)

lemmas ends_rules = ends_send ends_topic ends_envelope ends_if ends_sum ends_option ends_prod
  ends_refuse ends_raise

lemma handler_end_keeps:
  assumes "handler_end rt R T S w res w'"
  shows "cw_policy w' = cw_policy w \<and> gw_config w' = gw_config w \<and> gw_regs w' = gw_regs w"
  using assms
  by cases (auto dest!: gw_publish_keeps finish_keeps)

lemma handler_end_sends:
  assumes "handler_end rt R T S w res w'"
  shows "isl res \<and> cw_outbox w' = cw_outbox w \<or>
    (\<exists>t p r n. S t p r n \<and>
      cw_outbox w' = cw_outbox w @ [\<lparr>mm_topic = t, mm_body = message_body p, mm_qos = n, mm_retain = r\<rparr>])"
  using assms
  by cases (auto dest!: gw_publish_outbox finish_keeps)

text \<open>A success has sent its message; nothing else is a success.\<close>

lemma handler_end_success:
  assumes "handler_end rt R T S w (Inr x) w'"
  shows "\<exists>t p r n. S t p r n \<and>
    cw_outbox w' = cw_outbox w @ [\<lparr>mm_topic = t, mm_body = message_body p, mm_qos = n, mm_retain = r\<rparr>]"
  using assms
  by cases (auto dest!: gw_publish_outbox finish_keeps)

lemma handler_end_lock:
  assumes "handler_end rt R T S w res w'" and "\<not> tel_lock_held (gw_telemetry w)"
  shows "\<not> tel_lock_held (gw_telemetry w')"
  using assms(1)
proof cases
  case (sent t p r n w1 q c x)
  have "\<not> tel_lock_held (gw_telemetry w1)" using gw_publish_keeps [OF sent(3)] assms(2) by simp
  from finish_returns [OF this, of rt q c x] sent(6) show ?thesis by auto
next
  case (unreported t p r n w1 q c x k)
  have "\<not> tel_lock_held (gw_telemetry w1)" using gw_publish_keeps [OF unreported(3)] assms(2) by simp
  from finish_returns [OF this, of rt q c x] unreported(7) show ?thesis by auto
qed (use assms(2) in \<open>auto dest!: gw_publish_keeps\<close>)

text \<open>A lock that is held stays held, and while telemetry is on nothing is answered with success.\<close>

lemma handler_end_held:
  assumes "handler_end rt R T S w res w'" and "tel_lock_held (gw_telemetry w)"
  shows "tel_lock_held (gw_telemetry w') \<and> (tel_enabled (rt_env rt) \<longrightarrow> isl res)"
  using assms(1)
proof cases
  case (sent t p r n w1 q c x)
  have "tel_lock_held (gw_telemetry w1)" using gw_publish_keeps [OF sent(3)] assms(2) by simp
  with sent(6) show ?thesis by (auto simp: finish_blocked split: if_splits)
next
  case (unreported t p r n w1 q c x k)
  have "tel_lock_held (gw_telemetry w1)" using gw_publish_keeps [OF unreported(3)] assms(2) by simp
  with unreported(7) show ?thesis by (auto simp: finish_blocked split: if_splits)
qed (use assms(2) in \<open>auto dest!: gw_publish_keeps\<close>)

lemma finish_Some:
  "\<not> tel_lock_held (gw_telemetry w) \<Longrightarrow> finish rt q c x w \<noteq> None"
  using finish_returns [of w rt q c x] by auto

text \<open>A handler answers if each of its branches does.\<close>

lemma answers_basic:
  "refuse rt q code m w \<noteq> None" "raise_as_is e w \<noteq> None"
  by (simp_all add: refuse_def raise_as_is_def)

lemma answers_if: "f \<noteq> None \<Longrightarrow> g \<noteq> None \<Longrightarrow> (if b then f else g) \<noteq> None"
  by simp

lemma answers_sum: "(\<And>e. f e \<noteq> None) \<Longrightarrow> (\<And>x. g x \<noteq> None) \<Longrightarrow> case_sum f g s \<noteq> None"
  by (cases s) simp_all

lemma answers_option: "f \<noteq> None \<Longrightarrow> (\<And>x. g x \<noteq> None) \<Longrightarrow> case_option f g s \<noteq> None"
  by (cases s) simp_all

lemma answers_prod: "(\<And>x y. f x y \<noteq> None) \<Longrightarrow> case_prod f p \<noteq> None"
  by (cases p) simp

lemma answers_exn:
  assumes "\<And>s. f1 s \<noteq> None" "f2 \<noteq> None" "f3 \<noteq> None" "\<And>s. f4 s \<noteq> None" "\<And>s. f5 s \<noteq> None"
    "\<And>s. f6 s \<noteq> None" "\<And>s. f7 s \<noteq> None" "f8 \<noteq> None" "f9 \<noteq> None" "\<And>s. f10 s \<noteq> None"
    "f11 \<noteq> None" "\<And>i. f12 i \<noteq> None" "f13 \<noteq> None" "\<And>i s. f14 i s \<noteq> None"
  shows "case_exn f1 f2 f3 f4 f5 f6 f7 f8 f9 f10 f11 f12 f13 f14 e \<noteq> None"
  using assms by (cases e) simp_all

lemma answers_send:
  assumes "\<not> tel_lock_held (gw_telemetry w)"
  shows "(case gw_publish rt t p r n w of
        (Inl e, w1) \<Rightarrow> raise_as_is e w1
      | (Inr ok, w1) \<Rightarrow> if \<not> ok then refuse rt qf code m w1 else finish rt qs c x w1) \<noteq> None"
proof -
  obtain res w1 where g: "gw_publish rt t p r n w = (res, w1)" by fastforce
  have "\<not> tel_lock_held (gw_telemetry w1)" using gw_publish_keeps [OF g] assms by simp
  from finish_Some [OF this, of rt qs c x] show ?thesis
    using g by (cases res) (simp_all add: raise_as_is_def refuse_def)
qed

lemmas answers = answers_if answers_sum answers_option answers_prod answers_exn answers_basic

text \<open>
  The trace of an answer: one entry, with the outcome that goes with the answer, or, for an
  exception that is not the handler's own decision, none.
\<close>

definition outcome_for :: "'a res \<Rightarrow> outcome" where
  "outcome_for res = (case res of
       Inr _ \<Rightarrow> Success
     | Inl (HTTPException code _) \<Rightarrow> if code = 500 then Failed else Denied
     | Inl _ \<Rightarrow> Failed)"

text \<open>
  The decision behind an answer: of the handler's own answers only a usage report that cannot
  be written is an \<open>OSError\<close>, and then the message has been sent.
\<close>

definition decision :: "'a res \<Rightarrow> unit res" where
  "decision res = (case res of Inr _ \<Rightarrow> Inr () | Inl (OSError _) \<Rightarrow> Inr () | Inl e \<Rightarrow> Inl e)"

lemma handler_end_trace:
  assumes "handler_end rt R T S w res w'"
  shows "(\<exists>e. res = Inl e \<and> (R e \<or> (\<exists>t p r n. fst (gw_publish rt t p r n w) = Inl e))) \<and>
      gw_traces w' = gw_traces w \<or>
    (\<exists>q. T q \<and> tr_outcome q = outcome_for (decision res) \<and> gw_traces w' = gw_traces (add_trace rt q w))"
  using assms
proof cases
  case (raised e)
  then show ?thesis by blast
next
  case (lib_error t p r n e)
  then show ?thesis using gw_publish_keeps [OF lib_error(3)] fst_conv [of "Inl e :: bool res" w'] by metis
next
  case (refused q code m)
  then show ?thesis by (auto simp: outcome_for_def decision_def)
next
  case (rejected t p r n w1 q m)
  then show ?thesis using gw_publish_keeps [OF rejected(4)]
    by (auto simp: outcome_for_def add_trace_def decision_def)
next
  case (sent t p r n w1 q c x)
  then show ?thesis using gw_publish_keeps [OF sent(3)] finish_keeps [OF sent(6)]
    by (auto simp: outcome_for_def add_trace_def decision_def)
next
  case (unreported t p r n w1 q c x k)
  then show ?thesis using gw_publish_keeps [OF unreported(3)] finish_keeps [OF unreported(7)]
    by (auto simp: add_trace_def outcome_for_def decision_def)
qed

text \<open>
  So a request that no exception passes through leaves one trace more, the newest, and it
  tells how the request was answered.
\<close>

definition latest_trace :: "api_runtime \<Rightarrow> string \<Rightarrow> string \<Rightarrow> 'a res \<Rightarrow> trace_store \<Rightarrow> bool" where
  "latest_trace rt operation caller res s =
     (case list_recent (rt_codec rt) 1 s of
        [] \<Rightarrow> False
      | t # _ \<Rightarrow> tr_operation t = operation \<and> tr_caller_sub t = Some caller \<and>
          tr_outcome t = outcome_for res \<and> tr_timestamp t = rt_now rt)"

lemma handler_end_latest_trace:
  assumes "handler_end rt R T S w res w'"
    and "\<And>e. res = Inl e \<Longrightarrow> \<not> R e" and "\<And>sent m. \<not> isl (rt_paho rt sent m)"
    and "\<And>q. T q \<Longrightarrow> tr_operation q = operation \<and> tr_caller_sub q = Some caller"
    and "dt_roundtrip (rt_codec rt)" and "25 \<le> max_entries (gw_traces w)"
  shows "latest_trace rt operation caller (decision res) (gw_traces w')"
proof -
  have "\<not> isl (fst (gw_publish rt t p r n w))" for t p r n
    using assms(3) [of "cw_outbox w" "\<lparr>mm_topic = t, mm_body = message_body p, mm_qos = n, mm_retain = r\<rparr>"]
    by (auto simp: gw_publish_def mqtt_publish_def base_runtime_def runtime.defs Let_def split: sum.splits)
  then have "(\<exists>t p r n. fst (gw_publish rt t p r n w) = Inl e) \<Longrightarrow> False" for e
    by (metis sum.disc(1))
  with handler_end_trace [OF assms(1)] assms(2) obtain q where
    q: "T q" "tr_outcome q = outcome_for (decision res)" "gw_traces w' = gw_traces (add_trace rt q w)"
    by blast
  obtain rest where "list_recent (rt_codec rt) 1 (gw_traces w') = trace_record_of (rt_now rt) q # rest"
    using append_lists_newest [OF assms(5,6), of 1 "rt_now rt" q] q(3) by (auto simp: add_trace_def)
  with q assms(4) show ?thesis by (simp add: latest_trace_def)
qed

section \<open>Publishing handlers\<close>

text \<open>Serving a list of requests one after the other, with the answers in order.\<close>

fun serve_all :: "('r \<Rightarrow> 'a handler) \<Rightarrow> 'r list \<Rightarrow> gateway_world \<Rightarrow> ('a res list \<times> gateway_world) option" where
  "serve_all handle [] w = Some ([], w)"
| "serve_all handle (r # rs) w =
     (case handle r w of
        None \<Rightarrow> None
      | Some (a, w1) \<Rightarrow>
          (case serve_all handle rs w1 of None \<Rightarrow> None | Some (as, w2) \<Rightarrow> Some (a # as, w2)))"

text \<open>The messages of a list of requests, each of which sends at most one.\<close>

fun sent_messages :: "mqtt_message option list \<Rightarrow> mqtt_message list" where
  "sent_messages [] = []"
| "sent_messages (None # ms) = sent_messages ms"
| "sent_messages (Some m # ms) = m # sent_messages ms"

text \<open>What was sent for one request: nothing, which only an error answers, or one message.\<close>

definition served :: "('r \<Rightarrow> gateway_world \<Rightarrow> mqtt_message \<Rightarrow> bool) \<Rightarrow> gateway_world \<Rightarrow> 'r \<times> 'a res \<Rightarrow>
    mqtt_message option \<Rightarrow> bool" where
  "served allowed w ra message = (case message of None \<Rightarrow> isl (snd ra) | Some m \<Rightarrow> allowed (fst ra) w m)"

text \<open>
  The contract of an endpoint that publishes: for a request it sends at most one message, and
  only one that the request may send in the state it finds; it answers with success only when
  it has sent it; what may be sent depends on nothing it changes; and it returns while the
  telemetry lock is free, which it leaves free.
\<close>

locale publishing_handler =
  fixes handle :: "'r \<Rightarrow> 'a handler"
    and allowed :: "'r \<Rightarrow> gateway_world \<Rightarrow> mqtt_message \<Rightarrow> bool"
  assumes sends: "handle r w = Some (a, w') \<Longrightarrow>
      isl a \<and> cw_outbox w' = cw_outbox w \<or> (\<exists>m. allowed r w m \<and> cw_outbox w' = cw_outbox w @ [m])"
    and stable: "handle r w = Some (a, w') \<Longrightarrow> allowed r' w' = allowed r' w"
    and returns: "\<not> tel_lock_held (gw_telemetry w) \<Longrightarrow>
      \<exists>a w'. handle r w = Some (a, w') \<and> \<not> tel_lock_held (gw_telemetry w')"
begin

lemma served_cong:
  assumes "handle r w = Some (a, w')"
  shows "(served allowed w' :: 'r \<times> 'b res \<Rightarrow> _) = served allowed w"
  using stable [OF assms] by (intro ext) (simp add: served_def split: option.splits)

lemma serve_all_allowed:
  assumes "\<not> tel_lock_held (gw_telemetry w)"
  shows "\<exists>as w' ms. serve_all handle rs w = Some (as, w') \<and> length as = length rs \<and>
    cw_outbox w' = cw_outbox w @ sent_messages ms \<and> list_all2 (served allowed w) (zip rs as) ms"
  using assms
proof (induction rs arbitrary: w)
  case Nil
  then show ?case by (auto intro!: exI [of _ "[]"])
next
  case (Cons r rs)
  obtain a w1 where h: "handle r w = Some (a, w1)" "\<not> tel_lock_held (gw_telemetry w1)"
    using returns [OF Cons.prems] by blast
  obtain as w' ms where r: "serve_all handle rs w1 = Some (as, w')" "length as = length rs"
    "cw_outbox w' = cw_outbox w1 @ sent_messages ms" "list_all2 (served allowed w1) (zip rs as) ms"
    using Cons.IH [OF h(2)] by blast
  have c: "(served allowed w1 :: 'r \<times> 'a res \<Rightarrow> _) = served allowed w" by (rule served_cong [OF h(1)])
  from sends [OF h(1)] obtain mo where m: "served allowed w (r, a) mo"
    "cw_outbox w1 = cw_outbox w @ sent_messages [mo]"
  proof
    assume "isl a \<and> cw_outbox w1 = cw_outbox w"
    with that [of None] show ?thesis by (simp add: served_def)
  next
    assume "\<exists>m. allowed r w m \<and> cw_outbox w1 = cw_outbox w @ [m]"
    then obtain m where "allowed r w m" "cw_outbox w1 = cw_outbox w @ [m]" by blast
    with that [of "Some m"] show ?thesis by (simp add: served_def)
  qed
  have "sent_messages (mo # ms) = sent_messages [mo] @ sent_messages ms" by (cases mo) simp_all
  with h r c m show ?case by (intro exI [of _ "a # as"] exI [of _ w'] exI [of _ "mo # ms"]) simp
qed

end

text \<open>What an endpoint has to show for it: how it ends, that it answers, and what its permission
  depends on.\<close>

lemma publishing_handlerI:
  fixes h :: "'c \<Rightarrow> 'q \<Rightarrow> 'a handler"
  assumes ends_as: "\<And>c q w a w'. h c q w = Some (a, w') \<Longrightarrow> handler_end rt (R w) (T c)
      (\<lambda>t p b n. allowed (c, q) w \<lparr>mm_topic = t, mm_body = message_body p, mm_qos = n, mm_retain = b\<rparr>) w a w'"
    and replies: "\<And>c q w. \<not> tel_lock_held (gw_telemetry w) \<Longrightarrow> h c q w \<noteq> None"
    and cong: "\<And>r w w'. cw_policy w' = cw_policy w \<Longrightarrow> gw_config w' = gw_config w \<Longrightarrow>
      gw_regs w' = gw_regs w \<Longrightarrow> allowed r w' = allowed r w"
  shows "publishing_handler (\<lambda>(c, q). h c q) allowed"
proof (unfold_locales, goal_cases)
  case (1 r w a w')
  then have "h (fst r) (snd r) w = Some (a, w')" by (simp add: split_beta)
  from handler_end_sends [OF ends_as [OF this]] show ?case by auto
next
  case (2 r w a w' r')
  then have "h (fst r) (snd r) w = Some (a, w')" by (simp add: split_beta)
  from handler_end_keeps [OF ends_as [OF this]] show ?case by (intro cong) blast+
next
  case (3 w r)
  obtain a w' where h: "h (fst r) (snd r) w = Some (a, w')" using replies [OF 3, of "fst r" "snd r"] by auto
  from handler_end_lock [OF ends_as [OF h] 3] h show ?case by (auto simp: split_beta)
qed

end
