(* ===== verification/Publish_Api.thy ===== *)
theory Publish_Api
  imports Gateway "HOL-Library.Multiset"
begin

text \<open>
  app/api/mqtt_publish.py with app/models/publish_models.py and app/models/metrics_models.py:
  the endpoints \<open>/publish\<close>, \<open>/gateway/publish\<close>, \<open>/publish-traces\<close> and \<open>/metrics\<close>. A
  handler gets the claims that the dependency has accepted and a request that the request
  model has accepted.
\<close>

section \<open>Requests\<close>

record publish_request =
  pr_topic :: string
  pr_payload :: json
  pr_retain :: bool
  pr_qos :: int

record gateway_publish_request =
  gr_addon_id :: string
  gr_message_type :: string
  gr_payload :: dict
  gr_topic :: "string option"
  gr_qos :: "int option"
  gr_retain :: "bool option"

record gateway_publish_response =
  gp_topic :: string
  gp_qos :: int
  gp_retain :: bool

text \<open>\<open>str(raw).strip() or None\<close>, \<open>None\<close> for \<open>None\<close>.\<close>

definition trace_id :: "json \<Rightarrow> string option" where
  "trace_id v = (if v = JNull then None else let s = strip (py_str v) in if s \<noteq> [] then Some s else None)"

definition extract_trace_ids :: "json \<Rightarrow> string option \<times> string option" where
  "extract_trace_ids payload =
     (case payload of
        JObj d \<Rightarrow> (trace_id (dget d ''message_id''), trace_id (dget d ''correlation_id''))
      | _ \<Rightarrow> (None, None))"

text \<open>The request that \<open>record_trace\<close> appends.\<close>

definition trace_of ::
  "string \<Rightarrow> outcome \<Rightarrow> string \<Rightarrow> string \<Rightarrow> string option \<Rightarrow> string option \<Rightarrow> json \<Rightarrow> trace_request" where
  "trace_of operation outcome caller addon topic detail payload =
     \<lparr>tr_operation = operation, tr_outcome = outcome, tr_addon_id = Some addon, tr_caller_sub = Some caller,
      tr_topic = topic, tr_detail = detail, tr_message_id = fst (extract_trace_ids payload),
      tr_correlation_id = snd (extract_trace_ids payload)\<rparr>"

section \<open>Publishing\<close>

definition publish_message :: "api_runtime \<Rightarrow> service_token_claims \<Rightarrow> publish_request \<Rightarrow> unit handler" where
  "publish_message rt claims request w =
     (let tr = (\<lambda>oc topic detail. trace_of ''mqtt.publish'' oc (sub claims) (sub claims) (Some topic) detail
           (pr_payload request));
          topic0 = strip (pr_topic request) in
      case setup_complete rt w of
        Inl e \<Rightarrow> raise_as_is e w
      | Inr complete \<Rightarrow>
      if \<not> complete then
        refuse rt (tr Denied topic0 (Some ''Setup is not complete'')) 409
          ''Setup is not complete. Finish setup before using MQTT publish APIs.'' w
      else
      (case authorize (rt_env rt) (cw_policy w) claims ''mqtt.publish'' of (allowed, reason) \<Rightarrow>
      if \<not> allowed then
        (let detail = reason_or reason ''Policy denied MQTT publish'' in
         refuse rt (tr Denied topic0 (Some detail)) 403 detail w)
      else
      (case validate_publish_topic topic0 (if sub claims \<noteq> ''anonymous'' then Some (sub claims) else None) of
        Inl (TopicPermissionError m) \<Rightarrow> refuse rt (tr Denied topic0 (Some m)) 400 m w
      | Inl e \<Rightarrow> raise_as_is e w
      | Inr topic \<Rightarrow>
      (case gw_service w of
        None \<Rightarrow> refuse rt (tr Failed topic (Some ''MQTT service unavailable'')) 500
          ''MQTT service unavailable'' w
      | Some _ \<Rightarrow>
      (case validate_platform_envelope topic (pr_payload request) of
        Inl (EnvelopeValidationError m) \<Rightarrow> refuse rt (tr Denied topic (Some m)) 400 m w
      | Inl e \<Rightarrow> raise_as_is e w
      | Inr _ \<Rightarrow>
      (case gw_publish rt topic (pr_payload request) (pr_retain request) (pr_qos request) w of
        (Inl e, w1) \<Rightarrow> raise_as_is e w1
      | (Inr ok, w1) \<Rightarrow>
          if \<not> ok then
            refuse rt (tr Failed topic (Some ''Failed to publish MQTT message'')) 500
              ''Failed to publish MQTT message'' w1
          else finish rt (tr Success topic None) (sub claims) () w1))))))"

definition gateway_publish ::
  "api_runtime \<Rightarrow> service_token_claims \<Rightarrow> gateway_publish_request \<Rightarrow> gateway_publish_response handler" where
  "gateway_publish rt claims request w =
     (let addon = strip (gr_addon_id request);
          tr = (\<lambda>oc topic detail payload. trace_of ''mqtt.gateway.publish'' oc (sub claims) addon topic detail payload);
          payload0 = JObj (gr_payload request);
          topic0 = (case gr_topic request of None \<Rightarrow> None | Some t \<Rightarrow> if t \<noteq> [] then Some (strip t) else None) in
      case setup_complete rt w of
        Inl e \<Rightarrow> raise_as_is e w
      | Inr complete \<Rightarrow>
      if \<not> complete then
        refuse rt (tr Denied topic0 (Some ''Setup is not complete'') payload0) 409
          ''Setup is not complete. Finish setup before using MQTT publish APIs.'' w
      else
      (case authorize (rt_env rt) (cw_policy w) claims ''mqtt.publish'' of (allowed, reason) \<Rightarrow>
      if \<not> allowed then
        (let detail = reason_or reason ''Policy denied MQTT publish'' in
         refuse rt (tr Denied topic0 (Some detail) payload0) 403 detail w)
      else
      (case get_registration (rt_lib rt) (gr_addon_id request) (gw_regs w) of
        None \<Rightarrow>
          (let detail = ''No registration found for addon_id='' @ gr_addon_id request in
           refuse rt (tr Denied topic0 (Some detail) payload0) 404 detail w)
      | Some registration \<Rightarrow>
      let message_type = lower (strip (gr_message_type request)) in
      if message_type = [] then raise_as_is (HTTPException 422 ''message_type must not be empty'') w
      else
      let topic1 = (case gr_topic request of
            Some t \<Rightarrow> if t \<noteq> [] \<and> strip t \<noteq> [] then strip t
              else ''synthia/addons/'' @ addon @ ''/'' @ message_type
          | None \<Rightarrow> ''synthia/addons/'' @ addon @ ''/'' @ message_type) in
      (case validate_publish_topic topic1 (Some addon) of
        Inl (TopicPermissionError m) \<Rightarrow> refuse rt (tr Denied (Some topic1) (Some m) payload0) 400 m w
      | Inl e \<Rightarrow> raise_as_is e w
      | Inr topic \<Rightarrow>
      if \<not> topic_allowed_by_scopes topic (publish (rg_permissions registration)) then
        (let detail = ''Topic not allowed by registration publish scopes: '' @ topic in
         refuse rt (tr Denied (Some topic) (Some detail) payload0) 403 detail w)
      else
      (case get_effective_config (rt_env rt) False (gw_config w) of
        Inl e \<Rightarrow> raise_as_is e w
      | Inr effective \<Rightarrow>
      let qos = (case gr_qos request of Some q \<Rightarrow> q | None \<Rightarrow> eff_qos effective);
          retain = (case gr_retain request of Some r \<Rightarrow> r | None \<Rightarrow> True);
          envelope = JObj [(''type'', JStr message_type), (''source_addon_id'', JStr addon),
            (''timestamp'', JStr (rt_isoformat rt (rt_now rt))), (''data'', payload0)] in
      (case validate_platform_envelope topic envelope of
        Inl (EnvelopeValidationError m) \<Rightarrow> refuse rt (tr Denied (Some topic) (Some m) envelope) 400 m w
      | Inl e \<Rightarrow> raise_as_is e w
      | Inr _ \<Rightarrow>
      (case gw_service w of
        None \<Rightarrow> refuse rt (tr Failed (Some topic) (Some ''MQTT service unavailable'') envelope) 500
          ''MQTT service unavailable'' w
      | Some _ \<Rightarrow>
      (case gw_publish rt topic envelope retain qos w of
        (Inl e, w1) \<Rightarrow> raise_as_is e w1
      | (Inr ok, w1) \<Rightarrow>
          if \<not> ok then
            refuse rt (tr Failed (Some topic) (Some ''Failed to publish MQTT gateway envelope'') envelope) 500
              ''Failed to publish MQTT gateway envelope'' w1
          else
            finish rt (tr Success (Some topic) None envelope) (sub claims)
              \<lparr>gp_topic = topic, gp_qos = qos, gp_retain = retain\<rparr> w1))))))))"

section \<open>Traces and metrics\<close>

definition publish_traces :: "api_runtime \<Rightarrow> int \<Rightarrow> gateway_world \<Rightarrow> trace_record list" where
  "publish_traces rt limit w = list_recent (rt_codec rt) limit (gw_traces w)"

record addon_usage =
  au_success :: nat
  au_denied :: nat
  au_error :: nat

definition usage_key :: "trace_record \<Rightarrow> string" where
  "usage_key t =
     (let name = (case tr_addon_id t of
            Some a \<Rightarrow> if a \<noteq> [] then a else (case tr_caller_sub t of Some c \<Rightarrow> if c \<noteq> [] then c else ''unknown'' | None \<Rightarrow> ''unknown'')
          | None \<Rightarrow> (case tr_caller_sub t of Some c \<Rightarrow> if c \<noteq> [] then c else ''unknown'' | None \<Rightarrow> ''unknown''));
          s = strip name in if s \<noteq> [] then s else ''unknown'')"

definition count_trace :: "trace_record \<Rightarrow> addon_usage \<Rightarrow> addon_usage" where
  "count_trace t u =
     (case tr_outcome t of
        Success \<Rightarrow> u\<lparr>au_success := au_success u + 1\<rparr>
      | Denied \<Rightarrow> u\<lparr>au_denied := au_denied u + 1\<rparr>
      | Failed \<Rightarrow> u\<lparr>au_error := au_error u + 1\<rparr>)"

definition no_usage :: addon_usage where
  "no_usage = \<lparr>au_success = 0, au_denied = 0, au_error = 0\<rparr>"

text \<open>The loop that fills \<open>per_addon\<close>, and \<open>sorted(per_addon.items())\<close>.\<close>

fun usage_by_addon :: "trace_record list \<Rightarrow> (string \<times> addon_usage) list \<Rightarrow> (string \<times> addon_usage) list" where
  "usage_by_addon [] per_addon = per_addon"
| "usage_by_addon (t # ts) per_addon =
     (let u = (case map_of per_addon (usage_key t) of None \<Rightarrow> no_usage | Some u \<Rightarrow> u) in
      usage_by_addon ts (AList.update (usage_key t) (count_trace t u) per_addon))"

record usage_metrics =
  um_publish_count :: nat
  um_denied_publish_count :: nat
  um_reconnect_count :: int
  um_active_registrations :: nat
  um_per_addon_usage :: "(string \<times> addon_usage) list"
  um_mode :: string
  um_direct_access_model :: string
  um_direct_mqtt_supported :: bool

definition metrics :: "api_runtime \<Rightarrow> gateway_world \<Rightarrow> usage_metrics res" where
  "metrics rt w =
     (let traces = list_recent (rt_codec rt) 1000 (gw_traces w);
          publishes = filter (\<lambda>t. contains ''publish'' (tr_operation t)) traces in
      res_bind (get_install_session_state (rt_env rt) (gw_config w)) (\<lambda>install_state.
      res_bind (get_install_state (rt_env rt) (gw_config w)) (\<lambda>install.
      let model0 = strip (ic_external_direct_access_mode install);
          model = (if model0 \<noteq> [] then model0 else ''gateway_only'');
          mode = py_str (py_or (dget install_state ''mode'') (JStr ''external'')) in
      res_bind (reconnect_count (cw_metrics w)) (\<lambda>reconnects.
      Inr \<lparr>um_publish_count = length (filter (\<lambda>t. tr_outcome t = Success) publishes),
        um_denied_publish_count = length (filter (\<lambda>t. tr_outcome t = Denied) publishes),
        um_reconnect_count = reconnects,
        um_active_registrations = length (list_registrations (rt_lib rt) (gw_regs w)),
        um_per_addon_usage = sort_key fst (usage_by_addon publishes []),
        um_mode = mode,
        um_direct_access_model = (if mode = ''external'' then model else ''embedded_managed''),
        um_direct_mqtt_supported = (mode = ''embedded'' \<or> (mode = ''external'' \<and> model = ''manual_direct_access''))\<rparr>))))"


section \<open>What the publishing endpoints may send\<close>

text \<open>The checks both endpoints make before anything else.\<close>

definition caller_admitted :: "api_runtime \<Rightarrow> service_token_claims \<Rightarrow> gateway_world \<Rightarrow> bool" where
  "caller_admitted rt claims w =
     (setup_complete rt w = Inr True \<and> fst (authorize (rt_env rt) (cw_policy w) claims ''mqtt.publish''))"

definition envelope_checked :: "string \<Rightarrow> json \<Rightarrow> bool" where
  "envelope_checked topic payload = (if is_platform_topic (strip topic) then envelope_ok payload else True)"

definition publish_sendable ::
  "api_runtime \<Rightarrow> service_token_claims \<Rightarrow> gateway_world \<Rightarrow> string \<Rightarrow> json \<Rightarrow> bool" where
  "publish_sendable rt claims w topic payload =
     (caller_admitted rt claims w \<and> publish_topic_ok (publish_owner (Some (sub claims))) topic \<and>
      envelope_checked topic payload)"

definition gateway_sendable ::
  "api_runtime \<Rightarrow> service_token_claims \<Rightarrow> string \<Rightarrow> gateway_world \<Rightarrow> string \<Rightarrow> json \<Rightarrow> bool" where
  "gateway_sendable rt claims addon w topic payload =
     (caller_admitted rt claims w \<and>
      (\<exists>registration. get_registration (rt_lib rt) addon (gw_regs w) = Some registration \<and>
         topic_allowed_by_scopes topic (publish (rg_permissions registration))) \<and>
      publish_topic_ok (publish_owner (Some (strip addon))) topic \<and> envelope_checked topic payload \<and>
      (\<exists>ts data. payload = JObj data \<and> dget data ''source_addon_id'' = JStr (strip addon) \<and>
         dget data ''timestamp'' = JStr ts))"

definition publish_allowed ::
  "api_runtime \<Rightarrow> service_token_claims \<times> publish_request \<Rightarrow> gateway_world \<Rightarrow> mqtt_message \<Rightarrow> bool" where
  "publish_allowed rt cr w m =
     (case cr of (claims, request) \<Rightarrow>
        m = \<lparr>mm_topic = strip (pr_topic request), mm_body = message_body (pr_payload request),
          mm_qos = pr_qos request, mm_retain = pr_retain request\<rparr> \<and>
        publish_sendable rt claims w (mm_topic m) (pr_payload request))"

definition gateway_allowed ::
  "api_runtime \<Rightarrow> service_token_claims \<times> gateway_publish_request \<Rightarrow> gateway_world \<Rightarrow> mqtt_message \<Rightarrow> bool" where
  "gateway_allowed rt cr w m =
     (case cr of (claims, request) \<Rightarrow>
        (\<exists>p. mm_body m = message_body p \<and>
           gateway_sendable rt claims (gr_addon_id request) w (mm_topic m) p))"

definition trace_by :: "string \<Rightarrow> service_token_claims \<Rightarrow> trace_request \<Rightarrow> bool" where
  "trace_by operation claims q = (tr_operation q = operation \<and> tr_caller_sub q = Some (sub claims))"

lemma trace_by_trace_of [simp]:
  "trace_by operation claims (trace_of operation oc (sub claims) addon topic detail payload)"
  "tr_outcome (trace_of operation oc caller addon topic detail payload) = oc"
  by (simp_all add: trace_by_def trace_of_def)

lemma anonymous_owner:
  "publish_owner (if sub claims \<noteq> ''anonymous'' then Some (sub claims) else None) =
     publish_owner (Some (sub claims))"
  by (simp add: publish_owner_def)

text \<open>Both endpoints, followed along their code.\<close>

lemma publish_message_end:
  assumes "publish_message rt claims request w = Some (res, w')"
  shows "handler_end rt (\<lambda>e. setup_complete rt w = Inl e) (trace_by ''mqtt.publish'' claims)
    (\<lambda>t p r n. publish_allowed rt (claims, request) w
       \<lparr>mm_topic = t, mm_body = message_body p, mm_qos = n, mm_retain = r\<rparr>) w res w'"
    (is "handler_end rt ?R ?T ?S w res w'")
proof (rule endsD [OF _ assms])
  show "ends rt ?R ?T ?S w (publish_message rt claims request w)"
    unfolding publish_message_def Let_def
    by (intro ends_rules)
      (simp_all add: publish_allowed_def publish_sendable_def caller_admitted_def envelope_checked_def
        publish_topic_iff anonymous_owner platform_envelope_iff)
qed

lemma gateway_publish_end:
  assumes "gateway_publish rt claims request w = Some (res, w')"
  shows "handler_end rt (\<lambda>e. setup_complete rt w = Inl e \<or> get_effective_config (rt_env rt) False (gw_config w) = Inl e \<or>
      e = HTTPException 422 ''message_type must not be empty'') (trace_by ''mqtt.gateway.publish'' claims)
    (\<lambda>t p r n. gateway_allowed rt (claims, request) w
       \<lparr>mm_topic = t, mm_body = message_body p, mm_qos = n, mm_retain = r\<rparr>) w res w'"
    (is "handler_end rt ?R ?T ?S w res w'")
proof (rule endsD [OF _ assms])
  have allowed: "gateway_allowed rt (claims, request) w
      \<lparr>mm_topic = t, mm_body = message_body p, mm_qos = n, mm_retain = r\<rparr>"
    if "gateway_sendable rt claims (gr_addon_id request) w t p" for t p r n
    using that by (auto simp: gateway_allowed_def)
  show "ends rt ?R ?T ?S w (gateway_publish rt claims request w)"
    unfolding gateway_publish_def Let_def
    by (intro ends_rules allowed)
      (simp_all add: gateway_sendable_def caller_admitted_def envelope_checked_def publish_topic_iff
        platform_envelope_iff dget_def dget_or_def)
qed

text \<open>
  What a success of the gateway endpoint says: \<open>yields Q\<close> holds of an answer if \<open>Q\<close> holds of its
  result and of the state after it, whenever it is a success.
\<close>

definition yields :: "('a \<Rightarrow> gateway_world \<Rightarrow> bool) \<Rightarrow> ('a res \<times> gateway_world) option \<Rightarrow> bool" where
  "yields Q answer = (\<forall>x w'. answer = Some (Inr x, w') \<longrightarrow> Q x w')"

lemma yieldsD: "yields Q answer \<Longrightarrow> answer = Some (Inr x, w') \<Longrightarrow> Q x w'"
  by (simp add: yields_def)

lemma yields_refuse: "yields Q (refuse rt q code m w)"
  by (simp add: yields_def refuse_def)

lemma yields_raise: "yields Q (raise_as_is e w)"
  by (simp add: yields_def raise_as_is_def)

lemma yields_send:
  assumes "\<And>w'. cw_outbox w' = cw_outbox w @
      [\<lparr>mm_topic = t, mm_body = message_body p, mm_qos = n, mm_retain = r\<rparr>] \<Longrightarrow> Q x w'"
  shows "yields Q (case gw_publish rt t p r n w of
        (Inl e, w1) \<Rightarrow> raise_as_is e w1
      | (Inr ok, w1) \<Rightarrow> if \<not> ok then refuse rt qf code m w1 else finish rt qs c x w1)"
proof -
  obtain res w1 where g: "gw_publish rt t p r n w = (res, w1)" by fastforce
  have "Q y w'" if "finish rt qs c x w1 = Some (Inr y, w')" "res = Inr ok" for y w' ok
    using finish_outcome [OF that(1)] finish_keeps [OF that(1)] gw_publish_outbox [OF g] that(2)
    by (auto intro!: assms)
  with g show ?thesis
    by (cases res) (auto simp: yields_def raise_as_is_def refuse_def)
qed

lemma yields_if: "yields Q f \<Longrightarrow> (\<not> b \<Longrightarrow> yields Q g) \<Longrightarrow> yields Q (if b then f else g)"
  by simp

lemma yields_sum:
  "(\<And>e. s = Inl e \<Longrightarrow> yields Q (f e)) \<Longrightarrow> (\<And>x. s = Inr x \<Longrightarrow> yields Q (g x)) \<Longrightarrow> yields Q (case_sum f g s)"
  by (cases s) simp_all

lemma yields_option:
  "(s = None \<Longrightarrow> yields Q f) \<Longrightarrow> (\<And>x. s = Some x \<Longrightarrow> yields Q (g x)) \<Longrightarrow> yields Q (case_option f g s)"
  by (cases s) simp_all

lemma yields_prod: "(\<And>x y. p = (x, y) \<Longrightarrow> yields Q (f x y)) \<Longrightarrow> yields Q (case_prod f p)"
  by (cases p) simp

lemma yields_exn:
  assumes "\<And>s. yields Q (f1 s)" "yields Q f2" "yields Q f3" "\<And>s. yields Q (f4 s)" "\<And>s. yields Q (f5 s)"
    "\<And>s. yields Q (f6 s)" "\<And>s. yields Q (f7 s)" "yields Q f8" "yields Q f9" "\<And>s. yields Q (f10 s)"
    "yields Q f11" "\<And>i. yields Q (f12 i)" "yields Q f13" "\<And>i s. yields Q (f14 i s)"
  shows "yields Q (case_exn f1 f2 f3 f4 f5 f6 f7 f8 f9 f10 f11 f12 f13 f14 e)"
  using assms by (cases e) simp_all

lemmas yields_rules = yields_if yields_sum yields_option yields_prod yields_exn yields_refuse yields_raise

lemma gateway_publish_success:
  assumes "gateway_publish rt claims request w = Some (Inr answer, w')"
  shows "\<exists>body. gateway_sendable rt claims (gr_addon_id request) w (gp_topic answer) body \<and>
    cw_outbox w' = cw_outbox w @ [\<lparr>mm_topic = gp_topic answer, mm_body = message_body body,
      mm_qos = gp_qos answer, mm_retain = gp_retain answer\<rparr>]"
    (is "?Q answer w'")
proof (rule yieldsD [OF _ assms])
  have sends: "yields ?Q (case gw_publish rt t p r n w of
        (Inl e, w1) \<Rightarrow> raise_as_is e w1
      | (Inr ok, w1) \<Rightarrow> if \<not> ok then refuse rt qf code m w1
          else finish rt qs c \<lparr>gp_topic = t, gp_qos = n, gp_retain = r\<rparr> w1)"
    if "gateway_sendable rt claims (gr_addon_id request) w t p" for t p r n qf code m qs c
    by (rule yields_send) (use that in auto)
  show "yields ?Q (gateway_publish rt claims request w)"
    unfolding gateway_publish_def Let_def
    by (intro sends yields_rules)
      (simp_all add: gateway_sendable_def caller_admitted_def envelope_checked_def publish_topic_iff
        platform_envelope_iff dget_def dget_or_def)
qed

text \<open>Both return while the telemetry lock is free.\<close>

lemma publish_message_returns:
  assumes "\<not> tel_lock_held (gw_telemetry w)"
  shows "publish_message rt claims request w \<noteq> None"
  unfolding publish_message_def Let_def
  by (rule answers_send [OF assms] answers)+

lemma gateway_publish_returns:
  assumes "\<not> tel_lock_held (gw_telemetry w)"
  shows "gateway_publish rt claims request w \<noteq> None"
  unfolding gateway_publish_def Let_def
  by (rule answers_send [OF assms] answers)+


section \<open>The endpoints as publishing handlers\<close>

lemma caller_admitted_cong:
  "cw_policy w' = cw_policy w \<Longrightarrow> gw_config w' = gw_config w \<Longrightarrow>
   caller_admitted rt claims w' = caller_admitted rt claims w"
  by (simp add: caller_admitted_def setup_complete_def)

lemma api_allowed_cong:
  assumes "cw_policy w' = cw_policy w" and "gw_config w' = gw_config w" and "gw_regs w' = gw_regs w"
  shows "publish_allowed rt pr w' = publish_allowed rt pr w" "gateway_allowed rt gr w' = gateway_allowed rt gr w"
  using assms caller_admitted_cong [of w' w rt]
  by (auto simp: publish_allowed_def publish_sendable_def gateway_allowed_def gateway_sendable_def split_beta)

interpretation publish_endpoint:
  publishing_handler "\<lambda>(claims, request). publish_message rt claims request" "publish_allowed rt" for rt
  by (rule publishing_handlerI, erule publish_message_end, erule publish_message_returns, erule (2) api_allowed_cong)

interpretation gateway_endpoint:
  publishing_handler "\<lambda>(claims, request). gateway_publish rt claims request" "gateway_allowed rt" for rt
  by (rule publishing_handlerI, erule gateway_publish_end, erule gateway_publish_returns, erule (2) api_allowed_cong)

section \<open>The metrics add up\<close>

definition usage_total :: "(addon_usage \<Rightarrow> nat) \<Rightarrow> (string \<times> addon_usage) list \<Rightarrow> nat" where
  "usage_total f per_addon = sum_list (map (\<lambda>ku. f (snd ku)) per_addon)"

lemma usage_total_update:
  "usage_total f (AList.update k v per_addon) + (case map_of per_addon k of None \<Rightarrow> 0 | Some u \<Rightarrow> f u) =
     usage_total f per_addon + f v"
  by (induction per_addon) (auto simp: usage_total_def split: option.splits)

lemma usage_total_sort [simp]: "usage_total f (sort_key g per_addon) = usage_total f per_addon"
proof -
  have "mset (map (\<lambda>ku. f (snd ku)) (sort_key g per_addon)) = mset (map (\<lambda>ku. f (snd ku)) per_addon)"
    by simp
  then show ?thesis unfolding usage_total_def by (metis sum_mset_sum_list)
qed

lemma usage_total_by_addon:
  assumes "\<And>t u. f (count_trace t u) = f u + (if tr_outcome t = oc then 1 else 0)" and "f no_usage = 0"
  shows "usage_total f (usage_by_addon ts per_addon) =
    usage_total f per_addon + length (filter (\<lambda>t. tr_outcome t = oc) ts)"
proof (induction ts arbitrary: per_addon)
  case (Cons t ts)
  define u where "u = (case map_of per_addon (usage_key t) of None \<Rightarrow> no_usage | Some u \<Rightarrow> u)"
  have "usage_total f (AList.update (usage_key t) (count_trace t u) per_addon) =
      usage_total f per_addon + (if tr_outcome t = oc then 1 else 0)"
    using usage_total_update [of f "usage_key t" "count_trace t u" per_addon] assms
    by (simp add: u_def split: option.splits)
  with Cons.IH [of "AList.update (usage_key t) (count_trace t u) per_addon"] show ?case
    by (simp add: Let_def u_def)
qed simp

lemma usage_counts:
  "usage_total au_success (usage_by_addon ts []) = length (filter (\<lambda>t. tr_outcome t = Success) ts)"
  "usage_total au_denied (usage_by_addon ts []) = length (filter (\<lambda>t. tr_outcome t = Denied) ts)"
  "usage_total au_error (usage_by_addon ts []) = length (filter (\<lambda>t. tr_outcome t = Failed) ts)"
  using usage_total_by_addon [of au_success Success ts "[]"] usage_total_by_addon [of au_denied Denied ts "[]"]
    usage_total_by_addon [of au_error Failed ts "[]"]
  by (simp_all add: count_trace_def no_usage_def usage_total_def split: outcome.splits)

lemma usage_keys_distinct:
  "distinct (map fst per_addon) \<Longrightarrow> distinct (map fst (usage_by_addon ts per_addon))"
  by (induction ts arbitrary: per_addon) (simp_all add: Let_def distinct_update)

lemma distinct_map_sort_key: "distinct (map f (sort_key g xs)) = distinct (map f xs)"
proof -
  have "mset (map f (sort_key g xs)) = mset (map f xs)" by simp
  then show ?thesis by (rule mset_eq_imp_distinct_iff)
qed

lemma outcomes_partition:
  "length (filter (\<lambda>t. tr_outcome t = Success) ts) + length (filter (\<lambda>t. tr_outcome t = Denied) ts) +
     length (filter (\<lambda>t. tr_outcome t = Failed) ts) = length ts"
proof (induction ts)
  case (Cons t ts)
  then show ?case by (cases "tr_outcome t") simp_all
qed simp

text \<open>Past the checks, a publish request sends its message and ends with the trace and the usage report.\<close>

lemma publish_message_admitted:
  assumes "publish_sendable rt claims w (strip (pr_topic request)) (pr_payload request)"
  shows "publish_message rt claims request w =
    (let topic = strip (pr_topic request);
         tr = (\<lambda>oc detail. trace_of ''mqtt.publish'' oc (sub claims) (sub claims) (Some topic) detail (pr_payload request)) in
     case gw_service w of
       None \<Rightarrow> refuse rt (tr Failed (Some ''MQTT service unavailable'')) 500 ''MQTT service unavailable'' w
     | Some _ \<Rightarrow>
     case gw_publish rt topic (pr_payload request) (pr_retain request) (pr_qos request) w of
       (Inl e, w1) \<Rightarrow> raise_as_is e w1
     | (Inr ok, w1) \<Rightarrow>
         if \<not> ok then refuse rt (tr Failed (Some ''Failed to publish MQTT message'')) 500 ''Failed to publish MQTT message'' w1
         else finish rt (tr Success None) (sub claims) () w1)"
proof -
  let ?t0 = "strip (pr_topic request)"
  let ?ao = "if sub claims \<noteq> ''anonymous'' then Some (sub claims) else None"
  have su: "setup_complete rt w = Inr True"
    and au: "fst (authorize (rt_env rt) (cw_policy w) claims ''mqtt.publish'')"
    and ok: "publish_topic_ok (publish_owner (Some (sub claims))) ?t0"
    and env: "validate_platform_envelope ?t0 (pr_payload request) = Inr ()"
    using assms platform_envelope_iff [of ?t0 "pr_payload request"]
    by (simp_all add: publish_sendable_def caller_admitted_def envelope_checked_def)
  have topic: "validate_publish_topic ?t0 ?ao = Inr ?t0"
    unfolding publish_topic_iff anonymous_owner using ok by simp
  obtain reason where r: "authorize (rt_env rt) (cw_policy w) claims ''mqtt.publish'' = (True, reason)"
    using au by (metis prod.collapse)
  show ?thesis
    by (cases "gw_service w") (simp_all add: publish_message_def Let_def su r topic env)
qed

section \<open>A concrete state\<close>

definition example_api :: api_runtime where
  "example_api = runtime.extend (example_runtime\<lparr>rt_env := (\<lambda>_. None)\<rparr>)
     \<lparr>rt_codec = example_codec, rt_lib = \<lparr>lib_hmac = (\<lambda>k m. m), lib_sha256_hex = (\<lambda>s. s),
        lib_iso = int_to_dec, lib_isoformat = int_to_dec,
        lib_parse_dt = (\<lambda>v. case v of JStr s \<Rightarrow> int_of_str s | _ \<Rightarrow> None), lib_open_fault = (\<lambda>_. None)\<rparr>,
      rt_disk = good_disk\<rparr>"

definition ready_config :: config_store where
  "ready_config = \<lparr>cs_config = Absent, cs_install = Doc (JObj [(''setup_state'', JStr ''ready'')]),
     cs_fs = example_fs, cs_mounts = example_store, cs_assets = []\<rparr>"

definition example_gateway :: gateway_world where
  "example_gateway = client_world.extend example_world
     \<lparr>gw_config = ready_config,
      gw_regs = \<lparr>rs_file = Doc (JObj [(''vision'', JObj
          [(''addon_id'', JStr ''vision''), (''status'', JStr ''approved''), (''access_mode'', JStr ''gateway_only''),
           (''publish_topics'', JList []), (''subscribe_topics'', JList []),
           (''permissions'', JObj [(''publish'', JList [JStr ''synthia/addons/vision/#'']), (''subscribe'', JList [])]),
           (''ha_mode'', JStr ''none''), (''capabilities'', JObj []), (''updated_at'', JStr ''5'')])]),
        rs_seed = None, rs_acl = (\<lambda>_. None), rs_notes = (\<lambda>_. None)\<rparr>,
      gw_traces = new_trace_store Absent 100, gw_telemetry = example_telemetry,
      gw_service = Some example_service\<rparr>"

definition vision_claims :: service_token_claims where
  "vision_claims = \<lparr>sub = ''vision'', aud = ''mqtt'', jti = ''t1'', scopes = {''mqtt.publish''}, raw = []\<rparr>"

definition vision_request :: publish_request where
  "vision_request = \<lparr>pr_topic = '' synthia/addons/vision/event '',
     pr_payload = JObj [(''type'', JStr ''event''), (''source_addon_id'', JStr ''vision''),
       (''timestamp'', JStr ''now''), (''data'', JNull)], pr_retain = False, pr_qos = 1\<rparr>"

definition vision_gateway_request :: gateway_publish_request where
  "vision_gateway_request = \<lparr>gr_addon_id = ''vision'', gr_message_type = ''Event'', gr_payload = [],
     gr_topic = None, gr_qos = None, gr_retain = None\<rparr>"

lemma example_gateway_lock: "\<not> tel_lock_held (gw_telemetry example_gateway)"
  by code_simp

lemma example_disk: "td_mkdir (rt_disk example_api) = None" "td_write (rt_disk example_api) = None" "reports example_api"
  by (simp_all add: example_api_def runtime.defs good_disk_def usage_reported_def disk_ok_def)

section \<open>Properties\<close>



text \<open>
  whatever publish requests are served one after the other, each is answered; for each
  at most one message is sent, with the topic, body, QoS and retain flag of that request, and
  only if setup is complete, the policy admits its caller, its topic is the caller's to
  publish and a platform message is well formed; and a request is answered with success only
  if its message was sent.
\<close>

theorem publish_requests_safe:
  assumes "\<not> tel_lock_held (gw_telemetry w)"
  shows "\<exists>as w' ms. serve_all (\<lambda>(claims, request). publish_message rt claims request) rs w = Some (as, w') \<and>
    length as = length rs \<and> cw_outbox w' = cw_outbox w @ sent_messages ms \<and>
    list_all2 (served (publish_allowed rt) w) (zip rs as) ms"
  by (rule publish_endpoint.serve_all_allowed [OF assms])

lemma publish_requests_safe_witness:
  "\<exists>as w' ms. serve_all (\<lambda>(claims, request). publish_message example_api claims request)
      [(vision_claims, vision_request), (vision_claims\<lparr>sub := ''lamp''\<rparr>, vision_request)] example_gateway = Some (as, w') \<and>
    length as = 2 \<and> cw_outbox w' = cw_outbox example_gateway @ sent_messages ms"
  using publish_requests_safe [OF example_gateway_lock, of example_api
      "[(vision_claims, vision_request), (vision_claims\<lparr>sub := ''lamp''\<rparr>, vision_request)]"]
  by (auto simp del: serve_all.simps)

text \<open>
  C24: while the telemetry lock is free, whatever gateway requests are served one after the
  other, each is answered (and the lock stays free); for each at most one message is sent, and
  only if setup is complete, the policy admits the caller, the named addon is registered, the
  topic is one that the addon may publish to (not reserved, no wildcard, and in the addon's
  namespace unless its id is \<open>anonymous\<close>) and is covered by the publish scopes of its
  registration, and the body is an object that names the addon as its source, a valid envelope
  when the topic is a platform topic; a request is answered with success only if its message
  was sent.
\<close>

theorem gateway_requests_safe:
  assumes "\<not> tel_lock_held (gw_telemetry w)"
  shows "\<exists>as w' ms. serve_all (\<lambda>(claims, request). gateway_publish rt claims request) rs w = Some (as, w') \<and>
    length as = length rs \<and> cw_outbox w' = cw_outbox w @ sent_messages ms \<and>
    list_all2 (served (gateway_allowed rt) w) (zip rs as) ms"
  by (rule gateway_endpoint.serve_all_allowed [OF assms])

lemma gateway_requests_safe_witness:
  "\<exists>as w' ms. serve_all (\<lambda>(claims, request). gateway_publish example_api claims request)
      [(vision_claims, vision_gateway_request)] example_gateway = Some (as, w') \<and>
    length as = 1 \<and> cw_outbox w' = cw_outbox example_gateway @ sent_messages ms"
  using gateway_requests_safe [OF example_gateway_lock, of example_api "[(vision_claims, vision_gateway_request)]"]
  by (auto simp del: serve_all.simps)

text \<open>
  C34: a publish request that no exception of the session or of paho passes through leaves
  exactly its trace as the newest listed entry, with the caller, the time and the outcome that
  goes with the answer: success, denied, or error for a status of 500. Only a request whose
  message was sent and whose use could then not be reported (an OSError) is answered
  otherwise: its trace says success.
\<close>

theorem publish_message_traced:
  assumes "publish_message rt claims request w = Some (res, w')"
    and "\<not> isl (setup_complete rt w)" and "\<And>sent m. \<not> isl (rt_paho rt sent m)"
    and "dt_roundtrip (rt_codec rt)" and "25 \<le> max_entries (gw_traces w)"
  shows "latest_trace rt ''mqtt.publish'' (sub claims) (case res of Inl (OSError _) \<Rightarrow> Inr () | _ \<Rightarrow> res) (gw_traces w')"
proof -
  have "decision res = (case res of Inl (OSError _) \<Rightarrow> Inr () | _ \<Rightarrow> res)"
    by (simp add: decision_def split: sum.splits exn.splits)
  moreover have "latest_trace rt ''mqtt.publish'' (sub claims) (decision res) (gw_traces w')"
    by (rule handler_end_latest_trace [OF publish_message_end [OF assms(1)] _ assms(3) _ assms(4,5)])
      (use assms(2) in \<open>auto simp: trace_by_def\<close>)
  ultimately show ?thesis by simp
qed

lemma publish_message_traced_witness:
  "\<exists>res w'. publish_message example_api (vision_claims\<lparr>sub := ''lamp''\<rparr>) vision_request example_gateway =
      Some (res, w') \<and> latest_trace example_api ''mqtt.publish'' ''lamp''
        (case res of Inl (OSError _) \<Rightarrow> Inr () | _ \<Rightarrow> res) (gw_traces w')"
proof -
  obtain res w' where h: "publish_message example_api (vision_claims\<lparr>sub := ''lamp''\<rparr>) vision_request
      example_gateway = Some (res, w')"
    using publish_message_returns [OF example_gateway_lock] by fastforce
  have a: "\<not> isl (setup_complete example_api example_gateway)" by code_simp
  have p: "\<not> isl (rt_paho example_api sent m)" for sent m
    by (simp add: example_api_def example_runtime_def runtime.defs)
  have c: "dt_roundtrip (rt_codec example_api)"
    by (simp add: example_api_def runtime.defs example_codec_roundtrip)
  have m: "25 \<le> max_entries (gw_traces example_gateway)" by code_simp
  from publish_message_traced [OF h a p c m] h show ?thesis by auto
qed

text \<open>
  the metrics are consistent: the successes (and the denials) of the addons add up to the
  total, every addon is listed once, in order, and no more is counted than the trace store
  keeps.
\<close>

theorem metrics_add_up:
  assumes "metrics rt w = Inr m"
  shows "usage_total au_success (um_per_addon_usage m) = um_publish_count m \<and>
    usage_total au_denied (um_per_addon_usage m) = um_denied_publish_count m \<and>
    sorted (map fst (um_per_addon_usage m)) \<and> distinct (map fst (um_per_addon_usage m)) \<and>
    um_publish_count m + um_denied_publish_count m + usage_total au_error (um_per_addon_usage m)
      \<le> nat (max 1 (min 1000 (max_entries (gw_traces w))))"
proof (intro conjI)
  let ?ts = "filter (\<lambda>t. contains ''publish'' (tr_operation t)) (list_recent (rt_codec rt) 1000 (gw_traces w))"
  have m: "um_per_addon_usage m = sort_key fst (usage_by_addon ?ts [])"
    "um_publish_count m = length (filter (\<lambda>t. tr_outcome t = Success) ?ts)"
    "um_denied_publish_count m = length (filter (\<lambda>t. tr_outcome t = Denied) ?ts)"
    using assms by (auto simp: metrics_def Let_def res_bind_Inr_iff)
  show "usage_total au_success (um_per_addon_usage m) = um_publish_count m"
    "usage_total au_denied (um_per_addon_usage m) = um_denied_publish_count m"
    by (simp_all add: m usage_counts)
  show "sorted (map fst (um_per_addon_usage m))" by (simp add: m)
  show "distinct (map fst (um_per_addon_usage m))" by (simp add: m distinct_map_sort_key usage_keys_distinct)
  have "length ?ts \<le> length (list_recent (rt_codec rt) 1000 (gw_traces w))" by (rule length_filter_le)
  also have "\<dots> \<le> nat (max 1 (min 1000 (max_entries (gw_traces w))))"
    by (simp only: list_recent_readable length_take min.cobounded2)
  finally show "um_publish_count m + um_denied_publish_count m + usage_total au_error (um_per_addon_usage m)
      \<le> nat (max 1 (min 1000 (max_entries (gw_traces w))))"
    using outcomes_partition [of ?ts] by (simp add: m usage_counts del: filter_filter)
qed

lemma metrics_add_up_witness:
  "\<exists>m. metrics example_api example_gateway = Inr m \<and>
     usage_total au_success (um_per_addon_usage m) = um_publish_count m"
proof -
  have "\<not> isl (metrics example_api example_gateway)" by code_simp
  then obtain m where m: "metrics example_api example_gateway = Inr m"
    by (cases "metrics example_api example_gateway") auto
  from metrics_add_up [OF m] m show ?thesis by blast
qed

text \<open>
  The gateway endpoint does not compare the addon a request names with the caller: any token
  that carries the scope sends in the name of any registered addon.
\<close>

lemma gateway_speaks_for_any_addon:
  "(case gateway_publish example_api (vision_claims\<lparr>sub := ''lamp''\<rparr>) vision_gateway_request example_gateway of
      Some (Inr r, w') \<Rightarrow> gp_topic r | _ \<Rightarrow> []) = ''synthia/addons/vision/event''"
  by code_simp

text \<open>A blank message type is refused with 422 and leaves no trace.\<close>

lemma blank_message_type_untraced:
  "(case gateway_publish example_api vision_claims (vision_gateway_request\<lparr>gr_message_type := '' ''\<rparr>) example_gateway of
      Some (Inl (HTTPException code _), w') \<Rightarrow> (code, trace_contents (gw_traces w')) | _ \<Rightarrow> (0, [])) = (422, [])"
  by code_simp

end
