(* ===== verification/Ha_Api.thy ===== *)
theory Ha_Api
  imports Publish_Api
begin

text \<open>
  app/api/ha_discovery.py with its request models of app/models/publish_models.py: the
  endpoints \<open>/sensor\<close> (a retained Home Assistant discovery document) and \<open>/state/publish\<close> (a
  state of a registered addon).
\<close>

section \<open>Requests\<close>

record ha_discovery_sensor_request =
  hd_addon_id :: string
  hd_unique_id :: string
  hd_name :: string
  hd_state_topic :: string
  hd_unit_of_measurement :: "string option"
  hd_device_class :: "string option"
  hd_icon :: "string option"

record ha_state_publish_request =
  hs_addon_id :: string
  hs_topic :: string
  hs_payload :: json
  hs_retain :: bool
  hs_qos :: int

text \<open>
  The trace request of a decision. Where the code gives no ids, and no topic or detail, the
  model's default \<open>None\<close> stands.
\<close>

definition ha_trace ::
  "string \<Rightarrow> outcome \<Rightarrow> string \<Rightarrow> string \<Rightarrow> string \<Rightarrow> string option \<Rightarrow> string option \<times> string option \<Rightarrow> trace_request" where
  "ha_trace operation outcome addon caller topic detail ids =
     \<lparr>tr_operation = operation, tr_outcome = outcome, tr_addon_id = Some addon, tr_caller_sub = Some caller,
      tr_topic = Some topic, tr_detail = detail, tr_message_id = fst ids, tr_correlation_id = snd ids\<rparr>"

text \<open>
  \<open>str(p.get(k)) if isinstance(p, dict) and p.get(k) is not None else None\<close>, for the two ids:
  unlike the publish endpoints, the text is not stripped.
\<close>

definition plain_id :: "json \<Rightarrow> string \<Rightarrow> string option" where
  "plain_id payload k =
     (case payload of
        JObj d \<Rightarrow> if dget d k \<noteq> JNull then Some (py_str (dget d k)) else None
      | _ \<Rightarrow> None)"

definition plain_ids :: "json \<Rightarrow> string option \<times> string option" where
  "plain_ids payload = (plain_id payload ''message_id'', plain_id payload ''correlation_id'')"

definition discovery_topic :: "ha_discovery_sensor_request \<Rightarrow> string" where
  "discovery_topic request = ''homeassistant/sensor/'' @ hd_unique_id request @ ''/config''"

definition discovery_payload :: "ha_discovery_sensor_request \<Rightarrow> dict" where
  "discovery_payload request =
     [(''unique_id'', JStr (hd_unique_id request)), (''name'', JStr (hd_name request)),
      (''state_topic'', JStr (hd_state_topic request))] @
     opt_field ''unit_of_measurement'' JStr (hd_unit_of_measurement request) @
     opt_field ''device_class'' JStr (hd_device_class request) @
     opt_field ''icon'' JStr (hd_icon request)"

section \<open>The endpoints\<close>

definition publish_sensor_discovery ::
  "api_runtime \<Rightarrow> service_token_claims \<Rightarrow> ha_discovery_sensor_request \<Rightarrow> unit handler" where
  "publish_sensor_discovery rt claims request w =
     (let topic = discovery_topic request;
          tr = (\<lambda>oc detail. ha_trace ''mqtt.ha.discovery.publish'' oc (hd_addon_id request) (sub claims)
            topic detail (None, None)) in
      case setup_complete rt w of
        Inl e \<Rightarrow> raise_as_is e w
      | Inr complete \<Rightarrow>
      if \<not> complete then
        refuse rt (tr Denied (Some ''Setup is not complete'')) 409
          ''Setup is not complete. Finish setup before using HA discovery publish APIs.'' w
      else
      (case authorize (rt_env rt) (cw_policy w) claims ''mqtt.publish'' of (allowed, reason) \<Rightarrow>
      if \<not> allowed then
        (let detail = reason_or reason ''Policy denied HA discovery publish'' in
         refuse rt (tr Denied (Some detail)) 403 detail w)
      else
      (case get_registration (rt_lib rt) (hd_addon_id request) (gw_regs w) of
        None \<Rightarrow>
          (let detail = ''No registration found for addon_id='' @ hd_addon_id request in
           refuse rt (tr Denied (Some detail)) 404 detail w)
      | Some registration \<Rightarrow>
      if rg_ha_mode registration = Ha_None then
        (let detail = ''HA discovery mode is not enabled for this registration'' in
         refuse rt (tr Denied (Some detail)) 403 detail w)
      else
      (case gw_service w of
        None \<Rightarrow> refuse rt (tr Failed (Some ''MQTT service unavailable'')) 500 ''MQTT service unavailable'' w
      | Some _ \<Rightarrow>
      (case gw_publish rt topic (JObj (discovery_payload request)) True 1 w of
        (Inl e, w1) \<Rightarrow> raise_as_is e w1
      | (Inr ok, w1) \<Rightarrow>
          if \<not> ok then
            refuse rt (tr Failed (Some ''Failed to publish HA discovery payload'')) 500
              ''Failed to publish HA discovery payload'' w1
          else finish rt (tr Success None) (sub claims) () w1)))))"

definition publish_gateway_state ::
  "api_runtime \<Rightarrow> service_token_claims \<Rightarrow> ha_state_publish_request \<Rightarrow> unit handler" where
  "publish_gateway_state rt claims request w =
     (let topic0 = strip (hs_topic request);
          ids = plain_ids (hs_payload request);
          tr = ha_trace ''mqtt.ha.state.publish'';
          addon = hs_addon_id request in
      case setup_complete rt w of
        Inl e \<Rightarrow> raise_as_is e w
      | Inr complete \<Rightarrow>
      if \<not> complete then
        refuse rt (tr Denied addon (sub claims) topic0 (Some ''Setup is not complete'') (None, None)) 409
          ''Setup is not complete. Finish setup before using HA state publish APIs.'' w
      else
      (case authorize (rt_env rt) (cw_policy w) claims ''mqtt.publish'' of (allowed, reason) \<Rightarrow>
      if \<not> allowed then
        (let detail = reason_or reason ''Policy denied HA state publish'' in
         refuse rt (tr Denied addon (sub claims) topic0 (Some detail) ids) 403 detail w)
      else
      (case get_registration (rt_lib rt) addon (gw_regs w) of
        None \<Rightarrow>
          (let detail = ''No registration found for addon_id='' @ addon in
           refuse rt (tr Denied addon (sub claims) topic0 (Some detail) (None, None)) 404 detail w)
      | Some registration \<Rightarrow>
      if rg_ha_mode registration = Ha_None then
        (let detail = ''HA state mode is not enabled for this registration'' in
         refuse rt (tr Denied addon (sub claims) topic0 (Some detail) (None, None)) 403 detail w)
      else
      (case gw_service w of
        None \<Rightarrow> refuse rt (tr Failed addon (sub claims) topic0 (Some ''MQTT service unavailable'') (None, None))
          500 ''MQTT service unavailable'' w
      | Some _ \<Rightarrow>
      (case validate_publish_topic topic0 (Some addon) of
        Inl (TopicPermissionError m) \<Rightarrow>
          refuse rt (tr Denied addon (sub claims) topic0 (Some m) (None, None)) 400 m w
      | Inl e \<Rightarrow> raise_as_is e w
      | Inr topic \<Rightarrow>
      (case gw_publish rt topic (hs_payload request) (hs_retain request) (hs_qos request) w of
        (Inl e, w1) \<Rightarrow> raise_as_is e w1
      | (Inr ok, w1) \<Rightarrow>
          if \<not> ok then
            refuse rt (tr Failed addon (sub claims) topic (Some ''Failed to publish HA state payload'') ids) 500
              ''Failed to publish HA state payload'' w1
          else finish rt (tr Success addon (sub claims) topic None ids) (sub claims) () w1))))))"

section \<open>What the endpoints may send\<close>

text \<open>Both are for registered addons that have not opted out of Home Assistant.\<close>

definition ha_registered :: "api_runtime \<Rightarrow> string \<Rightarrow> gateway_world \<Rightarrow> bool" where
  "ha_registered rt addon w =
     (case get_registration (rt_lib rt) addon (gw_regs w) of
        None \<Rightarrow> False | Some registration \<Rightarrow> rg_ha_mode registration \<noteq> Ha_None)"

definition discovery_allowed ::
  "api_runtime \<Rightarrow> service_token_claims \<times> ha_discovery_sensor_request \<Rightarrow> gateway_world \<Rightarrow> mqtt_message \<Rightarrow> bool" where
  "discovery_allowed rt cr w m =
     (case cr of (claims, request) \<Rightarrow>
        m = \<lparr>mm_topic = discovery_topic request, mm_body = Dumped (JObj (discovery_payload request)),
          mm_qos = 1, mm_retain = True\<rparr> \<and>
        caller_admitted rt claims w \<and> ha_registered rt (hd_addon_id request) w)"

definition state_allowed ::
  "api_runtime \<Rightarrow> service_token_claims \<times> ha_state_publish_request \<Rightarrow> gateway_world \<Rightarrow> mqtt_message \<Rightarrow> bool" where
  "state_allowed rt cr w m =
     (case cr of (claims, request) \<Rightarrow>
        m = \<lparr>mm_topic = strip (hs_topic request), mm_body = message_body (hs_payload request),
          mm_qos = hs_qos request, mm_retain = hs_retain request\<rparr> \<and>
        caller_admitted rt claims w \<and> ha_registered rt (hs_addon_id request) w \<and>
        publish_topic_ok (publish_owner (Some (hs_addon_id request))) (mm_topic m))"

lemma trace_by_ha_trace [simp]:
  "trace_by operation claims (ha_trace operation oc addon (sub claims) topic detail ids)"
  "tr_outcome (ha_trace operation oc addon caller topic detail ids) = oc"
  by (simp_all add: trace_by_def ha_trace_def)

lemma sensor_discovery_end:
  assumes "publish_sensor_discovery rt claims request w = Some (res, w')"
  shows "handler_end rt (\<lambda>e. setup_complete rt w = Inl e) (trace_by ''mqtt.ha.discovery.publish'' claims)
    (\<lambda>t p r n. discovery_allowed rt (claims, request) w
       \<lparr>mm_topic = t, mm_body = message_body p, mm_qos = n, mm_retain = r\<rparr>) w res w'"
    (is "handler_end rt ?R ?T ?S w res w'")
proof (rule endsD [OF _ assms])
  show "ends rt ?R ?T ?S w (publish_sensor_discovery rt claims request w)"
    unfolding publish_sensor_discovery_def Let_def
    by (intro ends_rules)
      (simp_all add: discovery_allowed_def caller_admitted_def ha_registered_def message_body_def)
qed

lemma gateway_state_end:
  assumes "publish_gateway_state rt claims request w = Some (res, w')"
  shows "handler_end rt (\<lambda>e. setup_complete rt w = Inl e) (trace_by ''mqtt.ha.state.publish'' claims)
    (\<lambda>t p r n. state_allowed rt (claims, request) w
       \<lparr>mm_topic = t, mm_body = message_body p, mm_qos = n, mm_retain = r\<rparr>) w res w'"
    (is "handler_end rt ?R ?T ?S w res w'")
proof (rule endsD [OF _ assms])
  show "ends rt ?R ?T ?S w (publish_gateway_state rt claims request w)"
    unfolding publish_gateway_state_def Let_def
    by (intro ends_rules)
      (simp_all add: state_allowed_def caller_admitted_def ha_registered_def publish_topic_iff)
qed

lemma sensor_discovery_returns:
  assumes "\<not> tel_lock_held (gw_telemetry w)"
  shows "publish_sensor_discovery rt claims request w \<noteq> None"
  unfolding publish_sensor_discovery_def Let_def
  by (rule answers_send [OF assms] answers)+

lemma gateway_state_returns:
  assumes "\<not> tel_lock_held (gw_telemetry w)"
  shows "publish_gateway_state rt claims request w \<noteq> None"
  unfolding publish_gateway_state_def Let_def
  by (rule answers_send [OF assms] answers)+

lemma ha_allowed_cong:
  assumes "cw_policy w' = cw_policy w" and "gw_config w' = gw_config w" and "gw_regs w' = gw_regs w"
  shows "discovery_allowed rt dr w' = discovery_allowed rt dr w" "state_allowed rt sr w' = state_allowed rt sr w"
  using assms caller_admitted_cong [of w' w rt]
  by (auto simp: discovery_allowed_def state_allowed_def ha_registered_def split_beta)

section \<open>The endpoints as publishing handlers\<close>

interpretation discovery_endpoint:
  publishing_handler "\<lambda>(claims, request). publish_sensor_discovery rt claims request" "discovery_allowed rt" for rt
  by (rule publishing_handlerI, erule sensor_discovery_end, erule sensor_discovery_returns, erule (2) ha_allowed_cong)

interpretation state_endpoint:
  publishing_handler "\<lambda>(claims, request). publish_gateway_state rt claims request" "state_allowed rt" for rt
  by (rule publishing_handlerI, erule gateway_state_end, erule gateway_state_returns, erule (2) ha_allowed_cong)

section \<open>A concrete state\<close>

text \<open>Two registrations, with Home Assistant enabled, whose grants do not cover \<open>.../vision/event\<close>.\<close>

definition ha_document :: "string \<Rightarrow> json" where
  "ha_document addon =
     JObj [(''addon_id'', JStr addon), (''status'', JStr ''approved''), (''access_mode'', JStr ''gateway_only''),
       (''publish_topics'', JList []), (''subscribe_topics'', JList []),
       (''permissions'', JObj [(''publish'', JList []), (''subscribe'', JList [])]),
       (''ha_mode'', JStr ''gateway_managed''), (''capabilities'', JObj []), (''updated_at'', JStr ''5'')]"

definition ha_gateway :: gateway_world where
  "ha_gateway = example_gateway\<lparr>gw_regs := (gw_regs example_gateway)\<lparr>rs_file := Doc (JObj
     [(''vision'', ha_document ''vision''), (''anonymous'', ha_document ''anonymous'')])\<rparr>\<rparr>"

definition vision_sensor :: ha_discovery_sensor_request where
  "vision_sensor = \<lparr>hd_addon_id = ''vision'', hd_unique_id = ''lux'', hd_name = ''Light'',
     hd_state_topic = ''synthia/addons/vision/state/lux'', hd_unit_of_measurement = Some ''lx'',
     hd_device_class = None, hd_icon = None\<rparr>"

definition vision_state :: ha_state_publish_request where
  "vision_state = \<lparr>hs_addon_id = ''vision'', hs_topic = ''synthia/addons/vision/event'', hs_payload = JInt 7,
     hs_retain = True, hs_qos = 1\<rparr>"

lemma ha_gateway_lock: "\<not> tel_lock_held (gw_telemetry ha_gateway)"
  by code_simp

section \<open>Properties\<close>

text \<open>
  whatever sensors are announced to Home Assistant one after the other, each request is
  answered; for each at most one message is sent, the retained discovery document of that
  request under its unique id, and only if setup is complete, the policy admits the caller
  and the named addon is registered with Home Assistant enabled.
\<close>

theorem sensor_requests_safe:
  assumes "\<not> tel_lock_held (gw_telemetry w)"
  shows "\<exists>as w' ms. serve_all (\<lambda>(claims, request). publish_sensor_discovery rt claims request) rs w = Some (as, w') \<and>
    length as = length rs \<and> cw_outbox w' = cw_outbox w @ sent_messages ms \<and>
    list_all2 (served (discovery_allowed rt) w) (zip rs as) ms"
  by (rule discovery_endpoint.serve_all_allowed [OF assms])

lemma sensor_requests_safe_witness:
  "\<exists>as w' ms. serve_all (\<lambda>(claims, request). publish_sensor_discovery example_api claims request)
      [(vision_claims, vision_sensor)] ha_gateway = Some (as, w') \<and>
    length as = 1 \<and> cw_outbox w' = cw_outbox ha_gateway @ sent_messages ms"
  using sensor_requests_safe [OF ha_gateway_lock, of example_api "[(vision_claims, vision_sensor)]"]
  by (auto simp del: serve_all.simps)

text \<open>
  whatever states are published one after the other, each request is answered; for each at
  most one message is sent, the one that was asked for, and only if setup is complete, the
  policy admits the caller, the named addon is registered with Home Assistant enabled, and
  the topic, stripped, lies in the namespace of that addon.
\<close>

theorem state_requests_safe:
  assumes "\<not> tel_lock_held (gw_telemetry w)"
  shows "\<exists>as w' ms. serve_all (\<lambda>(claims, request). publish_gateway_state rt claims request) rs w = Some (as, w') \<and>
    length as = length rs \<and> cw_outbox w' = cw_outbox w @ sent_messages ms \<and>
    list_all2 (served (state_allowed rt) w) (zip rs as) ms"
  by (rule state_endpoint.serve_all_allowed [OF assms])

lemma state_requests_safe_witness:
  "\<exists>as w' ms. serve_all (\<lambda>(claims, request). publish_gateway_state example_api claims request)
      [(vision_claims, vision_state)] ha_gateway = Some (as, w') \<and>
    length as = 1 \<and> cw_outbox w' = cw_outbox ha_gateway @ sent_messages ms"
  using state_requests_safe [OF ha_gateway_lock, of example_api "[(vision_claims, vision_state)]"]
  by (auto simp del: serve_all.simps)

text \<open>
  A published state is held to neither the publish scopes of the registration nor the
  envelope that the other two endpoints ask for.
\<close>

definition sent_by :: "('a res \<times> gateway_world) option \<Rightarrow> mqtt_message list" where
  "sent_by answer = (case answer of Some (_, w') \<Rightarrow> cw_outbox w' | None \<Rightarrow> [])"

lemma state_skips_scopes_and_envelope:
  "map mm_topic (sent_by (publish_gateway_state example_api vision_claims vision_state ha_gateway)) =
     [''synthia/addons/vision/event'']"
  "\<not> topic_allowed_by_scopes ''synthia/addons/vision/event''
     (case get_registration (rt_lib example_api) ''vision'' (gw_regs ha_gateway) of
        Some r \<Rightarrow> publish (rg_permissions r) | None \<Rightarrow> [])"
  "\<not> envelope_checked ''synthia/addons/vision/event'' (hs_payload vision_state)"
  by code_simp+

text \<open>An addon registered as \<open>anonymous\<close> publishes states in every namespace.\<close>

lemma anonymous_state_escapes:
  "map mm_topic (sent_by (publish_gateway_state example_api vision_claims
     (vision_state\<lparr>hs_addon_id := ''anonymous''\<rparr>) ha_gateway)) = [''synthia/addons/vision/event'']"
  by code_simp

text \<open>The unique id is not checked: it may add levels, or wildcards, to the discovery topic.\<close>

lemma unique_id_adds_levels:
  "map mm_topic (sent_by (publish_sensor_discovery example_api vision_claims
     (vision_sensor\<lparr>hd_unique_id := ''x/config/+''\<rparr>) ha_gateway)) = [''homeassistant/sensor/x/config/+/config'']"
  by code_simp

end
