(* ===== verification/Broker_Manager.thy ===== *)
theory Broker_Manager
  imports Config_Store
begin

text \<open>
  app/services/broker_manager.py: the embedded broker's container and its files, and the wait
  for its port; with them the two methods of app/services/config_store.py that write these
  files. Docker, \<open>crypt\<close>, the clock and what a connection attempt answers are parameters.
\<close>

section \<open>The container\<close>

text \<open>
  What the host answers: whether the Docker socket is there, why the SDK cannot be imported
  (if so), the text of the exception that a restart of a container raises (if it does), and
  the attributes of a container (unless asking raises).
\<close>

record docker_host =
  dk_socket :: bool
  dk_sdk_error :: "string option"
  dk_restart_error :: "string \<Rightarrow> string option"
  dk_attrs :: "string \<Rightarrow> dict option"

record broker_restart_result =
  br_restarted :: bool
  br_reason :: "string option"
  br_operator_action :: "string option"

definition DEFAULT_CONTAINER_NAME :: string where
  "DEFAULT_CONTAINER_NAME = ''synthia-addon-mqtt-mosquitto''"

definition OPERATOR_ACTION :: string where
  "OPERATOR_ACTION = ''docker compose -f docker/docker-compose.yml --profile embedded restart mosquitto''"

definition not_restarted :: "string \<Rightarrow> broker_restart_result" where
  "not_restarted reason =
     \<lparr>br_restarted = False, br_reason = Some reason, br_operator_action = Some OPERATOR_ACTION\<rparr>"

text \<open>The result, and the container that has been restarted, if one has.\<close>

definition restart_container :: "docker_host \<Rightarrow> string \<Rightarrow> broker_restart_result \<times> string option" where
  "restart_container dk container_name =
     (if \<not> dk_socket dk then (not_restarted ''Docker socket not available'', None)
      else
        (case dk_sdk_error dk of
           Some e \<Rightarrow> (not_restarted (''Docker SDK unavailable: '' @ e), None)
         | None \<Rightarrow>
             (case dk_restart_error dk container_name of
                Some e \<Rightarrow> (not_restarted (''Docker restart failed: '' @ e), None)
              | None \<Rightarrow> (\<lparr>br_restarted = True, br_reason = None, br_operator_action = None\<rparr>, Some container_name))))"

definition docker_socket_available :: "docker_host \<Rightarrow> bool" where
  "docker_socket_available dk = dk_socket dk"

text \<open>\<open>(container.attrs.get("State") or {}).get("Running")\<close>; a state that is no dictionary raises.\<close>

definition broker_running :: "docker_host \<Rightarrow> string \<Rightarrow> bool" where
  "broker_running dk container_name =
     (dk_socket dk \<and> dk_sdk_error dk = None \<and>
      (case dk_attrs dk container_name of
         None \<Rightarrow> False
       | Some attrs \<Rightarrow>
           (case py_or (dget attrs ''State'') (JObj []) of
              JObj state \<Rightarrow> truthy (dget state ''Running'')
            | _ \<Rightarrow> False)))"

section \<open>Files\<close>

text \<open>
  The broker's directory, by file name. Writing a file may raise; it then leaves the file as
  it was or, once it has been opened, cut off after some of the text. The mode bits are not
  modelled.
\<close>

type_synonym broker_files = "string \<Rightarrow> string option"

type_synonym write_faults = "string \<Rightarrow> (exn \<times> nat option) option"

definition write_text :: "write_faults \<Rightarrow> string \<Rightarrow> string \<Rightarrow> (broker_files, unit) run" where
  "write_text faults name text files =
     (case faults name of
        None \<Rightarrow> (Inr (), files(name \<mapsto> text))
      | Some (e, None) \<Rightarrow> (Inl e, files)
      | Some (e, Some n) \<Rightarrow> (Inl e, files(name \<mapsto> take n text)))"

definition compose_lines :: "string \<Rightarrow> int \<Rightarrow> string \<Rightarrow> string list" where
  "compose_lines broker_dir port addon_service_name =
     [''services:'',
      ''  mosquitto:'',
      ''    image: eclipse-mosquitto:2'',
      ''    container_name: synthia-addon-mqtt-mosquitto'',
      ''    restart: unless-stopped'',
      ''    ports:'',
      ''      - '' @ [CHR 0x22] @ int_to_dec port @ '':1883'' @ [CHR 0x22],
      ''    volumes:'',
      ''      - '' @ broker_dir @ ''/mosquitto.conf:/mosquitto/config/mosquitto.conf:ro'',
      ''      - '' @ broker_dir @ ''/pwfile:/mosquitto/config/passwordfile:ro'',
      ''      - '' @ broker_dir @ ''/aclfile:/mosquitto/config/aclfile:ro'',
      ''    networks:'',
      ''      synthia_net:'',
      ''        aliases:'',
      ''          - mosquitto'',
      [],
      ''  '' @ addon_service_name @ '':'',
      ''    depends_on:'',
      ''      - mosquitto'',
      ''    networks:'',
      ''      - synthia_net'',
      [],
      ''networks:'',
      ''  synthia_net:'',
      ''    name: synthia_net'',
      []]"

definition override_name :: string where
  "override_name = ''docker-compose.override.yml''"

text \<open>\<open>broker_dir\<close> is the resolved path of the directory; the override file lies in it.\<close>

definition write_embedded_compose_override ::
  "write_faults \<Rightarrow> string \<Rightarrow> int \<Rightarrow> string \<Rightarrow> (broker_files, unit) run" where
  "write_embedded_compose_override faults broker_dir port addon_service_name =
     write_text faults override_name (join [newline] (compose_lines broker_dir port addon_service_name))"

text \<open>The command, and the answer to the way \<open>subprocess.run\<close> ends.\<close>

datatype process_end = Exited_Ok | Called_Process_Error string string string | Not_Run string

definition compose_command :: "string \<Rightarrow> string \<Rightarrow> string list" where
  "compose_command repo_root override_file =
     [''docker'', ''compose'', ''-f'', repo_root @ ''/docker/docker-compose.yml'', ''-f'', override_file,
      ''up'', ''-d'', ''--remove-orphans'', ''mosquitto'', ''mqtt-addon'']"

definition enable_embedded_broker_stack ::
  "(string list \<Rightarrow> process_end) \<Rightarrow> string \<Rightarrow> string \<Rightarrow> bool \<times> string option" where
  "enable_embedded_broker_stack run_process repo_root override_file =
     (case run_process (compose_command repo_root override_file) of
        Exited_Ok \<Rightarrow> (True, None)
      | Called_Process_Error stderr stdout text \<Rightarrow>
          (let reason = (if strip stderr \<noteq> [] then strip stderr
                else if strip stdout \<noteq> [] then strip stdout else text) in
           (False, Some (take 500 reason)))
      | Not_Run text \<Rightarrow> (False, Some text))"

definition conf_flag :: "bool \<Rightarrow> string" where
  "conf_flag b = (if b then ''true'' else ''false'')"

definition conf_lines :: "bool \<Rightarrow> bool \<Rightarrow> string \<Rightarrow> int \<Rightarrow> string list" where
  "conf_lines allow_anonymous persistence log_type port =
     [''listener '' @ int_to_dec port,
      ''allow_anonymous '' @ conf_flag allow_anonymous,
      [],
      ''persistence '' @ conf_flag persistence,
      ''persistence_location /mosquitto/data/'',
      ''log_dest '' @ log_type] @
     (if allow_anonymous then []
      else [''password_file /mosquitto/config/passwordfile'', ''acl_file /mosquitto/config/aclfile''])"

text \<open>\<open>hash\<close> is \<open>crypt\<close> with a fresh SHA-512 salt, which may answer \<open>None\<close>.\<close>

definition write_embedded_broker_files ::
  "(string \<Rightarrow> string option) \<Rightarrow> write_faults \<Rightarrow> dict \<Rightarrow> (broker_files, unit) run" where
  "write_embedded_broker_files hash faults cfg =
     (let allow_anonymous = truthy (dget_or cfg ''allow_anonymous'' (JBool False));
          persistence = truthy (dget_or cfg ''persistence'' (JBool True));
          log_type = py_str (dget_or cfg ''log_type'' (JStr ''stdout'')) in
      run_bind (run_res (py_int (dget_or cfg ''port'' (JInt 1883)))) (\<lambda>port.
      let admin_user = dget cfg ''admin_user'';
          admin_pass = dget cfg ''admin_pass'' in
      run_bind (write_text faults ''mosquitto.conf''
        (join [newline] (conf_lines allow_anonymous persistence log_type port) @ [newline])) (\<lambda>_.
      if allow_anonymous then
        run_bind (write_text faults ''pwfile'' []) (\<lambda>_.
        write_text faults ''aclfile'' (''topic readwrite #'' @ [newline]))
      else if \<not> truthy admin_user \<or> \<not> truthy admin_pass then
        run_raise (ValueError ''embedded non-anonymous mode requires admin_user and admin_pass'')
      else
        (case hash (py_str admin_pass) of
           None \<Rightarrow> run_raise (ValueError ''failed to generate embedded broker password hash'')
         | Some pw_hash \<Rightarrow>
             if pw_hash = [] then run_raise (ValueError ''failed to generate embedded broker password hash'')
             else
               run_bind (write_text faults ''pwfile'' (py_str admin_user @ '':'' @ pw_hash @ [newline])) (\<lambda>_.
               let acl_user = py_str (py_or admin_user (JStr ''admin'')) in
               write_text faults ''aclfile''
                 (''user '' @ acl_user @ [newline] @ ''topic readwrite #'' @ [newline]))))))"

section \<open>The name of the addon's compose service\<close>

text \<open>\<open>s.splitlines()\<close> and \<open>s.endswith(c)\<close> for one character.\<close>

definition is_line_break :: "char \<Rightarrow> bool" where
  "is_line_break c = (let n = (of_char c :: nat) in
     (10 \<le> n \<and> n \<le> 13) \<or> (28 \<le> n \<and> n \<le> 30) \<or> n = 133)"

fun splitlines :: "string \<Rightarrow> string list" where
  "splitlines [] = []"
| "splitlines (c # s) =
     (if c = CHR 0x0D \<and> take 1 s = [CHR 0x0A] then [] # splitlines (drop 1 s)
      else if is_line_break c then [] # splitlines s
      else (case splitlines s of [] \<Rightarrow> [[c]] | l # ls \<Rightarrow> (c # l) # ls))"

definition ends_with_char :: "string \<Rightarrow> char \<Rightarrow> bool" where
  "ends_with_char s c = (s \<noteq> [] \<and> last s = c)"

text \<open>
  The loop over the lines: \<open>Some\<close> for its \<open>return\<close>, \<open>None\<close> when it breaks or ends.
\<close>

fun service_in_lines :: "bool \<Rightarrow> string list \<Rightarrow> string option" where
  "service_in_lines in_services [] = None"
| "service_in_lines in_services (line # ls) =
     (let raw = rstrip line in
      if raw = [] \<or> starts_with (lstrip raw) ''#'' then service_in_lines in_services ls
      else if strip raw = ''services:'' then service_in_lines True ls
      else if \<not> in_services then service_in_lines in_services ls
      else if \<not> starts_with raw ''  '' then None
      else if starts_with raw ''  '' \<and> \<not> starts_with raw ''    '' \<and> ends_with_char raw (CHR '':'') then
        (let name = rstrip_char (CHR '':'') (strip raw) in
         if name \<noteq> [] then Some name else service_in_lines in_services ls)
      else service_in_lines in_services ls)"

text \<open>\<open>compose\<close> is the orchestrator's compose file: absent, an exception on reading, or its text.\<close>

definition resolve_embedded_addon_service_name :: "env \<Rightarrow> string res option \<Rightarrow> string" where
  "resolve_embedded_addon_service_name env compose =
     (let env_override = strip (getenv env ''SYNTHIA_ADDON_SERVICE_NAME'' []) in
      if env_override \<noteq> [] then env_override
      else
        (case compose of
           Some (Inr text) \<Rightarrow>
             (case service_in_lines False (splitlines text) of Some name \<Rightarrow> name | None \<Rightarrow> ''mqtt-addon'')
         | _ \<Rightarrow> ''mqtt-addon''))"

section \<open>\<open>ConfigStore.apply_embedded_runtime\<close>\<close>

record embedded_host =
  eh_hash :: "string \<Rightarrow> string option"
  eh_faults :: write_faults
  eh_broker_dir :: string
  eh_compose :: "string res option"

definition apply_embedded_runtime ::
  "env \<Rightarrow> embedded_host \<Rightarrow> install_apply_request \<Rightarrow> (broker_files, bool \<times> string option) run" where
  "apply_embedded_runtime env host request =
     (case (iar_mode request = ''embedded'', iar_embedded request) of
        (True, Some embedded) \<Rightarrow>
          (let port = emb_port embedded;
               addon_service_name = resolve_embedded_addon_service_name env (eh_compose host) in
           run_bind (write_embedded_broker_files (eh_hash host) (eh_faults host) (dump_embedded embedded)) (\<lambda>_.
           run_bind (write_embedded_compose_override (eh_faults host) (eh_broker_dir host) port addon_service_name) (\<lambda>_.
           run_return (True, None))))
      | _ \<Rightarrow> run_raise (ValueError ''embedded config is required when mode is embedded''))"

section \<open>Waiting for the port\<close>

text \<open>
  \<open>clock k\<close> is what the \<open>k\<close>-th reading of \<open>time.monotonic\<close> answers, in milliseconds;
  \<open>attempt k\<close> the exception that the connection attempt after that reading raises, if it
  does. The result has the number of the next reading. The loop returns only if the clock
  gets to the deadline or an attempt ends it.
\<close>

type_synonym clock = "nat \<Rightarrow> int"

type_synonym attempts = "nat \<Rightarrow> exn option"

partial_function (option) wait_loop :: "clock \<Rightarrow> attempts \<Rightarrow> int \<Rightarrow> nat \<Rightarrow> (bool res \<times> nat) option" where
  "wait_loop clock attempt deadline k =
     (if clock k < deadline then
        (case attempt k of
           None \<Rightarrow> Some (Inr True, Suc k)
         | Some (OSError _) \<Rightarrow> wait_loop clock attempt deadline (Suc k)
         | Some e \<Rightarrow> Some (Inl e, Suc k))
      else Some (Inr False, Suc k))"

definition wait_for_port :: "clock \<Rightarrow> attempts \<Rightarrow> int \<Rightarrow> nat \<Rightarrow> (bool res \<times> nat) option" where
  "wait_for_port clock attempt timeout_ms k =
     (let deadline = clock k + timeout_ms in wait_loop clock attempt deadline (Suc k))"

section \<open>The wait ends\<close>

text \<open>The loop goes on after a reading before the deadline whose attempt raised \<open>OSError\<close>.\<close>

definition retries :: "clock \<Rightarrow> attempts \<Rightarrow> int \<Rightarrow> nat \<Rightarrow> bool" where
  "retries clock attempt deadline k =
     (clock k < deadline \<and> (case attempt k of Some (OSError _) \<Rightarrow> True | _ \<Rightarrow> False))"

text \<open>What it answers at a reading where it does not.\<close>

definition wait_answer :: "clock \<Rightarrow> attempts \<Rightarrow> int \<Rightarrow> nat \<Rightarrow> bool res" where
  "wait_answer clock attempt deadline k =
     (if clock k < deadline then (case attempt k of None \<Rightarrow> Inr True | Some e \<Rightarrow> Inl e) else Inr False)"

lemma wait_loop_retries:
  "retries clock attempt deadline k \<Longrightarrow>
   wait_loop clock attempt deadline k = wait_loop clock attempt deadline (Suc k)"
  by (subst wait_loop.simps) (simp add: retries_def split: option.splits exn.splits)

lemma wait_loop_stops:
  "\<not> retries clock attempt deadline k \<Longrightarrow>
   wait_loop clock attempt deadline k = Some (wait_answer clock attempt deadline k, Suc k)"
  by (subst wait_loop.simps) (simp add: retries_def wait_answer_def split: option.splits exn.splits if_splits)

lemma wait_loop_steps:
  "(\<And>j. j < i \<Longrightarrow> retries clock attempt deadline (k + j)) \<Longrightarrow>
   wait_loop clock attempt deadline k = wait_loop clock attempt deadline (k + i)"
proof (induction i)
  case (Suc i)
  then have "wait_loop clock attempt deadline k = wait_loop clock attempt deadline (k + i)" by simp
  also have "\<dots> = wait_loop clock attempt deadline (k + Suc i)"
    using wait_loop_retries [OF Suc.prems [of i]] by simp
  finally show ?case .
qed simp

text \<open>A clock that each failed attempt moves on by \<open>d\<close>.\<close>

lemma clock_advances:
  assumes "\<And>j. j < i \<Longrightarrow> clock (k + j) + d \<le> clock (Suc (k + j))"
  shows "clock k + int i * d \<le> clock (k + i)"
  using assms
proof (induction i)
  case (Suc i)
  have "clock k + int i * d \<le> clock (k + i)" by (intro Suc.IH Suc.prems) simp
  moreover have "clock (k + i) + d \<le> clock (Suc (k + i))" by (rule Suc.prems) simp
  ultimately show ?case by (simp add: distrib_right)
qed simp

lemma wait_loop_returns:
  assumes d: "0 < d" and adv: "\<And>j. k \<le> j \<Longrightarrow> retries clock attempt deadline j \<Longrightarrow> clock j + d \<le> clock (Suc j)"
    and far: "deadline \<le> clock k + int n * d"
  shows "\<exists>i\<le>n. (\<forall>j<i. retries clock attempt deadline (k + j)) \<and>
    \<not> retries clock attempt deadline (k + i) \<and>
    wait_loop clock attempt deadline k = Some (wait_answer clock attempt deadline (k + i), Suc (k + i))"
proof -
  let ?P = "\<lambda>i. \<not> retries clock attempt deadline (k + i)"
  have "\<exists>i\<le>n. ?P i"
  proof (rule ccontr)
    assume "\<not> ?thesis"
    then have all: "retries clock attempt deadline (k + i)" if "i \<le> n" for i using that by blast
    have "clock k + int n * d \<le> clock (k + n)" by (rule clock_advances) (simp add: adv all)
    with far all [of n] show False by (simp add: retries_def)
  qed
  then obtain m where m: "m \<le> n" "?P m" by blast
  from m(2) have "?P (LEAST i. ?P i)" by (rule LeastI)
  moreover from m(2) have "(LEAST i. ?P i) \<le> m" by (rule Least_le)
  ultimately obtain i where i: "i \<le> n" "?P i" "\<And>j. j < i \<Longrightarrow> \<not> ?P j"
    using not_less_Least [of _ ?P] m(1) le_trans by blast
  from i(3) have "wait_loop clock attempt deadline k = wait_loop clock attempt deadline (k + i)"
    by (intro wait_loop_steps) blast
  also have "\<dots> = Some (wait_answer clock attempt deadline (k + i), Suc (k + i))"
    by (rule wait_loop_stops [OF i(2)])
  finally show ?thesis using i by blast
qed

section \<open>What the files say\<close>

text \<open>The embedded configurations that the broker files can be written for.\<close>

definition has_text :: "string option \<Rightarrow> bool" where
  "has_text s = (case s of None \<Rightarrow> False | Some x \<Rightarrow> x \<noteq> [])"

definition embedded_acceptable :: "(string \<Rightarrow> string option) \<Rightarrow> embedded_config \<Rightarrow> bool" where
  "embedded_acceptable hash c =
     (emb_allow_anonymous c \<or>
      (has_text (emb_admin_user c) \<and>
       (case emb_admin_pass c of None \<Rightarrow> False | Some p \<Rightarrow> p \<noteq> [] \<and> has_text (hash p))))"

text \<open>The password and rule files for it.\<close>

definition password_text :: "(string \<Rightarrow> string option) \<Rightarrow> embedded_config \<Rightarrow> string" where
  "password_text hash c =
     (if emb_allow_anonymous c then []
      else the (emb_admin_user c) @ '':'' @ the (hash (the (emb_admin_pass c))) @ [newline])"

definition rules_text :: "embedded_config \<Rightarrow> string" where
  "rules_text c =
     (if emb_allow_anonymous c then ''topic readwrite #'' @ [newline]
      else ''user '' @ the (emb_admin_user c) @ [newline] @ ''topic readwrite #'' @ [newline])"

definition conf_text :: "embedded_config \<Rightarrow> string" where
  "conf_text c = join [newline]
     (conf_lines (emb_allow_anonymous c) (emb_persistence c) (emb_log_type c) (emb_port c)) @ [newline]"

lemma dget_or_map_of: "dget_or d k x = (case map_of d k of None \<Rightarrow> x | Some v \<Rightarrow> v)"
  by (simp add: dget_or_def)

lemma map_of_opt_field [simp]:
  "map_of (opt_field k f v) k' = (if k' = k then map_option f v else None)"
  by (cases v) (simp_all add: opt_field_def)

lemma dump_embedded_fields:
  "dget_or (dump_embedded c) ''allow_anonymous'' x = JBool (emb_allow_anonymous c)"
  "dget_or (dump_embedded c) ''persistence'' x = JBool (emb_persistence c)"
  "dget_or (dump_embedded c) ''log_type'' x = JStr (emb_log_type c)"
  "dget_or (dump_embedded c) ''port'' x = JInt (emb_port c)"
  "dget (dump_embedded c) ''admin_user'' = opt_json (emb_admin_user c)"
  "dget (dump_embedded c) ''admin_pass'' = opt_json (emb_admin_pass c)"
  by (auto simp: dget_def dget_or_map_of dump_embedded_def map_add_def opt_json_def split: option.splits)

lemma truthy_opt_json [simp]: "truthy (opt_json v) = has_text v"
  by (simp add: opt_json_def has_text_def split: option.splits)

lemma newline_not_in_dec: "newline \<notin> set (int_to_dec i)"
proof -
  have "newline \<notin> digit_chars" by (simp add: digit_chars_def digit_val_def)
  then have "newline \<notin> set (nat_to_dec n)" for n using set_nat_to_dec by blast
  then show ?thesis by (simp add: int_to_dec_def)
qed

text \<open>Writing the files while no write fails.\<close>

lemma write_broker_files:
  assumes "\<And>name. faults name = None"
  shows "write_embedded_broker_files hash faults (dump_embedded c) files =
    (if embedded_acceptable hash c then
       (Inr (), files(''mosquitto.conf'' \<mapsto> conf_text c, ''pwfile'' \<mapsto> password_text hash c,
          ''aclfile'' \<mapsto> rules_text c))
     else (Inl (ValueError (if has_text (emb_admin_user c) \<and> has_text (emb_admin_pass c)
          then ''failed to generate embedded broker password hash''
          else ''embedded non-anonymous mode requires admin_user and admin_pass'')),
       files(''mosquitto.conf'' \<mapsto> conf_text c)))"
proof (cases "emb_allow_anonymous c")
  case True
  then show ?thesis
    by (simp add: write_embedded_broker_files_def dump_embedded_fields runs write_text_def assms Let_def
        embedded_acceptable_def conf_text_def password_text_def rules_text_def)
next
  case False
  show ?thesis
  proof (cases "has_text (emb_admin_user c) \<and> has_text (emb_admin_pass c)")
    case True
    then obtain u p where up: "emb_admin_user c = Some u" "emb_admin_pass c = Some p" "u \<noteq> []" "p \<noteq> []"
      by (auto simp: has_text_def split: option.splits)
    with False show ?thesis
      by (cases "hash p")
        (simp_all add: write_embedded_broker_files_def dump_embedded_fields runs write_text_def assms Let_def
          embedded_acceptable_def conf_text_def password_text_def rules_text_def opt_json_def py_or_def has_text_def)
  next
    case no: False
    with False show ?thesis
      by (auto simp: write_embedded_broker_files_def dump_embedded_fields runs write_text_def assms Let_def
        embedded_acceptable_def conf_text_def has_text_def split: option.splits)
  qed
qed

section \<open>Properties\<close>

text \<open>
  C22: the wait for the broker's port ends whenever the clock moves on by the 200 ms slept after
  each failed attempt: after at most one attempt for every started 200 ms of the timeout, with the
  answer of the first reading that is past the deadline (not reachable) or whose attempt
  connects (reachable) or raises something else than \<open>OSError\<close>.
\<close>

theorem wait_for_port_returns:
  assumes "clock k \<le> clock (Suc k)" 
    and "\<And>j. k < j \<Longrightarrow> retries clock attempt (clock k + timeout) j \<Longrightarrow> clock j + 200 \<le> clock (Suc j)"
  shows "\<exists>i. i \<le> nat ((timeout + 199) div 200) \<and>
    (\<forall>j<i. retries clock attempt (clock k + timeout) (Suc k + j)) \<and>
    \<not> retries clock attempt (clock k + timeout) (Suc k + i) \<and>
    wait_for_port clock attempt timeout k =
      Some (wait_answer clock attempt (clock k + timeout) (Suc k + i), Suc (Suc k + i))"
proof -
  let ?n = "nat ((timeout + 199) div 200)"
  have "timeout \<le> 200 * ((timeout + 199) div 200)" by presburger
  then have "clock k + timeout \<le> clock (Suc k) + int ?n * 200"
    using assms(1) by (cases "0 \<le> (timeout + 199) div 200") auto
  from wait_loop_returns [of 200 "Suc k" clock attempt "clock k + timeout", OF _ _ this] assms(2) show ?thesis
    by (auto simp: wait_for_port_def Let_def Suc_le_eq)
qed

lemma wait_for_port_returns_witness:
  "\<exists>i\<le>5. wait_for_port (\<lambda>j. 200 * int j) (\<lambda>j. if j < 3 then Some (OSError 111) else None) 1000 0 =
     Some (wait_answer (\<lambda>j. 200 * int j) (\<lambda>j. if j < 3 then Some (OSError 111) else None) 1000 (Suc i), Suc (Suc i))"
  using wait_for_port_returns [of "\<lambda>j. 200 * int j" 0 "\<lambda>j. if j < 3 then Some (OSError 111) else None" 1000]
  by auto

lemma wait_for_port_example:
  "wait_for_port (\<lambda>j. 200 * int j) (\<lambda>j. if j < 3 then Some (OSError 111) else None) 1000 0 = Some (Inr True, 4)"
  "wait_for_port (\<lambda>j. 200 * int j) (\<lambda>j. Some (OSError 111)) 500 0 = Some (Inr False, 4)"
  by (simp_all add: wait_for_port_def wait_loop.simps)

text \<open>
  While no write fails, applying an embedded configuration succeeds exactly when it allows
  anonymous access or has an administrator with a password that can be hashed, and raises a
  \<open>ValueError\<close> otherwise. It then has written the broker's configuration, the password file
  with no entry or with just the administrator's hash, the rules and the compose override;
  a failure has written nothing but the broker's configuration.
\<close>

lemma apply_embedded_runtime_spec:
  assumes "iar_mode r = ''embedded''" and "iar_embedded r = Some c" and "\<And>name. eh_faults host name = None"
  shows "apply_embedded_runtime env host r files =
    (if embedded_acceptable (eh_hash host) c then
       (Inr (True, None), files(''mosquitto.conf'' \<mapsto> conf_text c, ''pwfile'' \<mapsto> password_text (eh_hash host) c,
          ''aclfile'' \<mapsto> rules_text c,
          override_name \<mapsto> join [newline] (compose_lines (eh_broker_dir host) (emb_port c)
             (resolve_embedded_addon_service_name env (eh_compose host)))))
     else (Inl (ValueError (if has_text (emb_admin_user c) \<and> has_text (emb_admin_pass c)
          then ''failed to generate embedded broker password hash''
          else ''embedded non-anonymous mode requires admin_user and admin_pass'')),
       files(''mosquitto.conf'' \<mapsto> conf_text c)))"
  using write_broker_files [of "eh_faults host", OF assms(3)]
  by (simp add: apply_embedded_runtime_def assms runs Let_def write_embedded_compose_override_def write_text_def)

definition example_embedded :: embedded_config where
  "example_embedded = \<lparr>emb_allow_anonymous = False, emb_persistence = True, emb_log_type = ''stdout'',
     emb_port = 1884, emb_admin_user = Some ''admin'', emb_admin_pass = Some ''secret''\<rparr>"

definition example_host :: embedded_host where
  "example_host = \<lparr>eh_hash = (\<lambda>p. Some (''$6$'' @ p)), eh_faults = (\<lambda>_. None), eh_broker_dir = ''/srv/broker'',
     eh_compose = None\<rparr>"

definition example_apply :: install_apply_request where
  "example_apply = \<lparr>iar_mode = ''embedded'', iar_external = None, iar_embedded = Some example_embedded,
     iar_base_topic = None, iar_ha_discovery_prefix = None, iar_external_direct_access_mode = ''gateway_only'',
     iar_qos_default = None, iar_allow_unvalidated = False\<rparr>"

lemma apply_embedded_runtime_example:
  "snd (apply_embedded_runtime (\<lambda>_. None) example_host example_apply (\<lambda>_. None)) ''pwfile'' =
     Some (''admin:$6$secret'' @ [newline])"
  using apply_embedded_runtime_spec [of example_apply example_embedded example_host "\<lambda>_. None" "\<lambda>_. None"]
  by (simp add: example_apply_def example_embedded_def example_host_def embedded_acceptable_def has_text_def
      password_text_def override_name_def)

text \<open>A run of writes that succeeds is one in which no write fails.\<close>

lemma write_text_ok:
  "write_text faults name content files = (Inr (), files') \<longleftrightarrow> faults name = None \<and> files' = files(name \<mapsto> content)"
  by (auto simp: write_text_def split: option.splits prod.splits)

lemma run_bind_ok:
  "run_bind m f s = (Inr y, s') \<longleftrightarrow> (\<exists>x s1. m s = (Inr x, s1) \<and> f x s1 = (Inr y, s'))"
  by (auto simp: run_bind_def split: prod.splits sum.splits)

lemma broker_files_written:
  assumes "write_embedded_broker_files hash faults (dump_embedded c) files = (Inr (), files')"
  shows "embedded_acceptable hash c \<and>
    files' = files(''mosquitto.conf'' \<mapsto> conf_text c, ''pwfile'' \<mapsto> password_text hash c, ''aclfile'' \<mapsto> rules_text c)"
proof -
  have "write_embedded_broker_files hash (\<lambda>_. None) (dump_embedded c) files = (Inr (), files')"
    using assms unfolding write_embedded_broker_files_def Let_def dump_embedded_fields py_int.simps
    by (auto simp: run_bind_ok write_text_ok run_res_def run_raise_def split: if_splits option.splits)
  then show ?thesis using write_broker_files [of "\<lambda>_. None" hash c files] by (simp split: if_splits)
qed



text \<open>The log type is not checked: a line break in it adds settings to the broker's configuration.\<close>

lemma log_type_adds_settings:
  "''allow_anonymous true'' \<in> set (lines_of (conf_text
     (example_embedded\<lparr>emb_log_type := ''stdout'' @ [newline] @ ''allow_anonymous true''\<rparr>)))"
  by code_simp

text \<open>
  The broker listens on the configured port inside its container, but the compose override
  forwards that port of the host to the container's port 1883.
\<close>

lemma forwarded_port_differs:
  "''listener 1884'' \<in> set (lines_of (conf_text example_embedded))"
  "(''      - '' @ [CHR 0x22] @ ''1884:1883'' @ [CHR 0x22]) \<in> set (compose_lines ''/srv/broker'' (emb_port example_embedded) ''mqtt-addon'')"
  by code_simp+

text \<open>The service name: never empty, and the first service of a compose file.\<close>

lemma service_in_lines_nonempty: "service_in_lines b ls = Some name \<Longrightarrow> name \<noteq> []"
  by (induction b ls rule: service_in_lines.induct) (auto simp: Let_def split: if_splits)

lemma service_name_nonempty: "resolve_embedded_addon_service_name env compose \<noteq> []"
  using service_in_lines_nonempty
  by (auto simp: resolve_embedded_addon_service_name_def Let_def split: option.splits sum.splits)

lemma service_name_examples:
  "resolve_embedded_addon_service_name (\<lambda>_. None) (Some (Inr (join [newline]
     [''# stack'', ''version: 3'', ''services:'', [], ''  # the addon'', ''  mqtt-addon-2:'', ''    image: x'']))) =
     ''mqtt-addon-2''"
  "resolve_embedded_addon_service_name (\<lambda>_. None) (Some (Inr (join [newline]
     (compose_lines ''/srv/broker'' 1883 ''mqtt-addon'')))) = ''mosquitto''"
  "resolve_embedded_addon_service_name (\<lambda>_. None) (Some (Inl LockTimeout)) = ''mqtt-addon''"
  by code_simp+

end
