(* ===== verification/Core_Registry.thy ===== *)
theory Core_Registry
  imports Http Py_Str
begin

text \<open>
  app/services/core_registry.py: registering the addon with Core, with its fall-backs, and
  verifying it. The network is a parameter; the state is the list of requests made, the next
  of which the network answers by its position.
\<close>

type_synonym core_result = "bool \<times> int option \<times> string option"

definition core_headers :: "string option \<Rightarrow> (string \<times> string) list" where
  "core_headers auth_token =
     [(''Content-Type'', ''application/json'')] @
     (case auth_token of
        None \<Rightarrow> []
      | Some t \<Rightarrow> if t \<noteq> [] then [(''Authorization'', ''Bearer '' @ t), (''X-Admin-Token'', t)] else [])"

text \<open>
  \<open>_post_json\<close>: the request is built outside the \<open>try\<close>. Of the body of a failure the first
  200 bytes are read and decoded (\<open>decode\<close> is \<open>bytes.decode("utf-8", errors="replace")\<close>).
\<close>

definition post_json ::
  "network \<Rightarrow> (string \<Rightarrow> string) \<Rightarrow> string \<Rightarrow> dict \<Rightarrow> string option \<Rightarrow> (http_request list, core_result) run" where
  "post_json http decode url payload_data auth_token requests =
     (if \<not> url_typed url then (Inl unknown_url_type, requests)
      else
      let req = \<lparr>req_url = url, req_headers = core_headers auth_token, req_body = payload_data\<rparr>;
          requests' = requests @ [req] in
      case http (length requests) req of
        Replied status_code body \<Rightarrow>
          if success_status status_code then (Inr (True, Some status_code, None), requests')
          else (Inr (False, Some status_code,
              Some (''Core registry returned status '' @ int_to_dec status_code @ '': '' @ decode (take 200 body))), requests')
      | HttpErrorReply code (Inr body) \<Rightarrow>
          (Inr (False, Some code,
              Some (''Core registry HTTP error '' @ int_to_dec code @ '': '' @ decode (take 200 body))), requests')
      | HttpErrorReply code (Inl e) \<Rightarrow> (Inl e, requests')
      | NoReply text \<Rightarrow> (Inr (False, None, Some text), requests'))"

definition register_addon_endpoint ::
  "network \<Rightarrow> (string \<Rightarrow> string) \<Rightarrow> string \<Rightarrow> string \<Rightarrow> string \<Rightarrow> string \<Rightarrow> string \<Rightarrow> string option \<Rightarrow>
   (http_request list, core_result) run" where
  "register_addon_endpoint http decode core_base_url addon_id base_url addon_name addon_version auth_token requests0 =
     (let core_base = rstrip_char (CHR ''/'') core_base_url;
          preferred_url = core_base @ ''/api/addons/registry/'' @ addon_id @ ''/register'' in
      case post_json http decode preferred_url
          [(''base_url'', JStr base_url), (''name'', JStr addon_name), (''version'', JStr addon_version)]
          auth_token requests0 of
        (Inl e, requests1) \<Rightarrow> (Inl e, requests1)
      | (Inr (ok, status_code, reason), requests1) \<Rightarrow>
      if ok then (Inr (True, status_code, None), requests1)
      else if status_code \<in> {Some 401, Some 403} \<or> status_code = None then
        (Inr (False, status_code, reason), requests1)
      else if status_code \<notin> {Some 404, Some 422} then (Inr (False, status_code, reason), requests1)
      else
      let legacy_url = core_base @ ''/api/admin/addons/registry'' in
      case post_json http decode legacy_url
          [(''addon_id'', JStr addon_id), (''base_url'', JStr base_url), (''name'', JStr addon_name),
           (''version'', JStr addon_version)] auth_token requests1 of
        (Inl e, requests2) \<Rightarrow> (Inl e, requests2)
      | (Inr (ok2, legacy_status, legacy_reason), requests2) \<Rightarrow>
      if ok2 then (Inr (True, legacy_status, None), requests2)
      else if legacy_status = Some 422 then
        post_json http decode legacy_url
          [(''id'', JStr addon_id), (''name'', JStr addon_name), (''version'', JStr addon_version),
           (''base_url'', JStr base_url)] auth_token requests2
      else (Inr (False, legacy_status, legacy_reason), requests2))"

definition verify_addon_endpoint ::
  "network \<Rightarrow> (string \<Rightarrow> string) \<Rightarrow> string \<Rightarrow> string \<Rightarrow> string option \<Rightarrow> (http_request list, core_result) run" where
  "verify_addon_endpoint http decode core_base_url addon_id auth_token =
     post_json http decode (rstrip_char (CHR ''/'') core_base_url @ ''/api/addons/registry/'' @ addon_id @ ''/verify'')
       [] auth_token"

section \<open>The requests as a chain\<close>

text \<open>
  The three requests of a registration, and the abstract protocol: a request is followed by
  the next one exactly when its answer is among the statuses that call for it; the last
  answer decides.
\<close>

definition registration_requests ::
  "string \<Rightarrow> string \<Rightarrow> string \<Rightarrow> string \<Rightarrow> string \<Rightarrow> string option \<Rightarrow> http_request list" where
  "registration_requests core_base_url addon_id base_url addon_name addon_version auth_token =
     (let core_base = rstrip_char (CHR ''/'') core_base_url;
          mk = (\<lambda>path body. \<lparr>req_url = core_base @ path, req_headers = core_headers auth_token, req_body = body\<rparr>) in
      [mk (''/api/addons/registry/'' @ addon_id @ ''/register'')
         [(''base_url'', JStr base_url), (''name'', JStr addon_name), (''version'', JStr addon_version)],
       mk ''/api/admin/addons/registry''
         [(''addon_id'', JStr addon_id), (''base_url'', JStr base_url), (''name'', JStr addon_name),
          (''version'', JStr addon_version)],
       mk ''/api/admin/addons/registry''
         [(''id'', JStr addon_id), (''name'', JStr addon_name), (''version'', JStr addon_version),
          (''base_url'', JStr base_url)]])"

definition reply_status :: "http_reply \<Rightarrow> int option" where
  "reply_status r =
     (case r of Replied s _ \<Rightarrow> Some s | HttpErrorReply c (Inr _) \<Rightarrow> Some c | _ \<Rightarrow> None)"

definition reply_ok :: "http_reply \<Rightarrow> bool" where
  "reply_ok r = (case r of Replied s _ \<Rightarrow> success_status s | _ \<Rightarrow> False)"

definition reply_result :: "(string \<Rightarrow> string) \<Rightarrow> http_reply \<Rightarrow> core_result res" where
  "reply_result decode r =
     (case r of
        Replied s b \<Rightarrow> Inr (reply_ok r, Some s, if reply_ok r then None else
          Some (''Core registry returned status '' @ int_to_dec s @ '': '' @ decode (take 200 b)))
      | HttpErrorReply c (Inr b) \<Rightarrow>
          Inr (False, Some c, Some (''Core registry HTTP error '' @ int_to_dec c @ '': '' @ decode (take 200 b)))
      | HttpErrorReply c (Inl e) \<Rightarrow> Inl e
      | NoReply t \<Rightarrow> Inr (False, None, Some t))"

text \<open>
  Each step: a request and the statuses of a failure after which the chain goes on. A request
  whose address has no type is not made.
\<close>

fun run_chain ::
  "network \<Rightarrow> (string \<Rightarrow> string) \<Rightarrow> (http_request \<times> int list) list \<Rightarrow> nat \<Rightarrow> core_result res \<times> http_request list" where
  "run_chain http decode [] k = (Inr (False, None, None), [])"
| "run_chain http decode ((req, go_on) # steps) k =
     (if \<not> url_typed (req_url req) then (Inl unknown_url_type, [])
      else let r = http k req in
      if \<not> reply_ok r \<and> steps \<noteq> [] \<and> reply_status r \<in> Some ` set go_on
      then (let (result, sent) = run_chain http decode steps (Suc k) in (result, req # sent))
      else (reply_result decode r, [req]))"

lemma post_json_reply:
  "post_json http decode url body tok reqs =
     (let req = \<lparr>req_url = url, req_headers = core_headers tok, req_body = body\<rparr> in
      if url_typed url then (reply_result decode (http (length reqs) req), reqs @ [req])
      else (Inl unknown_url_type, reqs))"
  by (simp add: post_json_def Let_def reply_result_def reply_ok_def split: http_reply.splits sum.splits)

text \<open>What is sent is a prefix, with at least the first request if its address has a type.\<close>

lemma run_chain_sent:
  assumes "steps \<noteq> []"
  shows "\<exists>n\<in>{if url_typed (req_url (fst (hd steps))) then 1 else 0..length steps}.
    snd (run_chain http decode steps k) = take n (map fst steps)"
  using assms
proof (induction http decode steps k rule: run_chain.induct)
  case (2 http decode req go_on steps k)
  show ?case
  proof (cases "url_typed (req_url req) \<and> \<not> reply_ok (http k req) \<and> steps \<noteq> [] \<and>
      reply_status (http k req) \<in> Some ` set go_on")
    case True
    with 2 obtain n where "n \<le> length steps" "snd (run_chain http decode steps (Suc k)) = take n (map fst steps)"
      by fastforce
    with True show ?thesis by (intro bexI [of _ "Suc n"]) (auto simp: Let_def split_beta)
  next
    case False
    then show ?thesis
      by (intro bexI [of _ "if url_typed (req_url req) then Suc 0 else 0"]) (auto simp: Let_def)
  qed
qed simp

text \<open>How a request of the chain is answered: not made, an exception, the end, or on to the next.\<close>

lemma reply_result_cases:
  obtains (raised) e where "reply_result decode r = Inl e" "\<not> reply_ok r" "reply_status r = None"
  | (good) status where "reply_result decode r = Inr (True, status, None)" "reply_ok r"
  | (bad) status reason where "reply_result decode r = Inr (False, status, reason)" "\<not> reply_ok r" "reply_status r = status"
proof (cases r)
  case (Replied s b)
  then show thesis using good bad by (cases "success_status s") (simp_all add: reply_result_def reply_ok_def reply_status_def)
next
  case (HttpErrorReply c b)
  then show thesis using raised bad by (cases b) (simp_all add: reply_result_def reply_ok_def reply_status_def)
next
  case (NoReply t)
  then show thesis using bad by (simp add: reply_result_def reply_ok_def reply_status_def)
qed

text \<open>The code's nesting of three requests and their statuses, for any three requests.\<close>

definition chain_code ::
  "network \<Rightarrow> (string \<Rightarrow> string) \<Rightarrow> http_request \<Rightarrow> http_request \<Rightarrow> http_request \<Rightarrow> (http_request list, core_result) run" where
  "chain_code http decode r1 r2 r3 reqs =
     (let post = (\<lambda>r reqs. if url_typed (req_url r) then (reply_result decode (http (length reqs) r), reqs @ [r])
        else (Inl unknown_url_type, reqs)) in
      case post r1 reqs of
        (Inl e, reqs1) \<Rightarrow> (Inl e, reqs1)
      | (Inr (ok, status, reason), reqs1) \<Rightarrow>
      if ok then (Inr (True, status, None), reqs1)
      else if status \<in> {Some 401, Some 403} \<or> status = None then (Inr (False, status, reason), reqs1)
      else if status \<notin> {Some 404, Some 422} then (Inr (False, status, reason), reqs1)
      else
      case post r2 reqs1 of
        (Inl e, reqs2) \<Rightarrow> (Inl e, reqs2)
      | (Inr (ok2, status2, reason2), reqs2) \<Rightarrow>
      if ok2 then (Inr (True, status2, None), reqs2)
      else if status2 = Some 422 then post r3 reqs2
      else (Inr (False, status2, reason2), reqs2))"

lemma chain_code_run:
  "chain_code http decode r1 r2 r3 reqs =
     (let (result, sent) = run_chain http decode (zip [r1, r2, r3] [[404, 422], [422], []]) (length reqs)
      in (result, reqs @ sent))"
proof (cases "url_typed (req_url r1)")
  case True
  show ?thesis
  proof (cases rule: reply_result_cases [of decode "http (length reqs) r1"])
    case (bad status reason)
    show ?thesis
    proof (cases "url_typed (req_url r2) \<and> status \<in> {Some 404, Some 422}")
      case go_on: True
      then show ?thesis
        using True bad
        by (cases rule: reply_result_cases [of decode "http (Suc (length reqs)) r2"])
          (auto simp: chain_code_def Let_def)
    qed (use True bad in \<open>auto simp: chain_code_def Let_def\<close>)
  qed (use True in \<open>simp_all add: chain_code_def Let_def\<close>)
qed (simp add: chain_code_def Let_def)

lemma register_chain_code:
  "register_addon_endpoint http decode core_base_url addon_id base_url addon_name addon_version tok reqs =
     chain_code http decode
       (registration_requests core_base_url addon_id base_url addon_name addon_version tok ! 0)
       (registration_requests core_base_url addon_id base_url addon_name addon_version tok ! 1)
       (registration_requests core_base_url addon_id base_url addon_name addon_version tok ! 2) reqs"
  unfolding register_addon_endpoint_def chain_code_def registration_requests_def Let_def post_json_reply
  by (simp only: nth_Cons_0 nth_Cons_Suc One_nat_def numeral_2_eq_2 http_request.simps append_assoc)

section \<open>Properties\<close>

definition registration_steps ::
  "string \<Rightarrow> string \<Rightarrow> string \<Rightarrow> string \<Rightarrow> string \<Rightarrow> string option \<Rightarrow> (http_request \<times> int list) list" where
  "registration_steps core_base_url addon_id base_url addon_name addon_version auth_token =
     zip (registration_requests core_base_url addon_id base_url addon_name addon_version auth_token)
       [[404, 422], [422], []]"

lemma registration_steps_three:
  "length (registration_steps c a b n v t) = 3"
  "map fst (registration_steps c a b n v t) = registration_requests c a b n v t"
  by (simp_all add: registration_steps_def registration_requests_def Let_def)

text \<open>
  C23: registering with Core is the chain of its three requests: the addon's own registry route;
  on 404 or 422 the administrator's route; on 422 there the same route with the other field
  names. It reports what the last answer says; any other failure, an authentication error and
  an unreachable Core end it at once, and an address without a type ends it with the
  ValueError of building the request. So it makes one, two or three of these requests, in
  order, and none only if the first address has no type.
\<close>

theorem register_addon_endpoint_chain:
  "register_addon_endpoint http decode core_base_url addon_id base_url addon_name addon_version tok reqs =
     (let (result, sent) = run_chain http decode
          (registration_steps core_base_url addon_id base_url addon_name addon_version tok) (length reqs) in
      (result, reqs @ sent)) \<and>
   (\<exists>n\<in>{if url_typed (req_url (hd (registration_requests core_base_url addon_id base_url addon_name addon_version tok)))
         then 1 else 0..3}.
     snd (register_addon_endpoint http decode core_base_url addon_id base_url addon_name addon_version tok reqs) =
     reqs @ take n (registration_requests core_base_url addon_id base_url addon_name addon_version tok))"
    (is "?chain \<and> ?bound")
proof
  show chain: ?chain
    unfolding register_chain_code chain_code_run registration_steps_def
    by (simp only: registration_requests_def Let_def nth_Cons_0 nth_Cons_Suc One_nat_def numeral_2_eq_2)
  let ?steps = "registration_steps core_base_url addon_id base_url addon_name addon_version tok"
  have "?steps \<noteq> []" using registration_steps_three(1) by (metis list.size(3) zero_neq_numeral)
  moreover have "fst (hd ?steps) = hd (registration_requests core_base_url addon_id base_url addon_name addon_version tok)"
    by (simp add: registration_steps_def registration_requests_def Let_def)
  ultimately show ?bound
    using run_chain_sent [of ?steps http decode "length reqs"]
    unfolding chain registration_steps_three by (simp add: split_beta)
qed

text \<open>
  Every request of a registration goes to an address below the base URL of Core and carries
  the token, if there is one, in its headers.
\<close>

lemma registration_requests_addressed:
  "list_all (\<lambda>r. starts_with (req_url r) (rstrip_char (CHR ''/'') core_base_url @ ''/api/'') \<and>
      req_headers r = core_headers tok)
     (registration_requests core_base_url addon_id base_url addon_name addon_version tok)"
  by (simp add: registration_requests_def Let_def starts_with_def)

text \<open>
  An unreachable Core, a Core without the preferred route, one that refuses the token, and an
  address without a type.
\<close>

lemma registration_examples:
  "fst (register_addon_endpoint (\<lambda>k r. NoReply ''refused'') id ''http://core'' ''mqtt'' ''http://a'' ''n'' ''1'' None []) =
     Inr (False, None, Some ''refused'')"
  "fst (register_addon_endpoint (\<lambda>k r. if k = 0 then HttpErrorReply 404 (Inr []) else Replied 200 []) id ''http://core//'' ''mqtt''
     ''http://a'' ''n'' ''1'' None []) = Inr (True, Some 200, None)"
  "length (snd (register_addon_endpoint (\<lambda>k r. HttpErrorReply 401 (Inr [])) id ''http://core'' ''mqtt'' ''http://a'' ''n'' ''1''
     (Some ''t'') [])) = 1"
  "register_addon_endpoint (\<lambda>k r. Replied 200 []) id ''core:8080/x'' ''mqtt'' ''http://a'' ''n'' ''1'' None [] \<noteq>
     register_addon_endpoint (\<lambda>k r. Replied 200 []) id ''core/x'' ''mqtt'' ''http://a'' ''n'' ''1'' None []"
  by code_simp+

end
