(* ===== verification/App_State.thy ===== *)
theory App_State
  imports Ha_Api Broker_Manager Core_Registry
begin

text \<open>
  The application as a whole: the manifest (app/api/addon_contract.py with the models of
  app/models/addon_models.py), the state the endpoints share, and the events of app/main.py
  that create, replace and stop the MQTT service.
\<close>

section \<open>The manifest\<close>

record docker_group =
  dg_id :: string
  dg_name :: string
  dg_description :: string
  dg_compose_file :: string
  dg_depends_on :: "string list"
  dg_setup_required :: bool
  dg_default_enabled :: bool

text \<open>What pydantic takes for a \<open>bool\<close> field.\<close>

definition bool_field :: "json \<Rightarrow> bool option" where
  "bool_field v =
     (case v of
        JBool b \<Rightarrow> Some b
      | JInt i \<Rightarrow> if i = 0 then Some False else if i = 1 then Some True else None
      | JFloat s _ b \<Rightarrow> if \<not> b then Some False else if s = ''1.0'' then Some True else None
      | JStr s \<Rightarrow>
          if lower s \<in> {''1'', ''on'', ''t'', ''true'', ''y'', ''yes''} then Some True
          else if lower s \<in> {''0'', ''off'', ''f'', ''false'', ''n'', ''no''} then Some False else None
      | _ \<Rightarrow> None)"

text \<open>\<open>OptionalDockerGroup.model_validate\<close>; \<open>None\<close> when it raises. A missing field has its default.\<close>

definition validate_group :: "dict \<Rightarrow> docker_group option" where
  "validate_group d =
     (case (str_of (dget d ''id''), str_of (dget d ''name''), str_of (dget d ''description''),
            str_of (dget d ''compose_file'')) of
        (Some i, Some n, Some t, Some c) \<Rightarrow>
          (case (str_list_of (dget_or d ''depends_on'' (JList [])), bool_field (dget_or d ''setup_required'' (JBool False)),
                 bool_field (dget_or d ''default_enabled'' (JBool False))) of
             (Some deps, Some r, Some e) \<Rightarrow>
               Some \<lparr>dg_id = i, dg_name = n, dg_description = t, dg_compose_file = c, dg_depends_on = deps,
                 dg_setup_required = r, dg_default_enabled = e\<rparr>
           | _ \<Rightarrow> None)
      | _ \<Rightarrow> None)"

definition load_optional_docker_groups :: "dict \<Rightarrow> docker_group list" where
  "load_optional_docker_groups manifest =
     (let raw0 = dget manifest ''docker_groups'';
          raw = (case raw0 of JList _ \<Rightarrow> raw0 | _ \<Rightarrow> dget manifest ''optional_docker_groups'') in
      case raw of
        JList vs \<Rightarrow> List.map_filter (\<lambda>v. case v of JObj d \<Rightarrow> validate_group d | _ \<Rightarrow> None) vs
      | _ \<Rightarrow> [])"

record manifest_info =
  mf_addon_id :: string
  mf_name :: string
  mf_version :: string
  mf_description :: string
  mf_groups :: "docker_group list"
  mf_permissions :: "string list"

text \<open>Iterating over a value of the manifest.\<close>

fun iterate :: "json \<Rightarrow> json list res" where
  "iterate (JList vs) = Inr vs"
| "iterate (JObj d) = Inr (map (\<lambda>(k, v). JStr k) d)"
| "iterate (JStr s) = Inr (map (\<lambda>c. JStr [c]) s)"
| "iterate _ = Inl TypeError"

definition load_manifest_metadata :: "dict \<Rightarrow> (string \<times> string \<times> string \<times> string) res" where
  "load_manifest_metadata manifest =
     (if \<not> dhas manifest ''id'' then Inl (KeyError ''id'')
      else if \<not> dhas manifest ''version'' then Inl (KeyError ''version'')
      else Inr (py_str (dget manifest ''id''),
        py_str (dget_or manifest ''name'' (JStr ''Synthia MQTT'')),
        py_str (dget manifest ''version''),
        py_str (dget_or manifest ''description'' (JStr ''Distributed MQTT and HA discovery service''))))"

definition load_manifest :: "dict \<Rightarrow> manifest_info res" where
  "load_manifest manifest =
     res_bind (load_manifest_metadata manifest) (\<lambda>(i, n, v, t).
     res_bind (iterate (dget_or manifest ''permissions'' (JList []))) (\<lambda>ps.
     Inr \<lparr>mf_addon_id = i, mf_name = n, mf_version = v, mf_description = t,
       mf_groups = load_optional_docker_groups manifest, mf_permissions = map py_str ps\<rparr>))"

definition SSAP_API_VERSION :: string where
  "SSAP_API_VERSION = ''1.0''"

definition CAPABILITIES :: "string list" where
  "CAPABILITIES = [''mqtt.publish'', ''mqtt.ha.discovery.publish'', ''mqtt.ha.state.publish'']"

section \<open>State and parameters\<close>

text \<open>
  The endpoints' state, the broker's files, the requests sent to Core and the containers
  restarted.
\<close>

record app_world =
  aw_gw :: gateway_world
  aw_broker :: broker_files
  aw_core :: "http_request list"
  aw_restarts :: "string list"

text \<open>
  The parameters of one request: those of the publishing endpoints, the manifest, the host,
  the network, how its bytes are decoded, fresh random bytes, the monotonic clock, \<open>str\<close> of an
  exception raised by library code, what paho's \<open>tls_set\<close>, \<open>will_set\<close> and \<open>connect_async\<close> raise
  (if they do), and how a test connection goes.
\<close>

record app_runtime =
  ar_api :: api_runtime
  ar_manifest :: manifest_info
  ar_docker :: docker_host
  ar_host :: embedded_host
  ar_http :: network
  ar_decode :: "string \<Rightarrow> string"
  ar_random_seed :: string
  ar_monotonic_ns :: int
  ar_time_ns :: int
  ar_str_exn :: "exn \<Rightarrow> string"
  ar_paho :: paho_setup
  ar_connect :: "string \<Rightarrow> int \<Rightarrow> exn option"
  ar_test :: "string \<Rightarrow> int \<Rightarrow> bool \<Rightarrow> string option \<Rightarrow> string option \<Rightarrow> string option \<times> test_event list"

type_synonym 'a app_run = "(app_world, 'a) run"

text \<open>\<open>str(exc)\<close>: the service's own exceptions carry their text.\<close>

definition exn_text :: "app_runtime \<Rightarrow> exn \<Rightarrow> string" where
  "exn_text ar e =
     (case e of
        ValueError m \<Rightarrow> m
      | TopicPermissionError m \<Rightarrow> m
      | EnvelopeValidationError m \<Rightarrow> m
      | TokenAuthError m \<Rightarrow> m
      | RuntimeError m \<Rightarrow> m
      | _ \<Rightarrow> ar_str_exn ar e)"

definition ar_env :: "app_runtime \<Rightarrow> env" where
  "ar_env ar = rt_env (ar_api ar)"

text \<open>The parts of the state as components.\<close>

definition on_config :: "(config_store, 'a) run \<Rightarrow> 'a app_run" where
  "on_config = run_lift (\<lambda>w. gw_config (aw_gw w)) (\<lambda>c w. w\<lparr>aw_gw := (aw_gw w)\<lparr>gw_config := c\<rparr>\<rparr>)"

definition on_gw :: "(gateway_world, 'a) run \<Rightarrow> 'a app_run" where
  "on_gw = run_lift aw_gw (\<lambda>g w. w\<lparr>aw_gw := g\<rparr>)"

definition on_broker :: "(broker_files, 'a) run \<Rightarrow> 'a app_run" where
  "on_broker = run_lift aw_broker (\<lambda>b w. w\<lparr>aw_broker := b\<rparr>)"

definition update_session :: "app_runtime \<Rightarrow> dict \<Rightarrow> dict app_run" where
  "update_session ar updates = on_config (update_install_session_state (ar_env ar) updates)"

definition read_session :: "app_runtime \<Rightarrow> app_world \<Rightarrow> dict res" where
  "read_session ar w = get_install_session_state (ar_env ar) (gw_config (aw_gw w))"

text \<open>\<open>HTTPException\<close> for an exception, once the session says what went wrong.\<close>

definition http_error :: "int \<Rightarrow> string \<Rightarrow> 'a app_run" where
  "http_error code detail = run_raise (HTTPException code detail)"

section \<open>The MQTT service of the application\<close>

definition stop_service :: "gateway_world \<Rightarrow> gateway_world" where
  "stop_service w = (case gw_service w of None \<Rightarrow> w | Some s \<Rightarrow> stop s w)"

text \<open>
  The old service is stopped first. If the new one cannot be built, the old one is still the
  application's, stopped. The new service is the application's before it starts: if
  \<open>connect_async\<close> raises, it is there but not running.
\<close>

definition reload_mqtt_service :: "app_runtime \<Rightarrow> (gateway_world, unit) run" where
  "reload_mqtt_service ar w0 =
     (let w1 = stop_service w0 in
      case get_effective_config (ar_env ar) False (gw_config w1) of
        Inl e \<Rightarrow> (Inl e, w1)
      | Inr config \<Rightarrow>
          (let mf = ar_manifest ar in
           case new_mqtt_service (base_runtime (ar_api ar)) (ar_paho ar) config CAPABILITIES (mf_addon_id mf)
                 (mf_version mf) SSAP_API_VERSION ''standalone_service''
                 (getenv (ar_env ar) ''ANNOUNCE_BASE_URL'' ''http://localhost:18080'') True True w1 of
             (Inl e, w2) \<Rightarrow> (Inl e, w2)
           | (Inr s, w2) \<Rightarrow>
               (let w3 = w2\<lparr>gw_service := Some s\<rparr> in
                case ar_connect ar (py_str (eff_host config)) (eff_port config) of
                  Some e \<Rightarrow> (Inl e, w3)
                | None \<Rightarrow> (Inr (), start s w3))))"

text \<open>The thread that \<open>telemetry_reporter.start\<close> starts flushes the queue now and then.\<close>

definition startup_event :: "app_runtime \<Rightarrow> (gateway_world, unit) run" where
  "startup_event ar = reload_mqtt_service ar"

text \<open>\<open>None\<close>: the last flush waits for the telemetry lock for ever.\<close>

definition shutdown_event :: "app_runtime \<Rightarrow> gateway_world \<Rightarrow> (unit res \<times> gateway_world) option" where
  "shutdown_event ar w =
     (let w1 = stop_service w in
      case tel_stop (ar_http ar) (ar_env ar) (rt_disk (ar_api ar)) (gw_telemetry w1) of
        None \<Rightarrow> None
      | Some (res, t) \<Rightarrow> Some (res, w1\<lparr>gw_telemetry := t\<rparr>))"

section \<open>Lemmas\<close>

text \<open>Nothing but the service, its client and the health changes.\<close>

lemma stop_service_fields [simp]:
  "gw_config (stop_service g) = gw_config g" "gw_regs (stop_service g) = gw_regs g"
  "gw_traces (stop_service g) = gw_traces g" "gw_telemetry (stop_service g) = gw_telemetry g"
  "cw_policy (stop_service g) = cw_policy g" "cw_outbox (stop_service g) = cw_outbox g"
  "gw_service (stop_service g) = gw_service g"
  by (simp_all add: stop_service_def stop_def split: option.splits)

text \<open>Its parts: how the service is built, and what is then asked of it.\<close>

abbreviation build_service ::
  "app_runtime \<Rightarrow> eff_config \<Rightarrow> (gateway_world, mqtt_service) run" where
  "build_service ar config \<equiv> new_mqtt_service (base_runtime (ar_api ar)) (ar_paho ar) config CAPABILITIES
     (mf_addon_id (ar_manifest ar)) (mf_version (ar_manifest ar)) SSAP_API_VERSION ''standalone_service''
     (getenv (ar_env ar) ''ANNOUNCE_BASE_URL'' ''http://localhost:18080'') True True"

lemma reload_cases:
  assumes "reload_mqtt_service ar g = (res, g')"
  obtains (unreadable) e where "get_effective_config (ar_env ar) False (gw_config g) = Inl e" "res = Inl e"
      "g' = stop_service g"
  | (unbuilt) config e w2 where "get_effective_config (ar_env ar) False (gw_config g) = Inr config" "res = Inl e"
      "build_service ar config (stop_service g) = (Inl e, w2)" "g' = w2"
  | (unconnected) config s w2 e where "get_effective_config (ar_env ar) False (gw_config g) = Inr config" "res = Inl e"
      "build_service ar config (stop_service g) = (Inr s, w2)" "g' = w2\<lparr>gw_service := Some s\<rparr>"
      "ar_connect ar (py_str (eff_host config)) (eff_port config) = Some e"
  | (running) config s w2 where "get_effective_config (ar_env ar) False (gw_config g) = Inr config" "res = Inr ()"
      "build_service ar config (stop_service g) = (Inr s, w2)" "g' = start s (w2\<lparr>gw_service := Some s\<rparr>)"
      "ar_connect ar (py_str (eff_host config)) (eff_port config) = None"
proof (cases "get_effective_config (ar_env ar) False (gw_config g)")
  case (Inl e)
  then show ?thesis using assms unreadable by (simp add: reload_mqtt_service_def Let_def)
next
  case (Inr config)
  obtain r w2 where b: "build_service ar config (stop_service g) = (r, w2)" by fastforce
  show ?thesis
    using assms Inr b unbuilt unconnected running
    by (cases r; cases "ar_connect ar (py_str (eff_host config)) (eff_port config)")
      (auto simp: reload_mqtt_service_def Let_def)
qed

lemma build_service_keeps:
  assumes "build_service ar config g = (res, g')"
  shows "gw_config g' = gw_config g \<and> gw_regs g' = gw_regs g \<and> gw_traces g' = gw_traces g \<and>
    gw_telemetry g' = gw_telemetry g \<and> cw_policy g' = cw_policy g \<and> cw_outbox g' = cw_outbox g \<and>
    cw_metrics g' = cw_metrics g \<and> cw_health g' = cw_health g"
  using assms by (auto simp: new_mqtt_service_def Let_def split: option.splits)

lemma reload_keeps:
  assumes "reload_mqtt_service ar g = (res, g')"
  shows "gw_config g' = gw_config g \<and> gw_regs g' = gw_regs g \<and> gw_traces g' = gw_traces g \<and>
    gw_telemetry g' = gw_telemetry g \<and> cw_policy g' = cw_policy g \<and> cw_outbox g' = cw_outbox g"
  using assms
proof (cases rule: reload_cases)
  case (unbuilt config e w2)
  from build_service_keeps [OF unbuilt(3)] unbuilt(4) show ?thesis by simp
next
  case (unconnected config s w2 e)
  from build_service_keeps [OF unconnected(3)] unconnected(4) show ?thesis by simp
next
  case (running config s w2)
  from build_service_keeps [OF running(3)] running(4) show ?thesis by (simp add: start_def)
qed simp

text \<open>
  A configuration that can be read, a service that paho lets be built and a connection that
  can be started: the new service runs on it.
\<close>

definition service_starts :: "app_runtime \<Rightarrow> eff_config \<Rightarrow> bool" where
  "service_starts ar config =
     (0 \<le> eff_qos config \<and> eff_qos config \<le> 2 \<and> (eff_tls config \<longrightarrow> ps_tls_set (ar_paho ar) = None) \<and>
      ar_connect ar (py_str (eff_host config)) (eff_port config) = None)"

lemma reload_running:
  assumes "get_effective_config (ar_env ar) False (gw_config g) = Inr eff"
    and "documented_paho (ar_paho ar)" and "service_starts ar eff"
  shows "\<exists>s g'. reload_mqtt_service ar g = (Inr (), g') \<and> gw_service g' = Some s \<and> ms_config s = eff \<and>
    cw_running g' \<and> cw_connection g' = Some (py_str (eff_host eff), eff_port eff)"
proof -
  have "service_built (ar_paho ar) eff" using assms(3) by (simp add: service_starts_def service_built_def)
  from new_mqtt_service_built [OF assms(2) this] obtain s w2 where
    "build_service ar eff (stop_service g) = (Inr s, w2)" "ms_config s = eff" by blast
  with assms show ?thesis by (simp add: reload_mqtt_service_def service_starts_def start_def Let_def)
qed

text \<open>With a QoS out of range it fails, and the service that was there is stopped.\<close>

lemma reload_bad_qos:
  assumes "get_effective_config (ar_env ar) False (gw_config g) = Inr eff"
    and "documented_paho (ar_paho ar)" and "\<not> (0 \<le> eff_qos eff \<and> eff_qos eff \<le> 2)"
  shows "\<exists>e. reload_mqtt_service ar g = (Inl e, stop_service g)"
proof -
  obtain e where "build_service ar eff (stop_service g) = (Inl e, stop_service g)"
    using new_mqtt_service_bad_qos [OF assms(2,3)] by blast
  with assms(1) show ?thesis by (simp add: reload_mqtt_service_def Let_def)
qed

text \<open>If the configuration cannot be read, the old service is still the service, but stopped.\<close>

lemma reload_unreadable:
  assumes "get_effective_config (ar_env ar) False (gw_config g) = Inl e"
  shows "reload_mqtt_service ar g = (Inl e, stop_service g)"
  using assms by (simp add: reload_mqtt_service_def Let_def)

section \<open>Concrete parameters\<close>

definition example_manifest :: manifest_info where
  "example_manifest = \<lparr>mf_addon_id = ''mqtt'', mf_name = ''Synthia MQTT'', mf_version = ''0.2.14'',
     mf_description = [], mf_groups = [], mf_permissions = []\<rparr>"

definition example_app :: app_runtime where
  "example_app = \<lparr>ar_api = example_api, ar_manifest = example_manifest,
     ar_docker = \<lparr>dk_socket = False, dk_sdk_error = None, dk_restart_error = (\<lambda>_. None), dk_attrs = (\<lambda>_. None)\<rparr>,
     ar_host = example_host, ar_http = (\<lambda>_ _. Replied 200 []), ar_decode = id, ar_random_seed = ''seed'', ar_monotonic_ns = 0,
     ar_time_ns = 7, ar_str_exn = (\<lambda>_. []), ar_paho = example_paho, ar_connect = (\<lambda>_ _. None),
     ar_test = (\<lambda>_ _ _ _ _. (None, [Test_Connect 0]))\<rparr>"

end
