(* ===== verification/Registration_Facts.thy ===== *)
theory Registration_Facts
  imports Registration_Store
begin

text \<open>
  Correctness of the registration store: a registration that succeeds is read back and
  leaves the others alone, one that fails changes no registration; what it grants stays in
  the addon's namespace, in the record and in the lines of the ACL file; credentials are
  stable until they are reprovisioned. The last section has the inputs on which the ACL file
  and its place are not what they should be.
\<close>

section \<open>Sorting and validation\<close>

lemma sort_key_map: "sort_key f (map g xs) = map g (sort_key (\<lambda>x. f (g x)) xs)"
proof -
  have ins: "insort_key f (g x) (map g ys) = map g (insort_key (\<lambda>x. f (g x)) x ys)" for x ys
    by (induction ys) auto
  show ?thesis by (induction xs) (simp_all add: ins)
qed

lemma strs_of_iff: "strs_of vs = Some xs \<longleftrightarrow> vs = map JStr xs"
proof (induction vs arbitrary: xs rule: strs_of.induct)
  case (2 s vs)
  then show ?case by (cases xs) auto
qed auto

lemma strs_of_map [simp]: "strs_of (map JStr xs) = Some xs"
  by (simp add: strs_of_iff)

lemma strs_of_sort_keys: "strs_of (map sort_keys vs) = strs_of vs"
  by (induction vs rule: strs_of.induct) auto

lemma str_list_of_str_list [simp]: "str_list_of (str_list xs) = Some xs"
  by (simp add: str_list_of_def str_list_def)

lemma field_sort_keys [simp]:
  "str_of (sort_keys v) = str_of v"
  "access_mode_of (sort_keys v) = access_mode_of v"
  "ha_mode_of (sort_keys v) = ha_mode_of v"
  "str_list_of (sort_keys v) = str_list_of v"
  by (cases v; simp add: access_mode_of_def ha_mode_of_def str_list_of_def strs_of_sort_keys)+

lemma mode_texts [simp]:
  "access_mode_of (JStr (access_mode_text m)) = Some m" "ha_mode_of (JStr (ha_mode_text h)) = Some h"
  by (cases m) (simp_all add: access_mode_of_def, cases h, simp_all add: ha_mode_of_def)

definition json_str :: "json \<Rightarrow> string" where
  "json_str v = (case v of JStr s \<Rightarrow> s | _ \<Rightarrow> [])"

lemma str_items_of_alt:
  "str_items_of d = (if list_all (\<lambda>(k, v). str_of v \<noteq> None) d
     then Some (map (\<lambda>(k, v). (k, json_str v)) d) else None)"
  by (induction d rule: str_items_of.induct) (auto simp: json_str_def)

lemma str_items_of_sort: "str_items_of (sort_dict d) = map_option (sort_key fst) (str_items_of d)"
proof -
  have "list_all P (sort_key fst d) = list_all P d" for P and d :: dict
    by (simp add: list_all_iff)
  moreover have "json_str (sort_keys v) = json_str v" for v by (cases v) (simp_all add: json_str_def)
  ultimately show ?thesis
    by (simp add: str_items_of_alt sort_dict_def sort_key_map list_all_iff split_beta)
qed

lemma str_items_of_map [simp]: "str_items_of (map (\<lambda>(k, v). (k, JStr v)) d) = Some d"
  by (induction d) auto

lemma manual_of_sort: "manual_of (sort_keys v) = map_option (map_option (sort_key fst)) (manual_of v)"
  by (cases v) (simp_all add: manual_of_def str_items_of_sort [unfolded sort_dict_def]
      option.map_comp comp_def)

lemma wf_distinct: "wf_json (JObj d) \<Longrightarrow> distinct (map fst d)"
  by simp

lemma permissions_of_sort: "wf_json v \<Longrightarrow> permissions_of (sort_keys v) = permissions_of v"
proof (cases v)
  case (JObj d)
  assume "wf_json v"
  then have "distinct (map fst d)" using JObj by simp
  then show ?thesis
    by (simp only: JObj sort_keys_JObj permissions_of_def json.case dget_sort_dict field_sort_keys)
qed (simp_all add: permissions_of_def)

lemma direct_of_sort: "wf_json v \<Longrightarrow> direct_of (sort_keys v) = direct_of v"
proof (cases v)
  case (JObj d)
  assume "wf_json v"
  then have "distinct (map fst d)" using JObj by simp
  then show ?thesis
    by (simp only: JObj sort_keys_JObj direct_of_def json.case dget_sort_dict field_sort_keys)
qed (simp_all add: direct_of_def)

lemma obj_of_sort: "obj_of (sort_keys v) = map_option sort_dict (obj_of v)"
  by (cases v) (simp_all add: obj_of_def sort_dict_def)

text \<open>What the file keeps of a registration: its dictionaries come back with sorted keys.\<close>

definition canon :: "registration \<Rightarrow> registration" where
  "canon r = r\<lparr>rg_capabilities := sort_dict (rg_capabilities r),
     rg_manual := map_option (sort_key fst) (rg_manual r)\<rparr>"

text \<open>
  What is relied on of the library: a written instant is read back as itself, and a list or
  a dictionary is not a date.
\<close>

definition reg_lib_ok :: "reg_lib \<Rightarrow> bool" where
  "reg_lib_ok lib = ((\<forall>t. lib_parse_dt lib (JStr (lib_iso lib t)) = Some t) \<and>
     (\<forall>xs. lib_parse_dt lib (JList xs) = None) \<and> (\<forall>d. lib_parse_dt lib (JObj d) = None))"

lemma parse_dt_sort_keys: "reg_lib_ok lib \<Longrightarrow> lib_parse_dt lib (sort_keys v) = lib_parse_dt lib v"
  by (cases v) (simp_all add: reg_lib_ok_def)

lemma validate_sorted:
  assumes "wf_json (JObj d)" and "reg_lib_ok lib"
  shows "validate_registration lib (sort_dict d) = map_option canon (validate_registration lib d)"
proof -
  have d: "dget (sort_dict d) k = sort_keys (dget d k)" for k
    using assms(1) by (simp add: dget_sort_dict)
  have st: "sort_keys (dget d ''status'') = JStr ''approved'' \<longleftrightarrow> dget d ''status'' = JStr ''approved''"
    by (cases "dget d ''status''") simp_all
  show ?thesis
    unfolding validate_registration_def d st field_sort_keys obj_of_sort manual_of_sort
      parse_dt_sort_keys [OF assms(2)]
      permissions_of_sort [OF wf_json_dget [OF assms(1)]] direct_of_sort [OF wf_json_dget [OF assms(1)]]
    by (simp add: canon_def split: option.splits)
qed

section \<open>The payload of a registration\<close>

lemma dget_lit [simp]: "dget ((k, v) # d) k' = (if k' = k then v else dget d k')"
  by (simp add: dget_def dget_or_def)

lemma stored_payload_dget:
  "dget (stored_payload lib bm dm meta r) k =
    (if k = ''external_direct_access_mode'' then JStr dm
     else if k = ''acl_mode'' then JStr (if bm = ''embedded'' then ''embedded-generated'' else ''external-manual'')
     else if k = ''credential_meta'' \<and> meta \<noteq> JNull then meta else dget (dump_registration lib r) k)"
  by (simp add: stored_payload_def)

lemma stored_payload_meta: "dget (stored_payload lib bm dm meta r) ''credential_meta'' = meta"
  by (simp add: stored_payload_dget dump_registration_def)

lemma validate_dump:
  assumes "reg_lib_ok lib"
  shows "validate_registration lib (stored_payload lib bm dm meta r) = Some r"
proof -
  have perm: "permissions_of (JObj [(''publish'', str_list p), (''subscribe'', str_list s)]) =
      Some \<lparr>publish = p, subscribe = s\<rparr>" for p s
    by (simp add: permissions_of_def)
  have man: "manual_of (case m of None \<Rightarrow> JNull | Some d \<Rightarrow> str_dict_json d) = Some m" for m
    by (cases m) (simp_all add: manual_of_def str_dict_json_def)
  have dir: "direct_of (case c of None \<Rightarrow> JNull
         | Some c \<Rightarrow> JObj [(''username'', JStr (dc_username c)), (''password'', JStr (dc_password c))]) = Some c" for c
    by (cases c) (simp_all add: direct_of_def)
  have dt: "lib_parse_dt lib (JStr (lib_iso lib t)) = Some t" for t
    using assms by (simp add: reg_lib_ok_def)
  show ?thesis
    unfolding validate_registration_def stored_payload_dget
    by (simp add: dump_registration_def perm man dir dt obj_of_def)
qed

text \<open>The dictionaries a request brings in have each key once.\<close>

definition request_wf :: "registration_request \<Rightarrow> bool" where
  "request_wf rq = wf_json (JObj (rq_capabilities rq))"

lemma wf_str_list [simp]: "wf_json (str_list xs)"
  by (simp add: str_list_def list_all_iff)

lemma wf_str_dict: "distinct (map fst d) \<Longrightarrow> wf_json (str_dict_json d)"
  by (simp add: str_dict_json_def list_all_iff split_beta comp_def)

lemma wf_dset: "wf_json (JObj d) \<Longrightarrow> wf_json v \<Longrightarrow> wf_json (JObj (dset k v d))"
proof -
  assume a: "wf_json (JObj d)" "wf_json v"
  have "set (dset k v d) \<subseteq> insert (k, v) (set d)"
    unfolding dset_def by (induction d) auto
  with a show ?thesis by (auto simp: distinct_dset list_all_iff)
qed

lemma wf_sort_keys: "wf_json v \<Longrightarrow> wf_json (sort_keys v)"
proof (induction v rule: sort_keys.induct)
  case (1 xs)
  then show ?case by (simp add: list_all_iff)
next
  case (2 d)
  have "distinct (map fst (sort_dict d))"
  proof -
    have "distinct (map fst (sort_key fst ys)) = distinct (map fst ys)" for ys :: dict
      by (simp only: distinct_map distinct_sort set_sort)
    then show ?thesis using 2(2) unfolding sort_dict_def by (simp only: map_fst_map_snd wf_json.simps)
  qed
  moreover have "list_all (\<lambda>(k, v). wf_json v) (sort_dict d)"
    using 2 by (fastforce simp: sort_dict_def list_all_iff)
  ultimately show ?case by (simp only: sort_keys_JObj wf_json.simps)
qed simp_all

lemma wf_stored_payload:
  assumes "wf_json (JObj (rg_capabilities r))" and "wf_json meta"
    and "case rg_manual r of None \<Rightarrow> True | Some d \<Rightarrow> distinct (map fst d)"
  shows "wf_json (JObj (stored_payload lib bm dm meta r))"
proof -
  have "wf_json (JObj (dump_registration lib r))"
    using assms(1,3) by (simp add: dump_registration_def wf_str_dict split: option.splits)
  then have "wf_json (JObj (if meta \<noteq> JNull then dset ''credential_meta'' meta (dump_registration lib r)
      else dump_registration lib r))"
    using wf_dset [OF _ assms(2)] by (simp only: split: if_split) blast
  then show ?thesis unfolding stored_payload_def by (intro wf_dset) (simp_all only: wf_json.simps)
qed

section \<open>The file\<close>

definition reg_wf :: "registration_store \<Rightarrow> bool" where
  "reg_wf st = wf_json (JObj (load_all st))"

lemma load_all_objs: "list_all (\<lambda>(k, v). is_obj v) (load_all st)"
  by (simp add: load_all_def list_all_iff)

lemma load_all_save:
  assumes "list_all (\<lambda>(k, v). is_obj v) d"
  shows "load_all (save_all d st) = sort_dict d"
proof -
  have "load_object (rs_file (save_all d st)) = sort_dict d"
    by (simp add: save_all_def sort_keys_JObj del: sort_keys.simps)
  moreover have "filter (\<lambda>(k, v). is_obj v) (sort_dict d) = sort_dict d"
    using assms by (auto simp: filter_id_conv sort_dict_def list_all_iff)
  ultimately show ?thesis by (simp add: load_all_def)
qed

lemma objs_dset:
  "list_all (\<lambda>(k, v). is_obj v) d \<Longrightarrow> is_obj v \<Longrightarrow> list_all (\<lambda>(k, v). is_obj v) (dset k v d)"
  unfolding dset_def by (induction d) (auto split: if_splits)

lemma load_all_file: "rs_file st' = rs_file st \<Longrightarrow> load_all st' = load_all st"
  by (simp add: load_all_def)

lemma get_registration_file: "rs_file st' = rs_file st \<Longrightarrow> get_registration lib a st' = get_registration lib a st"
  using load_all_file [of st' st] by (simp add: get_registration_def)

lemma seed_file: "rs_file (snd (load_or_create_seed s st)) = rs_file st"
  "rs_acl (snd (load_or_create_seed s st)) = rs_acl st"
  "rs_notes (snd (load_or_create_seed s st)) = rs_notes st"
  by (simp_all add: load_or_create_seed_def split: option.splits)

lemma grant_access_keeps:
  assumes "grant_access lib now rnd bm a rq meta st = (res, st1)"
  shows "rs_file st1 = rs_file st \<and> rs_acl st1 = rs_acl st \<and> rs_notes st1 = rs_notes st"
  using assms seed_file [of rnd st]
  by (auto simp: grant_access_def issue_direct_credentials_def Let_def
      split: if_splits prod.splits sum.splits option.splits)

text \<open>
  The cases of \<open>upsert\<close>: a failure that stores nothing; a registration that is stored, with its
  ACL file or note; one that is stored although its ACL file or note could not be opened,
  which fails.
\<close>

definition side_file :: "string \<Rightarrow> string \<Rightarrow> string" where
  "side_file bm addon_id = addon_id @ (if bm = ''embedded'' then ''.acl'' else ''.json'')"

lemma upsert_cases:
  obtains (failed) e where "fst (upsert lib now rnd rq bm dm st) = Inl e"
      "rs_file (snd (upsert lib now rnd rq bm dm st)) = rs_file st"
      "rs_acl (snd (upsert lib now rnd rq bm dm st)) = rs_acl st"
      "rs_notes (snd (upsert lib now rnd rq bm dm st)) = rs_notes st"
  | (stored) realized creds manual meta st1 r where
      "realize_topic_permissions (strip (rq_addon_id rq)) (rq_publish_topics rq) (rq_subscribe_topics rq)
         = Inr realized"
      "grant_access lib now rnd bm (strip (rq_addon_id rq)) rq
         (dget (as_dict (dget_or (load_all st) (strip (rq_addon_id rq)) (JObj []))) ''credential_meta'') st
         = (Inr (creds, manual, meta), st1)"
      "r = \<lparr>rg_addon_id = strip (rq_addon_id rq), rg_access_mode = rq_access_mode rq,
         rg_publish_topics = publish realized, rg_subscribe_topics = subscribe realized,
         rg_permissions = realized, rg_ha_mode = rq_ha_mode rq, rg_capabilities = rq_capabilities rq,
         rg_manual = manual, rg_direct = creds, rg_updated_at = now\<rparr>"
      "fst (upsert lib now rnd rq bm dm st) = Inr r"
      "rs_file (snd (upsert lib now rnd rq bm dm st)) = rs_file (save_all (dset (strip (rq_addon_id rq))
         (JObj (stored_payload lib bm (if dm \<in> {''gateway_only'', ''manual_direct_access''} then dm
            else ''gateway_only'') meta r)) (load_all st)) st)"
      "rs_seed (snd (upsert lib now rnd rq bm dm st)) = rs_seed st1"
      "bm = ''embedded'' \<Longrightarrow> rs_acl (snd (upsert lib now rnd rq bm dm st)) (rg_addon_id r @ ''.acl'') = Some (acl_text r)"
  | (unwritten) dm' meta r e where
      "fst (upsert lib now rnd rq bm dm st) = Inl e"
      "lib_open_fault lib (side_file bm (strip (rq_addon_id rq))) = Some e"
      "rs_file (snd (upsert lib now rnd rq bm dm st)) = rs_file (save_all (dset (strip (rq_addon_id rq))
         (JObj (stored_payload lib bm dm' meta r)) (load_all st)) st)"
      "rs_acl (snd (upsert lib now rnd rq bm dm st)) = rs_acl st"
      "rs_notes (snd (upsert lib now rnd rq bm dm st)) = rs_notes st"
proof (cases "realize_topic_permissions (strip (rq_addon_id rq)) (rq_publish_topics rq) (rq_subscribe_topics rq)")
  case (Inl e)
  then show thesis by (intro failed) (simp_all add: upsert_def Let_def)
next
  case (Inr realized)
  obtain res st1 where g: "grant_access lib now rnd bm (strip (rq_addon_id rq)) rq
      (dget (as_dict (dget_or (load_all st) (strip (rq_addon_id rq)) (JObj []))) ''credential_meta'') st = (res, st1)"
    by fastforce
  note keeps = grant_access_keeps [OF g]
  show thesis
  proof (cases res)
    case Inl2: (Inl e)
    show thesis
      by (rule failed) (use Inr g Inl2 keeps in \<open>simp_all add: upsert_def Let_def\<close>)
  next
    case Inr2: (Inr x)
    obtain creds manual meta where x: "x = (creds, manual, meta)" by (cases x)
    let ?r = "\<lparr>rg_addon_id = strip (rq_addon_id rq), rg_access_mode = rq_access_mode rq,
         rg_publish_topics = publish realized, rg_subscribe_topics = subscribe realized,
         rg_permissions = realized, rg_ha_mode = rq_ha_mode rq, rg_capabilities = rq_capabilities rq,
         rg_manual = manual, rg_direct = creds, rg_updated_at = now\<rparr>"
    show thesis
    proof (cases "lib_open_fault lib (side_file bm (strip (rq_addon_id rq)))")
      case None
      show thesis
        by (rule stored [OF Inr g [unfolded Inr2 x] refl]; cases "bm = ''embedded''"; insert None Inr g Inr2 x keeps;
            simp add: upsert_def Let_def save_all_def write_embedded_acl_def write_external_acl_note_def side_file_def)
    next
      case (Some e)
      show thesis
        by (rule unwritten [OF _ Some, where r = ?r and meta = meta and dm' =
            "if dm \<in> {''gateway_only'', ''manual_direct_access''} then dm else ''gateway_only''"];
            cases "bm = ''embedded''"; insert Some Inr g Inr2 x keeps;
            simp add: upsert_def Let_def save_all_def write_embedded_acl_def write_external_acl_note_def side_file_def)
    qed
  qed
qed

lemma grant_access_wf:
  assumes "grant_access lib now rnd bm a rq m st = (Inr (creds, manual, meta), st1)"
  shows "wf_json meta" and "case manual of None \<Rightarrow> True | Some d \<Rightarrow> distinct (map fst d)"
  using assms by (auto simp: grant_access_def issue_direct_credentials_def Let_def
      split: if_splits prod.splits sum.splits option.splits)

lemma validate_value_sorted:
  assumes "wf_json v" and "reg_lib_ok lib"
  shows "(case sort_keys v of JObj d \<Rightarrow> validate_registration lib d | _ \<Rightarrow> None) =
    map_option canon (case v of JObj d \<Rightarrow> validate_registration lib d | _ \<Rightarrow> None)"
proof (cases v)
  case (JObj d)
  have "wf_json (JObj d)" using assms(1) unfolding JObj .
  from validate_sorted [OF this assms(2)] show ?thesis
    by (simp add: JObj sort_keys_JObj del: sort_keys.simps)
qed simp_all

text \<open>Reading after a success: the new entry, and the others with sorted keys.\<close>

lemma upsert_reads:
  assumes "fst (upsert lib now rnd rq bm dm st) = Inr r" and "reg_wf st" and "request_wf rq"
    and "reg_lib_ok lib"
  shows "get_registration lib (rq_addon_id rq) (snd (upsert lib now rnd rq bm dm st)) = Some (canon r)"
    and "strip b \<noteq> strip (rq_addon_id rq) \<Longrightarrow>
      get_registration lib b (snd (upsert lib now rnd rq bm dm st)) = map_option canon (get_registration lib b st)"
    and "reg_wf (snd (upsert lib now rnd rq bm dm st))"
proof -
  let ?st = "snd (upsert lib now rnd rq bm dm st)"
  let ?a = "strip (rq_addon_id rq)"
  obtain dm' meta where
    fl: "rs_file ?st = rs_file (save_all (dset ?a (JObj (stored_payload lib bm dm' meta r)) (load_all st)) st)"
    and wfp: "wf_json (JObj (stored_payload lib bm dm' meta r))"
  proof (cases rule: upsert_cases [of lib now rnd rq bm dm st])
    case (failed e)
    with assms(1) show ?thesis by simp
  next
    case (stored realized creds manual meta st1 r')
    have r: "r' = r" using stored(4) assms(1) by simp
    have "wf_json (JObj (stored_payload lib bm dm' meta r))" for dm'
      by (rule wf_stored_payload)
        (use grant_access_wf [OF stored(2)] assms(3) stored(3) r in \<open>simp_all add: request_wf_def\<close>)
    with stored(5) r show ?thesis using that by blast
  next
    case (unwritten dm' meta r' e)
    with assms(1) show ?thesis by simp
  qed
  let ?d = "dset ?a (JObj (stored_payload lib bm dm' meta r)) (load_all st)"
  have wf: "wf_json (JObj (load_all st))" using assms(2) by (simp only: reg_wf_def)
  have wfd: "wf_json (JObj ?d)" by (rule wf_dset [OF wf wfp])
  have load: "load_all ?st = sort_dict ?d"
    unfolding load_all_file [OF fl] by (rule load_all_save [OF objs_dset [OF load_all_objs]]) simp
  have dist: "distinct (map fst ?d)" using wfd by (rule wf_distinct)
  have rd: "dget (load_all ?st) k = sort_keys (dget ?d k)" for k
    unfolding load by (rule dget_sort_dict [OF dist])
  show "get_registration lib (rq_addon_id rq) ?st = Some (canon r)"
    unfolding get_registration_def rd
    by (simp add: sort_keys_JObj validate_sorted [OF wfp assms(4)] validate_dump [OF assms(4)]
        del: sort_keys.simps)
  show "get_registration lib b ?st = map_option canon (get_registration lib b st)"
    if "strip b \<noteq> ?a"
  proof -
    have "wf_json (dget (load_all st) (strip b))" by (rule wf_json_dget [OF wf])
    from validate_value_sorted [OF this assms(4)] show ?thesis
      unfolding get_registration_def rd using that by simp
  qed
  show "reg_wf ?st"
    unfolding reg_wf_def load sort_keys_JObj [symmetric] by (rule wf_sort_keys [OF wfd])
qed


section \<open>A concrete library and request\<close>

definition example_lib :: reg_lib where
  "example_lib = \<lparr>lib_hmac = (\<lambda>key msg. key @ msg), lib_sha256_hex = (\<lambda>s. s), lib_iso = int_to_dec,
     lib_isoformat = int_to_dec, lib_parse_dt = (\<lambda>v. case v of JStr s \<Rightarrow> int_of_str s | _ \<Rightarrow> None),
     lib_open_fault = (\<lambda>_. None)\<rparr>"

lemma example_lib_ok: "reg_lib_ok example_lib"
  by (simp add: reg_lib_ok_def example_lib_def int_of_str_int_to_dec)

definition example_reg_request :: registration_request where
  "example_reg_request = \<lparr>rq_addon_id = '' vision '', rq_access_mode = Both,
     rq_publish_topics = [''synthia/addons/vision/event''],
     rq_subscribe_topics = [''synthia/core/status''], rq_capabilities = [], rq_ha_mode = Ha_None,
     rq_manual_direct_mqtt = None, rq_reprovision = False\<rparr>"

definition empty_store :: registration_store where
  "empty_store = \<lparr>rs_file = Absent, rs_seed = None, rs_acl = (\<lambda>_. None), rs_notes = (\<lambda>_. None)\<rparr>"

definition example_registration :: registration where
  "example_registration = \<lparr>rg_addon_id = ''vision'', rg_access_mode = Both,
     rg_publish_topics = [''synthia/addons/vision/event''], rg_subscribe_topics = [''synthia/core/status''],
     rg_permissions = \<lparr>publish = [''synthia/addons/vision/event''], subscribe = [''synthia/core/status'']\<rparr>,
     rg_ha_mode = Ha_None, rg_capabilities = [], rg_manual = None,
     rg_direct = Some \<lparr>dc_username = ''addon_vision_mqtt'', dc_password = ''c2VlZHZpc2lvbjox''\<rparr>,
     rg_updated_at = 5\<rparr>"

lemma example_upsert:
  "fst (upsert example_lib 5 ''seed'' example_reg_request ''embedded'' ''gateway_only'' empty_store)
     = Inr example_registration"
  by code_simp

section \<open>Properties\<close>

text \<open>
  C19: a registration that succeeds is the one read back for its addon id (its dictionaries
  with sorted keys), every other registration is still there, and the file stays well formed.
\<close>

theorem upsert_get_registration:
  assumes "fst (upsert lib now rnd rq bm dm st) = Inr r" and "reg_wf st" and "request_wf rq"
    and "reg_lib_ok lib"
  shows "get_registration lib (rq_addon_id rq) (snd (upsert lib now rnd rq bm dm st)) = Some (canon r) \<and>
    (\<forall>b. strip b = strip (rq_addon_id rq) \<or>
      get_registration lib b (snd (upsert lib now rnd rq bm dm st)) = map_option canon (get_registration lib b st)) \<and>
    reg_wf (snd (upsert lib now rnd rq bm dm st))"
  using upsert_reads [OF assms] by blast

lemma upsert_get_registration_witness:
  "get_registration example_lib ''vision''
     (snd (upsert example_lib 5 ''seed'' example_reg_request ''embedded'' ''gateway_only'' empty_store))
   = Some (canon example_registration)"
proof -
  have 1: "reg_wf empty_store" "request_wf example_reg_request" by code_simp+
  have 2: "get_registration example_lib (rq_addon_id example_reg_request) st = get_registration example_lib ''vision'' st" for st
    unfolding get_registration_def by (rule arg_cong [where f = "\<lambda>s. case dget (load_all st) s of
      JObj d \<Rightarrow> validate_registration example_lib d | _ \<Rightarrow> None"]) code_simp
  from upsert_get_registration [OF example_upsert 1 example_lib_ok] show ?thesis
    unfolding 2 by blast
qed

text \<open>
  A registration that fails changes no registration, no ACL file and no note, unless its ACL
  file or note could not be opened: then the registration is stored all the same.
\<close>

theorem upsert_failure_changes_nothing:
  assumes "fst (upsert lib now rnd rq bm dm st) = Inl e"
  shows "rs_acl (snd (upsert lib now rnd rq bm dm st)) = rs_acl st \<and>
    rs_notes (snd (upsert lib now rnd rq bm dm st)) = rs_notes st \<and>
    (rs_file (snd (upsert lib now rnd rq bm dm st)) = rs_file st \<or>
     lib_open_fault lib (side_file bm (strip (rq_addon_id rq))) = Some e)"
  by (cases rule: upsert_cases [of lib now rnd rq bm dm st]) (use assms in simp_all)

text \<open>Such a registration: its id names a directory that is not there.\<close>

lemma registration_stored_although_it_fails:
  "(case upsert (example_lib\<lparr>lib_open_fault := (\<lambda>f. if CHR ''/'' \<in> set f then Some (OSError 2) else None)\<rparr>) 5 ''seed''
      (example_reg_request\<lparr>rq_addon_id := ''a/b'', rq_publish_topics := [], rq_subscribe_topics := []\<rparr>)
      ''embedded'' ''gateway_only'' empty_store of
     (res, st) \<Rightarrow> res = Inl (OSError 2) \<and> get_registration example_lib ''a/b'' st \<noteq> None)"
  by code_simp

lemma realize_Inr:
  assumes "realize_topic_permissions a ps ss = Inr p"
  shows "strip a \<noteq> []" and "list_all (grantable_topic (strip a)) (publish p)"
    and "list_all (\<lambda>t. grantable_topic (strip a) t \<or> is_reserved_topic t) (subscribe p)"
proof -
  have p: "p = \<lparr>publish = normalize_topics ps, subscribe = normalize_topics ss\<rparr>" "strip a \<noteq> []"
    "list_all (\<lambda>t. check_publish_topic (strip a) t = Inr ()) (normalize_topics ps)"
    "list_all (\<lambda>t. check_subscribe_topic (strip a) t = Inr ()) (normalize_topics ss)"
    using assms by (auto simp: realize_topic_permissions_def Let_def res_bind_Inr_iff check_all_iff
        split: if_splits)
  show "strip a \<noteq> []" "list_all (grantable_topic (strip a)) (publish p)"
    using p by (simp_all add: check_publish_topic_iff)
  show "list_all (\<lambda>t. grantable_topic (strip a) t \<or> is_reserved_topic t) (subscribe p)"
    using p(1,4) set_normalize_topics [of ss]
    by (fastforce simp: list_all_iff check_subscribe_topic_iff)
qed

definition wants_direct :: "registration_request \<Rightarrow> bool" where
  "wants_direct rq = (rq_access_mode rq = Direct_Mqtt \<or> rq_access_mode rq = Both)"

text \<open>
  C20: what a registration grants. Its publish scopes are all topics the addon may own, its
  subscribe scopes those or reserved ones; credentials are issued exactly for direct access
  to the embedded broker, and a manual mapping, with a user name, exactly for direct access
  to an external one.
\<close>

theorem upsert_grants:
  assumes "fst (upsert lib now rnd rq bm dm st) = Inr r"
  shows "rg_addon_id r = strip (rq_addon_id rq) \<and> rg_addon_id r \<noteq> [] \<and>
    list_all (grantable_topic (rg_addon_id r)) (publish (rg_permissions r)) \<and>
    list_all (\<lambda>t. grantable_topic (rg_addon_id r) t \<or> is_reserved_topic t) (subscribe (rg_permissions r)) \<and>
    (rg_direct r = None) = (\<not> (wants_direct rq \<and> bm = ''embedded'')) \<and>
    (case rg_manual r of None \<Rightarrow> \<not> (wants_direct rq \<and> bm \<noteq> ''embedded'')
     | Some d \<Rightarrow> wants_direct rq \<and> bm \<noteq> ''embedded'' \<and> str_get d ''username'' \<noteq> [])"
proof (cases rule: upsert_cases [of lib now rnd rq bm dm st])
  case (stored realized creds manual meta st1 r')
  have r: "r' = r" using stored(4) assms by simp
  have "(creds = None) = (\<not> (wants_direct rq \<and> bm = ''embedded'')) \<and>
    (case manual of None \<Rightarrow> \<not> (wants_direct rq \<and> bm \<noteq> ''embedded'')
     | Some d \<Rightarrow> wants_direct rq \<and> bm \<noteq> ''embedded'' \<and> str_get d ''username'' \<noteq> [])"
    using stored(2) unfolding grant_access_def wants_direct_def
    by (auto simp: Let_def str_get_def [of "_ # _"] split: if_splits prod.splits sum.splits)
  with realize_Inr [OF stored(1)] show ?thesis
    unfolding stored(3) [unfolded r] by simp
qed (use assms in simp_all)

lemma upsert_grants_witness:
  "list_all (grantable_topic ''vision'') [''synthia/addons/vision/event'']"
proof -
  have "list_all (grantable_topic (rg_addon_id example_registration))
      (publish (rg_permissions example_registration))"
    using upsert_grants [OF example_upsert] by blast
  then show ?thesis by (simp add: example_registration_def)
qed

text \<open>No line break in the names the ACL file is made of.\<close>

definition acl_names_ok :: "registration \<Rightarrow> bool" where
  "acl_names_ok r = (newline \<notin> set (rg_addon_id r) \<and>
     list_all (\<lambda>t. newline \<notin> set t) (publish (rg_permissions r)) \<and>
     list_all (\<lambda>t. newline \<notin> set t) (subscribe (rg_permissions r)))"

lemma acl_text_lines: "acl_names_ok r \<Longrightarrow> lines_of (acl_text r) = acl_lines r @ [[]]"
  unfolding acl_text_def
  by (rule lines_of_join) (auto simp: acl_lines_def acl_names_ok_def list_all_iff)

text \<open>
  after a registration with the embedded broker the addon's ACL file is there, and, when
  no name has a line break in it, its lines are exactly the user, one write rule for each
  publish scope and one read rule for each subscribe scope: it grants the addon's namespace
  for writing, that and the reserved one for reading, and nothing else.
\<close>

theorem embedded_acl_grants:
  assumes "fst (upsert lib now rnd rq ''embedded'' dm st) = Inr r" and "acl_names_ok r"
  shows "\<exists>text. rs_acl (snd (upsert lib now rnd rq ''embedded'' dm st)) (rg_addon_id r @ ''.acl'') = Some text \<and>
    lines_of text = (''user addon_'' @ rg_addon_id r @ ''_mqtt'')
      # map (\<lambda>t. ''topic write '' @ t) (publish (rg_permissions r))
      @ map (\<lambda>t. ''topic read '' @ t) (subscribe (rg_permissions r)) @ [[]] \<and>
    list_all (grantable_topic (rg_addon_id r)) (publish (rg_permissions r)) \<and>
    list_all (\<lambda>t. grantable_topic (rg_addon_id r) t \<or> is_reserved_topic t) (subscribe (rg_permissions r))"
proof (cases rule: upsert_cases [of lib now rnd rq "''embedded''" dm st])
  case (stored realized creds manual meta st1 r')
  have r: "r' = r" using stored(4) assms by simp
  have p: "rg_permissions r = realized" "rg_addon_id r = strip (rq_addon_id rq)"
    using stored(3) r by simp_all
  show ?thesis
    using stored(7) r acl_text_lines [OF assms(2)] realize_Inr [OF stored(1)]
    by (simp add: acl_lines_def p)
qed (use assms in simp_all)

lemma embedded_acl_grants_witness:
  "\<exists>text. rs_acl (snd (upsert example_lib 5 ''seed'' example_reg_request ''embedded'' ''gateway_only''
       empty_store)) (rg_addon_id example_registration @ ''.acl'') = Some text \<and>
     lines_of text = (''user addon_'' @ rg_addon_id example_registration @ ''_mqtt'')
      # map (\<lambda>t. ''topic write '' @ t) (publish (rg_permissions example_registration))
      @ map (\<lambda>t. ''topic read '' @ t) (subscribe (rg_permissions example_registration)) @ [[]]"
proof -
  have "acl_names_ok example_registration" by code_simp
  from embedded_acl_grants [OF example_upsert this] show ?thesis by blast
qed

text \<open>
  the list of registrations has exactly the stored entries that validate, newest first.
\<close>

theorem list_registrations_spec:
  "set (list_registrations lib st) =
     {r. \<exists>e \<in> set (load_all st). validate_registration lib (as_dict (snd e)) = Some r} \<and>
   sorted_wrt (\<lambda>a b. rg_updated_at b \<le> rg_updated_at a) (list_registrations lib st)"
proof
  have "set (List.map_filter f xs) = {y. \<exists>x \<in> set xs. f x = Some y}" for f :: "string \<times> json \<Rightarrow> registration option" and xs
    by (force simp: List.map_filter_def)
  then show "set (list_registrations lib st) =
     {r. \<exists>e \<in> set (load_all st). validate_registration lib (as_dict (snd e)) = Some r}"
    by (simp add: list_registrations_def split_beta)
  have "sorted_wrt (\<le>) (map (\<lambda>r. - rg_updated_at r) (list_registrations lib st))"
    by (simp add: list_registrations_def del: sorted_wrt_map)
  then show "sorted_wrt (\<lambda>a b. rg_updated_at b \<le> rg_updated_at a) (list_registrations lib st)"
    by (simp add: sorted_wrt_map)
qed

section \<open>Credentials\<close>

definition credentials :: "reg_lib \<Rightarrow> string \<Rightarrow> string \<Rightarrow> int \<Rightarrow> direct_credentials" where
  "credentials lib seed addon_id version =
     \<lparr>dc_username = direct_username addon_id, dc_password = direct_password lib seed addon_id version\<rparr>"

text \<open>The version kept for an addon (1 when there is none), if its metadata has a number.\<close>

definition stored_version :: "string \<Rightarrow> registration_store \<Rightarrow> int res" where
  "stored_version a st =
     (case obj_of (dget (as_dict (dget (load_all st) a)) ''credential_meta'') of
        None \<Rightarrow> Inr 1 | Some m \<Rightarrow> py_int (dget_or m ''version'' (JInt 1)))"

lemma dget_or_obj: "as_dict (dget_or d k (JObj [])) = as_dict (dget d k)"
  by (simp add: dget_def dget_or_def split: option.splits)

lemma load_after_save:
  assumes "rs_file st' = rs_file (save_all (dset a (JObj p) (load_all st)) st)" and "reg_wf st"
  shows "dget (load_all st') k = sort_keys (dget (dset a (JObj p) (load_all st)) k)"
proof -
  have "load_all st' = sort_dict (dset a (JObj p) (load_all st))"
    unfolding load_all_file [OF assms(1)]
    by (rule load_all_save [OF objs_dset [OF load_all_objs]]) simp
  moreover have "distinct (map fst (dset a (JObj p) (load_all st)))"
    using assms(2) by (simp add: reg_wf_def distinct_dset)
  ultimately show ?thesis by (simp only: dget_sort_dict)
qed

definition credential_meta :: "reg_lib \<Rightarrow> int \<Rightarrow> string \<Rightarrow> string \<Rightarrow> int \<Rightarrow> dict" where
  "credential_meta lib now seed a version =
     [(''version'', JInt version), (''username'', JStr (direct_username a)),
      (''password_hash'', JStr (lib_sha256_hex lib (utf8_encode (direct_password lib seed a version)))),
      (''updated_at'', JStr (lib_isoformat lib now))]"

lemma grant_access_embedded:
  assumes "grant_access lib now rnd ''embedded'' a rq m st = (Inr (creds, manual, meta), st1)"
    and "wants_direct rq"
  shows "\<exists>v seed. (case obj_of m of None \<Rightarrow> Inr 1 | Some d \<Rightarrow> py_int (dget_or d ''version'' (JInt 1))) = Inr v \<and>
    seed = (case rs_seed st of Some s \<Rightarrow> s | None \<Rightarrow> rnd) \<and> rs_seed st1 = Some seed \<and>
    creds = Some (credentials lib seed a (if rq_reprovision rq then v + 1 else v)) \<and>
    meta = JObj (credential_meta lib now seed a (if rq_reprovision rq then v + 1 else v))"
  using assms
  by (auto simp: grant_access_def issue_direct_credentials_def wants_direct_def Let_def
      credentials_def credential_meta_def load_or_create_seed_def
      split: if_splits prod.splits sum.splits option.splits)

lemma upsert_credentials:
  assumes "fst (upsert lib now rnd rq ''embedded'' dm st) = Inr r" and "wants_direct rq" and "reg_wf st"
  obtains v seed where "stored_version (strip (rq_addon_id rq)) st = Inr v"
    and "seed = (case rs_seed st of Some s \<Rightarrow> s | None \<Rightarrow> rnd)"
    and "rg_direct r = Some (credentials lib seed (strip (rq_addon_id rq)) (if rq_reprovision rq then v + 1 else v))"
    and "rs_seed (snd (upsert lib now rnd rq ''embedded'' dm st)) = Some seed"
    and "stored_version (strip (rq_addon_id rq)) (snd (upsert lib now rnd rq ''embedded'' dm st)) =
        Inr (if rq_reprovision rq then v + 1 else v)"
proof (cases rule: upsert_cases [of lib now rnd rq "''embedded''" dm st])
  case (stored realized creds manual meta st1 r')
  have r: "r' = r" using stored(4) assms(1) by simp
  let ?a = "strip (rq_addon_id rq)"
  obtain v seed where v: "(case obj_of (dget (as_dict (dget (load_all st) ?a)) ''credential_meta'') of
      None \<Rightarrow> Inr 1 | Some d \<Rightarrow> py_int (dget_or d ''version'' (JInt 1))) = Inr v"
    and seed: "seed = (case rs_seed st of Some s \<Rightarrow> s | None \<Rightarrow> rnd)" "rs_seed st1 = Some seed"
    and creds: "creds = Some (credentials lib seed ?a (if rq_reprovision rq then v + 1 else v))"
    and meta: "meta = JObj (credential_meta lib now seed ?a (if rq_reprovision rq then v + 1 else v))"
    using grant_access_embedded [OF stored(2) assms(2)] unfolding dget_or_obj by blast
  define w where "w = (if rq_reprovision rq then v + 1 else v)"
  define dm' where "dm' = (if dm \<in> {''gateway_only'', ''manual_direct_access''} then dm else ''gateway_only'')"
  let ?p = "stored_payload lib ''embedded'' dm' meta r"
  have "dget (load_all (snd (upsert lib now rnd rq ''embedded'' dm st))) ?a = sort_keys (JObj ?p)"
    using load_after_save [OF stored(5) assms(3), of ?a] by (simp add: r dm'_def del: sort_keys.simps)
  moreover have "distinct (map fst ?p)"
    unfolding stored_payload_def by (simp add: dump_registration_def distinct_dset)
  moreover have "distinct (map fst (credential_meta lib now seed ?a w))"
    by (simp add: credential_meta_def)
  moreover have "dget_or (sort_dict (credential_meta lib now seed ?a w)) ''version'' (JInt 1) = JInt w"
    using calculation(3) by (simp add: dget_or_def map_of_sort_dict) (simp add: credential_meta_def)
  ultimately have "stored_version ?a (snd (upsert lib now rnd rq ''embedded'' dm st)) = Inr w"
    by (simp add: stored_version_def sort_keys_JObj dget_sort_dict stored_payload_meta meta
        w_def [symmetric] obj_of_def del: sort_keys.simps)
  then show ?thesis
    using that [of v seed] v seed creds stored(3,6) r by (simp add: stored_version_def w_def)
qed (use assms in simp_all)

text \<open>
  credentials are stable: when an addon registers again for direct access to the embedded
  broker, it gets the same user and password as before, whatever else changed and whatever
  random seed is drawn, until it asks for new ones; then the password is that of the next
  version under the same secret seed.
\<close>

theorem credentials_stable:
  assumes "fst (upsert lib now rnd rq ''embedded'' dm st) = Inr r"
    and "fst (upsert lib now' rnd' rq' ''embedded'' dm' (snd (upsert lib now rnd rq ''embedded'' dm st))) = Inr r'"
    and "strip (rq_addon_id rq') = strip (rq_addon_id rq)" and "wants_direct rq" and "wants_direct rq'"
    and "reg_wf st" and "request_wf rq" and "reg_lib_ok lib"
  shows "\<exists>seed v. rg_direct r = Some (credentials lib seed (strip (rq_addon_id rq)) v) \<and>
    rg_direct r' = Some (credentials lib seed (strip (rq_addon_id rq)) (if rq_reprovision rq' then v + 1 else v))"
proof -
  let ?st = "snd (upsert lib now rnd rq ''embedded'' dm st)"
  have wf: "reg_wf ?st" by (rule upsert_reads(3) [OF assms(1,6,7,8)])
  obtain v seed where 1: "rg_direct r = Some (credentials lib seed (strip (rq_addon_id rq))
      (if rq_reprovision rq then v + 1 else v))" "rs_seed ?st = Some seed"
    "stored_version (strip (rq_addon_id rq)) ?st = Inr (if rq_reprovision rq then v + 1 else v)"
    by (rule upsert_credentials [OF assms(1,4,6)])
  obtain v' seed' where 2: "stored_version (strip (rq_addon_id rq')) ?st = Inr v'"
    "seed' = (case rs_seed ?st of Some s \<Rightarrow> s | None \<Rightarrow> rnd')"
    "rg_direct r' = Some (credentials lib seed' (strip (rq_addon_id rq'))
      (if rq_reprovision rq' then v' + 1 else v'))"
    by (rule upsert_credentials [OF assms(2,5) wf])
  from 1 2 assms(3) show ?thesis by auto
qed

lemma credentials_stable_witness:
  "\<exists>seed v. rg_direct example_registration = Some (credentials example_lib seed ''vision'' v)"
proof -
  let ?st = "snd (upsert example_lib 5 ''seed'' example_reg_request ''embedded'' ''gateway_only'' empty_store)"
  have "\<not> isl (fst (upsert example_lib 9 ''other'' example_reg_request ''embedded'' ''gateway_only'' ?st))"
    by code_simp
  then obtain r' where r': "fst (upsert example_lib 9 ''other'' example_reg_request ''embedded''
      ''gateway_only'' ?st) = Inr r'"
    by (cases "fst (upsert example_lib 9 ''other'' example_reg_request ''embedded'' ''gateway_only'' ?st)") simp_all
  have w: "wants_direct example_reg_request" "reg_wf empty_store" "request_wf example_reg_request" by code_simp+
  have a: "strip (rq_addon_id example_reg_request) = ''vision''" by code_simp
  from credentials_stable [OF example_upsert r' refl w(1) w(1) w(2) w(3) example_lib_ok]
  show ?thesis unfolding a by blast
qed

section \<open>Names that are not checked\<close>

text \<open>
  Neither the addon id nor the topics are checked for line breaks, and the id not for path
  separators: a topic can carry a rule of its own into the ACL file, and an id can name a
  file outside the directory.
\<close>

lemma topic_injects_acl_rule:
  "(case snd (upsert example_lib 5 ''seed'' (example_reg_request\<lparr>rq_publish_topics :=
       [''synthia/addons/vision/x'' @ [newline] @ ''topic readwrite #'']\<rparr>)
       ''embedded'' ''gateway_only'' empty_store) of st \<Rightarrow>
     map_option (\<lambda>t. ''topic readwrite #'' \<in> set (lines_of t)) (rs_acl st ''vision.acl'')) = Some True"
  by code_simp

lemma addon_id_escapes_acl_directory:
  "(case snd (upsert example_lib 5 ''seed'' (example_reg_request\<lparr>rq_addon_id := ''../../config'',
       rq_publish_topics := [], rq_subscribe_topics := []\<rparr>) ''embedded'' ''gateway_only'' empty_store) of st \<Rightarrow>
     rs_acl st ''../../config.acl'' \<noteq> None)"
  by code_simp

end
