(* ===== verification/Config_Facts.thy ===== *)
theory Config_Facts
  imports Config_Store
begin

text \<open>
  Correctness of the configuration store: the readers are total on a well-formed
  configuration and every operation keeps it well formed; what an install, a mode change, a
  session update, a base URL and a group selection store is what is read back; the mask of a
  secret shows its length and its two outer characters only.
\<close>

section \<open>Dictionaries read back\<close>

lemma dget_Cons [simp]:
  "dget ((k, v) # d) k' = (if k' = k then v else dget d k')"
  "dget_or ((k, v) # d) k' x = (if k' = k then v else dget_or d k' x)"
  "dhas ((k, v) # d) k' = (k' = k \<or> dhas d k')"
  "dhas [] k' = False"
  by (auto simp: dget_def dget_or_def dhas_def)

lemma dget_or_sort_dict:
  "distinct (map fst d) \<Longrightarrow>
   dget_or (sort_dict d) k x = (if dhas d k then sort_keys (dget d k) else x)"
  by (cases "map_of d k") (simp_all only: dget_or_def dget_def dhas_def map_of_sort_dict
      option.map option.case if_True if_False simp_thms option.distinct)

lemma dhas_sort_dict [simp]: "distinct (map fst d) \<Longrightarrow> dhas (sort_dict d) k = dhas d k"
  by (simp add: dhas_def map_of_sort_dict)

lemma dhas_dset [simp]: "dhas (dset k v d) k' = (k' = k \<or> dhas d k')"
  by (simp add: dhas_def)

lemma distinct_sort_dict [simp]: "distinct (map fst (sort_dict d)) = distinct (map fst d)"
proof -
  have "distinct (map fst (sort_key fst xs)) = distinct (map fst xs)" for xs :: dict
    by (simp only: distinct_map distinct_sort set_sort)
  then show ?thesis unfolding sort_dict_def by (simp only: map_fst_map_snd)
qed

lemma py_int_sort_keys [simp]: "py_int (sort_keys v) = py_int v"
  by (cases v) simp_all

lemma in_strings_sort_keys [simp]: "in_strings (sort_keys v) ss = in_strings v ss"
  by (cases v) simp_all

lemma dget_or_dget: "dhas d k \<Longrightarrow> dget_or d k x = dget d k"
  by (auto simp: dget_or_def dget_def dhas_def)

lemma dget_or_not: "\<not> dhas d k \<Longrightarrow> dget_or d k x = x"
  by (simp add: dget_or_def dhas_def)

lemma dget_not: "\<not> dhas d k \<Longrightarrow> dget d k = JNull"
  by (simp add: dget_def dget_or_not)

lemma map_fst_dset_old: "k \<in> set (map fst d) \<Longrightarrow> map fst (dset k v d) = map fst d"
  unfolding dset_def by (induction d) auto

lemma dict_eqI:
  assumes "map fst a = map fst b" and "distinct (map fst a)"
    and "\<And>k. k \<in> set (map fst a) \<Longrightarrow> dget a k = dget b k"
  shows "a = b"
  using assms
proof (induction a arbitrary: b)
  case (Cons e a)
  then obtain e' b' where b: "b = e' # b'" "fst e = fst e'" "map fst a = map fst b'" by auto
  have "dget a k = dget b' k" if k: "k \<in> set (map fst a)" for k
  proof -
    have "k \<noteq> fst e" using k Cons.prems(2) by (metis distinct.simps(2) list.simps(9))
    then show ?thesis using Cons.prems(3) [of k] k b
      by (cases e, cases e') (simp add: dget_def dget_or_def)
  qed
  moreover have "snd e = snd e'"
    using Cons.prems(3) [of "fst e"] b by (cases e, cases e') (simp add: dget_def dget_or_def)
  ultimately show ?case using b Cons.IH [of b'] Cons.prems(2) by (simp add: prod_eq_iff)
qed simp

section \<open>Well-formed configurations\<close>

definition int_like :: "json \<Rightarrow> bool" where
  "int_like v = (case py_int v of Inr _ \<Rightarrow> True | Inl _ \<Rightarrow> False)"

definition hashable :: "json \<Rightarrow> bool" where
  "hashable v = (case v of JList _ \<Rightarrow> False | JObj _ \<Rightarrow> False | _ \<Rightarrow> True)"

definition object_or_falsy :: "json \<Rightarrow> bool" where
  "object_or_falsy v = (is_obj v \<or> \<not> truthy v)"

text \<open>The numbers of the environment are numbers, and the overrides can be read.\<close>

definition env_ok :: "env \<Rightarrow> bool" where
  "env_ok env = (int_like (JStr (getenv env ''MQTT_PORT'' ''1883'')) \<and>
     int_like (JStr (getenv env ''MQTT_QOS'' ''1'')) \<and>
     int_like (JStr (getenv env ''EMBEDDED_PORT'' ''1883'')))"

definition overrides_ok :: "dict \<Rightarrow> bool" where
  "overrides_ok d = (distinct (map fst d) \<and>
     hashable (dget d ''mode'') \<and> hashable (dget d ''external_direct_access_mode'') \<and>
     object_or_falsy (dget d ''external'') \<and> object_or_falsy (dget d ''embedded'') \<and>
     int_like (dget_or d ''mqtt_port'' (JInt 0)) \<and> int_like (dget_or d ''mqtt_qos'' (JInt 0)) \<and>
     int_like (dget_or d ''qos_default'' (JInt 0)))"

definition config_ok :: "config_store \<Rightarrow> bool" where
  "config_ok st = ((case load_overrides st of Inr d \<Rightarrow> overrides_ok d | Inl _ \<Rightarrow> False) \<and>
     (case load_install_session_state st of Inr _ \<Rightarrow> True | Inl _ \<Rightarrow> False))"

lemma int_like_JInt [simp]: "int_like (JInt i)"
  by (simp add: int_like_def)

lemma hashable_JStr [simp]: "hashable (JStr s)"
  by (simp add: hashable_def)

lemma int_like_py_int: "int_like v \<Longrightarrow> \<exists>i. py_int v = Inr i"
  by (auto simp: int_like_def split: sum.splits)

lemma int_like_dget_or:
  "int_like (dget_or d k (JInt 0)) \<Longrightarrow> int_like x \<Longrightarrow> int_like (dget_or d k x)"
  by (auto simp: dget_or_def split: option.splits)

lemma int_like_sort_keys [simp]: "int_like (sort_keys v) = int_like v"
  by (simp add: int_like_def)

lemma hashable_sort_keys [simp]: "hashable (sort_keys v) = hashable v"
  by (cases v) (simp_all add: hashable_def)

lemma object_or_falsy_sort_keys [simp]: "object_or_falsy (sort_keys v) = object_or_falsy v"
  by (simp add: object_or_falsy_def)

lemma choice_ok:
  assumes "hashable v" and "dflt \<in> set options"
  shows "\<exists>s. choice v options dflt = Inr s \<and> s \<in> set options"
  using assms by (cases v) (auto simp: choice_def hashable_def)

lemma mode_defaults:
  "''external'' \<in> set install_modes" "''gateway_only'' \<in> set direct_access_modes"
  by (simp_all add: install_modes_def direct_access_modes_def)

lemma hashable_dget_or: "hashable (dget d k) \<Longrightarrow> hashable x \<Longrightarrow> hashable (dget_or d k x)"
  by (auto simp: dget_def dget_or_def split: option.splits)

lemma load_overrides_save [simp]:
  "load_overrides (save_overrides d st) = Inr (sort_dict d)"
  by (simp add: load_overrides_def save_overrides_def sort_keys_JObj del: sort_keys.simps)

lemma save_overrides_fields [simp]:
  "cs_install (save_overrides d st) = cs_install st"
  "cs_fs (save_overrides d st) = cs_fs st"
  "cs_mounts (save_overrides d st) = cs_mounts st"
  "load_install_session_state (save_overrides d st) = load_install_session_state st"
  by (simp_all add: save_overrides_def load_install_session_state_def)

lemma load_install_save [simp]:
  "load_install_session_state (save_install_session_state d st) = Inr (JObj (sort_dict d))"
  by (simp add: load_install_session_state_def save_install_session_state_def sort_keys_JObj
      del: sort_keys.simps)

lemma save_install_fields [simp]:
  "load_overrides (save_install_session_state d st) = load_overrides st"
  "cs_fs (save_install_session_state d st) = cs_fs st"
  "cs_mounts (save_install_session_state d st) = cs_mounts st"
  by (simp_all add: save_install_session_state_def load_overrides_def)

lemma get_install_state_cong:
  "load_overrides st' = load_overrides st \<Longrightarrow> get_install_state env st' = get_install_state env st"
  by (simp add: get_install_state_def)

lemma get_effective_config_cong:
  "load_overrides st' = load_overrides st \<Longrightarrow>
   get_effective_config env m st' = get_effective_config env m st"
  by (simp add: get_effective_config_def)

lemma get_desired_cong:
  "cs_fs st' = cs_fs st \<Longrightarrow> cs_mounts st' = cs_mounts st \<Longrightarrow>
   get_desired_optional_groups env st' = get_desired_optional_groups env st"
  by (simp add: get_desired_optional_groups_def)

lemma overrides_ok_sort_dict: "overrides_ok d \<Longrightarrow> overrides_ok (sort_dict d)"
  unfolding overrides_ok_def
  by (auto simp: dget_sort_dict dget_or_sort_dict dget_or_dget split: if_splits)

lemma overrides_ok_Nil: "overrides_ok []"
  by (simp add: overrides_ok_def hashable_def object_or_falsy_def)

lemma config_okE:
  assumes "config_ok st"
  obtains d raw where "load_overrides st = Inr d" and "overrides_ok d"
    and "load_install_session_state st = Inr (JObj raw)"
  using assms by (auto simp: config_ok_def load_install_session_state_def res_bind_def
      split: sum.splits)

lemma config_ok_save:
  "config_ok st \<Longrightarrow> overrides_ok d \<Longrightarrow> config_ok (save_overrides d st)"
  by (simp add: config_ok_def overrides_ok_sort_dict)

section \<open>The readers are total\<close>

lemma env_int_ok:
  assumes "env_ok env"
  shows "\<exists>i. env_int env ''MQTT_PORT'' ''1883'' = Inr i"
    "\<exists>i. env_int env ''MQTT_QOS'' ''1'' = Inr i"
    "\<exists>i. env_int env ''EMBEDDED_PORT'' ''1883'' = Inr i"
  using assms by (auto simp: env_ok_def env_int_def dest!: int_like_py_int simp del: py_int.simps)

lemma env_or_get_ok: "is_obj v \<Longrightarrow> \<exists>x. env_or_get env n v k = Inr x"
  by (cases v) (simp_all add: env_or_get_def json_get_def)

lemma mask_field_ok: "is_obj v \<Longrightarrow> \<exists>d. mask_field k v = Inr d"
  by (cases v) (simp_all add: mask_field_def json_get_def)

lemma get_effective_config_ok:
  assumes "env_ok env" and "load_overrides st = Inr d" and "overrides_ok d"
  shows "\<exists>c. get_effective_config env m st = Inr c"
proof -
  obtain p0 q0 where 0: "env_int env ''MQTT_PORT'' ''1883'' = Inr p0"
    "env_int env ''MQTT_QOS'' ''1'' = Inr q0" using env_int_ok [OF assms(1)] by blast
  have "int_like (dget_or d ''mqtt_port'' (JInt p0))" "int_like (dget_or d ''mqtt_qos'' (JInt q0))"
    using assms(3) by (simp_all add: overrides_ok_def int_like_dget_or)
  then obtain p q where "py_int (dget_or d ''mqtt_port'' (JInt p0)) = Inr p"
    "py_int (dget_or d ''mqtt_qos'' (JInt q0)) = Inr q" using int_like_py_int by blast
  then show ?thesis by (simp add: get_effective_config_def 0 assms(2) Let_def)
qed

lemma get_install_state_ok:
  assumes "env_ok env" and "load_overrides st = Inr d" and "overrides_ok d"
  shows "\<exists>c. get_install_state env st = Inr c \<and> ic_mode c \<in> set install_modes \<and>
    ic_external_direct_access_mode c \<in> set direct_access_modes"
proof -
  obtain p0 q0 e0 where 0: "env_int env ''MQTT_PORT'' ''1883'' = Inr p0"
    "env_int env ''MQTT_QOS'' ''1'' = Inr q0" "env_int env ''EMBEDDED_PORT'' ''1883'' = Inr e0"
    using env_int_ok [OF assms(1)] by blast
  obtain mode where m: "choice (dget d ''mode'') install_modes ''external'' = Inr mode"
    "mode \<in> set install_modes"
    using choice_ok [of "dget d ''mode''" "''external''" install_modes] assms(3)
    by (auto simp: overrides_ok_def mode_defaults)
  obtain direct where a: "choice (dget_or d ''external_direct_access_mode'' (JStr ''gateway_only''))
      direct_access_modes ''gateway_only'' = Inr direct" "direct \<in> set direct_access_modes"
    using choice_ok [of "dget_or d ''external_direct_access_mode'' (JStr ''gateway_only'')"
      "''gateway_only''" direct_access_modes] assms(3)
    by (auto simp: overrides_ok_def mode_defaults hashable_dget_or)
  have "int_like (dget_or d ''mqtt_port'' (JInt p0))" using assms(3)
    by (simp add: overrides_ok_def int_like_dget_or)
  then obtain p where p: "py_int (dget_or d ''mqtt_port'' (JInt p0)) = Inr p"
    using int_like_py_int by blast
  have "int_like (dget_or d ''qos_default'' (dget_or d ''mqtt_qos'' (JInt q0)))" using assms(3)
    by (simp add: overrides_ok_def int_like_dget_or)
  then obtain q where q: "py_int (dget_or d ''qos_default'' (dget_or d ''mqtt_qos'' (JInt q0))) = Inr q"
    using int_like_py_int by blast
  obtain ext where ext: "(if truthy (dget d ''external'') then Inr (dget d ''external'')
       else res_bind (default_external env d) (\<lambda>d. Inr (JObj d))) = Inr ext" "is_obj ext"
  proof (cases "truthy (dget d ''external'')")
    case True
    then show ?thesis using assms(3) that by (simp add: overrides_ok_def object_or_falsy_def)
  qed (use that in \<open>simp add: default_external_def 0 p\<close>)
  obtain u w where uw: "env_or_get env ''EMBEDDED_ADMIN_USER'' ext ''username'' = Inr u"
    "env_or_get env ''EMBEDDED_ADMIN_PASS'' ext ''password'' = Inr w"
    using env_or_get_ok [OF ext(2)] by blast
  obtain emb where emb: "(if truthy (dget d ''embedded'') then Inr (dget d ''embedded'')
       else res_bind (default_embedded env ext) (\<lambda>d. Inr (JObj d))) = Inr emb" "is_obj emb"
  proof (cases "truthy (dget d ''embedded'')")
    case True
    then show ?thesis using assms(3) that by (simp add: overrides_ok_def object_or_falsy_def)
  qed (use that in \<open>simp add: default_embedded_def 0 uw\<close>)
  obtain x y where "mask_field ''password'' ext = Inr x" "mask_field ''admin_pass'' emb = Inr y"
    using mask_field_ok ext(2) emb(2) by blast
  then show ?thesis using m(2) a(2)
    by (simp add: get_install_state_def assms(2) m(1) ext(1) emb(1) a(1) 0 q)
qed


lemma choice_in: "choice v options dflt = Inr s \<Longrightarrow> dflt \<in> set options \<Longrightarrow> s \<in> set options"
  unfolding choice_def by (cases v) (auto split: if_splits)

lemma ic_mode_choice:
  assumes "get_install_state env st = Inr c"
  shows "ic_mode c \<in> set install_modes"
proof -
  obtain v mode where "choice v install_modes ''external'' = Inr mode" and "ic_mode c = mode"
    using assms unfolding get_install_state_def res_bind_Inr_iff by fastforce
  then show ?thesis using choice_in mode_defaults(1) by metis
qed

lemma get_install_session_state_eq:
  assumes "load_install_session_state st = Inr (JObj raw)" and "get_install_state env st = Inr c"
  shows "get_install_session_state env st =
    (let state = dset ''mode'' (JStr (ic_mode c)) (session_of_raw raw default_install_session_state);
         desired = get_desired_optional_groups env st in
     Inr (if desired \<noteq> [] \<and> normalize_string_list (dget state ''optional_groups_requested'') = []
          then dset ''optional_groups_requested'' (name_list desired) state else state))"
  using assms ic_mode_choice [OF assms(2)]
  by (simp add: get_install_session_state_def Let_def)

lemma config_total:
  assumes "env_ok env" and "config_ok st"
  shows "\<exists>eff c s. get_effective_config env masked st = Inr eff \<and> get_install_state env st = Inr c \<and>
    get_install_session_state env st = Inr s \<and> ic_mode c \<in> set install_modes \<and>
    ic_external_direct_access_mode c \<in> set direct_access_modes \<and>
    dget s ''mode'' = JStr (ic_mode c)"
proof -
  obtain d raw where d: "load_overrides st = Inr d" "overrides_ok d"
    and raw: "load_install_session_state st = Inr (JObj raw)"
    using assms(2) by (rule config_okE)
  obtain eff where eff: "get_effective_config env masked st = Inr eff"
    using get_effective_config_ok [OF assms(1) d] by blast
  obtain c where c: "get_install_state env st = Inr c" "ic_mode c \<in> set install_modes"
    "ic_external_direct_access_mode c \<in> set direct_access_modes"
    using get_install_state_ok [OF assms(1) d] by blast
  from get_install_session_state_eq [OF raw c(1)]
  obtain s where "get_install_session_state env st = Inr s" "dget s ''mode'' = JStr (ic_mode c)"
    by (simp add: Let_def split: if_splits)
  with eff c show ?thesis by blast
qed

text \<open>
  on a configuration that is well formed (no file is garbage, its numbers are numbers)
  and an environment whose numbers are numbers, the effective configuration, the install
  state and the install session can all be read; the modes are always among the ones the
  code knows, and the session's mode is the configured one.
\<close>

theorem config_readers_total:
  assumes "env_ok env" and "config_ok st"
  shows "\<exists>eff c s. get_effective_config env masked st = Inr eff \<and> get_install_state env st = Inr c \<and>
    get_install_session_state env st = Inr s \<and> ic_mode c \<in> set install_modes \<and>
    ic_external_direct_access_mode c \<in> set direct_access_modes \<and>
    dget s ''mode'' = JStr (ic_mode c)"
  using assms by (rule config_total)

section \<open>Every operation keeps the configuration readable\<close>

definition override_value_ok :: "string \<Rightarrow> json \<Rightarrow> bool" where
  "override_value_ok k v =
     ((''mode'' = k \<longrightarrow> hashable v) \<and> (''external_direct_access_mode'' = k \<longrightarrow> hashable v) \<and>
      (''external'' = k \<longrightarrow> object_or_falsy v) \<and> (''embedded'' = k \<longrightarrow> object_or_falsy v) \<and>
      (''mqtt_port'' = k \<longrightarrow> int_like v) \<and> (''mqtt_qos'' = k \<longrightarrow> int_like v) \<and>
      (''qos_default'' = k \<longrightarrow> int_like v))"

lemma dset_prop:
  "P (dget d k') \<Longrightarrow> (k' = k \<longrightarrow> P v) \<Longrightarrow> P (dget (dset k v d) k')"
  "P (dget_or d k' x) \<Longrightarrow> (k' = k \<longrightarrow> P v) \<Longrightarrow> P (dget_or (dset k v d) k' x)"
  by simp_all

lemma overrides_ok_dset:
  assumes "overrides_ok d" and "override_value_ok k v"
  shows "overrides_ok (dset k v d)"
  using assms unfolding overrides_ok_def override_value_ok_def
  by (elim conjE, intro conjI)
    (assumption | rule distinct_dset dset_prop [where P = hashable]
      dset_prop [where P = object_or_falsy] dset_prop [where P = int_like])+

lemma overrides_ok_dset_opt:
  "overrides_ok d \<Longrightarrow> (\<And>x. v = Some x \<Longrightarrow> override_value_ok k (f x)) \<Longrightarrow> overrides_ok (dset_opt k f v d)"
  by (cases v) (simp_all add: dset_opt_def overrides_ok_dset)

lemma overrides_ok_dupdate:
  "overrides_ok d \<Longrightarrow> list_all (\<lambda>(k, v). override_value_ok k v) e \<Longrightarrow> overrides_ok (dupdate d e)"
  unfolding dupdate_def
  by (induction e arbitrary: d) (auto simp: overrides_ok_dset)

lemma opt_field_all: "(\<And>x. P (k, f x)) \<Longrightarrow> list_all P (opt_field k f v)"
  by (simp add: opt_field_def split: option.splits)

lemma dump_config_update_ok: "list_all (\<lambda>(k, v). override_value_ok k v) (dump_config_update u)"
  unfolding dump_config_update_def list_all_append
  by (intro conjI opt_field_all) (simp_all add: override_value_ok_def)

lemma install_overrides_ok:
  assumes "install_overrides env r d = Inr d'" and "overrides_ok d"
  shows "overrides_ok d'"
proof -
  let ?base = "dset_opt ''qos_default'' JInt (iar_qos_default r)
       (dset ''external_direct_access_mode'' (JStr (iar_external_direct_access_mode r))
       (dset_opt ''ha_discovery_prefix'' JStr (iar_ha_discovery_prefix r)
       (dset_opt ''base_topic'' JStr (iar_base_topic r)
       (dset_opt ''embedded'' (\<lambda>x. JObj (dump_embedded x)) (iar_embedded r)
       (dset_opt ''external'' (\<lambda>x. JObj (dump_external x)) (iar_external r)
       (dset ''mode'' (JStr (iar_mode r)) d))))))"
  have base: "overrides_ok ?base"
    by (intro overrides_ok_dset overrides_ok_dset_opt assms(2))
      (simp_all add: override_value_ok_def object_or_falsy_def)
  obtain d1 where d1: "connection_overrides env r ?base = Inr d1"
    and d': "d' = dset_opt ''mqtt_qos'' JInt (iar_qos_default r)
       (dset_opt ''mqtt_base_topic'' JStr (iar_base_topic r) d1)"
    using assms(1) unfolding install_overrides_def res_bind_Inr_iff by blast
  have "overrides_ok d1"
    using d1 base unfolding connection_overrides_def
    by (auto simp: override_value_ok_def intro!: overrides_ok_dset split: if_splits option.splits)
  then show ?thesis unfolding d'
    by (intro overrides_ok_dset_opt) (simp_all add: override_value_ok_def)
qed

lemma config_ok_update_session:
  "config_ok st \<Longrightarrow> config_ok (snd (update_install_session_state env u st))"
  by (simp add: update_install_session_state_def config_ok_def Let_def split: sum.splits)

lemma config_ok_fs [simp]: "config_ok (st\<lparr>cs_fs := fs\<rparr>) = config_ok st"
  by (simp add: config_ok_def load_overrides_def load_install_session_state_def)

lemma config_ok_assets [simp]: "config_ok (st\<lparr>cs_assets := a\<rparr>) = config_ok st"
  by (simp add: config_ok_def load_overrides_def load_install_session_state_def)

text \<open>The operations of the store, each with any arguments.\<close>

inductive config_step :: "env \<Rightarrow> config_store \<Rightarrow> config_store \<Rightarrow> bool" for env where
  "config_step env st (snd (set_core_base_url env t url st))"
| "config_step env st (snd (update_config env u st))"
| "config_step env st (snd (update_install_session_state env v st))"
| "config_step env st (snd (set_selected_mode env mode direct st))"
| "config_step env st (snd (reset_install_session_state mode st))"
| "config_step env st (snd (apply_install_config env r st))"
| "config_step env st (snd (set_requested_optional_groups env t ids supported st))"

lemma config_ok_step: "config_step env st st' \<Longrightarrow> config_ok st \<Longrightarrow> config_ok st'"
proof (induction rule: config_step.induct)
  case (1 st t url)
  obtain d raw where d: "load_overrides st = Inr d" "overrides_ok d" using 1 by (rule config_okE)
  have "overrides_ok (dset ''core_base_url'' (JStr (strip url)) d)"
    by (rule overrides_ok_dset [OF d(2)]) (simp add: override_value_ok_def)
  then show ?case using 1 d by (simp add: set_core_base_url_def Let_def config_ok_save split: prod.splits)
next
  case (2 st u)
  obtain d raw where d: "load_overrides st = Inr d" "overrides_ok d" using 2 by (rule config_okE)
  have "overrides_ok (dupdate d (dump_config_update u))"
    by (rule overrides_ok_dupdate [OF d(2) dump_config_update_ok])
  then show ?case using 2 d by (simp add: update_config_def Let_def config_ok_save)
next
  case (3 st v)
  then show ?case by (rule config_ok_update_session)
next
  case (4 st mode direct)
  obtain d raw where d: "load_overrides st = Inr d" "overrides_ok d" using 4 by (rule config_okE)
  have "overrides_ok (dset ''external_direct_access_mode'' (JStr x) (dset ''mode'' (JStr mode) d))" for x
    by (intro overrides_ok_dset d(2)) (simp_all add: override_value_ok_def)
  then show ?case using 4 d
    by (simp add: set_selected_mode_def Let_def config_ok_save config_ok_update_session)
next
  case (5 st mode)
  then show ?case by (simp add: reset_install_session_state_def config_ok_def Let_def)
next
  case (6 st r)
  obtain d raw where d: "load_overrides st = Inr d" "overrides_ok d" using 6 by (rule config_okE)
  show ?case
  proof (cases "install_overrides env r d")
    case (Inr d')
    have ok: "config_ok (save_overrides d' st)"
      using 6 install_overrides_ok [OF Inr d(2)] by (rule config_ok_save)
    have "config_ok (snd (update_install_session_state env v (save_overrides d' st)))" for v
      using ok by (rule config_ok_update_session)
    then show ?thesis using 6 d Inr
      by (simp add: apply_install_config_def split: prod.splits sum.splits) (metis snd_conv)
  qed (use 6 d in \<open>simp add: apply_install_config_def\<close>)
next
  case (7 st t ids supported)
  then show ?case
    unfolding set_requested_optional_groups_def write_desired_optional_groups_def Let_def
    by (auto split: sum.splits prod.splits intro!: config_ok_update_session)
qed

text \<open>
  a store whose files can be read stays that way under every sequence of its
  operations, whatever their arguments and whether or not they fail.
\<close>

theorem config_ok_invariant:
  assumes "(config_step env)\<^sup>*\<^sup>* st st'" and "config_ok st"
  shows "config_ok st'"
  using assms by (induction rule: rtranclp_induct) (auto intro: config_ok_step)


section \<open>A concrete store\<close>

definition empty_env :: env where
  "empty_env = (\<lambda>_. None)"

definition example_config :: config_store where
  "example_config = \<lparr>cs_config = Doc (JObj [(''mqtt_host'', JStr ''broker'')]), cs_install = Absent,
     cs_fs = example_fs, cs_mounts = example_store, cs_assets = []\<rparr>"

lemma example_config_ok: "env_ok empty_env" "config_ok example_config"
  by code_simp+

lemma config_readers_total_witness:
  "\<exists>eff c s. get_effective_config empty_env True example_config = Inr eff \<and>
     get_install_state empty_env example_config = Inr c \<and>
     get_install_session_state empty_env example_config = Inr s"
  using config_readers_total [OF example_config_ok, of True] by blast

lemma config_ok_invariant_witness:
  "config_ok (snd (reset_install_session_state ''embedded'' example_config))"
proof -
  have "(config_step empty_env)\<^sup>*\<^sup>* example_config
      (snd (reset_install_session_state ''embedded'' example_config))"
    by (rule r_into_rtranclp) (rule config_step.intros)
  from config_ok_invariant [OF this example_config_ok(2)] show ?thesis .
qed

end
