(* ===== verification/Registration_Api.thy ===== *)
theory Registration_Api
  imports App_State Registration_Facts Config_Facts
begin

text \<open>
  app/api/mqtt_registration.py with the response models of app/models/registration_models.py:
  the endpoints \<open>POST /registrations\<close>, \<open>GET /registrations\<close> and \<open>GET /topic-explorer\<close>.
\<close>

section \<open>Registering\<close>

text \<open>The mode of the broker and the direct access mode, as read from the session.\<close>

definition session_broker_mode :: "dict \<Rightarrow> string" where
  "session_broker_mode state = (if dget state ''mode'' = JStr ''embedded'' then ''embedded'' else ''external'')"

definition session_direct_mode :: "dict \<Rightarrow> string" where
  "session_direct_mode state = py_str (py_or (dget state ''external_direct_access_mode'') (JStr ''gateway_only''))"

definition registration_trace :: "service_token_claims \<Rightarrow> outcome \<Rightarrow> string \<Rightarrow> string \<Rightarrow> trace_request" where
  "registration_trace claims outcome addon detail =
     \<lparr>tr_operation = ''mqtt.registration.upsert'', tr_outcome = outcome, tr_addon_id = Some addon,
      tr_caller_sub = Some (sub claims), tr_topic = None, tr_detail = Some detail, tr_message_id = None,
      tr_correlation_id = None\<rparr>"

definition direct_forbidden :: "string \<Rightarrow> string \<Rightarrow> registration_request \<Rightarrow> bool" where
  "direct_forbidden broker_mode direct_mode payload =
     (broker_mode = ''external'' \<and> direct_mode = ''gateway_only'' \<and> rq_access_mode payload \<in> {Direct_Mqtt, Both})"

definition upsert_registration ::
  "app_runtime \<Rightarrow> service_token_claims \<Rightarrow> registration_request \<Rightarrow> (gateway_world, registration) run" where
  "upsert_registration ar claims payload w =
     (let rt = ar_api ar in
      case get_install_session_state (rt_env rt) (gw_config w) of
        Inl e \<Rightarrow> (Inl e, w)
      | Inr install_state \<Rightarrow>
          (let broker_mode = session_broker_mode install_state;
               direct_mode = session_direct_mode install_state;
               tried = (if direct_forbidden broker_mode direct_mode payload
                 then (Inl (ValueError ''External gateway_only mode does not allow direct MQTT registration''), gw_regs w)
                 else upsert (rt_lib rt) (rt_now rt) (ar_random_seed ar) payload broker_mode direct_mode (gw_regs w)) in
           case tried of
             (Inl e, regs) \<Rightarrow>
               (let w1 = w\<lparr>gw_regs := regs\<rparr> in
                if is_value_error e then
                  (Inl (HTTPException 400 (exn_text ar e)),
                   add_trace rt (registration_trace claims Denied (strip (rq_addon_id payload)) (exn_text ar e)) w1)
                else (Inl e, w1))
           | (Inr record, regs) \<Rightarrow>
               (Inr record, add_trace rt (registration_trace claims Success (rg_addon_id record) ''Registration upserted'')
                  (w\<lparr>gw_regs := regs\<rparr>))))"

section \<open>Inspecting\<close>

record setup_summary =
  su_setup_state :: string
  su_broker_mode :: string
  su_broker_reachable :: bool
  su_direct_mqtt_supported :: bool
  su_broker_profile :: string

record inspection_record =
  in_addon_id :: string
  in_access_mode :: access_mode
  in_ha_mode :: ha_mode
  in_publish_scopes :: "string list"
  in_subscribe_scopes :: "string list"
  in_broker_profile :: string
  in_health :: string
  in_manual :: "str_dict option"
  in_direct_username :: "string option"
  in_updated_at :: int

definition setup_states :: "string list" where
  "setup_states = [''unconfigured'', ''configuring'', ''ready'', ''error'', ''degraded'']"

text \<open>A field of a response model with fixed values; pydantic's \<open>ValidationError\<close> is a \<open>ValueError\<close>.\<close>

definition literal_field :: "string list \<Rightarrow> string \<Rightarrow> string res" where
  "literal_field options v = (if v \<in> set options then Inr v else Inl (ValueError ''validation error''))"

definition inspect :: "registration_store \<Rightarrow> string \<Rightarrow> registration \<Rightarrow> inspection_record" where
  "inspect regs reg_health r =
     \<lparr>in_addon_id = rg_addon_id r, in_access_mode = rg_access_mode r, in_ha_mode = rg_ha_mode r,
      in_publish_scopes = publish (rg_permissions r), in_subscribe_scopes = subscribe (rg_permissions r),
      in_broker_profile = broker_profile_for (rg_addon_id r) regs, in_health = reg_health,
      in_manual = rg_manual r, in_direct_username = map_option dc_username (rg_direct r),
      in_updated_at = rg_updated_at r\<rparr>"

definition inspect_registrations :: "app_runtime \<Rightarrow> gateway_world \<Rightarrow> (setup_summary \<times> inspection_record list) res" where
  "inspect_registrations ar w =
     (let rt = ar_api ar in
      res_bind (get_install_session_state (rt_env rt) (gw_config w)) (\<lambda>install_state.
      let broker_mode = session_broker_mode install_state;
          direct_mode = session_direct_mode install_state;
          reachable = snap_mqtt_connected (snapshot (ar_monotonic_ns ar) (cw_health w));
          reg_health = (if dget install_state ''setup_state'' = JStr ''unconfigured'' then ''unknown''
            else if reachable then ''healthy'' else ''unreachable'') in
      res_bind (literal_field setup_states
        (py_str (py_or (dget install_state ''setup_state'') (JStr ''unconfigured'')))) (\<lambda>setup_state.
      Inr (\<lparr>su_setup_state = setup_state, su_broker_mode = broker_mode, su_broker_reachable = reachable,
          su_direct_mqtt_supported = (broker_mode = ''embedded'' \<or> direct_mode = ''manual_direct_access''),
          su_broker_profile = (if broker_mode = ''embedded'' then ''embedded-managed'' else ''external-manual'')\<rparr>,
        map (inspect (gw_regs w) reg_health) (list_registrations (rt_lib rt) (gw_regs w))))))"

section \<open>The topic explorer\<close>

record topic_mapping =
  tm_addon_id :: string
  tm_publish_scopes :: "string list"
  tm_subscribe_scopes :: "string list"
  tm_lifecycle_topics :: "string list"

record topic_family =
  tf_family :: string
  tf_kind :: string
  tf_registrations :: "string list"

record topic_overview =
  to_base_topic :: string
  to_reserved_namespaces :: "string list"
  to_addon_namespaces :: "string list"
  to_lifecycle_topics :: "string list"
  to_mappings :: "topic_mapping list"
  to_families :: "topic_family list"

definition addon_root :: "string \<Rightarrow> registration \<Rightarrow> string" where
  "addon_root base_topic r = base_topic @ ''/addons/'' @ rg_addon_id r"

definition addon_lifecycle :: "string \<Rightarrow> registration \<Rightarrow> string list" where
  "addon_lifecycle base_topic r = [addon_root base_topic r @ ''/announce'', addon_root base_topic r @ ''/health'']"

definition explored_topics :: "string \<Rightarrow> registration \<Rightarrow> string list" where
  "explored_topics base_topic r =
     publish (rg_permissions r) @ subscribe (rg_permissions r) @ addon_lifecycle base_topic r"

text \<open>The family of a topic with its kind; none if it has fewer than two levels.\<close>

definition topic_family_of :: "string \<Rightarrow> (string \<times> string) option" where
  "topic_family_of topic =
     (let parts = filter (\<lambda>p. p \<noteq> []) (split_on (CHR ''/'') topic) in
      if length parts < 2 then None
      else if 3 \<le> length parts \<and> parts ! 1 = ''addons''
      then Some (join ''/'' (take 3 parts) @ ''/...'', ''addon'')
      else Some (join ''/'' (take 2 parts) @ ''/...'', ''reserved''))"

type_synonym families = "((string \<times> string) \<times> string list) list"

text \<open>A set of addon ids is kept as a list without repetitions.\<close>

definition add_to_family :: "string \<Rightarrow> families \<Rightarrow> string \<times> string \<Rightarrow> families" where
  "add_to_family addon fs key =
     (let addons = (case map_of fs key of None \<Rightarrow> [] | Some as \<Rightarrow> as) in
      AList.update key (if addon \<in> set addons then addons else addons @ [addon]) fs)"

fun add_topics :: "string \<Rightarrow> string list \<Rightarrow> families \<Rightarrow> families" where
  "add_topics addon [] fs = fs"
| "add_topics addon (t # ts) fs =
     (case topic_family_of t of
        None \<Rightarrow> add_topics addon ts fs
      | Some key \<Rightarrow> add_topics addon ts (add_to_family addon fs key))"

fun families_of :: "string \<Rightarrow> registration list \<Rightarrow> families \<Rightarrow> families" where
  "families_of base_topic [] fs = fs"
| "families_of base_topic (r # rs) fs =
     families_of base_topic rs (add_topics (rg_addon_id r) (explored_topics base_topic r) fs)"

definition reserved_of :: "string \<Rightarrow> string list" where
  "reserved_of base_topic = map (\<lambda>p. base_topic @ ''/'' @ p @ ''/#'')
     [''system'', ''core'', ''supervisor'', ''scheduler'', ''policy'', ''telemetry'']"

definition topic_explorer :: "app_runtime \<Rightarrow> gateway_world \<Rightarrow> topic_overview res" where
  "topic_explorer ar w =
     (let rt = ar_api ar in
      res_bind (get_effective_config (rt_env rt) False (gw_config w)) (\<lambda>config.
      let base0 = strip (py_str (eff_base_topic config));
          base_topic = (if base0 \<noteq> [] then base0 else ''synthia'');
          records = list_registrations (rt_lib rt) (gw_regs w) in
      Inr \<lparr>to_base_topic = base_topic,
        to_reserved_namespaces = reserved_of base_topic,
        to_addon_namespaces = sort (remdups (map (\<lambda>r. addon_root base_topic r @ ''/#'') records)),
        to_lifecycle_topics = sort (remdups (concat (map (addon_lifecycle base_topic) records))),
        to_mappings = map (\<lambda>r. \<lparr>tm_addon_id = rg_addon_id r, tm_publish_scopes = publish (rg_permissions r),
          tm_subscribe_scopes = subscribe (rg_permissions r), tm_lifecycle_topics = addon_lifecycle base_topic r\<rparr>) records,
        to_families = map (\<lambda>((family, kind), addons).
            \<lparr>tf_family = family, tf_kind = kind, tf_registrations = sort addons\<rparr>)
          (sort_key (\<lambda>e. fst (fst e)) (families_of base_topic records []))\<rparr>))"

section \<open>What registering does\<close>

text \<open>What is in the registrations file after \<open>upsert\<close> has stored a payload for an addon id.\<close>

definition stored_for :: "string \<Rightarrow> dict \<Rightarrow> registration_store \<Rightarrow> registration_store \<Rightarrow> bool" where
  "stored_for addon_id p st st' = (rs_file st' = rs_file (save_all (dset addon_id (JObj p) (load_all st)) st))"

lemma upsert_result:
  assumes "upsert lib now rnd rq bm dm st = (res, st')"
  shows "case res of
      Inl e \<Rightarrow> rs_acl st' = rs_acl st \<and> rs_notes st' = rs_notes st \<and>
        (rs_file st' = rs_file st \<or>
         lib_open_fault lib (side_file bm (strip (rq_addon_id rq))) = Some e \<and>
         (\<exists>p. stored_for (strip (rq_addon_id rq)) p st st'))
    | Inr r \<Rightarrow> rg_addon_id r = strip (rq_addon_id rq) \<and> rg_access_mode r = rq_access_mode rq \<and>
        rg_ha_mode r = rq_ha_mode rq \<and>
        realize_topic_permissions (strip (rq_addon_id rq)) (rq_publish_topics rq) (rq_subscribe_topics rq) =
          Inr (rg_permissions r) \<and>
        (\<exists>dm' meta. stored_for (strip (rq_addon_id rq)) (stored_payload lib bm dm' meta r) st st')"
proof (cases rule: upsert_cases [of lib now rnd rq bm dm st])
  case (stored realized creds manual meta st1 r)
  then show ?thesis using assms by (auto simp: stored_for_def)
next
  case (unwritten dm' meta r e)
  then show ?thesis using assms by (auto simp: stored_for_def)
qed (use assms in simp)

text \<open>What \<open>upsert\<close> raises is never the HTTP error of a handler.\<close>

definition is_http :: "exn \<Rightarrow> bool" where
  "is_http e = (case e of HTTPException _ _ \<Rightarrow> True | _ \<Rightarrow> False)"

definition lib_raises :: "exn \<Rightarrow> bool" where
  "lib_raises e = (is_value_error e \<or> (\<exists>n. e = OSError n))"

lemma is_http_simps [simp]:
  "is_http (HTTPException c m)" "\<not> is_http (TopicPermissionError m)" "\<not> is_http (ValueError m)"
  "lib_raises e \<Longrightarrow> \<not> is_http e" "is_value_error e \<Longrightarrow> \<not> is_http e"
  by (auto simp: is_http_def lib_raises_def split: exn.splits)

lemma grant_access_raises:
  assumes "grant_access lib now rnd bm a rq m st = (Inl e, st1)"
    and "\<And>x. (case obj_of m of None \<Rightarrow> Inr 1 | Some d \<Rightarrow> py_int (dget_or d ''version'' (JInt 1))) = Inl x \<Longrightarrow> \<not> is_http x"
  shows "\<not> is_http e"
  using assms by (auto simp: grant_access_def issue_direct_credentials_def Let_def
      split: if_splits prod.splits sum.splits option.splits)

lemma upsert_raises:
  assumes "upsert lib now rnd rq bm dm st = (Inl e, st')"
    and "\<And>x. stored_version (strip (rq_addon_id rq)) st = Inl x \<Longrightarrow> \<not> is_http x"
    and "\<And>name x. lib_open_fault lib name = Some x \<Longrightarrow> lib_raises x"
  shows "\<not> is_http e"
proof (cases "realize_topic_permissions (strip (rq_addon_id rq)) (rq_publish_topics rq) (rq_subscribe_topics rq)")
  case (Inl x)
  with assms(1) realize_topic_permissions_error [OF Inl] show ?thesis by (auto simp: upsert_def Let_def)
next
  case (Inr realized)
  let ?m = "dget (as_dict (dget_or (load_all st) (strip (rq_addon_id rq)) (JObj []))) ''credential_meta''"
  obtain res st1 where g: "grant_access lib now rnd bm (strip (rq_addon_id rq)) rq ?m st = (res, st1)" by fastforce
  show ?thesis
  proof (cases res)
    case res: (Inl x)
    with assms(1) Inr g have "x = e" by (simp add: upsert_def Let_def)
    moreover have "\<not> is_http x"
      by (rule grant_access_raises [OF g [unfolded res]]) (use assms(2) in \<open>auto simp: stored_version_def dget_or_obj\<close>)
    ultimately show ?thesis by simp
  next
    case res: (Inr x)
    obtain creds manual meta where x: "x = (creds, manual, meta)" by (cases x)
    have "\<exists>name. lib_open_fault lib name = Some e"
      using assms(1) Inr g res x
      by (auto simp: upsert_def Let_def write_embedded_acl_def write_external_acl_note_def split: if_splits option.splits)
    with assms(3) show ?thesis by auto
  qed
qed

text \<open>How the endpoint ends: the session cannot be read, direct access is forbidden, or as \<open>upsert\<close> does.\<close>

lemma upsert_registration_cases:
  assumes "upsert_registration ar claims payload w = (res, w')"
  obtains (no_session) e where "get_install_session_state (rt_env (ar_api ar)) (gw_config w) = Inl e"
      "res = Inl e" "w' = w"
  | (forbidden) s d where "get_install_session_state (rt_env (ar_api ar)) (gw_config w) = Inr s"
      "direct_forbidden (session_broker_mode s) (session_direct_mode s) payload"
      "res = Inl (HTTPException 400 d)"
      "w' = add_trace (ar_api ar) (registration_trace claims Denied (strip (rq_addon_id payload)) d) w"
  | (failed) s e regs where "get_install_session_state (rt_env (ar_api ar)) (gw_config w) = Inr s"
      "upsert (rt_lib (ar_api ar)) (rt_now (ar_api ar)) (ar_random_seed ar) payload (session_broker_mode s)
        (session_direct_mode s) (gw_regs w) = (Inl e, regs)"
      "res = Inl (if is_value_error e then HTTPException 400 (exn_text ar e) else e)"
      "w' = (if is_value_error e then add_trace (ar_api ar)
           (registration_trace claims Denied (strip (rq_addon_id payload)) (exn_text ar e)) (w\<lparr>gw_regs := regs\<rparr>)
         else w\<lparr>gw_regs := regs\<rparr>)"
  | (stored) s r regs where "get_install_session_state (rt_env (ar_api ar)) (gw_config w) = Inr s"
      "\<not> direct_forbidden (session_broker_mode s) (session_direct_mode s) payload"
      "upsert (rt_lib (ar_api ar)) (rt_now (ar_api ar)) (ar_random_seed ar) payload (session_broker_mode s)
        (session_direct_mode s) (gw_regs w) = (Inr r, regs)" "res = Inr r"
      "w' = add_trace (ar_api ar) (registration_trace claims Success (rg_addon_id r) ''Registration upserted'')
        (w\<lparr>gw_regs := regs\<rparr>)"
proof (cases "get_install_session_state (rt_env (ar_api ar)) (gw_config w)")
  case (Inl e)
  with assms show ?thesis by (intro no_session) (auto simp: upsert_registration_def Let_def)
next
  case (Inr s)
  let ?f = "direct_forbidden (session_broker_mode s) (session_direct_mode s) payload"
  obtain tried regs where u: "upsert (rt_lib (ar_api ar)) (rt_now (ar_api ar)) (ar_random_seed ar) payload
      (session_broker_mode s) (session_direct_mode s) (gw_regs w) = (tried, regs)" by fastforce
  show ?thesis
  proof (cases ?f)
    case True
    have w: "w\<lparr>gw_regs := gw_regs w\<rparr> = w" by simp
    show ?thesis
      by (rule forbidden [of s "exn_text ar (ValueError ''External gateway_only mode does not allow direct MQTT registration'')",
            OF Inr True]) (use assms Inr True w in \<open>simp_all add: upsert_registration_def Let_def\<close>)
  next
    case False
    show ?thesis
    proof (cases tried)
      case t: (Inl e)
      show ?thesis
        by (rule failed [OF Inr u [unfolded t]])
          (use assms Inr False u t in \<open>simp_all add: upsert_registration_def Let_def split: if_splits\<close>)
    next
      case t: (Inr r)
      show ?thesis
        by (rule stored [of s r regs])
          (use assms Inr False u t in \<open>simp_all add: upsert_registration_def Let_def\<close>)
    qed
  qed
qed

text \<open>Nothing but the registrations and the traces changes.\<close>

lemma upsert_registration_keeps:
  assumes "upsert_registration ar claims payload w = (res, w')"
  shows "gw_config w' = gw_config w \<and> cw_policy w' = cw_policy w \<and> cw_outbox w' = cw_outbox w \<and>
    gw_telemetry w' = gw_telemetry w \<and> gw_service w' = gw_service w"
  by (cases rule: upsert_registration_cases [OF assms]) auto

lemma canon_fields [simp]:
  "rg_permissions (canon r) = rg_permissions r" "rg_ha_mode (canon r) = rg_ha_mode r"
  by (simp_all add: canon_def)

section \<open>The families of the topics\<close>

definition members :: "families \<Rightarrow> string \<times> string \<Rightarrow> string set" where
  "members fs key = (case map_of fs key of None \<Rightarrow> {} | Some as \<Rightarrow> set as)"

lemma members_Nil [simp]: "members [] key = {}"
  by (simp add: members_def)

definition families_wf :: "families \<Rightarrow> bool" where
  "families_wf fs = (distinct (map fst fs) \<and> list_all (\<lambda>(k, as). distinct as \<and> as \<noteq> []) fs)"

lemma list_all_update:
  "list_all P fs \<Longrightarrow> P (k, v) \<Longrightarrow> list_all P (AList.update k v fs)"
  by (induction fs) auto

lemma add_to_family_wf:
  assumes "families_wf fs"
  shows "families_wf (add_to_family addon fs key)"
proof -
  have "distinct as \<and> as \<noteq> []" if "map_of fs key = Some as" for as
    using assms map_of_SomeD [OF that] by (auto simp: families_wf_def list_all_iff)
  with assms show ?thesis
    by (auto simp: families_wf_def add_to_family_def Let_def distinct_update intro!: list_all_update
        split: option.splits)
qed

lemma members_add:
  "members (add_to_family addon fs key) key' = members fs key' \<union> (if key' = key then {addon} else {})"
  by (auto simp: members_def add_to_family_def Let_def update_conv' split: option.splits)

lemma add_topics_wf: "families_wf fs \<Longrightarrow> families_wf (add_topics addon ts fs)"
  by (induction addon ts fs rule: add_topics.induct) (auto simp: add_to_family_wf split: option.splits)

lemma members_add_topics:
  "a \<in> members (add_topics addon ts fs) key \<longleftrightarrow>
     a \<in> members fs key \<or> a = addon \<and> (\<exists>t\<in>set ts. topic_family_of t = Some key)"
  by (induction addon ts fs rule: add_topics.induct) (auto simp: members_add split: option.splits)

lemma families_of_wf: "families_wf fs \<Longrightarrow> families_wf (families_of b rs fs)"
  by (induction b rs fs rule: families_of.induct) (auto simp: add_topics_wf)

lemma members_families_of:
  "a \<in> members (families_of b rs fs) key \<longleftrightarrow>
     a \<in> members fs key \<or>
     (\<exists>r\<in>set rs. rg_addon_id r = a \<and> (\<exists>t\<in>set (explored_topics b r). topic_family_of t = Some key))"
  by (induction b rs fs rule: families_of.induct) (auto simp: members_add_topics)

lemma members_entry:
  assumes "families_wf fs"
  shows "(\<exists>as. (key, as) \<in> set fs \<and> a \<in> set as) \<longleftrightarrow> a \<in> members fs key"
proof -
  have "(key, as) \<in> set fs \<longleftrightarrow> map_of fs key = Some as" for as
    using assms by (simp add: families_wf_def map_of_eq_Some_iff)
  then show ?thesis by (simp add: members_def split: option.splits)
qed

section \<open>A concrete state\<close>

definition door_request :: registration_request where
  "door_request = \<lparr>rq_addon_id = ''door'', rq_access_mode = Gateway_Only,
     rq_publish_topics = [''synthia/addons/door/event''], rq_subscribe_topics = [],
     rq_capabilities = [], rq_ha_mode = Gateway_Managed, rq_manual_direct_mqtt = None, rq_reprovision = False\<rparr>"

lemma example_api_lib_ok: "reg_lib_ok (rt_lib example_api)"
  by (simp add: reg_lib_ok_def example_api_def runtime.defs int_of_str_int_to_dec)

lemma door_registers: "\<exists>r w'. upsert_registration example_app vision_claims door_request example_gateway = (Inr r, w')"
proof -
  have "\<not> isl (fst (upsert_registration example_app vision_claims door_request example_gateway))" by code_simp
  then obtain r where "fst (upsert_registration example_app vision_claims door_request example_gateway) = Inr r"
    by (cases "fst (upsert_registration example_app vision_claims door_request example_gateway)") simp_all
  then show ?thesis by (metis prod.collapse)
qed

section \<open>Properties\<close>

text \<open>
  C18: on a readable configuration, a registration request that succeeds has an addon id,
  stripped, whose topics were realized as the permissions of the record, asks for direct
  access only where the session allows it, and leaves that record in the registrations file
  and a trace of success. One that is refused is answered with status 400 and leaves a trace
  that says so, with the same text; any other exception (of the file system, or of a broken
  version of the stored credentials) is raised without a trace. A request that fails leaves
  the ACL files, the notes and the registrations as they were, except when opening the addon's
  own ACL file or note is what failed: then the registration is stored all the same. Neither
  touches the configuration, the policy cache or the messages sent.
\<close>

theorem upsert_registration_outcome:
  assumes "upsert_registration ar claims payload w = (res, w')"
    and "env_ok (rt_env (ar_api ar))" and "config_ok (gw_config w)"
    and "\<And>e. stored_version (strip (rq_addon_id payload)) (gw_regs w) = Inl e \<Longrightarrow> \<not> is_http e"
    and "\<And>name e. lib_open_fault (rt_lib (ar_api ar)) name = Some e \<Longrightarrow> lib_raises e"
  shows "gw_config w' = gw_config w \<and> cw_policy w' = cw_policy w \<and> cw_outbox w' = cw_outbox w \<and>
    (\<exists>s. get_install_session_state (rt_env (ar_api ar)) (gw_config w) = Inr s \<and>
    (case res of
       Inr r \<Rightarrow> rg_addon_id r = strip (rq_addon_id payload) \<and>
         realize_topic_permissions (rg_addon_id r) (rq_publish_topics payload) (rq_subscribe_topics payload) =
           Inr (rg_permissions r) \<and>
         \<not> direct_forbidden (session_broker_mode s) (session_direct_mode s) payload \<and>
         (\<exists>direct_mode meta. stored_for (rg_addon_id r)
            (stored_payload (rt_lib (ar_api ar)) (session_broker_mode s) direct_mode meta r) (gw_regs w) (gw_regs w')) \<and>
         gw_traces w' = gw_traces (add_trace (ar_api ar)
           (registration_trace claims Success (rg_addon_id r) ''Registration upserted'') w)
     | Inl e \<Rightarrow> rs_acl (gw_regs w') = rs_acl (gw_regs w) \<and> rs_notes (gw_regs w') = rs_notes (gw_regs w) \<and>
         (if is_http e then \<exists>detail. e = HTTPException 400 detail \<and> gw_traces w' = gw_traces (add_trace (ar_api ar)
             (registration_trace claims Denied (strip (rq_addon_id payload)) detail) w)
          else gw_traces w' = gw_traces w) \<and>
         (rs_file (gw_regs w') = rs_file (gw_regs w) \<or>
          (\<exists>fault. lib_open_fault (rt_lib (ar_api ar))
               (side_file (session_broker_mode s) (strip (rq_addon_id payload))) = Some fault \<and>
             e = (if is_value_error fault then HTTPException 400 (exn_text ar fault) else fault) \<and>
             (\<exists>p. stored_for (strip (rq_addon_id payload)) p (gw_regs w) (gw_regs w'))))))"
proof -
  have readable: "\<exists>s. get_install_session_state (rt_env (ar_api ar)) (gw_config w) = Inr s"
    using config_total [OF assms(2,3)] by blast
  show ?thesis
    using assms(1)
  proof (cases rule: upsert_registration_cases)
    case (no_session e)
    with readable show ?thesis by simp
  next
    case (forbidden s d)
    with upsert_registration_keeps [OF assms(1)] show ?thesis by auto
  next
    case (failed s e regs)
    have "\<not> is_http e" by (rule upsert_raises [OF failed(2) assms(4,5)])
    with failed upsert_result [OF failed(2)] upsert_registration_keeps [OF assms(1)] show ?thesis
      by (auto simp: add_trace_def)
  next
    case (stored s r regs)
    with upsert_result [OF stored(3)] upsert_registration_keeps [OF assms(1)] show ?thesis by (auto simp: add_trace_def)
  qed
qed

lemma upsert_registration_outcome_witness:
  "\<exists>r w'. upsert_registration example_app vision_claims door_request example_gateway = (Inr r, w') \<and>
     rg_addon_id r = strip (rq_addon_id door_request) \<and> gw_config w' = gw_config example_gateway"
proof -
  obtain r w' where h: "upsert_registration example_app vision_claims door_request example_gateway = (Inr r, w')"
    using door_registers by blast
  have 1: "env_ok (rt_env (ar_api example_app))" "config_ok (gw_config example_gateway)" by code_simp+
  have 2: "stored_version (strip (rq_addon_id door_request)) (gw_regs example_gateway) = Inr 1" by code_simp
  have 3: "lib_open_fault (rt_lib (ar_api example_app)) = (\<lambda>_. None)"
    by (simp add: example_app_def example_api_def runtime.defs)
  from upsert_registration_outcome [OF h 1] h show ?thesis by (auto simp: 2 3)
qed

text \<open>The registration that is read back after a success, for its id and for the others.\<close>

lemma registered_reads:
  assumes "upsert_registration ar claims payload w = (Inr r, w')" and "reg_wf (gw_regs w)"
    and "request_wf payload" and "reg_lib_ok (rt_lib (ar_api ar))"
  shows "get_registration (rt_lib (ar_api ar)) addon (gw_regs w') =
      (if strip addon = strip (rq_addon_id payload) then Some (canon r)
       else map_option canon (get_registration (rt_lib (ar_api ar)) addon (gw_regs w)))"
    and "rg_addon_id r = strip (rq_addon_id payload)" and "rg_ha_mode r = rq_ha_mode payload" and "rg_addon_id r \<noteq> []"
proof -
  have spec: "get_registration lib addon st = get_registration lib (rq_addon_id payload) st"
    if "strip addon = strip (rq_addon_id payload)" for lib st
    using that by (simp add: get_registration_def)
  have "get_registration (rt_lib (ar_api ar)) addon (gw_regs w') =
      (if strip addon = strip (rq_addon_id payload) then Some (canon r)
       else map_option canon (get_registration (rt_lib (ar_api ar)) addon (gw_regs w))) \<and>
    rg_addon_id r = strip (rq_addon_id payload) \<and> rg_ha_mode r = rq_ha_mode payload \<and> rg_addon_id r \<noteq> []"
    using assms(1)
  proof (cases rule: upsert_registration_cases)
    case (stored s r' regs)
    let ?up = "upsert (rt_lib (ar_api ar)) (rt_now (ar_api ar)) (ar_random_seed ar) payload (session_broker_mode s)
        (session_direct_mode s) (gw_regs w)"
    have r: "r' = r" using stored(4) by simp
    have up: "fst ?up = Inr r" "snd ?up = gw_regs w'" by (simp_all add: stored(3,5) r)
    note reads = upsert_reads [OF up(1) assms(2,3,4), unfolded up(2)]
    have "strip (strip (rq_addon_id payload)) \<noteq> []"
      using upsert_result [OF stored(3)] by (auto dest: realize_Inr(1))
    with upsert_result [OF stored(3)] reads spec show ?thesis by (auto simp: r)
  qed simp_all
  then show "get_registration (rt_lib (ar_api ar)) addon (gw_regs w') =
      (if strip addon = strip (rq_addon_id payload) then Some (canon r)
       else map_option canon (get_registration (rt_lib (ar_api ar)) addon (gw_regs w)))"
    "rg_addon_id r = strip (rq_addon_id payload)" "rg_ha_mode r = rq_ha_mode payload" "rg_addon_id r \<noteq> []" by blast+
qed

text \<open>
  C17: what an addon has registered governs the publishing endpoints from then on, for as long as
  the registrations stay. A gateway request in its name that is answered with success names in
  its answer a topic within the publish scopes just granted, which the addon may publish to
  (below synthia/addons/<id>/, unless its id is \<open>anonymous\<close>), and has sent exactly one
  message, on that topic with the QoS and retain flag of the answer. A sensor announcement or
  a state for it is answered with success only if the registration enables Home Assistant.
  For an addon whose id is another one and that is not registered, none of the three is ever
  answered with success.
\<close>

theorem registration_governs_gateway:
  assumes "upsert_registration ar claims payload w = (Inr r, w')" and "reg_wf (gw_regs w)"
    and "request_wf payload" and "reg_lib_ok (rt_lib (ar_api ar))"
    and "rt_lib rt = rt_lib (ar_api ar)" and "gw_regs g = gw_regs w'"
  shows "(gateway_publish rt caller request g = Some (Inr answer, g1) \<longrightarrow>
      (if strip (gr_addon_id request) = rg_addon_id r then
         topic_allowed_by_scopes (gp_topic answer) (publish (rg_permissions r)) \<and>
         (rg_addon_id r = ''anonymous'' \<or> starts_with (gp_topic answer) (''synthia/addons/'' @ rg_addon_id r @ ''/''))
       else get_registration (rt_lib rt) (gr_addon_id request) (gw_regs w) \<noteq> None) \<and>
      (\<exists>body. cw_outbox g1 = cw_outbox g @ [\<lparr>mm_topic = gp_topic answer, mm_body = body,
         mm_qos = gp_qos answer, mm_retain = gp_retain answer\<rparr>])) \<and>
    (publish_sensor_discovery rt caller sensor g = Some (Inr x, g2) \<longrightarrow>
      (if strip (hd_addon_id sensor) = rg_addon_id r then rq_ha_mode payload \<noteq> Ha_None
       else get_registration (rt_lib rt) (hd_addon_id sensor) (gw_regs w) \<noteq> None)) \<and>
    (publish_gateway_state rt caller state g = Some (Inr y, g3) \<longrightarrow>
      (if strip (hs_addon_id state) = rg_addon_id r then rq_ha_mode payload \<noteq> Ha_None
       else get_registration (rt_lib rt) (hs_addon_id state) (gw_regs w) \<noteq> None))"
    (is "(_ \<longrightarrow> ?gw) \<and> (_ \<longrightarrow> ?sensor) \<and> (_ \<longrightarrow> ?state)")
proof -
  note reads = registered_reads(1) [OF assms(1-4)] and fields = registered_reads(2-4) [OF assms(1-4)]
  have ha: "if strip a = rg_addon_id r then rq_ha_mode payload \<noteq> Ha_None
      else get_registration (rt_lib rt) a (gw_regs w) \<noteq> None" if "ha_registered rt a g" for a
    using that reads [of a] fields by (auto simp: ha_registered_def assms(5,6) split: if_splits option.splits)
  have 1: ?gw if h: "gateway_publish rt caller request g = Some (Inr answer, g1)"
  proof -
    obtain body where s: "gateway_sendable rt caller (gr_addon_id request) g (gp_topic answer) body"
      "cw_outbox g1 = cw_outbox g @ [\<lparr>mm_topic = gp_topic answer, mm_body = message_body body,
         mm_qos = gp_qos answer, mm_retain = gp_retain answer\<rparr>]"
      using gateway_publish_success [OF h] by blast
    have own: "strip (rg_addon_id r) = rg_addon_id r" by (simp add: fields(1))
    have "rg_addon_id r = ''anonymous'' \<or> starts_with (gp_topic answer) (''synthia/addons/'' @ rg_addon_id r @ ''/'')"
      if "publish_topic_ok (publish_owner (Some (rg_addon_id r))) (gp_topic answer)"
      using that fields(3)
      by (auto simp: publish_topic_ok_def publish_owner_def own addon_prefix_def grantable_topic_def starts_with_iff
          split: if_splits)
    with s reads [of "gr_addon_id request"] show ?thesis
      unfolding gateway_sendable_def assms(5,6) fields(1) [symmetric]
      by (cases "strip (gr_addon_id request) = rg_addon_id r") auto
  qed
  have 2: ?sensor if "publish_sensor_discovery rt caller sensor g = Some (Inr x, g2)"
    using handler_end_success [OF sensor_discovery_end [OF that]] by (intro ha) (auto simp: discovery_allowed_def)
  have 3: ?state if "publish_gateway_state rt caller state g = Some (Inr y, g3)"
    using handler_end_success [OF gateway_state_end [OF that]] by (intro ha) (auto simp: state_allowed_def)
  show ?thesis by (rule conjI [OF impI [OF 1] conjI [OF impI [OF 2] impI [OF 3]]])
qed

definition door_gateway_request :: gateway_publish_request where
  "door_gateway_request = \<lparr>gr_addon_id = '' door '', gr_message_type = ''event'', gr_payload = [],
     gr_topic = None, gr_qos = None, gr_retain = Some False\<rparr>"

lemma registration_governs_gateway_witness:
  "\<exists>r w' answer g1 body. upsert_registration example_app vision_claims door_request example_gateway = (Inr r, w') \<and>
     gateway_publish example_api vision_claims door_gateway_request w' = Some (Inr answer, g1) \<and>
     topic_allowed_by_scopes (gp_topic answer) (publish (rg_permissions r)) \<and>
     cw_outbox g1 = cw_outbox w' @ [\<lparr>mm_topic = gp_topic answer, mm_body = body,
       mm_qos = gp_qos answer, mm_retain = gp_retain answer\<rparr>]"
proof -
  obtain r w' where h: "upsert_registration example_app vision_claims door_request example_gateway = (Inr r, w')"
    using door_registers by blast
  have "(case gateway_publish example_api vision_claims door_gateway_request
      (snd (upsert_registration example_app vision_claims door_request example_gateway)) of
      Some (Inr _, _) \<Rightarrow> True | _ \<Rightarrow> False)" by code_simp
  then obtain answer g1 where g: "gateway_publish example_api vision_claims door_gateway_request w' = Some (Inr answer, g1)"
    unfolding h by (auto split: option.splits sum.splits)
  have a: "reg_wf (gw_regs example_gateway)" "request_wf door_request" by code_simp+
  have b: "reg_lib_ok (rt_lib (ar_api example_app))" "rt_lib example_api = rt_lib (ar_api example_app)"
    using example_api_lib_ok by (simp_all add: example_app_def)
  have c: "strip (gr_addon_id door_gateway_request) = rg_addon_id r"
    unfolding registered_reads(2) [OF h a b(1)] by code_simp
  from registration_governs_gateway [OF h a b refl] h g c show ?thesis by fastforce
qed

text \<open>
  C28: the topic explorer lists an addon in a family exactly when one of its granted or lifecycle
  topics belongs to that family; the families are listed once each, in order, with their
  addons in order.
\<close>

theorem topic_explorer_families:
  assumes "topic_explorer ar w = Inr view"
  shows "((\<exists>f\<in>set (to_families view). tf_family f = family \<and> tf_kind f = kind \<and> addon \<in> set (tf_registrations f)) \<longleftrightarrow>
      (\<exists>r\<in>set (list_registrations (rt_lib (ar_api ar)) (gw_regs w)). rg_addon_id r = addon \<and>
         (\<exists>t\<in>set (explored_topics (to_base_topic view) r). topic_family_of t = Some (family, kind)))) \<and>
    sorted (map tf_family (to_families view)) \<and>
    distinct (map (\<lambda>f. (tf_family f, tf_kind f)) (to_families view)) \<and>
    list_all (\<lambda>f. sorted (tf_registrations f) \<and> distinct (tf_registrations f)) (to_families view)"
proof -
  let ?rs = "list_registrations (rt_lib (ar_api ar)) (gw_regs w)"
  let ?fs = "families_of (to_base_topic view) ?rs []"
  let ?entry = "\<lambda>((family, kind), addons). \<lparr>tf_family = family, tf_kind = kind, tf_registrations = sort addons\<rparr>"
  have wf: "families_wf ?fs" by (rule families_of_wf) (simp add: families_wf_def)
  have view: "to_families view = map ?entry (sort_key (\<lambda>e. fst (fst e)) ?fs)"
    using assms by (auto simp: topic_explorer_def Let_def res_bind_Inr_iff)
  have listed: "(\<exists>f\<in>set (to_families view). tf_family f = family \<and> tf_kind f = kind \<and> addon \<in> set (tf_registrations f)) \<longleftrightarrow>
      (\<exists>as. ((family, kind), as) \<in> set ?fs \<and> addon \<in> set as)"
    unfolding view by force
  have "map tf_family (to_families view) = map (\<lambda>e. fst (fst e)) (sort_key (\<lambda>e. fst (fst e)) ?fs)"
    unfolding view by (auto simp: split_beta)
  moreover have "map (\<lambda>f. (tf_family f, tf_kind f)) (to_families view) = map fst (sort_key (\<lambda>e. fst (fst e)) ?fs)"
    unfolding view by (auto simp: split_beta)
  moreover have "list_all (\<lambda>f. sorted (tf_registrations f) \<and> distinct (tf_registrations f)) (to_families view)"
    unfolding view using wf by (auto simp: families_wf_def list_all_iff)
  moreover have "sorted (map (\<lambda>e. fst (fst e)) (sort_key (\<lambda>e. fst (fst e)) ?fs))" by simp
  moreover have "distinct (map fst (sort_key (\<lambda>e. fst (fst e)) ?fs))"
    using wf by (simp add: distinct_map_sort_key families_wf_def)
  moreover have "addon \<in> members ?fs (family, kind) \<longleftrightarrow>
      (\<exists>r\<in>set ?rs. rg_addon_id r = addon \<and>
         (\<exists>t\<in>set (explored_topics (to_base_topic view) r). topic_family_of t = Some (family, kind)))"
    by (simp add: members_families_of)
  ultimately show ?thesis
    using listed members_entry [OF wf, of "(family, kind)" addon] by (simp only:)
qed

lemma topic_explorer_families_witness:
  "\<exists>view. topic_explorer example_app example_gateway = Inr view \<and> sorted (map tf_family (to_families view))"
proof -
  have "\<not> isl (topic_explorer example_app example_gateway)" by code_simp
  then obtain view where v: "topic_explorer example_app example_gateway = Inr view"
    by (cases "topic_explorer example_app example_gateway") auto
  from topic_explorer_families [OF v] v show ?thesis by blast
qed

text \<open>
  The explorer shows the reserved namespaces below the configured base topic, but only those
  below \<open>synthia/\<close> are refused when a topic is published.
\<close>

lemma reserved_namespace_follows_no_base_topic:
  "''home/core/#'' \<in> set (reserved_of ''home'')"
  "\<not> is_reserved_topic ''home/core/x''"
  "is_reserved_topic ''synthia/core/x''"
  by code_simp+

end
