(* ===== verification/Config_Roundtrip.thy ===== *)
theory Config_Roundtrip
  imports Config_Facts
begin

text \<open>
  What the operations of the configuration store write is what its readers return: the
  install session, the selected mode, an applied install, the base URL of the core and the
  selection of optional groups.
\<close>

section \<open>The install session\<close>

definition session_flags :: "string list" where
  "session_flags = [''configured'', ''verified'', ''registered_to_core'', ''external_test_ok'']"

definition session_names :: "string list" where
  "session_names = [''optional_groups_requested'', ''optional_groups_active'', ''optional_groups_failed'']"

definition flag_value :: "json \<Rightarrow> bool" where
  "flag_value v = (case v of JBool _ \<Rightarrow> True | _ \<Rightarrow> False)"

definition names_value :: "json \<Rightarrow> bool" where
  "names_value v = (v = name_list (normalize_string_list v))"

text \<open>Flags are booleans and group lists are normalised: in a session, and in an update.\<close>

definition session_typed :: "dict \<Rightarrow> bool" where
  "session_typed s = (map fst s = session_keys \<and> list_all (\<lambda>k. flag_value (dget s k)) session_flags \<and>
     list_all (\<lambda>k. names_value (dget s k)) session_names)"

definition session_update_ok :: "dict \<Rightarrow> bool" where
  "session_update_ok u =
     (list_all (\<lambda>k. if dhas u k then flag_value (dget u k) else True) session_flags \<and>
      list_all (\<lambda>k. if dhas u k then names_value (dget u k) else True) session_names)"

text \<open>The session as the file stores it: each value with its keys sorted.\<close>

definition stored_session :: "dict \<Rightarrow> dict" where
  "stored_session s = map (\<lambda>(k, v). (k, sort_keys v)) s"

lemma distinct_session_keys: "distinct session_keys"
  by (simp add: session_keys_def)

lemma map_fst_default: "map fst default_install_session_state = session_keys"
  by (simp add: default_install_session_state_def session_keys_def)

lemma sort_keys_name_list [simp]: "sort_keys (name_list xs) = name_list xs"
  by (simp add: name_list_def)

lemma normalize_name_list: "normal_names xs \<Longrightarrow> normalize_string_list (name_list xs) = xs"
  by (simp add: name_list_def normalize_normal_names)

lemma name_list_Nil: "name_list xs = JList [] \<longleftrightarrow> xs = []"
  by (simp add: name_list_def)

lemma names_value_name_list [simp]: "normal_names xs \<Longrightarrow> names_value (name_list xs)"
  by (simp add: names_value_def name_list_def normalize_normal_names)

lemma names_value_normalize [simp]: "names_value (name_list (normalize_string_list v))"
  by (simp add: normal_names_normalize)

lemma names_valueD: "names_value v \<Longrightarrow> name_list (normalize_string_list v) = v"
  by (simp add: names_value_def)

lemma flag_valueD: "flag_value v \<Longrightarrow> JBool (truthy v) = v"
  by (cases v) (simp_all add: flag_value_def)

lemma flag_value_JBool [simp]: "flag_value (JBool b)"
  by (simp add: flag_value_def)

lemma dhas_iff: "dhas d k \<longleftrightarrow> k \<in> set (map fst d)"
  by (simp add: dhas_def map_of_eq_None_iff)

lemma map_fst_dset_session:
  "map fst s = session_keys \<Longrightarrow> k \<in> set session_keys \<Longrightarrow> map fst (dset k v s) = session_keys"
  by (simp add: map_fst_dset_old)

text \<open>Reading a stored session field by field.\<close>

lemma dget_session_of_raw:
  "dget (session_of_raw raw s) k =
    (if k \<in> set session_names then name_list (normalize_string_list (dget raw k))
     else if k \<in> set session_flags then JBool (truthy (dget_or raw k (dget s k)))
     else if k \<in> set session_keys then dget_or raw k (dget s k) else dget s k)"
  unfolding session_of_raw_def Let_def dget_dset
  by (simp add: session_names_def session_flags_def session_keys_def)

lemma map_fst_session_of_raw:
  "map fst s = session_keys \<Longrightarrow> map fst (session_of_raw raw s) = session_keys"
  unfolding session_of_raw_def Let_def
  by (intro map_fst_dset_session) (simp_all add: session_keys_def)

lemma session_of_raw_typed:
  "map fst s = session_keys \<Longrightarrow> session_typed (session_of_raw raw s)"
  unfolding session_typed_def
  by (simp add: map_fst_session_of_raw)
    (simp add: list_all_iff dget_session_of_raw session_names_def session_flags_def session_keys_def)

lemma session_keys_cases:
  "k \<in> set session_keys \<Longrightarrow> k \<notin> set session_names \<Longrightarrow> k \<notin> set session_flags \<Longrightarrow>
   k \<in> {''mode'', ''setup_state'', ''last_error'', ''external_test_signature'', ''external_direct_access_mode''}"
  by (auto simp: session_keys_def session_names_def session_flags_def)

lemma session_of_raw_stored:
  assumes "session_typed s"
  shows "session_of_raw (sort_dict s) default_install_session_state = stored_session s"
proof (rule dict_eqI)
  have fst: "map fst s = session_keys" using assms by (simp add: session_typed_def)
  then have dist: "distinct (map fst s)" by (simp add: distinct_session_keys)
  show "map fst (session_of_raw (sort_dict s) default_install_session_state) = map fst (stored_session s)"
    by (simp only: map_fst_session_of_raw map_fst_default stored_session_def map_fst_map_snd fst)
  show "distinct (map fst (session_of_raw (sort_dict s) default_install_session_state))"
    by (simp add: map_fst_session_of_raw map_fst_default distinct_session_keys)
  fix k assume "k \<in> set (map fst (session_of_raw (sort_dict s) default_install_session_state))"
  then have k: "k \<in> set session_keys" by (simp only: map_fst_session_of_raw map_fst_default)
  have has: "dhas s k" using k fst by (simp add: dhas_iff)
  have d: "dget_or (sort_dict s) k x = sort_keys (dget s k)" for x
    using dist has by (simp add: dget_or_sort_dict)
  have st: "dget (stored_session s) k = sort_keys (dget s k)"
    by (simp add: stored_session_def dget_def dget_or_def map_of_map split: option.splits)
  show "dget (session_of_raw (sort_dict s) default_install_session_state) k = dget (stored_session s) k"
  proof (cases "k \<in> set session_names")
    case True
    have "names_value (dget s k)" using assms True by (simp add: session_typed_def list_all_iff)
    then obtain xs where xs: "dget s k = name_list xs" "normal_names xs"
      by (metis names_value_def normal_names_normalize)
    with True dist show ?thesis
      by (simp add: dget_session_of_raw st dget_sort_dict normalize_name_list)
  next
    case False
    show ?thesis
    proof (cases "k \<in> set session_flags")
      case True
      have "flag_value (dget s k)" using assms True by (simp add: session_typed_def list_all_iff)
      then obtain b where "dget s k = JBool b" by (auto simp: flag_value_def split: json.splits)
      with True False show ?thesis by (simp add: dget_session_of_raw st d)
    next
      case no: False
      with False k show ?thesis by (simp add: dget_session_of_raw st d)
    qed
  qed
qed

lemma merge_fold:
  assumes "distinct ks" and "set ks \<subseteq> set (map fst s)"
  shows "map fst (foldl (\<lambda>s k. if dhas u k then dset k (dget u k) s else s) s ks) = map fst s \<and>
    dget (foldl (\<lambda>s k. if dhas u k then dset k (dget u k) s else s) s ks) k =
      (if k \<in> set ks \<and> dhas u k then dget u k else dget s k)"
  using assms
proof (induction ks arbitrary: s)
  case (Cons a ks)
  let ?s = "if dhas u a then dset a (dget u a) s else s"
  have "map fst ?s = map fst s" using Cons.prems by (simp add: map_fst_dset_old)
  with Cons.IH [of ?s] Cons.prems show ?case by auto
qed simp

lemma merge_session_fields:
  assumes "map fst s = session_keys"
  shows "map fst (merge_session u s) = session_keys"
    "dget (merge_session u s) k = (if k \<in> set session_keys \<and> dhas u k then dget u k else dget s k)"
  unfolding merge_session_def
  using merge_fold [of session_keys s u] assms by (simp_all add: distinct_session_keys)

lemma session_sub:
  "k \<in> set session_flags \<Longrightarrow> k \<in> set session_keys" "k \<in> set session_names \<Longrightarrow> k \<in> set session_keys"
  by (auto simp: session_flags_def session_names_def session_keys_def)

lemma merge_session_typed:
  assumes "session_typed s" and "session_update_ok u"
  shows "session_typed (merge_session u s)"
proof -
  have fst: "map fst s = session_keys" using assms(1) by (simp add: session_typed_def)
  show ?thesis
    using assms unfolding session_typed_def session_update_ok_def
    by (simp add: merge_session_fields [OF fst] list_all_iff session_sub)
qed


lemma get_session_typed:
  assumes "get_install_session_state env st = Inr s" and "load_install_session_state st = Inr (JObj raw)"
    and "get_install_state env st = Inr c"
  shows "session_typed s"
proof -
  let ?s = "dset ''mode'' (JStr (ic_mode c)) (session_of_raw raw default_install_session_state)"
  have raw: "session_typed (session_of_raw raw default_install_session_state)"
    by (rule session_of_raw_typed [OF map_fst_default])
  then have fst: "map fst (session_of_raw raw default_install_session_state) = session_keys"
    by (simp add: session_typed_def)
  have mode: "session_typed ?s" using raw map_fst_dset_session [OF fst, of "''mode''"]
    unfolding session_typed_def
    by (simp add: session_flags_def session_names_def session_keys_def)
  then have fst': "map fst ?s = session_keys" by (simp add: session_typed_def)
  have names: "names_value (name_list (get_desired_optional_groups env st))"
    by (simp add: get_desired_optional_groups_def normal_names_normalize Let_def
        split: json.splits)
  then have "session_typed (dset ''optional_groups_requested''
      (name_list (get_desired_optional_groups env st)) ?s)"
    using mode map_fst_dset_session [OF fst', of "''optional_groups_requested''"]
    unfolding session_typed_def
    by (simp add: session_flags_def session_names_def session_keys_def)
  with mode assms(1) show ?thesis
    unfolding get_install_session_state_eq [OF assms(2,3)] Let_def by (auto split: if_splits)
qed

text \<open>
  What is read after an update: the stored session, its mode the configured one, the
  requested groups those of the desired state when there are none.
\<close>

lemma read_after_update:
  assumes "fst (update_install_session_state env u st) = Inr s" and "session_update_ok u"
    and "load_install_session_state st = Inr (JObj raw)" and "get_install_state env st = Inr c"
  shows "get_install_session_state env (snd (update_install_session_state env u st)) =
    (let state = dset ''mode'' (JStr (ic_mode c)) (stored_session s);
         desired = get_desired_optional_groups env st in
     Inr (if desired \<noteq> [] \<and> normalize_string_list (dget state ''optional_groups_requested'') = []
          then dset ''optional_groups_requested'' (name_list desired) state else state))"
    and "\<exists>s0. get_install_session_state env st = Inr s0 \<and> s = merge_session u s0 \<and>
      map fst s0 = session_keys"
    and "session_typed s"
    and "cs_config (snd (update_install_session_state env u st)) = cs_config st"
    and "cs_fs (snd (update_install_session_state env u st)) = cs_fs st"
    and "cs_mounts (snd (update_install_session_state env u st)) = cs_mounts st"
proof -
  obtain s0 where s0: "get_install_session_state env st = Inr s0" and s: "s = merge_session u s0"
    using assms(1) by (auto simp: update_install_session_state_def Let_def split: sum.splits)
  let ?st = "save_install_session_state s st"
  have st: "snd (update_install_session_state env u st) = ?st"
    by (simp add: update_install_session_state_def s0 s Let_def)
  have t0: "session_typed s0" by (rule get_session_typed [OF s0 assms(3,4)])
  then show "\<exists>s0. get_install_session_state env st = Inr s0 \<and> s = merge_session u s0 \<and>
      map fst s0 = session_keys" using s0 s by (simp add: session_typed_def)
  show t: "session_typed s" unfolding s by (rule merge_session_typed [OF t0 assms(2)])
  have c: "get_install_state env ?st = Inr c"
    using assms(4) get_install_state_cong [of ?st st env] by simp
  have d: "get_desired_optional_groups env ?st = get_desired_optional_groups env st"
    by (rule get_desired_cong) simp_all
  show "get_install_session_state env (snd (update_install_session_state env u st)) =
    (let state = dset ''mode'' (JStr (ic_mode c)) (stored_session s);
         desired = get_desired_optional_groups env st in
     Inr (if desired \<noteq> [] \<and> normalize_string_list (dget state ''optional_groups_requested'') = []
          then dset ''optional_groups_requested'' (name_list desired) state else state))"
    unfolding st get_install_session_state_eq [OF load_install_save c] session_of_raw_stored [OF t] d ..
  show "cs_config (snd (update_install_session_state env u st)) = cs_config st"
    "cs_fs (snd (update_install_session_state env u st)) = cs_fs st"
    "cs_mounts (snd (update_install_session_state env u st)) = cs_mounts st"
    unfolding st by (simp_all add: save_install_session_state_def)
qed

lemma dget_stored_session:
  "map fst s = session_keys \<Longrightarrow> dget (stored_session s) k = sort_keys (dget s k)"
  by (simp add: stored_session_def dget_def dget_or_def map_of_map split: option.splits)

lemma session_round_trip:
  assumes "fst (update_install_session_state env u st) = Inr s" and "session_update_ok u"
    and "env_ok env" and "config_ok st"
    and "dhas u ''mode'' \<Longrightarrow> (\<exists>c. get_install_state env st = Inr c \<and> dget u ''mode'' = JStr (ic_mode c))"
  shows "\<exists>s'. get_install_session_state env (snd (update_install_session_state env u st)) = Inr s' \<and>
    map fst s' = session_keys \<and>
    (\<forall>k. dget s' k = (if k = ''optional_groups_requested'' \<and> dget s k = JList []
       then name_list (get_desired_optional_groups env st) else sort_keys (dget s k)))"
proof -
  obtain d raw where d: "load_overrides st = Inr d" "overrides_ok d"
    and raw: "load_install_session_state st = Inr (JObj raw)"
    using assms(4) by (rule config_okE)
  obtain c where c: "get_install_state env st = Inr c"
    using get_install_state_ok [OF assms(3) d] by blast
  note upd = read_after_update [OF assms(1,2) raw c]
  obtain s0 where s0: "get_install_session_state env st = Inr s0" "s = merge_session u s0"
    "map fst s0 = session_keys" using upd(2) by blast
  have fst: "map fst s = session_keys" using upd(3) by (simp add: session_typed_def)
  have "dget s0 ''mode'' = JStr (ic_mode c)"
    using s0(1) unfolding get_install_session_state_eq [OF raw c] Let_def
    by (auto split: if_splits)
  with assms(5) c have mode: "dget s ''mode'' = JStr (ic_mode c)"
    unfolding s0(2) merge_session_fields(2) [OF s0(3)] by auto
  define state where "state = dset ''mode'' (JStr (ic_mode c)) (stored_session s)"
  have fst': "map fst state = session_keys" unfolding state_def
    by (rule map_fst_dset_session) (simp_all only: stored_session_def map_fst_map_snd fst,
        simp add: session_keys_def)
  have st: "dget state k = sort_keys (dget s k)" for k
    using mode by (simp add: state_def dget_stored_session [OF fst])
  have "names_value (dget s ''optional_groups_requested'')"
    using upd(3) by (simp add: session_typed_def session_names_def)
  then obtain xs where xs: "dget s ''optional_groups_requested'' = name_list xs" "normal_names xs"
    by (metis names_value_def normal_names_normalize)
  have empty: "normalize_string_list (dget state ''optional_groups_requested'') = [] \<longleftrightarrow>
      dget s ''optional_groups_requested'' = JList []"
    unfolding st xs(1) by (simp add: name_list_Nil normalize_name_list xs(2))
  let ?s' = "if get_desired_optional_groups env st \<noteq> [] \<and> dget s ''optional_groups_requested'' = JList []
      then dset ''optional_groups_requested'' (name_list (get_desired_optional_groups env st)) state
      else state"
  have "map fst ?s' = session_keys"
    using fst' map_fst_dset_session [OF fst', of "''optional_groups_requested''"]
    by (simp add: session_keys_def)
  moreover have "dget ?s' k = (if k = ''optional_groups_requested'' \<and> dget s k = JList []
       then name_list (get_desired_optional_groups env st) else sort_keys (dget s k))" for k
    by (auto simp: st name_list_def)
  ultimately show ?thesis unfolding upd(1) Let_def state_def [symmetric] empty by blast
qed

text \<open>
  C33: the install session survives the file: after an update that succeeds, reading the
  session gives back every field just stored (flags as booleans, group lists in order, other
  values up to the order of keys inside them), provided the update did not set a mode other
  than the configured one; the one field that can differ is the list of requested groups,
  which an empty list leaves to the desired state.
\<close>

theorem session_update_round_trip:
  assumes "fst (update_install_session_state env u st) = Inr s" and "session_update_ok u"
    and "env_ok env" and "config_ok st"
    and "dhas u ''mode'' \<Longrightarrow> (\<exists>c. get_install_state env st = Inr c \<and> dget u ''mode'' = JStr (ic_mode c))"
  shows "\<exists>s'. get_install_session_state env (snd (update_install_session_state env u st)) = Inr s' \<and>
    map fst s' = session_keys \<and>
    (\<forall>k. dget s' k = (if k = ''optional_groups_requested'' \<and> dget s k = JList []
       then name_list (get_desired_optional_groups env st) else sort_keys (dget s k)))"
  using session_round_trip [OF assms] .

section \<open>Selecting a mode\<close>

lemma choice_eq: "s \<in> set options \<Longrightarrow> choice (JStr s) options dflt = Inr s"
  by (simp add: choice_def)

lemma install_state_modes:
  assumes "get_install_state env st = Inr c" and "load_overrides st = Inr d"
  shows "dget d ''mode'' = JStr m \<Longrightarrow> m \<in> set install_modes \<Longrightarrow> ic_mode c = m"
    and "dget_or d ''external_direct_access_mode'' (JStr ''gateway_only'') = JStr a \<Longrightarrow>
      a \<in> set direct_access_modes \<Longrightarrow> ic_external_direct_access_mode c = a"
    and "ic_base_topic c = dget_or d ''base_topic''
         (dget_or d ''mqtt_base_topic'' (JStr (getenv env ''MQTT_BASE_TOPIC'' ''synthia'')))"
proof -
  obtain m' a' where "choice (dget d ''mode'') install_modes ''external'' = Inr m'"
    and "choice (dget_or d ''external_direct_access_mode'' (JStr ''gateway_only''))
      direct_access_modes ''gateway_only'' = Inr a'"
    and "ic_mode c = m'" "ic_external_direct_access_mode c = a'"
    and base: "ic_base_topic c = dget_or d ''base_topic''
         (dget_or d ''mqtt_base_topic'' (JStr (getenv env ''MQTT_BASE_TOPIC'' ''synthia'')))"
    using assms(1) unfolding get_install_state_def assms(2) res_bind_simps res_bind_Inr_iff by fastforce
  then show "dget d ''mode'' = JStr m \<Longrightarrow> m \<in> set install_modes \<Longrightarrow> ic_mode c = m"
    "dget_or d ''external_direct_access_mode'' (JStr ''gateway_only'') = JStr a \<Longrightarrow>
      a \<in> set direct_access_modes \<Longrightarrow> ic_external_direct_access_mode c = a"
    by (simp_all add: choice_eq)
  show "ic_base_topic c = dget_or d ''base_topic''
         (dget_or d ''mqtt_base_topic'' (JStr (getenv env ''MQTT_BASE_TOPIC'' ''synthia'')))" by (rule base)
qed

text \<open>
  selecting a mode on a readable configuration succeeds and is what every reader then
  reports: the install state has the mode and the access mode (an unknown one is
  gateway-only), and the session starts over as \<open>configuring\<close>, neither configured nor
  verified.
\<close>

theorem selected_mode_read_back:
  assumes "env_ok env" and "config_ok st" and "mode \<in> set install_modes"
  shows "\<exists>s c s'. fst (set_selected_mode env mode direct st) = Inr s \<and>
    get_install_state env (snd (set_selected_mode env mode direct st)) = Inr c \<and>
    get_install_session_state env (snd (set_selected_mode env mode direct st)) = Inr s' \<and>
    ic_mode c = mode \<and> dget s' ''mode'' = JStr mode \<and>
    ic_external_direct_access_mode c =
      (if direct \<in> set direct_access_modes then direct else ''gateway_only'') \<and>
    dget s' ''setup_state'' = JStr ''configuring'' \<and>
    dget s' ''configured'' = JBool False \<and> dget s' ''verified'' = JBool False"
proof -
  obtain d raw where d: "load_overrides st = Inr d" "overrides_ok d"
    and raw: "load_install_session_state st = Inr (JObj raw)"
    using assms(2) by (rule config_okE)
  define a where "a = (if direct \<in> set direct_access_modes then direct else ''gateway_only'')"
  have a: "a \<in> set direct_access_modes" by (simp add: a_def mode_defaults)
  define d' where "d' = dset ''external_direct_access_mode'' (JStr a) (dset ''mode'' (JStr mode) d)"
  have ok': "overrides_ok d'" unfolding d'_def
    by (intro overrides_ok_dset d(2)) (simp_all add: override_value_ok_def)
  then have dist: "distinct (map fst d')" by (simp add: overrides_ok_def)
  let ?st = "save_overrides d' st"
  let ?u = "[(''mode'', JStr mode), (''external_direct_access_mode'', JStr a),
     (''setup_state'', JStr ''configuring''), (''configured'', JBool False),
     (''verified'', JBool False), (''last_error'', JNull)]"
  have ok: "config_ok ?st" using assms(2) ok' by (rule config_ok_save)
  have run: "set_selected_mode env mode direct st = update_install_session_state env ?u ?st"
    using assms(3) d(1) by (simp add: set_selected_mode_def a_def d'_def Let_def)
  obtain c s0 where c: "get_install_state env ?st = Inr c"
    and s0: "get_install_session_state env ?st = Inr s0"
    using config_total [OF assms(1) ok] by blast
  have cm: "ic_mode c = mode" "ic_external_direct_access_mode c = a"
  proof -
    have "dget (sort_dict d') ''mode'' = JStr mode"
      unfolding dget_sort_dict [OF dist] by (simp add: d'_def)
    then show "ic_mode c = mode" by (rule install_state_modes(1) [OF c load_overrides_save]) fact
    have "dget_or (sort_dict d') ''external_direct_access_mode'' (JStr ''gateway_only'') = JStr a"
      unfolding dget_or_sort_dict [OF dist] by (simp add: d'_def)
    then show "ic_external_direct_access_mode c = a"
      by (rule install_state_modes(2) [OF c load_overrides_save]) fact
  qed
  have upd: "fst (update_install_session_state env ?u ?st) = Inr (merge_session ?u s0)"
    by (simp add: update_install_session_state_def s0 Let_def)
  have uok: "session_update_ok ?u" by (simp add: session_update_ok_def session_flags_def session_names_def)
  have um: "dget ?u ''mode'' = JStr (ic_mode c)" by (simp add: cm)
  obtain s' where s': "get_install_session_state env (snd (update_install_session_state env ?u ?st)) = Inr s'"
    and rd: "\<And>k. dget s' k = (if k = ''optional_groups_requested'' \<and> dget (merge_session ?u s0) k = JList []
       then name_list (get_desired_optional_groups env ?st) else sort_keys (dget (merge_session ?u s0) k))"
    using session_round_trip [OF upd uok assms(1) ok] c um by auto
  have fst0: "map fst s0 = session_keys"
    using get_session_typed [OF s0 _ c] raw by (simp add: session_typed_def)
  have vals: "dget s' ''mode'' = JStr mode" "dget s' ''setup_state'' = JStr ''configuring''"
    "dget s' ''configured'' = JBool False" "dget s' ''verified'' = JBool False"
    by (simp_all add: rd merge_session_fields [OF fst0] session_keys_def)
  have "get_install_state env (snd (update_install_session_state env ?u ?st)) = Inr c"
    unfolding c [symmetric]
    by (rule get_install_state_cong) (simp add: update_install_session_state_def s0 Let_def)
  then show ?thesis unfolding run using upd s' vals cm a_def by blast
qed


section \<open>Applying an install\<close>

lemma dget_dset_opt [simp]:
  "dget (dset_opt k f v d) k' = (case v of None \<Rightarrow> dget d k' | Some x \<Rightarrow> if k' = k then f x else dget d k')"
  "dhas (dset_opt k f v d) k' = (k' = k \<and> v \<noteq> None \<or> dhas d k')"
  by (auto simp: dset_opt_def split: option.splits)

lemma dget_opt_field [simp]:
  "dget (opt_field k f v @ d) k' = (case v of None \<Rightarrow> dget d k' | Some x \<Rightarrow> if k' = k then f x else dget d k')"
  by (simp add: opt_field_def split: option.splits)

lemma dget_opt_field_end [simp]:
  "dget (opt_field k f v) k' = (case v of None \<Rightarrow> JNull | Some x \<Rightarrow> if k' = k then f x else JNull)"
  by (simp add: opt_field_def split: option.splits)

text \<open>The connection a request asks for: host, port, TLS, user and password.\<close>

definition requested_connection ::
  "env \<Rightarrow> install_apply_request \<Rightarrow> json \<times> int \<times> bool \<times> json \<times> json" where
  "requested_connection env r =
     (case (iar_mode r = ''external'', iar_external r, iar_embedded r) of
        (True, Some x, _) \<Rightarrow> (JStr (ext_host x), ext_port x, ext_tls x,
           opt_json (ext_username x), opt_json (ext_password x))
      | (False, _, Some x) \<Rightarrow> (JStr (default_embedded_broker_host env), 1883, False,
           opt_json (emb_admin_user x), opt_json (emb_admin_pass x))
      | _ \<Rightarrow> (JNull, 0, False, JNull, JNull))"

definition connection_of :: "eff_config \<Rightarrow> json \<times> int \<times> bool \<times> json \<times> json" where
  "connection_of c = (eff_host c, eff_port c, eff_tls c, eff_username c, eff_password c)"

lemma opt_json_sort_keys [simp]: "sort_keys (opt_json v) = opt_json v"
  by (simp add: opt_json_def split: option.splits)

lemma dump_credentials:
  "dget (dump_external x) ''username'' = opt_json (ext_username x)"
  "dget (dump_external x) ''password'' = opt_json (ext_password x)"
  "dget (dump_embedded y) ''admin_user'' = opt_json (emb_admin_user y)"
  "dget (dump_embedded y) ''admin_pass'' = opt_json (emb_admin_pass y)"
  by (simp_all add: dump_external_def dump_embedded_def opt_json_def split: option.splits)

text \<open>What the overrides hold after the request has been merged in.\<close>

lemma install_overrides_connection:
  assumes "install_apply_request_ok r"
  shows "\<exists>d' host port tls user pass. install_overrides env r d = Inr d' \<and>
    requested_connection env r = (host, port, tls, user, pass) \<and>
    dget d' ''mode'' = JStr (iar_mode r) \<and>
    (dhas d' ''mqtt_host'' \<and> dhas d' ''mqtt_port'' \<and> dhas d' ''mqtt_tls'' \<and>
     dhas d' ''mqtt_username'' \<and> dhas d' ''mqtt_password'') \<and>
    (dget d' ''mqtt_host'', dget d' ''mqtt_port'', dget d' ''mqtt_tls'', dget d' ''mqtt_username'',
      dget d' ''mqtt_password'') = (host, JInt port, JBool tls, user, pass) \<and>
    (case iar_base_topic r of None \<Rightarrow> True
     | Some t \<Rightarrow> dhas d' ''mqtt_base_topic'' \<and> dget d' ''mqtt_base_topic'' = JStr t) \<and>
    (case iar_qos_default r of None \<Rightarrow> True
     | Some q \<Rightarrow> dhas d' ''mqtt_qos'' \<and> dget d' ''mqtt_qos'' = JInt q) \<and>
    (sort_keys host = host \<and> sort_keys user = user \<and> sort_keys pass = pass)"
proof (cases "iar_mode r = ''external''")
  case True
  with assms obtain x where x: "iar_external r = Some x"
    by (auto simp: install_apply_request_ok_def split: option.splits)
  show ?thesis
    by (simp add: install_overrides_def connection_overrides_def requested_connection_def True x
        dump_credentials split: option.split)
next
  case False
  with assms have m: "iar_mode r = ''embedded''"
    by (simp add: install_apply_request_ok_def install_modes_def)
  with assms obtain y where y: "iar_embedded r = Some y"
    by (auto simp: install_apply_request_ok_def split: option.splits)
  show ?thesis
    by (simp add: install_overrides_def connection_overrides_def requested_connection_def m y
        dump_credentials ex_bool_eq split: option.split)
qed

lemma eff_config_fields:
  assumes "get_effective_config env False st = Inr c" and "load_overrides st = Inr d"
  shows "eff_host c = dget_or d ''mqtt_host''
      (JStr (getenv env ''MQTT_HOST'' (default_embedded_broker_host env)))"
    and "eff_username c = dget_or d ''mqtt_username'' (env_or_none env ''MQTT_USERNAME'')"
    and "eff_password c = dget_or d ''mqtt_password'' (env_or_none env ''MQTT_PASSWORD'')"
    and "eff_tls c = truthy (dget_or d ''mqtt_tls'' (JBool (env_bool env ''MQTT_TLS'' ''false'')))"
    and "eff_base_topic c = dget_or d ''mqtt_base_topic''
      (JStr (getenv env ''MQTT_BASE_TOPIC'' ''synthia''))"
    and "\<exists>p0. py_int (dget_or d ''mqtt_port'' (JInt p0)) = Inr (eff_port c)"
    and "\<exists>q0. py_int (dget_or d ''mqtt_qos'' (JInt q0)) = Inr (eff_qos c)"
  using assms(1) unfolding get_effective_config_def assms(2) res_bind_simps res_bind_Inr_iff Let_def
  by auto

text \<open>What the effective configuration reads of overrides with the request merged in.\<close>

lemma installed_connection:
  assumes "env_ok env" and "install_apply_request_ok r" and "install_overrides env r d = Inr d'"
    and "overrides_ok d'" and "load_overrides st = Inr (sort_dict d')"
  shows "\<exists>eff. get_effective_config env False st = Inr eff \<and>
    connection_of eff = requested_connection env r \<and>
    (case iar_base_topic r of None \<Rightarrow> True | Some t \<Rightarrow> eff_base_topic eff = JStr t) \<and>
    (case iar_qos_default r of None \<Rightarrow> True | Some q \<Rightarrow> eff_qos eff = q)"
proof -
  obtain host port tls user pass where rc: "requested_connection env r = (host, port, tls, user, pass)"
    and has: "dhas d' ''mqtt_host'' \<and> dhas d' ''mqtt_port'' \<and> dhas d' ''mqtt_tls'' \<and>
     dhas d' ''mqtt_username'' \<and> dhas d' ''mqtt_password''"
    and vals: "(dget d' ''mqtt_host'', dget d' ''mqtt_port'', dget d' ''mqtt_tls'', dget d' ''mqtt_username'',
      dget d' ''mqtt_password'') = (host, JInt port, JBool tls, user, pass)"
    and topic: "case iar_base_topic r of None \<Rightarrow> True
     | Some t \<Rightarrow> dhas d' ''mqtt_base_topic'' \<and> dget d' ''mqtt_base_topic'' = JStr t"
    and qos: "case iar_qos_default r of None \<Rightarrow> True
     | Some q \<Rightarrow> dhas d' ''mqtt_qos'' \<and> dget d' ''mqtt_qos'' = JInt q"
    and srt: "sort_keys host = host \<and> sort_keys user = user \<and> sort_keys pass = pass"
    using install_overrides_connection [OF assms(2), of env d] assms(3) by auto
  have dist: "distinct (map fst d')" using assms(4) by (simp add: overrides_ok_def)
  obtain eff where eff: "get_effective_config env False st = Inr eff"
    using get_effective_config_ok [OF assms(1,5) overrides_ok_sort_dict [OF assms(4)]] by blast
  note f = eff_config_fields [OF eff assms(5), unfolded dget_or_sort_dict [OF dist]]
  have "connection_of eff = requested_connection env r"
    using f(1-4,6) has vals srt by (auto simp: connection_of_def rc)
  moreover have "case iar_base_topic r of None \<Rightarrow> True | Some t \<Rightarrow> eff_base_topic eff = JStr t"
    using f(5) topic by (auto split: option.splits)
  moreover have "case iar_qos_default r of None \<Rightarrow> True | Some q \<Rightarrow> eff_qos eff = q"
    using f(7) qos by (auto split: option.splits)
  ultimately show ?thesis using eff by blast
qed

text \<open>The session after \<open>mode\<close>, \<open>configured\<close> and \<open>last_error\<close> have been set.\<close>

lemma installed_session:
  assumes "env_ok env" and "config_ok st" and "get_install_state env st = Inr c"
    and "u = [(''mode'', JStr (ic_mode c)), (''configured'', JBool True), (''last_error'', JNull)]"
  shows "\<exists>s0 s. update_install_session_state env u st = (Inr s0, save_install_session_state s0 st) \<and>
    get_install_session_state env (save_install_session_state s0 st) = Inr s \<and>
    dget s ''mode'' = JStr (ic_mode c) \<and> dget s ''configured'' = JBool True \<and> dget s ''last_error'' = JNull"
proof -
  obtain s0 where s0: "get_install_session_state env st = Inr s0"
    using config_total [OF assms(1,2)] by blast
  let ?m = "merge_session u s0"
  have upd: "update_install_session_state env u st = (Inr ?m, save_install_session_state ?m st)"
    by (simp add: update_install_session_state_def s0 Let_def)
  have uok: "session_update_ok u"
    by (simp add: assms(4) session_update_ok_def session_flags_def session_names_def)
  have 1: "fst (update_install_session_state env u st) = Inr ?m" by (simp only: upd fst_conv)
  have 2: "\<exists>c. get_install_state env st = Inr c \<and> dget u ''mode'' = JStr (ic_mode c)"
    using assms(3) by (simp add: assms(4))
  obtain s where s: "get_install_session_state env (save_install_session_state ?m st) = Inr s"
    and rd: "\<And>k. dget s k = (if k = ''optional_groups_requested'' \<and> dget ?m k = JList []
       then name_list (get_desired_optional_groups env st) else sort_keys (dget ?m k))"
    using session_round_trip [OF 1 uok assms(1,2) 2] unfolding upd snd_conv by blast
  obtain raw where raw: "load_install_session_state st = Inr (JObj raw)"
    using assms(2) by (rule config_okE)
  have fst0: "map fst s0 = session_keys"
    using get_session_typed [OF s0 _ assms(3)] raw by (simp add: session_typed_def)
  have "dget s ''mode'' = JStr (ic_mode c)" "dget s ''configured'' = JBool True" "dget s ''last_error'' = JNull"
    by (simp_all add: rd merge_session_fields [OF fst0] session_keys_def assms(4))
  with upd s show ?thesis by blast
qed

lemma applied_install:
  assumes "env_ok env" and "config_ok st" and "install_apply_request_ok r"
  shows "\<exists>eff c s. fst (apply_install_config env r st) = Inr eff \<and>
    get_effective_config env False (snd (apply_install_config env r st)) = Inr eff \<and>
    get_install_state env (snd (apply_install_config env r st)) = Inr c \<and>
    get_install_session_state env (snd (apply_install_config env r st)) = Inr s \<and>
    connection_of eff = requested_connection env r \<and> ic_mode c = iar_mode r \<and>
    (case iar_base_topic r of None \<Rightarrow> True | Some t \<Rightarrow> eff_base_topic eff = JStr t) \<and>
    (case iar_qos_default r of None \<Rightarrow> True | Some q \<Rightarrow> eff_qos eff = q) \<and>
    dget s ''mode'' = JStr (iar_mode r) \<and> dget s ''configured'' = JBool True \<and>
    dget s ''last_error'' = JNull"
proof -
  obtain d where d: "load_overrides st = Inr d" "overrides_ok d" using assms(2) by (rule config_okE)
  obtain d' where io: "install_overrides env r d = Inr d'" and mode: "dget d' ''mode'' = JStr (iar_mode r)"
    using install_overrides_connection [OF assms(3), of env d] by blast
  have ok': "overrides_ok d'" by (rule install_overrides_ok [OF io d(2)])
  have im: "iar_mode r \<in> set install_modes" using assms(3) by (simp add: install_apply_request_ok_def)
  let ?st = "save_overrides d' st"
  have ok: "config_ok ?st" using assms(2) ok' by (rule config_ok_save)
  obtain c where c: "get_install_state env ?st = Inr c" using config_total [OF assms(1) ok] by blast
  have dist: "distinct (map fst d')" using ok' by (simp add: overrides_ok_def)
  have cm: "ic_mode c = iar_mode r"
    by (rule install_state_modes(1) [OF c load_overrides_save _ im])
      (simp only: dget_sort_dict [OF dist] mode, simp)
  obtain s0 s where u: "update_install_session_state env [(''mode'', JStr (iar_mode r)),
      (''configured'', JBool True), (''last_error'', JNull)] ?st = (Inr s0, save_install_session_state s0 ?st)"
    and s: "get_install_session_state env (save_install_session_state s0 ?st) = Inr s"
      "dget s ''mode'' = JStr (iar_mode r)" "dget s ''configured'' = JBool True" "dget s ''last_error'' = JNull"
    using installed_session [OF assms(1) ok c refl] unfolding cm by blast
  have ld: "load_overrides (save_install_session_state s0 ?st) = Inr (sort_dict d')" by simp
  obtain eff where eff: "get_effective_config env False (save_install_session_state s0 ?st) = Inr eff"
      "connection_of eff = requested_connection env r"
      "case iar_base_topic r of None \<Rightarrow> True | Some t \<Rightarrow> eff_base_topic eff = JStr t"
      "case iar_qos_default r of None \<Rightarrow> True | Some q \<Rightarrow> eff_qos eff = q"
    using installed_connection [OF assms(1,3) io ok' ld] by blast
  have run: "apply_install_config env r st = (Inr eff, save_install_session_state s0 ?st)"
    using im by (simp add: apply_install_config_def d(1) io u eff(1))
  have c2: "get_install_state env (save_install_session_state s0 ?st) = Inr c"
    unfolding c [symmetric] by (rule get_install_state_cong) simp
  show ?thesis unfolding run fst_conv snd_conv using eff c2 s cm by blast
qed

text \<open>
  C32: applying an install request that the request model accepts, on a readable
  configuration, succeeds; from then on the effective configuration has exactly the
  connection the request asks for (the external broker's, or the embedded broker's host,
  port 1883, no TLS and the admin credentials, absent credentials cleared), with its base
  topic and QoS when it gives them, and the session is configured in that mode with no
  error.
\<close>

theorem applied_install_read_back:
  assumes "env_ok env" and "config_ok st" and "install_apply_request_ok r"
  shows "\<exists>eff c s. fst (apply_install_config env r st) = Inr eff \<and>
    get_effective_config env False (snd (apply_install_config env r st)) = Inr eff \<and>
    get_install_state env (snd (apply_install_config env r st)) = Inr c \<and>
    get_install_session_state env (snd (apply_install_config env r st)) = Inr s \<and>
    connection_of eff = requested_connection env r \<and> ic_mode c = iar_mode r \<and>
    (case iar_base_topic r of None \<Rightarrow> True | Some t \<Rightarrow> eff_base_topic eff = JStr t) \<and>
    (case iar_qos_default r of None \<Rightarrow> True | Some q \<Rightarrow> eff_qos eff = q) \<and>
    dget s ''mode'' = JStr (iar_mode r) \<and> dget s ''configured'' = JBool True \<and>
    dget s ''last_error'' = JNull"
  using assms by (rule applied_install)


section \<open>Witnesses\<close>

lemma session_update_round_trip_witness:
  "\<exists>s'. get_install_session_state empty_env (snd (update_install_session_state empty_env
       [(''verified'', JBool True)] example_config)) = Inr s' \<and> dget s' ''verified'' = JBool True"
proof -
  define s where "s = merge_session [(''verified'', JBool True)]
    (dset ''mode'' (JStr ''external'') default_install_session_state)"
  have 1: "fst (update_install_session_state empty_env [(''verified'', JBool True)] example_config) = Inr s"
    unfolding s_def by code_simp
  have 2: "session_update_ok [(''verified'', JBool True)]" by code_simp
  have 3: "dget s ''verified'' = JBool True" unfolding s_def by code_simp
  from session_update_round_trip [OF 1 2 example_config_ok] 3 show ?thesis by fastforce
qed

lemma selected_mode_read_back_witness:
  "\<exists>c. get_install_state empty_env (snd (set_selected_mode empty_env ''embedded'' ''direct'' example_config))
     = Inr c \<and> ic_mode c = ''embedded'' \<and> ic_external_direct_access_mode c = ''gateway_only''"
proof -
  have "''embedded'' \<in> set install_modes" "''direct'' \<notin> set direct_access_modes" by code_simp+
  then show ?thesis
    using selected_mode_read_back [OF example_config_ok, of "''embedded''" "''direct''"] by auto
qed

definition example_install :: install_apply_request where
  "example_install = \<lparr>iar_mode = ''external'',
     iar_external = Some \<lparr>ext_host = ''mq'', ext_port = 8883, ext_tls = True,
       ext_username = Some ''u'', ext_password = None\<rparr>,
     iar_embedded = None, iar_base_topic = Some ''home'', iar_ha_discovery_prefix = None,
     iar_external_direct_access_mode = ''gateway_only'', iar_qos_default = Some 2,
     iar_allow_unvalidated = False\<rparr>"

lemma applied_install_read_back_witness:
  "\<exists>eff. get_effective_config empty_env False
      (snd (apply_install_config empty_env example_install example_config)) = Inr eff \<and>
    connection_of eff = (JStr ''mq'', 8883, True, JStr ''u'', JNull) \<and> eff_qos eff = 2"
proof -
  have ok: "install_apply_request_ok example_install" by code_simp
  have rc: "requested_connection empty_env example_install = (JStr ''mq'', 8883, True, JStr ''u'', JNull)"
    by code_simp
  have q: "iar_qos_default example_install = Some 2" by (simp add: example_install_def)
  from applied_install_read_back [OF example_config_ok ok] show ?thesis
    unfolding rc q option.case by blast
qed

end
