(* ===== verification/Install_Rules.thy ===== *)
theory Install_Rules
  imports Config_Roundtrip "HOL-Library.Multiset"
begin

text \<open>
  The functions at the head of app/api/install_workflow.py, which decide what the install
  endpoints answer: diagnostics, guidance, the state of the optional groups, readiness, and
  the signature that ties an apply to a tested connection.
\<close>

definition diagnostic_code_from_reason :: "bool \<Rightarrow> string option \<Rightarrow> string" where
  "diagnostic_code_from_reason ok reason =
     (if ok then ''ok''
      else
        (case reason of
           None \<Rightarrow> ''unknown_error''
         | Some r \<Rightarrow>
             if r = [] then ''unknown_error''
             else
               (let normalized = lower r in
                if contains ''timed out'' normalized then ''timeout''
                else if contains ''refused'' normalized then ''connection_refused''
                else if contains ''name or service not known'' normalized \<or>
                  contains ''nodename nor servname'' normalized then ''dns_error''
                else if contains ''mqtt connect failed with rc='' normalized then ''mqtt_connect_failed''
                else ''connection_error'')))"

definition normalize_http_url :: "string \<Rightarrow> string" where
  "normalize_http_url url_value =
     (let normalized = strip url_value in
      if normalized = [] then normalized
      else if \<not> contains ''://'' normalized then ''http://'' @ normalized
      else normalized)"

definition setup_guidance :: "string \<Rightarrow> bool \<Rightarrow> string" where
  "setup_guidance setup_state optional_groups_pending =
     (if optional_groups_pending
      then ''Base setup is complete. Waiting for supervisor reconcile of optional docker groups.''
      else if setup_state = ''unconfigured''
      then ''Select and save broker mode, then apply configuration in setup wizard.''
      else if setup_state = ''configuring''
      then ''Setup is in progress. Complete apply and verification steps.''
      else if setup_state = ''ready'' then ''Setup is complete and runtime is ready.''
      else if setup_state = ''degraded''
      then ''Setup completed but broker connectivity is degraded. Check broker reachability and credentials.''
      else ''Setup is in error state. Review last_error and re-run setup.'')"

definition optional_reconcile_state ::
  "string list \<Rightarrow> string list \<Rightarrow> string list \<Rightarrow> string list \<Rightarrow> string" where
  "optional_reconcile_state requested active starting failed =
     (if requested = [] then ''idle''
      else if failed \<noteq> [] \<and> active = [] then ''failed''
      else if starting \<noteq> [] then ''starting''
      else if sort requested = sort active then ''active''
      else if failed \<noteq> [] \<and> active \<noteq> [] then ''mixed''
      else ''waiting_for_reconcile'')"

definition readiness_state ::
  "string \<Rightarrow> string list \<Rightarrow> string list \<Rightarrow> string list \<Rightarrow> string \<times> bool \<times> string list" where
  "readiness_state setup_state requested active required_groups =
     (if setup_state \<notin> {''ready'', ''degraded''} then (''not_ready'', False, required_groups)
      else
        (let missing = filter (\<lambda>g. g \<notin> set active) required_groups in
         if requested = [] then (''full'', True, [])
         else if missing \<noteq> [] then
           (if active \<noteq> [] then (''partial'', False, missing) else (''not_ready'', False, missing))
         else if sort requested = sort active then (''full'', True, [])
         else (''partial'', False, [])))"

definition direct_access_summary :: "string \<Rightarrow> string \<Rightarrow> string" where
  "direct_access_summary mode direct_mode =
     (if mode = ''embedded'' then ''Embedded broker supports managed direct MQTT credentials.''
      else if direct_mode = ''manual_direct_access''
      then ''External broker direct access is manual-only: operator must provision broker users and record mapping.''
      else ''External broker is gateway-only: direct MQTT credentials are not provisioned.'')"

definition text_or_blank :: "string option \<Rightarrow> string" where
  "text_or_blank v = (case v of None \<Rightarrow> [] | Some s \<Rightarrow> s)"

definition external_signature :: "external_config \<Rightarrow> string" where
  "external_signature x = join ''|''
     [strip (ext_host x), int_to_dec (ext_port x), if ext_tls x then ''1'' else ''0'',
      text_or_blank (ext_username x), text_or_blank (ext_password x)]"

section \<open>The signature\<close>

lemma split_on_join:
  "xs \<noteq> [] \<Longrightarrow> list_all (\<lambda>x. c \<notin> set x) xs \<Longrightarrow> split_on c (join [c] xs) = xs"
  by (induction xs rule: induct_list012) (auto simp: split_on_no_char split_on_prefix_level)

lemma bar_not_in_dec: "CHR ''|'' \<notin> set (int_to_dec i)"
proof -
  have "CHR ''|'' \<notin> digit_chars" by (simp add: digit_chars_def digit_val_def)
  then have "CHR ''|'' \<notin> set (nat_to_dec n)" for n using set_nat_to_dec by blast
  then show ?thesis by (simp add: int_to_dec_def)
qed

text \<open>What the signature is to stand for; a missing name or password counts as an empty one.\<close>

definition connection_fields :: "external_config \<Rightarrow> string \<times> int \<times> bool \<times> string \<times> string" where
  "connection_fields x = (strip (ext_host x), ext_port x, ext_tls x, text_or_blank (ext_username x),
     text_or_blank (ext_password x))"

definition no_bar :: "external_config \<Rightarrow> bool" where
  "no_bar x = (CHR ''|'' \<notin> set (strip (ext_host x)) \<and> CHR ''|'' \<notin> set (text_or_blank (ext_username x)))"

lemma external_signature_parts:
  assumes "no_bar x"
  shows "split_on (CHR ''|'') (external_signature x) =
    [strip (ext_host x), int_to_dec (ext_port x), if ext_tls x then ''1'' else ''0'',
      text_or_blank (ext_username x)] @ split_on (CHR ''|'') (text_or_blank (ext_password x))"
  using assms bar_not_in_dec [of "ext_port x"]
  by (simp add: external_signature_def no_bar_def split_on_prefix_level)

section \<open>Properties\<close>

text \<open>
  C40: the signature of a tested connection fits no other connection, as long as the host and the
  user name have no bar in them: equal signatures mean equal host (stripped), port, TLS flag,
  user name and password.
\<close>

theorem external_signature_injective:
  assumes "no_bar x" and "no_bar y"
  shows "external_signature x = external_signature y \<longleftrightarrow> connection_fields x = connection_fields y"
proof
  assume "connection_fields x = connection_fields y"
  then show "external_signature x = external_signature y"
    by (simp add: connection_fields_def external_signature_def)
next
  assume eq: "external_signature x = external_signature y"
  have "[strip (ext_host x), int_to_dec (ext_port x), if ext_tls x then ''1'' else ''0'',
      text_or_blank (ext_username x)] @ split_on (CHR ''|'') (text_or_blank (ext_password x)) =
    [strip (ext_host y), int_to_dec (ext_port y), if ext_tls y then ''1'' else ''0'',
      text_or_blank (ext_username y)] @ split_on (CHR ''|'') (text_or_blank (ext_password y))"
    unfolding external_signature_parts [OF assms(1), symmetric] external_signature_parts [OF assms(2), symmetric]
      eq ..
  then have "strip (ext_host x) = strip (ext_host y)" "ext_port x = ext_port y" "ext_tls x = ext_tls y"
    "text_or_blank (ext_username x) = text_or_blank (ext_username y)"
    "split_on (CHR ''|'') (text_or_blank (ext_password x)) = split_on (CHR ''|'') (text_or_blank (ext_password y))"
    by (simp_all add: int_to_dec_inject split: if_splits)
  then show "connection_fields x = connection_fields y"
    unfolding connection_fields_def by (metis join_split_on)
qed

definition tested_broker :: external_config where
  "tested_broker = \<lparr>ext_host = ''mq'', ext_port = 1883, ext_tls = False, ext_username = Some ''u'',
     ext_password = Some ''p|q''\<rparr>"

lemma external_signature_injective_witness:
  "external_signature tested_broker \<noteq> external_signature (tested_broker\<lparr>ext_port := 8883\<rparr>)"
  using external_signature_injective [of tested_broker "tested_broker\<lparr>ext_port := 8883\<rparr>"]
  by (simp add: no_bar_def tested_broker_def text_or_blank_def connection_fields_def strip_id stripped_def is_space_def)

text \<open>With a bar in the user name an untested pair of credentials has the signature of a tested one.\<close>

lemma signature_confuses_credentials:
  "external_signature tested_broker =
     external_signature (tested_broker\<lparr>ext_username := Some ''u|p'', ext_password := Some ''q''\<rparr>)"
  by code_simp

text \<open>
  readiness: the service is reported fully ready exactly when setup is complete and either no
  optional group is requested or all required groups are active and the active groups are,
  in some order, the requested ones; whatever is missing is a required group that is not
  active.
\<close>

theorem readiness_state_spec:
  assumes "readiness_state setup_state requested active required = (state, full, missing)"
  shows "(full \<longleftrightarrow> setup_state \<in> {''ready'', ''degraded''} \<and>
      (requested = [] \<or> set required \<subseteq> set active \<and> mset requested = mset active)) \<and>
    (state = ''full'' \<longleftrightarrow> full) \<and>
    set missing \<subseteq> set required \<and>
    (setup_state \<in> {''ready'', ''degraded''} \<longrightarrow> set missing \<inter> set active = {})"
proof -
  have s: "sort requested = sort active \<longleftrightarrow> mset requested = mset active"
    by (metis mset_sort properties_for_sort sorted_sort)
  have m: "filter (\<lambda>g. g \<notin> set active) required = [] \<longleftrightarrow> set required \<subseteq> set active"
    by (auto simp: filter_empty_conv)
  show ?thesis
    using assms unfolding readiness_state_def Let_def s m
    by (auto simp: m split: if_splits)
qed

lemma readiness_state_spec_witness:
  "\<not> fst (snd (readiness_state ''ready'' [''broker''] [] [''broker'']))"
proof -
  obtain state full missing where r: "readiness_state ''ready'' [''broker''] [] [''broker''] = (state, full, missing)"
    by (metis prod.collapse)
  from readiness_state_spec [OF r] r show ?thesis by simp
qed

end
