(* ===== verification/Install_Api.thy ===== *)
theory Install_Api
  imports Install_Rules App_State
begin

text \<open>
  app/api/install_workflow.py: the install endpoints. A handler is an \<open>app_run\<close>: it changes
  the application's state and returns a response or raises.
\<close>

section \<open>The supported optional groups\<close>

definition supported_group_map :: "docker_group list \<Rightarrow> dict" where
  "supported_group_map groups =
     foldl (\<lambda>d g. dset (dg_id g) (JObj
       [(''name'', JStr (dg_name g)), (''compose_file'', JStr (dg_compose_file g)),
        (''setup_required'', JBool (dg_setup_required g)), (''depends_on'', name_list (dg_depends_on g)),
        (''default_enabled'', JBool (dg_default_enabled g))]) d) [] groups"

definition supported_groups :: "app_runtime \<Rightarrow> dict" where
  "supported_groups ar = supported_group_map (mf_groups (ar_manifest ar))"

definition supported_ids :: "app_runtime \<Rightarrow> string set" where
  "supported_ids ar = set (map dg_id (mf_groups (ar_manifest ar)))"

section \<open>Status\<close>

record install_status =
  is_mode :: string
  is_external_direct_access_mode :: string
  is_direct_access_summary :: string
  is_setup_state :: string
  is_setup_guidance :: string
  is_configured :: bool
  is_verified :: bool
  is_registered_to_core :: bool
  is_direct_mqtt_supported :: bool
  is_docker_sock_available :: bool
  is_broker_running :: bool
  is_mqtt_connected :: bool
  is_last_error :: "string option"
  is_groups_supported :: "docker_group list"
  is_groups_requested :: "string list"
  is_groups_active :: "string list"
  is_groups_starting :: "string list"
  is_groups_failed :: "string list"
  is_pending_reconcile :: bool
  is_deployment_mode :: string
  is_reconcile_state :: string
  is_readiness_state :: string
  is_readiness_full :: bool
  is_required_groups :: "string list"
  is_missing_groups :: "string list"

text \<open>The setup state that is shown, from the session's state and flags and the health.\<close>

definition shown_setup_state :: "bool \<Rightarrow> string \<Rightarrow> bool \<Rightarrow> bool \<Rightarrow> string" where
  "shown_setup_state configured setup_state connected has_error =
     (if \<not> configured \<and> setup_state \<noteq> ''configuring'' then ''unconfigured''
      else if setup_state = ''ready'' \<and> (\<not> connected \<or> has_error) then ''degraded''
      else if setup_state \<notin> {''unconfigured'', ''configuring'', ''ready'', ''error'', ''degraded''} then ''error''
      else setup_state)"

definition group_required :: "dict \<Rightarrow> string \<Rightarrow> bool" where
  "group_required supported g = truthy (dget_or (as_dict (dget supported g)) ''setup_required'' (JBool False))"

text \<open>A response field that holds a string or \<open>None\<close>.\<close>

definition opt_str_field :: "json \<Rightarrow> string option res" where
  "opt_str_field v = (case opt_str_of v of Some s \<Rightarrow> Inr s | None \<Rightarrow> Inl (ValueError ''validation error''))"

definition status_error :: "app_runtime \<Rightarrow> app_world \<Rightarrow> dict \<Rightarrow> json" where
  "status_error ar w install_state =
     py_or (opt_json (snap_last_error (snapshot (ar_monotonic_ns ar) (cw_health (aw_gw w)))))
       (dget install_state ''last_error'')"

text \<open>The response for a session, with the two fields that the response model may reject.\<close>

definition status_view :: "app_runtime \<Rightarrow> app_world \<Rightarrow> dict \<Rightarrow> string \<Rightarrow> string option \<Rightarrow> install_status" where
  "status_view ar w install_state mode shown_error =
     (let env = ar_env ar;
          config = gw_config (aw_gw w);
          health = snapshot (ar_monotonic_ns ar) (cw_health (aw_gw w));
          setup_state0 = py_str (py_or (dget install_state ''setup_state'') (JStr ''unconfigured''));
          embedded = (dget install_state ''mode'' = JStr ''embedded'');
          running = (if embedded then broker_running (ar_docker ar) DEFAULT_CONTAINER_NAME else False);
          direct0 = py_str (py_or (dget install_state ''external_direct_access_mode'') (JStr ''gateway_only''));
          direct = (if direct0 \<notin> set direct_access_modes then ''gateway_only'' else direct0);
          configured = truthy (dget install_state ''configured'');
          setup_state = shown_setup_state configured setup_state0 (snap_mqtt_connected health)
            (truthy (status_error ar w install_state));
          keep = filter (\<lambda>g. g \<in> supported_ids ar);
          feedback = get_runtime_optional_groups_feedback env config;
          runtime_requested = keep (gf_requested feedback);
          requested = (if runtime_requested \<noteq> [] then runtime_requested
            else keep (get_desired_optional_groups env config));
          active = keep (gf_active feedback);
          starting = keep (gf_starting feedback);
          failed = keep (gf_failed feedback);
          pending = (case gf_pending_reconcile feedback of Some b \<Rightarrow> b | None \<Rightarrow> sort requested \<noteq> sort active);
          required = filter (group_required (supported_groups ar)) requested;
          ready = readiness_state setup_state requested active required in
      \<lparr>is_mode = mode, is_external_direct_access_mode = direct,
        is_direct_access_summary = direct_access_summary mode direct,
        is_setup_state = setup_state, is_setup_guidance = setup_guidance setup_state pending,
        is_configured = configured, is_verified = truthy (dget install_state ''verified''),
        is_registered_to_core = truthy (dget install_state ''registered_to_core''),
        is_direct_mqtt_supported = (embedded \<or>
          (dget install_state ''mode'' = JStr ''external'' \<and> direct = ''manual_direct_access'')),
        is_docker_sock_available = docker_socket_available (ar_docker ar),
        is_broker_running = running, is_mqtt_connected = snap_mqtt_connected health,
        is_last_error = shown_error, is_groups_supported = mf_groups (ar_manifest ar),
        is_groups_requested = requested, is_groups_active = active, is_groups_starting = starting,
        is_groups_failed = failed, is_pending_reconcile = pending,
        is_deployment_mode = (if active \<noteq> [] then ''expanded'' else ''base_only''),
        is_reconcile_state = optional_reconcile_state requested active starting failed,
        is_readiness_state = fst ready, is_readiness_full = fst (snd ready), is_required_groups = required,
        is_missing_groups = snd (snd ready)\<rparr>)"

definition get_status :: "app_runtime \<Rightarrow> app_world \<Rightarrow> install_status res" where
  "get_status ar w =
     res_bind (read_session ar w) (\<lambda>install_state.
     res_bind (case dget install_state ''mode'' of
         JStr m \<Rightarrow> if m \<in> set install_modes then Inr m else Inl (ValueError ''validation error'')
       | _ \<Rightarrow> Inl (ValueError ''validation error'')) (\<lambda>mode.
     res_bind (opt_str_field (status_error ar w install_state)) (\<lambda>shown_error.
     Inr (status_view ar w install_state mode shown_error))))"

section \<open>Optional groups\<close>

record group_selection =
  gs_requested :: "string list"
  gs_pending :: bool

text \<open>\<open>[str(g) for g in v if str(g)]\<close>.\<close>

definition nonempty_texts :: "json \<Rightarrow> string list res" where
  "nonempty_texts v = res_bind (iterate v) (\<lambda>vs. Inr (filter (\<lambda>s. s \<noteq> []) (map py_str vs)))"

definition select_groups :: "app_runtime \<Rightarrow> string list \<Rightarrow> dict app_run" where
  "select_groups ar ids =
     on_config (set_requested_optional_groups (ar_env ar) (ar_time_ns ar) ids (supported_groups ar))"

definition set_optional_groups :: "app_runtime \<Rightarrow> string list \<Rightarrow> group_selection app_run" where
  "set_optional_groups ar ids =
     run_bind (run_catch (select_groups ar ids)
       (\<lambda>e. case e of RuntimeError m \<Rightarrow> http_error 409 m | _ \<Rightarrow> run_raise e)) (\<lambda>updated.
     run_bind (run_res (nonempty_texts (dget_or updated ''optional_groups_requested'' (JList [])))) (\<lambda>requested.
     run_bind (run_get (\<lambda>w. get_runtime_optional_groups_feedback (ar_env ar) (gw_config (aw_gw w)))) (\<lambda>feedback.
     let active = filter (\<lambda>s. s \<noteq> []) (gf_active feedback) in
     run_return \<lparr>gs_requested = requested,
       gs_pending = (case gf_pending_reconcile feedback of Some b \<Rightarrow> b | None \<Rightarrow> sort requested \<noteq> sort active)\<rparr>)))"

definition reset_optional_groups :: "app_runtime \<Rightarrow> group_selection app_run" where
  "reset_optional_groups ar = set_optional_groups ar []"

section \<open>Mode and connection test\<close>

record mode_response =
  mr_mode :: string
  mr_direct_mqtt_supported :: bool
  mr_external_direct_access_mode :: string

definition set_mode :: "app_runtime \<Rightarrow> string \<Rightarrow> string \<Rightarrow> mode_response app_run" where
  "set_mode ar mode direct =
     run_bind (on_config (set_selected_mode (ar_env ar) mode direct)) (\<lambda>updated.
     let direct' = py_str (py_or (dget updated ''external_direct_access_mode'') (JStr ''gateway_only'')) in
     if direct' \<in> set direct_access_modes then
       run_return \<lparr>mr_mode = mode,
         mr_direct_mqtt_supported = (mode = ''embedded'' \<or>
           (mode = ''external'' \<and> dget updated ''external_direct_access_mode'' = JStr ''manual_direct_access'')),
         mr_external_direct_access_mode = direct'\<rparr>
     else run_raise (ValueError ''validation error''))"

record test_response =
  te_ok :: bool
  te_diagnostic_code :: string
  te_reason :: "string option"

text \<open>This endpoint takes no claims: it has no scope.\<close>

definition test_external :: "app_runtime \<Rightarrow> external_config \<Rightarrow> test_response app_run" where
  "test_external ar payload =
     (let (connect_error, events) = ar_test ar (ext_host payload) (ext_port payload) (ext_tls payload)
            (ext_username payload) (ext_password payload);
          (ok, reason) = test_external_connection (ext_host payload) (ext_port payload) connect_error events;
          diagnostic_code = diagnostic_code_from_reason ok reason;
          signature = external_signature payload in
      run_bind (update_session ar
        [(''mode'', JStr ''external''), (''setup_state'', JStr ''configuring''), (''verified'', JBool ok),
         (''last_error'', if ok then JNull else opt_json reason), (''external_test_ok'', JBool ok),
         (''external_test_signature'', if ok then JStr signature else JNull)]) (\<lambda>_.
      run_return \<lparr>te_ok = ok, te_diagnostic_code = diagnostic_code, te_reason = reason\<rparr>))"

section \<open>Applying an install\<close>

record apply_response =
  ap_ok :: bool
  ap_warnings :: "string list option"

definition session_failed :: "app_runtime \<Rightarrow> string \<Rightarrow> string \<Rightarrow> dict app_run" where
  "session_failed ar mode text = update_session ar
     [(''mode'', JStr mode), (''setup_state'', JStr ''error''), (''configured'', JBool False),
      (''verified'', JBool False), (''last_error'', JStr text)]"

definition session_ready :: "app_runtime \<Rightarrow> string \<Rightarrow> install_apply_request \<Rightarrow> dict app_run" where
  "session_ready ar mode payload = update_session ar
     [(''mode'', JStr mode), (''setup_state'', JStr ''ready''), (''configured'', JBool True),
      (''verified'', JBool True),
      (''external_direct_access_mode'', JStr (iar_external_direct_access_mode payload)), (''last_error'', JNull)]"

text \<open>\<open>except ValueError\<close> with status 400, \<open>except Exception\<close> with status 500.\<close>

definition failing_with :: "app_runtime \<Rightarrow> string \<Rightarrow> string \<Rightarrow> exn \<Rightarrow> 'a app_run" where
  "failing_with ar mode text e =
     (if is_value_error e
      then run_bind (session_failed ar mode (exn_text ar e)) (\<lambda>_. http_error 400 (exn_text ar e))
      else run_bind (session_failed ar mode text) (\<lambda>_. http_error 500 text))"

definition require_tested :: "app_runtime \<Rightarrow> install_apply_request \<Rightarrow> unit app_run" where
  "require_tested ar payload =
     run_bind (\<lambda>w. (read_session ar w, w)) (\<lambda>install_state.
     let expected_signature = dget install_state ''external_test_signature'';
         tested_ok = truthy (dget install_state ''external_test_ok'') in
     case iar_external payload of
       None \<Rightarrow> http_error 400 ''external config is required when mode is external''
     | Some request_external \<Rightarrow>
         if \<not> tested_ok \<or> expected_signature \<noteq> JStr (external_signature request_external) then
           http_error 400 ''External config must pass /api/install/test-external before apply.''
         else run_return ())"

text \<open>The tail of \<open>apply_install\<close> in embedded mode.\<close>

definition apply_embedded :: "app_runtime \<Rightarrow> install_apply_request \<Rightarrow> apply_response app_run" where
  "apply_embedded ar payload =
     run_bind (run_catch (on_broker (apply_embedded_runtime (ar_env ar) (ar_host ar) payload))
       (failing_with ar ''embedded'' ''Failed to apply embedded broker runtime'')) (\<lambda>(ok, reason).
     if ok then
       run_bind (run_get (\<lambda>w. get_desired_optional_groups (ar_env ar) (gw_config (aw_gw w)))) (\<lambda>requested_groups.
       run_bind
         (if ''broker'' \<notin> set requested_groups then
            run_bind (run_catch (select_groups ar (requested_groups @ [''broker'']))
              (\<lambda>e. case e of
                   RuntimeError m \<Rightarrow> run_bind (session_failed ar ''embedded'' m) (\<lambda>_. http_error 409 m)
                 | _ \<Rightarrow> run_raise e)) (\<lambda>_. run_return ())
          else run_return ()) (\<lambda>_.
       run_bind (on_gw (reload_mqtt_service ar)) (\<lambda>_.
       run_bind (session_ready ar ''embedded'' payload) (\<lambda>_.
       run_return \<lparr>ap_ok = True, ap_warnings = None\<rparr>))))
     else run_return \<lparr>ap_ok = False,
       ap_warnings = (case reason of Some r \<Rightarrow> if r \<noteq> [] then Some [r] else None | None \<Rightarrow> None)\<rparr>)"

definition apply_install :: "app_runtime \<Rightarrow> install_apply_request \<Rightarrow> apply_response app_run" where
  "apply_install ar payload =
     (let mode = iar_mode payload in
      run_bind (update_session ar
        [(''mode'', JStr mode), (''setup_state'', JStr ''configuring''), (''configured'', JBool False),
         (''verified'', JBool False),
         (''external_direct_access_mode'', JStr (iar_external_direct_access_mode payload)),
         (''last_error'', JNull)]) (\<lambda>_.
      run_bind (if mode = ''external'' \<and> \<not> iar_allow_unvalidated payload then require_tested ar payload
        else run_return ()) (\<lambda>_.
      run_bind (run_catch (on_config (apply_install_config (ar_env ar) payload))
        (failing_with ar mode ''Failed to persist install config'')) (\<lambda>_.
      if mode = ''external'' then
        run_bind (on_gw (reload_mqtt_service ar)) (\<lambda>_.
        run_bind (session_ready ar ''external'' payload) (\<lambda>_.
        run_return \<lparr>ap_ok = True, ap_warnings = None\<rparr>))
      else apply_embedded ar payload))))"

section \<open>Core\<close>

definition get_core_base_url_response :: "app_runtime \<Rightarrow> app_world \<Rightarrow> string res" where
  "get_core_base_url_response ar w = get_core_base_url (ar_env ar) (gw_config (aw_gw w))"

definition set_core_base_url_request :: "app_runtime \<Rightarrow> string \<Rightarrow> string app_run" where
  "set_core_base_url_request ar url =
     (let normalized = normalize_http_url url in
      if normalized = [] then http_error 400 ''core_base_url is required''
      else run_catch (on_config (set_core_base_url (ar_env ar) (ar_time_ns ar) normalized))
        (\<lambda>e. case e of
             RuntimeError m \<Rightarrow> http_error 409 m
           | _ \<Rightarrow> if is_value_error e then http_error 400 (exn_text ar e) else run_raise e))"

record core_registry_request =
  cr_base_url :: string
  cr_core_base_url :: "string option"
  cr_addon_id :: string
  cr_auth_token :: "string option"

definition on_core :: "(http_request list, 'a) run \<Rightarrow> 'a app_run" where
  "on_core = run_lift aw_core (\<lambda>reqs w. w\<lparr>aw_core := reqs\<rparr>)"

definition opt_or :: "string option \<Rightarrow> string option \<Rightarrow> string option" where
  "opt_or a b = (case a of Some s \<Rightarrow> if s \<noteq> [] then a else b | None \<Rightarrow> b)"

text \<open>
  The status code of the response. An address of Core without a type, and a body that cannot
  be read, raise out of the endpoint.
\<close>

definition register_core :: "app_runtime \<Rightarrow> core_registry_request \<Rightarrow> int option app_run" where
  "register_core ar payload =
     run_bind (case cr_core_base_url payload of
         Some u \<Rightarrow> if u \<noteq> [] then run_return u else (\<lambda>w. (get_core_base_url_response ar w, w))
       | None \<Rightarrow> (\<lambda>w. (get_core_base_url_response ar w, w))) (\<lambda>url.
     let core_base_url = normalize_http_url url;
         addon_base_url = normalize_http_url (cr_base_url payload);
         addon_id = strip (cr_addon_id payload);
         auth_token = opt_or (cr_auth_token payload) (ar_env ar ''CORE_ADMIN_TOKEN'') in
     if core_base_url = [] then http_error 400 ''core_base_url is required (or set CORE_BASE_URL)''
     else if addon_base_url = [] then http_error 400 ''base_url is required''
     else
       run_bind (on_core (register_addon_endpoint (ar_http ar) (ar_decode ar) core_base_url addon_id addon_base_url
         (mf_name (ar_manifest ar)) (mf_version (ar_manifest ar)) auth_token)) (\<lambda>(ok, status_code, reason).
       if ok then
         run_bind (on_core (verify_addon_endpoint (ar_http ar) (ar_decode ar) core_base_url addon_id auth_token)) (\<lambda>_.
         run_bind (update_session ar [(''registered_to_core'', JBool True), (''last_error'', JNull)]) (\<lambda>_.
         run_return status_code))
       else
         run_bind (update_session ar [(''registered_to_core'', JBool False),
           (''last_error'', JStr (reason_or reason ''Core registry request failed''))]) (\<lambda>_.
         if status_code \<in> {Some 401, Some 403} then http_error 401 ''Core authentication failed''
         else if status_code = None then http_error 502 ''Core is unreachable''
         else http_error 502 (reason_or reason ''Core registry request failed''))))"

definition reset_install_state :: "app_runtime \<Rightarrow> string app_run" where
  "reset_install_state ar =
     run_bind (on_config (reset_install_session_state ''external'')) (\<lambda>_. run_return ''external'')"

end
