(* ===== verification/Install_Facts.thy ===== *)
theory Install_Facts
  imports Install_Api
begin

text \<open>
  What the install endpoints do to the rest of the application: the test of a connection and
  an install that is not finished stop all publishing, an external broker is only taken over
  once it has been tested, and a finished install leaves the service running on it.
\<close>

section \<open>The session as the endpoints see it\<close>

text \<open>A field of the session, read back after an update; the two that other state overrides apart.\<close>

lemma session_updated:
  assumes "env_ok env" and "config_ok st" and "session_update_ok u"
  obtains s0 s s' where "get_install_session_state env st = Inr s0"
    "update_install_session_state env u st = (Inr s, save_install_session_state s st)"
    "get_install_session_state env (save_install_session_state s st) = Inr s'"
    "config_ok (save_install_session_state s st)"
    "\<And>k. k \<in> set session_keys \<Longrightarrow> k \<noteq> ''mode'' \<Longrightarrow> k \<noteq> ''optional_groups_requested'' \<Longrightarrow>
      dget s' k = sort_keys (if dhas u k then dget u k else dget s0 k)"
proof -
  obtain d raw where d: "load_overrides st = Inr d" "overrides_ok d"
    and raw: "load_install_session_state st = Inr (JObj raw)"
    using assms(2) by (rule config_okE)
  obtain c s0 where c: "get_install_state env st = Inr c" and s0: "get_install_session_state env st = Inr s0"
    using config_total [OF assms(1,2)] by blast
  have run: "update_install_session_state env u st =
      (Inr (merge_session u s0), save_install_session_state (merge_session u s0) st)"
    by (simp add: update_install_session_state_def s0 Let_def)
  have upd: "fst (update_install_session_state env u st) = Inr (merge_session u s0)" by (simp add: run)
  note rd = read_after_update [OF upd assms(3) raw c]
  have fst0: "map fst s0 = session_keys" using rd(2) s0 by auto
  have fst1: "map fst (merge_session u s0) = session_keys" by (rule merge_session_fields(1) [OF fst0])
  have ok: "config_ok (save_install_session_state (merge_session u s0) st)"
    using config_ok_update_session [OF assms(2), of env u] by (simp add: run)
  obtain s' where s': "get_install_session_state env (save_install_session_state (merge_session u s0) st) = Inr s'"
    using config_total [OF assms(1) ok] by blast
  have "dget s' k = sort_keys (if dhas u k then dget u k else dget s0 k)"
    if "k \<in> set session_keys" "k \<noteq> ''mode''" "k \<noteq> ''optional_groups_requested''" for k
    using rd(1) [unfolded run snd_conv s'] that merge_session_fields(2) [OF fst0, of u k]
    by (auto simp: Let_def dget_stored_session [OF fst1] split: if_splits)
  from that [OF s0 run s' ok this] show thesis .
qed

lemma on_config_simps:
  "on_config m w = (fst (m (gw_config (aw_gw w))), w\<lparr>aw_gw := (aw_gw w)\<lparr>gw_config := snd (m (gw_config (aw_gw w)))\<rparr>\<rparr>)"
  by (simp add: on_config_def run_lift_def split_beta)

lemma on_config_result:
  "m (gw_config (aw_gw w)) = (r, c) \<Longrightarrow> on_config m w = (r, w\<lparr>aw_gw := (aw_gw w)\<lparr>gw_config := c\<rparr>\<rparr>)"
  by (simp add: on_config_simps)

lemma on_gw_result: "m (aw_gw w) = (r, g) \<Longrightarrow> on_gw m w = (r, w\<lparr>aw_gw := g\<rparr>)"
  by (simp add: on_gw_def run_lift_def)

lemma on_broker_result: "m (aw_broker w) = (r, b) \<Longrightarrow> on_broker m w = (r, w\<lparr>aw_broker := b\<rparr>)"
  by (simp add: on_broker_def run_lift_def)

lemma run_bind_Inr: "m w = (Inr x, w') \<Longrightarrow> run_bind m f w = f x w'"
  by (simp add: run_bind_def)

lemma run_bind_Inl: "m w = (Inl e, w') \<Longrightarrow> run_bind m f w = (Inl e, w')"
  by (simp add: run_bind_def)

lemma run_catch_Inr: "m w = (Inr x, w') \<Longrightarrow> run_catch m h w = (Inr x, w')"
  by (simp add: run_catch_def)

lemmas run_steps = run_bind_Inr run_bind_Inl run_catch_Inr

lemma save_install_config [simp]: "cs_config (save_install_session_state s st) = cs_config st"
  by (simp add: save_install_session_state_def)

text \<open>The same for \<open>update_session\<close>: the new state differs in the stored session only.\<close>

definition app_config :: "app_world \<Rightarrow> config_store" where
  "app_config w = gw_config (aw_gw w)"

definition with_config :: "app_world \<Rightarrow> config_store \<Rightarrow> app_world" where
  "with_config w c = w\<lparr>aw_gw := (aw_gw w)\<lparr>gw_config := c\<rparr>\<rparr>"

lemma with_config_simps [simp]:
  "app_config (with_config w c) = c"
  "with_config (with_config w c) c' = with_config w c'"
  "aw_broker (with_config w c) = aw_broker w"
  "aw_core (with_config w c) = aw_core w"
  "aw_restarts (with_config w c) = aw_restarts w"
  "gw_config (aw_gw (with_config w c)) = c"
  "gw_service (aw_gw (with_config w c)) = gw_service (aw_gw w)"
  "gw_regs (aw_gw (with_config w c)) = gw_regs (aw_gw w)"
  "cw_policy (aw_gw (with_config w c)) = cw_policy (aw_gw w)"
  "cw_outbox (aw_gw (with_config w c)) = cw_outbox (aw_gw w)"
  by (simp_all add: app_config_def with_config_def)

lemma update_session_step:
  assumes "env_ok (ar_env ar)" and "config_ok (app_config w)" and "session_update_ok u"
  obtains s0 s s' c where "read_session ar w = Inr s0" "update_session ar u w = (Inr s, with_config w c)"
    "read_session ar (with_config w c) = Inr s'" "config_ok c"
    "cs_config c = cs_config (app_config w)" "cs_fs c = cs_fs (app_config w)" "cs_mounts c = cs_mounts (app_config w)"
    "\<And>k. k \<in> set session_keys \<Longrightarrow> k \<noteq> ''mode'' \<Longrightarrow> k \<noteq> ''optional_groups_requested'' \<Longrightarrow>
      dget s' k = sort_keys (if dhas u k then dget u k else dget s0 k)"
proof -
  obtain s0 s s' where h: "get_install_session_state (ar_env ar) (app_config w) = Inr s0"
    "update_install_session_state (ar_env ar) u (app_config w) = (Inr s, save_install_session_state s (app_config w))"
    "get_install_session_state (ar_env ar) (save_install_session_state s (app_config w)) = Inr s'"
    "config_ok (save_install_session_state s (app_config w))"
    "\<And>k. k \<in> set session_keys \<Longrightarrow> k \<noteq> ''mode'' \<Longrightarrow> k \<noteq> ''optional_groups_requested'' \<Longrightarrow>
      dget s' k = sort_keys (if dhas u k then dget u k else dget s0 k)"
    using session_updated [OF assms] by blast
  have "update_session ar u w = (Inr s, with_config w (save_install_session_state s (app_config w)))"
    unfolding update_session_def with_config_def
    by (rule on_config_result) (use h(2) in \<open>simp only: app_config_def\<close>)
  with that [of s0 s "save_install_session_state s (app_config w)" s'] h show thesis
    by (simp add: read_session_def app_config_def [symmetric])
qed

text \<open>\<open>setup_complete\<close> of a session with a known state.\<close>

lemma setup_complete_read:
  assumes "read_session ar w = Inr s" and "dget s ''setup_state'' = JStr state"
  shows "setup_complete (ar_api ar) (aw_gw w) = Inr (state \<in> {''ready'', ''degraded''})"
  using assms by (simp add: setup_complete_def read_session_def ar_env_def)

section \<open>Testing a connection\<close>

text \<open>
  Testing an external connection, whatever it answers, on a readable configuration, leaves the
  session \<open>configuring\<close> and the configuration as it was.
\<close>

lemma test_external_closes:
  assumes "env_ok (ar_env ar)" and "config_ok (app_config w)"
  obtains response c s where "test_external ar payload w = (Inr response, with_config w c)" "config_ok c"
    "cs_config c = cs_config (app_config w)" "read_session ar (with_config w c) = Inr s"
    "dget s ''setup_state'' = JStr ''configuring''"
proof -
  obtain connect_error events where t: "ar_test ar (ext_host payload) (ext_port payload) (ext_tls payload)
      (ext_username payload) (ext_password payload) = (connect_error, events)" by fastforce
  obtain ok reason where r: "test_external_connection (ext_host payload) (ext_port payload) connect_error events = (ok, reason)"
    by fastforce
  let ?u = "[(''mode'', JStr ''external''), (''setup_state'', JStr ''configuring''), (''verified'', JBool ok),
         (''last_error'', if ok then JNull else opt_json reason), (''external_test_ok'', JBool ok),
         (''external_test_signature'', if ok then JStr (external_signature payload) else JNull)]"
  have "session_update_ok ?u" by (simp add: session_update_ok_def session_flags_def session_names_def)
  then obtain s0 s s' c where "read_session ar w = Inr s0"
    and u: "update_session ar ?u w = (Inr s, with_config w c)"
    and s': "read_session ar (with_config w c) = Inr s'" and "config_ok c"
    and c: "cs_config c = cs_config (app_config w)" "cs_fs c = cs_fs (app_config w)" "cs_mounts c = cs_mounts (app_config w)"
    and rd: "\<And>k. k \<in> set session_keys \<Longrightarrow> k \<noteq> ''mode'' \<Longrightarrow> k \<noteq> ''optional_groups_requested'' \<Longrightarrow>
      dget s' k = sort_keys (if dhas ?u k then dget ?u k else dget s0 k)"
    by (rule update_session_step [OF assms]) (rule that)
  have "dget s' ''setup_state'' = JStr ''configuring''"
    by (simp add: rd session_keys_def dhas_def)
  moreover have "test_external ar payload w =
      (Inr \<lparr>te_ok = ok, te_diagnostic_code = diagnostic_code_from_reason ok reason, te_reason = reason\<rparr>, with_config w c)"
    unfolding test_external_def t r Let_def prod.case by (simp add: run_bind_def u run_return_def)
  ultimately show thesis using that s' c(1) \<open>config_ok c\<close> by blast
qed

section \<open>The gate before an external broker\<close>

text \<open>The session says that this connection has been tested.\<close>

definition tested_connection :: "app_runtime \<Rightarrow> app_world \<Rightarrow> external_config \<Rightarrow> bool" where
  "tested_connection ar w x =
     (case read_session ar w of
        Inr s \<Rightarrow> truthy (dget s ''external_test_ok'') \<and>
          dget s ''external_test_signature'' = JStr (external_signature x)
      | Inl _ \<Rightarrow> False)"

lemma sort_keys_eq_JStr [simp]: "sort_keys v = JStr x \<longleftrightarrow> v = JStr x"
  by (cases v) simp_all

definition started_session :: "install_apply_request \<Rightarrow> dict" where
  "started_session payload =
     [(''mode'', JStr (iar_mode payload)), (''setup_state'', JStr ''configuring''), (''configured'', JBool False),
      (''verified'', JBool False),
      (''external_direct_access_mode'', JStr (iar_external_direct_access_mode payload)), (''last_error'', JNull)]"

text \<open>The first step of an apply, and the gate after it.\<close>

lemma apply_started:
  assumes "env_ok (ar_env ar)" and "config_ok (app_config w)"
  obtains s c where "update_session ar (started_session payload) w = (Inr s, with_config w c)" "config_ok c"
    "cs_config c = cs_config (app_config w)" "cs_fs c = cs_fs (app_config w)" "cs_mounts c = cs_mounts (app_config w)"
    "\<And>x. tested_connection ar (with_config w c) x = tested_connection ar w x"
    "\<exists>s. read_session ar (with_config w c) = Inr s"
    "setup_complete (ar_api ar) (aw_gw (with_config w c)) = Inr False"
proof -
  have ok: "session_update_ok (started_session payload)"
    by (simp add: started_session_def session_update_ok_def session_flags_def session_names_def)
  obtain s0 s s' c where h: "read_session ar w = Inr s0"
    "update_session ar (started_session payload) w = (Inr s, with_config w c)"
    "read_session ar (with_config w c) = Inr s'" "config_ok c"
    "cs_config c = cs_config (app_config w)" "cs_fs c = cs_fs (app_config w)" "cs_mounts c = cs_mounts (app_config w)"
    and rd: "\<And>k. k \<in> set session_keys \<Longrightarrow> k \<noteq> ''mode'' \<Longrightarrow> k \<noteq> ''optional_groups_requested'' \<Longrightarrow>
      dget s' k = sort_keys (if dhas (started_session payload) k then dget (started_session payload) k else dget s0 k)"
    by (rule update_session_step [OF assms ok]) (rule that)
  have t: "dget s' ''external_test_ok'' = sort_keys (dget s0 ''external_test_ok'')"
    "dget s' ''external_test_signature'' = sort_keys (dget s0 ''external_test_signature'')"
    "dget s' ''setup_state'' = JStr ''configuring''"
    by (simp_all add: rd session_keys_def) (simp_all add: started_session_def dhas_def)
  then have "tested_connection ar (with_config w c) x = tested_connection ar w x" for x
    by (simp add: tested_connection_def h)
  moreover have "setup_complete (ar_api ar) (aw_gw (with_config w c)) = Inr False"
    using setup_complete_read [OF h(3) t(3)] by simp
  ultimately show thesis using that h by blast
qed

lemma require_tested_result:
  assumes "read_session ar w = Inr s" and "iar_external payload = Some x"
  shows "require_tested ar payload w =
    (if tested_connection ar w x then Inr ()
     else Inl (HTTPException 400 ''External config must pass /api/install/test-external before apply.''), w)"
  using assms
  by (auto simp: require_tested_def run_bind_def tested_connection_def http_error_def run_raise_def run_return_def)

text \<open>
  C14: on a readable configuration, an external broker that is not accepted unvalidated is taken
  over only if the session records a successful test whose signature (host without outer
  white space, port, TLS, user and password, joined by bars) is the one of its connection:
  otherwise the request is refused with status 400, and the configuration, the broker's files
  and the MQTT service are as they were, and nothing is sent. (Other credentials can have the
  signature of the tested ones when the user name has a bar.)
\<close>

theorem untested_external_refused:
  assumes "env_ok (ar_env ar)" and "config_ok (app_config w)"
    and "iar_mode payload = ''external''" and "\<not> iar_allow_unvalidated payload"
    and "iar_external payload = Some x" and "\<not> tested_connection ar w x"
  shows "\<exists>w'. apply_install ar payload w =
      (Inl (HTTPException 400 ''External config must pass /api/install/test-external before apply.''), w') \<and>
    cs_config (app_config w') = cs_config (app_config w) \<and> aw_broker w' = aw_broker w \<and>
    gw_service (aw_gw w') = gw_service (aw_gw w) \<and> cw_outbox (aw_gw w') = cw_outbox (aw_gw w)"
proof -
  obtain s c s' where h: "update_session ar (started_session payload) w = (Inr s, with_config w c)"
    "cs_config c = cs_config (app_config w)" "\<not> tested_connection ar (with_config w c) x"
    "read_session ar (with_config w c) = Inr s'"
    using apply_started [OF assms(1,2), of payload] assms(6) by metis
  have "require_tested ar payload (with_config w c) =
      (Inl (HTTPException 400 ''External config must pass /api/install/test-external before apply.''), with_config w c)"
    using require_tested_result [OF h(4) assms(5)] h(3) by simp
  then have "apply_install ar payload w =
      (Inl (HTTPException 400 ''External config must pass /api/install/test-external before apply.''), with_config w c)"
    unfolding apply_install_def Let_def started_session_def [symmetric]
    using assms(3,4) by (simp add: run_bind_def h(1))
  with h(2) show ?thesis by simp
qed

section \<open>A finished install\<close>

lemma apply_install_config_fs:
  "cs_fs (snd (apply_install_config env r st)) = cs_fs st"
  "cs_mounts (snd (apply_install_config env r st)) = cs_mounts st"
  by (simp_all add: apply_install_config_def update_install_session_state_def save_overrides_def
      save_install_session_state_def Let_def split: sum.splits prod.splits)

text \<open>The QoS that will be effective: the request's, or the one before.\<close>

lemma qos_untouched:
  assumes "install_overrides env r d = Inr d'" and "iar_qos_default r = None"
  shows "dhas d' ''mqtt_qos'' = dhas d ''mqtt_qos'' \<and> dget d' ''mqtt_qos'' = dget d ''mqtt_qos''"
  using assms
  by (auto simp: install_overrides_def connection_overrides_def dset_opt_def res_bind_Inr_iff
      split: if_splits option.splits)

lemma dget_or_cases: "dget_or d k x = (if dhas d k then dget d k else x)"
  by (simp add: dget_or_def dget_def dhas_def split: option.splits)

lemma eff_qos_read:
  assumes "get_effective_config env False st = Inr eff" and "load_overrides st = Inr d"
  shows "\<exists>q0. env_int env ''MQTT_QOS'' ''1'' = Inr q0 \<and> py_int (dget_or d ''mqtt_qos'' (JInt q0)) = Inr (eff_qos eff)"
  using assms(1) unfolding get_effective_config_def assms(2) res_bind_simps res_bind_Inr_iff Let_def by auto

lemma applied_qos:
  assumes "env_ok env" and "config_ok st" and "install_apply_request_ok r"
    and "fst (apply_install_config env r st) = Inr eff"
  shows "case iar_qos_default r of Some q \<Rightarrow> eff_qos eff = q
    | None \<Rightarrow> \<exists>eff0. get_effective_config env False st = Inr eff0 \<and> eff_qos eff = eff_qos eff0"
proof (cases "iar_qos_default r")
  case (Some q)
  with applied_install [OF assms(1,2,3)] assms(4) show ?thesis by auto
next
  case None
  obtain d where d: "load_overrides st = Inr d" "overrides_ok d" using assms(2) by (rule config_okE)
  obtain eff0 where eff0: "get_effective_config env False st = Inr eff0"
    using get_effective_config_ok [OF assms(1) d] by blast
  obtain d' st2 where io: "install_overrides env r d = Inr d'" and ld: "load_overrides st2 = Inr (sort_dict d')"
    and eff: "get_effective_config env False st2 = Inr eff"
  proof -
    obtain d' where io: "install_overrides env r d = Inr d'"
      using install_overrides_connection [OF assms(3), of env d] by blast
    obtain s0 st2 where u: "update_install_session_state env
        [(''mode'', JStr (iar_mode r)), (''configured'', JBool True), (''last_error'', JNull)] (save_overrides d' st) =
        (s0, st2)" by fastforce
    have "load_overrides st2 = Inr (sort_dict d')"
      using u by (auto simp: update_install_session_state_def Let_def split: sum.splits)
    moreover have "get_effective_config env False st2 = Inr eff"
      using assms(4) u by (auto simp: apply_install_config_def d(1) io split: if_splits sum.splits)
    ultimately show thesis using that io by blast
  qed
  have dist: "distinct (map fst d')" using install_overrides_ok [OF io d(2)] by (simp add: overrides_ok_def)
  have "eff_qos eff = eff_qos eff0"
  proof -
    obtain q0 where q: "env_int env ''MQTT_QOS'' ''1'' = Inr q0"
      "py_int (dget_or (sort_dict d') ''mqtt_qos'' (JInt q0)) = Inr (eff_qos eff)"
      using eff_qos_read [OF eff ld] by blast
    have q': "py_int (dget_or d ''mqtt_qos'' (JInt q0)) = Inr (eff_qos eff0)"
      using eff_qos_read [OF eff0 d(1)] q(1) by simp
    have "py_int (dget_or (sort_dict d') ''mqtt_qos'' (JInt q0)) = py_int (dget_or d ''mqtt_qos'' (JInt q0))"
      unfolding dget_or_sort_dict [OF dist] dget_or_cases [of d] using qos_untouched [OF io None]
      by (simp add: py_int_sort_keys)
    with q(2) q' show ?thesis by simp
  qed
  then show ?thesis using eff0 None by simp
qed

text \<open>That QoS is one of MQTT's.\<close>

definition qos_will_be_valid :: "env \<Rightarrow> install_apply_request \<Rightarrow> config_store \<Rightarrow> bool" where
  "qos_will_be_valid env r st =
     (case iar_qos_default r of
        Some q \<Rightarrow> 0 \<le> q \<and> q \<le> 2
      | None \<Rightarrow> (case get_effective_config env False st of
          Inr eff \<Rightarrow> 0 \<le> eff_qos eff \<and> eff_qos eff \<le> 2 | Inl _ \<Rightarrow> False))"

lemma qos_will_be_valid_cong:
  "cs_config st' = cs_config st \<Longrightarrow> qos_will_be_valid env r st' = qos_will_be_valid env r st"
proof -
  assume "cs_config st' = cs_config st"
  then have e: "get_effective_config env False st' = get_effective_config env False st"
    by (intro get_effective_config_cong) (simp add: load_overrides_def)
  show ?thesis unfolding qos_will_be_valid_def e ..
qed

lemma applied_qos_valid:
  assumes "env_ok env" and "config_ok st" and "install_apply_request_ok r"
    and "fst (apply_install_config env r st) = Inr eff" and "qos_will_be_valid env r st"
  shows "0 \<le> eff_qos eff \<and> eff_qos eff \<le> 2"
  using applied_qos [OF assms(1-4)] assms(5) by (auto simp: qos_will_be_valid_def split: option.splits)

lemma apply_config_step:
  assumes "env_ok (ar_env ar)" and "config_ok (app_config w)" and "install_apply_request_ok payload"
  obtains eff c where "on_config (apply_install_config (ar_env ar) payload) w = (Inr eff, with_config w c)"
    "config_ok c" "get_effective_config (ar_env ar) False c = Inr eff"
    "connection_of eff = requested_connection (ar_env ar) payload"
    "cs_fs c = cs_fs (app_config w)" "cs_mounts c = cs_mounts (app_config w)"
    "qos_will_be_valid (ar_env ar) payload (app_config w) \<Longrightarrow> 0 \<le> eff_qos eff \<and> eff_qos eff \<le> 2"
proof -
  let ?run = "apply_install_config (ar_env ar) payload (app_config w)"
  obtain eff where eff: "fst ?run = Inr eff" "get_effective_config (ar_env ar) False (snd ?run) = Inr eff"
    "connection_of eff = requested_connection (ar_env ar) payload"
    using applied_install [OF assms] by blast
  have "on_config (apply_install_config (ar_env ar) payload) w = (Inr eff, with_config w (snd ?run))"
    unfolding with_config_def by (rule on_config_result) (use eff(1) in \<open>simp add: app_config_def prod_eq_iff\<close>)
  moreover have "config_ok (snd ?run)" by (rule config_ok_step [OF _ assms(2)]) (rule config_step.intros)
  ultimately show thesis using that eff apply_install_config_fs [of "ar_env ar" payload "app_config w"]
      applied_qos_valid [OF assms eff(1)] by blast
qed

lemma session_ready_step:
  assumes "env_ok (ar_env ar)" and "config_ok (app_config w)"
  obtains s c where "session_ready ar mode payload w = (Inr s, with_config w c)" "config_ok c"
    "cs_config c = cs_config (app_config w)" "cs_fs c = cs_fs (app_config w)" "cs_mounts c = cs_mounts (app_config w)"
    "setup_complete (ar_api ar) (aw_gw (with_config w c)) = Inr True"
proof -
  let ?u = "[(''mode'', JStr mode), (''setup_state'', JStr ''ready''), (''configured'', JBool True),
      (''verified'', JBool True),
      (''external_direct_access_mode'', JStr (iar_external_direct_access_mode payload)), (''last_error'', JNull)]"
  have ok: "session_update_ok ?u" by (simp add: session_update_ok_def session_flags_def session_names_def)
  obtain s0 s s' c where h: "read_session ar w = Inr s0" "update_session ar ?u w = (Inr s, with_config w c)"
    "read_session ar (with_config w c) = Inr s'" "config_ok c"
    "cs_config c = cs_config (app_config w)" "cs_fs c = cs_fs (app_config w)" "cs_mounts c = cs_mounts (app_config w)"
    and rd: "\<And>k. k \<in> set session_keys \<Longrightarrow> k \<noteq> ''mode'' \<Longrightarrow> k \<noteq> ''optional_groups_requested'' \<Longrightarrow>
      dget s' k = sort_keys (if dhas ?u k then dget ?u k else dget s0 k)"
    by (rule update_session_step [OF assms ok]) (rule that)
  have "dget s' ''setup_state'' = JStr ''ready''" by (simp add: rd session_keys_def dhas_def)
  from setup_complete_read [OF h(3) this] have "setup_complete (ar_api ar) (aw_gw (with_config w c)) = Inr True" by simp
  with that h show thesis by (simp add: session_ready_def)
qed

text \<open>Reload and the final update, which both modes end with.\<close>

lemma reload_and_ready:
  assumes "env_ok (ar_env ar)" and "config_ok (app_config w)"
    and "get_effective_config (ar_env ar) False (app_config w) = Inr eff"
    and "documented_paho (ar_paho ar)" and "service_starts ar eff"
  obtains w' s where "run_bind (on_gw (reload_mqtt_service ar)) (\<lambda>_. run_bind (session_ready ar mode payload)
      (\<lambda>_. run_return r)) w = (Inr r, w')"
    "gw_service (aw_gw w') = Some s" "ms_config s = eff" "cw_running (aw_gw w')"
    "cw_connection (aw_gw w') = Some (py_str (eff_host eff), eff_port eff)"
    "setup_complete (ar_api ar) (aw_gw w') = Inr True" "aw_broker w' = aw_broker w"
    "cw_outbox (aw_gw w') = cw_outbox (aw_gw w)"
proof -
  obtain s g where g: "reload_mqtt_service ar (aw_gw w) = (Inr (), g)" "gw_service g = Some s" "ms_config s = eff"
    "cw_running g" "cw_connection g = Some (py_str (eff_host eff), eff_port eff)"
    using reload_running [of ar "aw_gw w"] assms(3,4,5) unfolding app_config_def by blast
  let ?w1 = "w\<lparr>aw_gw := g\<rparr>"
  have c1: "app_config ?w1 = app_config w" using reload_keeps [OF g(1)] by (simp add: app_config_def)
  obtain t c where t: "session_ready ar mode payload ?w1 = (Inr t, with_config ?w1 c)"
    "setup_complete (ar_api ar) (aw_gw (with_config ?w1 c)) = Inr True"
    using session_ready_step [OF assms(1), of ?w1] assms(2) unfolding c1 by metis
  have "on_gw (reload_mqtt_service ar) w = (Inr (), ?w1)" by (simp add: on_gw_def run_lift_def g(1))
  then have "run_bind (on_gw (reload_mqtt_service ar)) (\<lambda>_. run_bind (session_ready ar mode payload)
      (\<lambda>_. run_return r)) w = (Inr r, with_config ?w1 c)"
    by (simp add: run_bind_def t(1) run_return_def)
  with that [of "with_config ?w1 c" s] t(2) g reload_keeps [OF g(1)] show thesis
    by (simp add: with_config_def)
qed

text \<open>
  C11: an install of an external broker that the request model accepts, whose connection has been
  tested or is taken unvalidated, on a readable configuration, succeeds when paho takes the
  connection (with a paho as documented: the QoS that will be effective, which is the
  request's or else the one configured before, is 0, 1 or 2; \<open>tls_set\<close>, for a TLS connection,
  and \<open>connect_async\<close> do not raise): the MQTT service has been replaced by one that runs with
  exactly the requested connection, and setup is complete, so that the publishing endpoints
  are open.
\<close>

theorem external_install_takes_effect:
  assumes "env_ok (ar_env ar)" and "config_ok (app_config w)" and "install_apply_request_ok payload"
    and "iar_mode payload = ''external''" and "iar_external payload = Some x"
    and "iar_allow_unvalidated payload \<or> tested_connection ar w x"
    and "documented_paho (ar_paho ar)" and "qos_will_be_valid (ar_env ar) payload (app_config w)"
    and "ps_tls_set (ar_paho ar) = None \<or> \<not> ext_tls x"
    and "ar_connect ar (ext_host x) (ext_port x) = None"
  shows "\<exists>w' s. apply_install ar payload w = (Inr \<lparr>ap_ok = True, ap_warnings = None\<rparr>, w') \<and>
    gw_service (aw_gw w') = Some s \<and>
    connection_of (ms_config s) = (JStr (ext_host x), ext_port x, ext_tls x, opt_json (ext_username x),
      opt_json (ext_password x)) \<and>
    cw_running (aw_gw w') \<and> cw_connection (aw_gw w') = Some (ext_host x, ext_port x) \<and>
    setup_complete (ar_api ar) (aw_gw w') = Inr True \<and> aw_broker w' = aw_broker w"
proof -
  obtain s0 c0 where st: "update_session ar (started_session payload) w = (Inr s0, with_config w c0)" "config_ok c0"
    "\<And>y. tested_connection ar (with_config w c0) y = tested_connection ar w y"
    "\<exists>s. read_session ar (with_config w c0) = Inr s" "cs_config c0 = cs_config (app_config w)"
    using apply_started [OF assms(1,2), of payload] by metis
  have gate: "iar_allow_unvalidated payload \<or> require_tested ar payload (with_config w c0) = (Inr (), with_config w c0)"
    using assms(6) st(3,4) require_tested_result [OF _ assms(5)] by fastforce
  have ok0: "config_ok (app_config (with_config w c0))" using st(2) by simp
  obtain eff c where ap0: "on_config (apply_install_config (ar_env ar) payload) (with_config w c0) =
      (Inr eff, with_config (with_config w c0) c)"
    "config_ok c" "get_effective_config (ar_env ar) False c = Inr eff"
    "connection_of eff = requested_connection (ar_env ar) payload"
    "cs_fs c = cs_fs (app_config (with_config w c0))" "cs_mounts c = cs_mounts (app_config (with_config w c0))"
    "qos_will_be_valid (ar_env ar) payload (app_config (with_config w c0)) \<Longrightarrow> 0 \<le> eff_qos eff \<and> eff_qos eff \<le> 2"
    by (rule apply_config_step [OF assms(1) ok0 assms(3)]) (rule that)
  note ap = ap0 [unfolded with_config_simps(1,2)]
  have conn: "connection_of eff = (JStr (ext_host x), ext_port x, ext_tls x, opt_json (ext_username x),
      opt_json (ext_password x))"
    using ap(4) by (simp add: requested_connection_def assms(4,5))
  then have he: "py_str (eff_host eff) = ext_host x" "eff_port eff = ext_port x" "eff_tls eff = ext_tls x"
    by (simp_all add: connection_of_def)
  have starts: "service_starts ar eff"
    using ap(7) assms(8-10) he qos_will_be_valid_cong [OF st(5)] by (auto simp: service_starts_def)
  obtain w' s where fin: "run_bind (on_gw (reload_mqtt_service ar)) (\<lambda>_. run_bind (session_ready ar ''external'' payload)
      (\<lambda>_. run_return \<lparr>ap_ok = True, ap_warnings = None\<rparr>)) (with_config w c) = (Inr \<lparr>ap_ok = True, ap_warnings = None\<rparr>, w')"
    "gw_service (aw_gw w') = Some s" "ms_config s = eff" "cw_running (aw_gw w')"
    "cw_connection (aw_gw w') = Some (py_str (eff_host eff), eff_port eff)"
    "setup_complete (ar_api ar) (aw_gw w') = Inr True" "aw_broker w' = aw_broker (with_config w c)"
    by (rule reload_and_ready [OF assms(1), of "with_config w c" eff]) (use ap starts assms(7) that in simp_all)
  have "apply_install ar payload w = (Inr \<lparr>ap_ok = True, ap_warnings = None\<rparr>, w')"
    unfolding apply_install_def Let_def started_session_def [symmetric]
    using assms(4) gate fin(1) by (auto simp: run_bind_def [of "update_session ar (started_session payload)"] st(1)
      run_bind_def [of "require_tested ar payload"] run_bind_def [of "run_return ()"] run_return_def
      run_bind_def [of "run_catch _ _"] run_catch_def ap(1))
  with fin conn he show ?thesis by auto
qed

text \<open>Both modes up to the stored configuration; the embedded mode then goes on with its files.\<close>

lemma apply_install_embedded:
  assumes "env_ok (ar_env ar)" and "config_ok (app_config w)" and "install_apply_request_ok payload"
    and "iar_mode payload = ''embedded''"
  obtains eff c where "apply_install ar payload w = apply_embedded ar payload (with_config w c)" "config_ok c"
    "get_effective_config (ar_env ar) False c = Inr eff"
    "connection_of eff = requested_connection (ar_env ar) payload"
    "get_desired_optional_groups (ar_env ar) c = get_desired_optional_groups (ar_env ar) (app_config w)"
    "qos_will_be_valid (ar_env ar) payload (app_config w) \<Longrightarrow> 0 \<le> eff_qos eff \<and> eff_qos eff \<le> 2"
proof -
  obtain s0 c0 where st: "update_session ar (started_session payload) w = (Inr s0, with_config w c0)" "config_ok c0"
    "cs_fs c0 = cs_fs (app_config w)" "cs_mounts c0 = cs_mounts (app_config w)" "cs_config c0 = cs_config (app_config w)"
    using apply_started [OF assms(1,2), of payload] by metis
  have ok0: "config_ok (app_config (with_config w c0))" using st(2) by simp
  obtain eff c where ap0: "on_config (apply_install_config (ar_env ar) payload) (with_config w c0) =
      (Inr eff, with_config (with_config w c0) c)"
    "config_ok c" "get_effective_config (ar_env ar) False c = Inr eff"
    "connection_of eff = requested_connection (ar_env ar) payload"
    "cs_fs c = cs_fs (app_config (with_config w c0))" "cs_mounts c = cs_mounts (app_config (with_config w c0))"
    "qos_will_be_valid (ar_env ar) payload (app_config (with_config w c0)) \<Longrightarrow> 0 \<le> eff_qos eff \<and> eff_qos eff \<le> 2"
    by (rule apply_config_step [OF assms(1) ok0 assms(3)]) (rule that)
  note ap = ap0 [unfolded with_config_simps(1,2)]
  have "apply_install ar payload w = apply_embedded ar payload (with_config w c)"
    unfolding apply_install_def Let_def started_session_def [symmetric]
    by (simp add: assms(4) run_bind_def [of "update_session ar (started_session payload)"] st(1)
      run_bind_def [of "run_return ()"] run_return_def run_bind_def [of "run_catch _ _"] run_catch_def ap(1))
  moreover have "get_desired_optional_groups (ar_env ar) c = get_desired_optional_groups (ar_env ar) (app_config w)"
    by (rule get_desired_cong) (simp_all add: ap st)
  ultimately show thesis using that ap qos_will_be_valid_cong [OF st(5), of "ar_env ar" payload] by blast
qed

text \<open>
  C12: an install of the embedded broker that the request model accepts and the broker can be
  written for, on a readable configuration and with the broker's group already selected,
  succeeds while no write fails and paho takes the connection (with a paho as documented: the
  QoS that will be effective, which is the request's or else the one configured before, is 0,
  1 or 2; \<open>connect_async\<close> does not raise): the broker's files are those of the request, the
  MQTT service runs with the embedded broker's host, port 1883, no TLS and the administrator's
  credentials, and setup is complete.
\<close>

theorem embedded_install_takes_effect:
  assumes "env_ok (ar_env ar)" and "config_ok (app_config w)" and "install_apply_request_ok payload"
    and "iar_mode payload = ''embedded''" and "iar_embedded payload = Some e"
    and "embedded_acceptable (eh_hash (ar_host ar)) e" and "\<And>name. eh_faults (ar_host ar) name = None"
    and "''broker'' \<in> set (get_desired_optional_groups (ar_env ar) (app_config w))"
    and "documented_paho (ar_paho ar)" and "qos_will_be_valid (ar_env ar) payload (app_config w)"
    and "ar_connect ar (default_embedded_broker_host (ar_env ar)) 1883 = None"
  shows "\<exists>w' s. apply_install ar payload w = (Inr \<lparr>ap_ok = True, ap_warnings = None\<rparr>, w') \<and>
    gw_service (aw_gw w') = Some s \<and>
    connection_of (ms_config s) = (JStr (default_embedded_broker_host (ar_env ar)), 1883, False,
      opt_json (emb_admin_user e), opt_json (emb_admin_pass e)) \<and>
    cw_running (aw_gw w') \<and> setup_complete (ar_api ar) (aw_gw w') = Inr True \<and>
    aw_broker w' ''mosquitto.conf'' = Some (conf_text e) \<and>
    aw_broker w' ''pwfile'' = Some (password_text (eh_hash (ar_host ar)) e) \<and>
    aw_broker w' ''aclfile'' = Some (rules_text e)"
proof -
  obtain eff c where ap: "apply_install ar payload w = apply_embedded ar payload (with_config w c)" "config_ok c"
    "get_effective_config (ar_env ar) False c = Inr eff"
    "connection_of eff = requested_connection (ar_env ar) payload"
    "get_desired_optional_groups (ar_env ar) c = get_desired_optional_groups (ar_env ar) (app_config w)"
    "qos_will_be_valid (ar_env ar) payload (app_config w) \<Longrightarrow> 0 \<le> eff_qos eff \<and> eff_qos eff \<le> 2"
    by (rule apply_install_embedded [OF assms(1-4)]) (rule that)
  have conn: "connection_of eff = (JStr (default_embedded_broker_host (ar_env ar)), 1883, False,
      opt_json (emb_admin_user e), opt_json (emb_admin_pass e))"
    using ap(4) by (simp add: requested_connection_def assms(4,5))
  have starts: "service_starts ar eff"
    using ap(6) [OF assms(10)] conn assms(11) by (simp add: service_starts_def connection_of_def)
  obtain b where b: "apply_embedded_runtime (ar_env ar) (ar_host ar) payload (aw_broker w) = (Inr (True, None), b)"
    "b ''mosquitto.conf'' = Some (conf_text e)" "b ''pwfile'' = Some (password_text (eh_hash (ar_host ar)) e)"
    "b ''aclfile'' = Some (rules_text e)"
    using apply_embedded_runtime_spec [OF assms(4,5,7)] assms(6) by (simp add: override_name_def)
  let ?w = "(with_config w c)\<lparr>aw_broker := b\<rparr>"
  have w: "app_config ?w = c" by (simp add: app_config_def with_config_def)
  have br: "on_broker (apply_embedded_runtime (ar_env ar) (ar_host ar) payload) (with_config w c) = (Inr (True, None), ?w)"
    by (rule on_broker_result) (simp add: b(1))
  obtain w' s where fin: "run_bind (on_gw (reload_mqtt_service ar)) (\<lambda>_. run_bind (session_ready ar ''embedded'' payload)
      (\<lambda>_. run_return \<lparr>ap_ok = True, ap_warnings = None\<rparr>)) ?w = (Inr \<lparr>ap_ok = True, ap_warnings = None\<rparr>, w')"
    "gw_service (aw_gw w') = Some s" "ms_config s = eff" "cw_running (aw_gw w')"
    "setup_complete (ar_api ar) (aw_gw w') = Inr True" "aw_broker w' = aw_broker ?w"
    by (rule reload_and_ready [OF assms(1), of ?w eff]) (use ap starts assms(9) that w in simp_all)
  have "gw_config (aw_gw ?w) = c" using w by (simp add: app_config_def)
  then have "apply_embedded ar payload (with_config w c) = (Inr \<lparr>ap_ok = True, ap_warnings = None\<rparr>, w')"
    unfolding apply_embedded_def
    using assms(8) ap(5) fin(1)
    by (simp add: run_bind_def [of "run_catch _ _"] run_catch_def br run_bind_def [of "run_get _"] run_get_def
      run_bind_def [of "run_return ()"] run_return_def)
  then show ?thesis using ap(1) fin b conn by auto
qed

text \<open>
  C15: on a readable configuration and while no write of the broker's files fails, an install of
  the embedded broker without anonymous access that lacks an administrator's name or password
  (or whose password cannot be hashed) is refused with status 400 and closes the publishing
  endpoints; the password and rule files and the service are untouched, but the configuration
  has already been replaced: what is effective at the next reload is the broker that was
  refused.
\<close>

theorem embedded_install_refused:
  assumes "env_ok (ar_env ar)" and "config_ok (app_config w)" and "install_apply_request_ok payload"
    and "iar_mode payload = ''embedded''" and "iar_embedded payload = Some e"
    and "\<not> embedded_acceptable (eh_hash (ar_host ar)) e" and "\<And>name. eh_faults (ar_host ar) name = None"
  shows "\<exists>text w' eff. apply_install ar payload w = (Inl (HTTPException 400 text), w') \<and>
    setup_complete (ar_api ar) (aw_gw w') = Inr False \<and>
    gw_service (aw_gw w') = gw_service (aw_gw w) \<and>
    aw_broker w' ''pwfile'' = aw_broker w ''pwfile'' \<and> aw_broker w' ''aclfile'' = aw_broker w ''aclfile'' \<and>
    get_effective_config (ar_env ar) False (app_config w') = Inr eff \<and>
    connection_of eff = (JStr (default_embedded_broker_host (ar_env ar)), 1883, False,
      opt_json (emb_admin_user e), opt_json (emb_admin_pass e))"
proof -
  obtain eff c where ap: "apply_install ar payload w = apply_embedded ar payload (with_config w c)" "config_ok c"
    "get_effective_config (ar_env ar) False c = Inr eff"
    "connection_of eff = requested_connection (ar_env ar) payload"
    "get_desired_optional_groups (ar_env ar) c = get_desired_optional_groups (ar_env ar) (app_config w)"
    by (rule apply_install_embedded [OF assms(1-4)]) (rule that)
  obtain m b where b: "apply_embedded_runtime (ar_env ar) (ar_host ar) payload (aw_broker w) = (Inl (ValueError m), b)"
    "b ''pwfile'' = aw_broker w ''pwfile''" "b ''aclfile'' = aw_broker w ''aclfile''"
    using apply_embedded_runtime_spec [OF assms(4,5,7)] assms(6) by simp
  let ?w = "(with_config w c)\<lparr>aw_broker := b\<rparr>"
  have w: "app_config ?w = c" by (simp add: app_config_def with_config_def)
  have br: "on_broker (apply_embedded_runtime (ar_env ar) (ar_host ar) payload) (with_config w c) = (Inl (ValueError m), ?w)"
    by (rule on_broker_result) (simp add: b(1))
  let ?u = "[(''mode'', JStr ''embedded''), (''setup_state'', JStr ''error''), (''configured'', JBool False),
      (''verified'', JBool False), (''last_error'', JStr m)]"
  have ok: "session_update_ok ?u" by (simp add: session_update_ok_def session_flags_def session_names_def)
  have okw: "config_ok (app_config ?w)" by (simp only: w ap(2))
  obtain s0 s s' c' where h: "read_session ar ?w = Inr s0" "update_session ar ?u ?w = (Inr s, with_config ?w c')"
    "read_session ar (with_config ?w c') = Inr s'" "config_ok c'"
    "cs_config c' = cs_config (app_config ?w)" "cs_fs c' = cs_fs (app_config ?w)" "cs_mounts c' = cs_mounts (app_config ?w)"
    and rd: "\<And>k. k \<in> set session_keys \<Longrightarrow> k \<noteq> ''mode'' \<Longrightarrow> k \<noteq> ''optional_groups_requested'' \<Longrightarrow>
      dget s' k = sort_keys (if dhas ?u k then dget ?u k else dget s0 k)"
    by (rule update_session_step [OF assms(1) okw ok]) (rule that)
  have "dget s' ''setup_state'' = JStr ''error''" by (simp add: rd session_keys_def dhas_def)
  from setup_complete_read [OF h(3) this]
  have inc: "setup_complete (ar_api ar) (aw_gw (with_config ?w c')) = Inr False" by simp
  have "apply_embedded ar payload (with_config w c) = (Inl (HTTPException 400 m), with_config ?w c')"
    by (simp add: apply_embedded_def run_bind_def run_catch_def br failing_with_def session_failed_def exn_text_def
      h(2) http_error_def run_raise_def)
  moreover have "get_effective_config (ar_env ar) False c' = Inr eff"
    unfolding ap(3) [symmetric] by (rule get_effective_config_cong) (use h(5) w in \<open>simp add: load_overrides_def\<close>)
  moreover have "connection_of eff = (JStr (default_embedded_broker_host (ar_env ar)), 1883, False,
      opt_json (emb_admin_user e), opt_json (emb_admin_pass e))"
    using ap(4) by (simp add: requested_connection_def assms(4,5))
  moreover have "gw_service (aw_gw ?w) = gw_service (aw_gw w)" by (simp add: with_config_def)
  ultimately show ?thesis using ap(1) inc b
    by (intro exI [of _ m] exI [of _ "with_config ?w c'"] exI [of _ eff]) simp
qed

text \<open>
  C16: the status endpoint shows \<open>ready\<close> exactly when the session is configured and ready, the
  client is connected and nothing is reported as an error; and it reports full readiness only
  if setup is shown as ready or degraded.
\<close>

theorem status_shows_ready_iff:
  assumes "get_status ar w = Inr view" and "read_session ar w = Inr s"
  shows "(is_setup_state view = ''ready'' \<longleftrightarrow>
      truthy (dget s ''configured'') \<and> py_str (py_or (dget s ''setup_state'') (JStr ''unconfigured'')) = ''ready'' \<and>
      mqtt_connected (cw_health (aw_gw w)) \<and>
      \<not> truthy (py_or (opt_json (last_error (cw_health (aw_gw w)))) (dget s ''last_error''))) \<and>
    is_setup_state view \<in> {''unconfigured'', ''configuring'', ''ready'', ''error'', ''degraded''} \<and>
    is_mode view \<in> set install_modes \<and>
    (if is_readiness_full view then is_setup_state view \<in> {''ready'', ''degraded''} else True)"
proof -
  have snap: "snap_mqtt_connected (snapshot n h) = mqtt_connected h" "snap_last_error (snapshot n h) = last_error h" for n h
    by (simp_all add: snapshot_def Let_def)
  obtain mode shown_error where view: "view = status_view ar w s mode shown_error" and mode: "mode \<in> set install_modes"
    using assms(1) unfolding get_status_def assms(2)
    by (auto simp: res_bind_Inr_iff split: json.splits if_splits)
  have shown: "is_setup_state view = shown_setup_state (truthy (dget s ''configured''))
      (py_str (py_or (dget s ''setup_state'') (JStr ''unconfigured''))) (mqtt_connected (cw_health (aw_gw w)))
      (truthy (py_or (opt_json (last_error (cw_health (aw_gw w)))) (dget s ''last_error'')))"
    and m: "is_mode view = mode"
    by (simp_all add: view status_view_def status_error_def Let_def snap)
  have full: "\<exists>requested active required.
      is_readiness_full view = fst (snd (readiness_state (is_setup_state view) requested active required))"
    unfolding view status_view_def Let_def by (intro exI) simp
  from full have "is_readiness_full view \<Longrightarrow> is_setup_state view \<in> {''ready'', ''degraded''}"
    by (auto simp: readiness_state_def split: if_splits)
  then show ?thesis using mode unfolding m shown by (auto simp: shown_setup_state_def)
qed

section \<open>Witnesses\<close>

definition example_app_world :: app_world where
  "example_app_world = \<lparr>aw_gw = example_gateway, aw_broker = (\<lambda>_. None), aw_core = [], aw_restarts = []\<rparr>"

lemma example_app_paho: "documented_paho (ar_paho example_app)"
  by (simp add: example_app_def example_paho_documented)

lemma example_app_ok: "env_ok (ar_env example_app)" "config_ok (app_config example_app_world)"
  by code_simp+

lemma example_install_external:
  "install_apply_request_ok example_install" "iar_mode example_install = ''external''"
  "\<not> iar_allow_unvalidated example_install"
  "iar_external example_install = Some \<lparr>ext_host = ''mq'', ext_port = 8883, ext_tls = True,
     ext_username = Some ''u'', ext_password = None\<rparr>"
  "\<not> tested_connection example_app example_app_world \<lparr>ext_host = ''mq'', ext_port = 8883, ext_tls = True,
     ext_username = Some ''u'', ext_password = None\<rparr>"
  by code_simp+

lemma untested_external_refused_witness:
  "\<exists>text w'. apply_install example_app example_install example_app_world = (Inl (HTTPException 400 text), w')"
  using untested_external_refused [OF example_app_ok example_install_external(2,3,4,5)] by blast

lemma external_install_takes_effect_witness:
  "\<exists>w' s. apply_install example_app (example_install\<lparr>iar_allow_unvalidated := True\<rparr>) example_app_world =
      (Inr \<lparr>ap_ok = True, ap_warnings = None\<rparr>, w') \<and> gw_service (aw_gw w') = Some s \<and>
    cw_connection (aw_gw w') = Some (''mq'', 8883)"
proof -
  have 1: "install_apply_request_ok (example_install\<lparr>iar_allow_unvalidated := True\<rparr>)" by code_simp
  have 2: "iar_mode (example_install\<lparr>iar_allow_unvalidated := True\<rparr>) = ''external''"
    "iar_external (example_install\<lparr>iar_allow_unvalidated := True\<rparr>) = Some \<lparr>ext_host = ''mq'', ext_port = 8883,
       ext_tls = True, ext_username = Some ''u'', ext_password = None\<rparr>"
    "iar_allow_unvalidated (example_install\<lparr>iar_allow_unvalidated := True\<rparr>) \<or> P" for P
    by (simp_all add: example_install_def)
  have 3: "qos_will_be_valid (ar_env example_app) (example_install\<lparr>iar_allow_unvalidated := True\<rparr>) st"
    "ps_tls_set (ar_paho example_app) = None \<or> Q" "ar_connect example_app h p = None" for st h p Q
    by (simp_all add: example_install_def example_app_def qos_will_be_valid_def example_paho_def)
  from external_install_takes_effect [OF example_app_ok 1 2 example_app_paho 3] show ?thesis by auto
qed

definition broker_selected :: app_world where
  "broker_selected = with_config example_app_world (ready_config\<lparr>cs_fs := (cs_fs ready_config)
     \<lparr>sf_files := (\<lambda>_. Absent)(''/state/desired.json'' :=
        Doc (JObj [(''enabled_docker_groups'', JList [JStr ''broker''])]))\<rparr>\<rparr>)"

lemma broker_selected_ok:
  "config_ok (app_config broker_selected)"
  "''broker'' \<in> set (get_desired_optional_groups (ar_env example_app) (app_config broker_selected))"
  by code_simp+

lemma example_apply_ok:
  "install_apply_request_ok example_apply" "iar_mode example_apply = ''embedded''"
  "iar_embedded example_apply = Some example_embedded"
  "embedded_acceptable (eh_hash (ar_host example_app)) example_embedded"
  by code_simp+

lemma embedded_install_takes_effect_witness:
  "\<exists>w' s. apply_install example_app example_apply broker_selected = (Inr \<lparr>ap_ok = True, ap_warnings = None\<rparr>, w') \<and>
    gw_service (aw_gw w') = Some s \<and> aw_broker w' ''pwfile'' = Some (''admin:$6$secret'' @ [newline])"
proof -
  have f: "eh_faults (ar_host example_app) name = None" "ar_connect example_app h p = None" for name h p
    by (simp_all add: example_app_def example_host_def)
  have q: "qos_will_be_valid (ar_env example_app) example_apply (app_config broker_selected)" by code_simp
  have p: "password_text (eh_hash (ar_host example_app)) example_embedded = ''admin:$6$secret'' @ [newline]"
    by code_simp
  from embedded_install_takes_effect [OF example_app_ok(1) broker_selected_ok(1) example_apply_ok f(1)
      broker_selected_ok(2) example_app_paho q f(2)] show ?thesis unfolding p by blast
qed

lemma embedded_install_refused_witness:
  "\<exists>text w'. apply_install example_app
      (example_apply\<lparr>iar_embedded := Some (example_embedded\<lparr>emb_admin_pass := None\<rparr>)\<rparr>) example_app_world =
      (Inl (HTTPException 400 text), w') \<and> setup_complete (ar_api example_app) (aw_gw w') = Inr False"
proof -
  let ?r = "example_apply\<lparr>iar_embedded := Some (example_embedded\<lparr>emb_admin_pass := None\<rparr>)\<rparr>"
  have 1: "install_apply_request_ok ?r" by code_simp
  have 2: "iar_mode ?r = ''embedded''" "iar_embedded ?r = Some (example_embedded\<lparr>emb_admin_pass := None\<rparr>)"
    "\<not> embedded_acceptable (eh_hash (ar_host example_app)) (example_embedded\<lparr>emb_admin_pass := None\<rparr>)"
    "eh_faults (ar_host example_app) name = None" for name
    by (simp_all add: example_apply_def example_app_def example_host_def embedded_acceptable_def example_embedded_def)
  from embedded_install_refused [OF example_app_ok 1 2] show ?thesis by blast
qed

lemma status_shows_ready_iff_witness:
  "\<exists>view. get_status example_app example_app_world = Inr view \<and> is_setup_state view \<noteq> ''ready''"
proof -
  have "\<not> isl (get_status example_app example_app_world)" by code_simp
  then obtain view where v: "get_status example_app example_app_world = Inr view"
    by (cases "get_status example_app example_app_world") auto
  obtain s where s: "read_session example_app example_app_world = Inr s"
    using config_total [OF example_app_ok] unfolding read_session_def app_config_def by blast
  have "\<not> mqtt_connected (cw_health (aw_gw example_app_world))" by code_simp
  with status_shows_ready_iff [OF v s] v show ?thesis by blast
qed

section \<open>A QoS that is not MQTT's\<close>

text \<open>
  Neither MQTT_QOS nor the configuration update checks the QoS. Once it is not 0, 1 or 2 the
  service cannot be built any more: an install without a QoS of its own stores the new
  configuration, stops the service that was running and fails with paho's exception.
\<close>

definition qos_seven :: app_world where
  "qos_seven = with_config example_app_world (ready_config\<lparr>cs_config := Doc (JObj [(''mqtt_qos'', JInt 7)])\<rparr>)"

lemma bad_qos_breaks_install:
  "fst (apply_install example_app (example_install\<lparr>iar_allow_unvalidated := True, iar_qos_default := None\<rparr>) qos_seven) =
     Inl (ValueError ''Invalid QoS level.'')"
  by code_simp

end
