(* ===== verification/Addon_Api.thy ===== *)
theory Addon_Api
  imports Install_Facts
begin

text \<open>
  The endpoints of app/api/addon_contract.py with the response models of
  app/models/addon_models.py: health, the effective configuration, and its update; the
  others return constants of the manifest.
\<close>

section \<open>Constant answers\<close>

record addon_meta =
  me_id :: string
  me_name :: string
  me_version :: string
  me_description :: string
  me_groups :: "docker_group list"

definition get_meta :: "manifest_info \<Rightarrow> addon_meta" where
  "get_meta mf = \<lparr>me_id = mf_addon_id mf, me_name = mf_name mf, me_version = mf_version mf,
     me_description = mf_description mf, me_groups = mf_groups mf\<rparr>"

record addon_version =
  av_addon_id :: string
  av_version :: string
  av_api_version :: string
  av_manifest_version :: string

definition get_version :: "manifest_info \<Rightarrow> addon_version" where
  "get_version mf = \<lparr>av_addon_id = mf_addon_id mf, av_version = mf_version mf,
     av_api_version = SSAP_API_VERSION, av_manifest_version = mf_version mf\<rparr>"

section \<open>Health\<close>

record addon_health =
  ah_status :: string
  ah_mqtt_connected :: bool
  ah_setup_state :: string
  ah_broker_mode :: string
  ah_broker_reachable :: bool
  ah_broker_health :: string
  ah_direct_mqtt_supported :: bool
  ah_last_error :: "string option"
  ah_uptime_seconds :: int

definition known_setup_state :: "dict \<Rightarrow> string" where
  "known_setup_state install_state =
     (let s = py_str (py_or (dget install_state ''setup_state'') (JStr ''unconfigured'')) in
      if s \<notin> {''unconfigured'', ''configuring'', ''ready'', ''error'', ''degraded''} then ''error'' else s)"

definition health_view :: "app_runtime \<Rightarrow> health_snapshot \<Rightarrow> dict \<Rightarrow> string option \<Rightarrow> addon_health" where
  "health_view ar base_health install_state shown_error =
     (let setup_state = known_setup_state install_state;
          broker_mode = (if dget install_state ''mode'' = JStr ''embedded'' then ''embedded'' else ''external'');
          direct_mode = py_str (py_or (dget install_state ''external_direct_access_mode'') (JStr ''gateway_only''));
          connected = snap_mqtt_connected base_health;
          (reachable, broker_health0) =
            (if broker_mode = ''embedded'' then
               (let r = broker_running (ar_docker ar) DEFAULT_CONTAINER_NAME \<and> connected in
                (r, if r then ''healthy'' else ''degraded''))
             else (connected, if connected then ''healthy'' else ''unreachable''));
          status0 = snap_status base_health;
          (status, broker_health) =
            (if setup_state = ''unconfigured'' then (''unconfigured'', ''unknown'')
             else if setup_state = ''error'' then (''error'', broker_health0)
             else if setup_state \<in> {''configuring'', ''degraded''} then (''degraded'', broker_health0)
             else if \<not> reachable \<and> status0 \<noteq> ''offline'' then (''degraded'', broker_health0)
             else (status0, broker_health0)) in
      \<lparr>ah_status = status, ah_mqtt_connected = connected, ah_setup_state = setup_state,
        ah_broker_mode = broker_mode, ah_broker_reachable = reachable, ah_broker_health = broker_health,
        ah_direct_mqtt_supported = (broker_mode = ''embedded'' \<or>
          (broker_mode = ''external'' \<and> direct_mode = ''manual_direct_access'')),
        ah_last_error = shown_error, ah_uptime_seconds = uptime_seconds base_health\<rparr>)"

definition get_health :: "app_runtime \<Rightarrow> app_world \<Rightarrow> addon_health res" where
  "get_health ar w =
     (let base_health = snapshot (ar_monotonic_ns ar) (cw_health (aw_gw w)) in
      res_bind (read_session ar w) (\<lambda>install_state.
      res_bind (opt_str_field (status_error ar w install_state)) (\<lambda>shown_error.
      Inr (health_view ar base_health install_state shown_error))))"

section \<open>Configuration\<close>

record config_view =
  cv_host :: string
  cv_port :: int
  cv_username :: "string option"
  cv_password :: "string option"
  cv_tls :: bool
  cv_client_id :: string
  cv_base_topic :: string
  cv_qos :: int

definition str_field :: "json \<Rightarrow> string res" where
  "str_field v = (case str_of v of Some s \<Rightarrow> Inr s | None \<Rightarrow> Inl (ValueError ''validation error''))"

text \<open>\<open>AddonConfigEffective(**config)\<close>.\<close>

definition addon_config_effective :: "eff_config \<Rightarrow> config_view res" where
  "addon_config_effective c =
     res_bind (str_field (eff_host c)) (\<lambda>host.
     res_bind (opt_str_field (eff_username c)) (\<lambda>user.
     res_bind (opt_str_field (eff_password c)) (\<lambda>pass.
     res_bind (str_field (eff_client_id c)) (\<lambda>client_id.
     res_bind (str_field (eff_base_topic c)) (\<lambda>base.
     Inr \<lparr>cv_host = host, cv_port = eff_port c, cv_username = user, cv_password = pass, cv_tls = eff_tls c,
       cv_client_id = client_id, cv_base_topic = base, cv_qos = eff_qos c\<rparr>)))))"

definition get_effective_config_view :: "app_runtime \<Rightarrow> app_world \<Rightarrow> config_view res" where
  "get_effective_config_view ar w =
     res_bind (get_effective_config (ar_env ar) True (gw_config (aw_gw w))) addon_config_effective"

text \<open>Every exception becomes status 500.\<close>

definition update_addon_config :: "app_runtime \<Rightarrow> addon_config_update \<Rightarrow> config_view app_run" where
  "update_addon_config ar config_update =
     run_catch
       (run_bind (on_config (update_config (ar_env ar) config_update)) (\<lambda>_.
        run_bind (on_gw (reload_mqtt_service ar)) (\<lambda>_.
        (\<lambda>w. (get_effective_config_view ar w, w)))))
       (\<lambda>_. http_error 500 ''Failed to persist config'')"

section \<open>Properties\<close>

text \<open>
  C27: the addon reports itself healthy exactly when setup is ready, the client is connected with
  no error and has not gone offline, and, with the embedded broker, its container runs.
\<close>

theorem reports_healthy_iff:
  assumes "get_health ar w = Inr view" and "read_session ar w = Inr s"
  shows "ah_status view = ''healthy'' \<longleftrightarrow>
    known_setup_state s = ''ready'' \<and> mqtt_connected (cw_health (aw_gw w)) \<and> \<not> offline (cw_health (aw_gw w)) \<and>
    last_error (cw_health (aw_gw w)) \<in> {None, Some []} \<and>
    (if dget s ''mode'' = JStr ''embedded'' then broker_running (ar_docker ar) DEFAULT_CONTAINER_NAME else True)"
proof -
  obtain e where view: "view = health_view ar (snapshot (ar_monotonic_ns ar) (cw_health (aw_gw w))) s e"
    using assms(1) unfolding get_health_def assms(2) Let_def by (auto simp: res_bind_Inr_iff)
  have known: "known_setup_state s \<in> {''unconfigured'', ''configuring'', ''ready'', ''error'', ''degraded''}"
    by (simp add: known_setup_state_def Let_def)
  have snap: "snap_mqtt_connected (snapshot n h) = mqtt_connected h"
    "snap_status (snapshot n h) = ''offline'' \<longleftrightarrow> offline h"
    "snap_status (snapshot n h) = ''healthy'' \<longleftrightarrow> \<not> offline h \<and> mqtt_connected h \<and> last_error h \<in> {None, Some []}" for n h
    by (auto simp: snapshot_def Let_def)
  show ?thesis
    using known unfolding view health_view_def Let_def
    by (cases "dget s ''mode'' = JStr ''embedded''") (auto simp: snap)
qed

lemma reports_healthy_iff_witness:
  "\<exists>view. get_health example_app example_app_world = Inr view \<and> ah_status view \<noteq> ''healthy''"
proof -
  have "\<not> isl (get_health example_app example_app_world)" by code_simp
  then obtain view where v: "get_health example_app example_app_world = Inr view"
    by (cases "get_health example_app example_app_world") auto
  obtain s where s: "read_session example_app example_app_world = Inr s"
    using config_total [OF example_app_ok] unfolding read_session_def app_config_def by blast
  have "\<not> mqtt_connected (cw_health (aw_gw example_app_world))" by code_simp
  with reports_healthy_iff [OF v s] v show ?thesis by blast
qed

text \<open>A reload that succeeds, and a masked reading of the configuration.\<close>

lemma reload_success:
  assumes "reload_mqtt_service ar g = (Inr x, g')"
  shows "\<exists>eff s. get_effective_config (ar_env ar) False (gw_config g) = Inr eff \<and> gw_service g' = Some s \<and>
    ms_config s = eff \<and> cw_running g' \<and> cw_connection g' = Some (py_str (eff_host eff), eff_port eff)"
  using assms
proof (cases rule: reload_cases)
  case (running config s w2)
  have "ms_config s = config"
    using running(3) by (auto simp: new_mqtt_service_def Let_def split: option.splits)
  then show ?thesis using running by (simp add: start_def)
qed simp_all

lemma masked_config:
  assumes "get_effective_config env False st = Inr eff"
  shows "get_effective_config env True st = Inr (eff\<lparr>eff_password := mask_secret (eff_password eff)\<rparr>)"
  using assms unfolding get_effective_config_def Let_def by (auto simp: res_bind_Inr_iff)

text \<open>
  The configuration after an update: the fields that the update gives have their new values, the
  others are as before (an object that was stored by hand comes back with sorted keys).
\<close>

definition given :: "('a \<Rightarrow> 'b) \<Rightarrow> 'a option \<Rightarrow> 'b \<Rightarrow> 'b" where
  "given f v old = (case v of None \<Rightarrow> old | Some x \<Rightarrow> f x)"

definition updated_config :: "addon_config_update \<Rightarrow> eff_config \<Rightarrow> eff_config" where
  "updated_config u c = \<lparr>eff_host = given JStr (acu_mqtt_host u) (sort_keys (eff_host c)),
     eff_port = given id (acu_mqtt_port u) (eff_port c),
     eff_username = given JStr (acu_mqtt_username u) (sort_keys (eff_username c)),
     eff_password = given JStr (acu_mqtt_password u) (sort_keys (eff_password c)),
     eff_tls = given id (acu_mqtt_tls u) (eff_tls c),
     eff_client_id = given JStr (acu_mqtt_client_id u) (sort_keys (eff_client_id c)),
     eff_base_topic = given JStr (acu_mqtt_base_topic u) (sort_keys (eff_base_topic c)),
     eff_qos = given id (acu_mqtt_qos u) (eff_qos c)\<rparr>"

lemma dupdate_opt_field:
  "dupdate d (opt_field k f v @ e) = dupdate (dset_opt k f v d) e" "dupdate d (opt_field k f v) = dset_opt k f v d"
  by (simp_all add: dupdate_def opt_field_def dset_opt_def split: option.splits)

lemma distinct_dset_opt: "distinct (map fst d) \<Longrightarrow> distinct (map fst (dset_opt k f v d))"
  by (simp add: dset_opt_def distinct_dset split: option.splits)

lemma dget_or_dset_opt:
  "dget_or (dset_opt k f v d) k x = given f v (dget_or d k x)"
  "k' \<noteq> k \<Longrightarrow> dget_or (dset_opt k f v d) k' x = dget_or d k' x"
  by (simp_all add: dset_opt_def given_def split: option.splits)

lemma dget_or_sorted:
  assumes "distinct (map fst d)" and "sort_keys x = x"
  shows "dget_or (sort_dict d) k x = sort_keys (dget_or d k x)"
  unfolding dget_or_sort_dict [OF assms(1)]
  by (cases "dhas d k") (simp_all add: dget_or_dget dget_or_not assms(2))

lemma effective_updated:
  assumes "load_overrides st = Inr d" and "distinct (map fst d)" and "get_effective_config env False st = Inr c"
  shows "get_effective_config env False (save_overrides (dupdate d (dump_config_update u)) st) = Inr (updated_config u c)"
proof -
  let ?d = "dupdate d (dump_config_update u)"
  have dist: "distinct (map fst ?d)"
    unfolding dump_config_update_def dupdate_opt_field by (intro distinct_dset_opt assms(2))
  have env: "sort_keys (env_or_none env n) = env_or_none env n" for n
    by (simp add: env_or_none_def Let_def)
  have rd: "dget_or (sort_dict ?d) k x = sort_keys (dget_or ?d k x)" if "sort_keys x = x" for k x
    by (rule dget_or_sorted [OF dist that])
  have new: "dget_or ?d ''mqtt_host'' x = given JStr (acu_mqtt_host u) (dget_or d ''mqtt_host'' x)"
    "dget_or ?d ''mqtt_port'' x = given JInt (acu_mqtt_port u) (dget_or d ''mqtt_port'' x)"
    "dget_or ?d ''mqtt_username'' x = given JStr (acu_mqtt_username u) (dget_or d ''mqtt_username'' x)"
    "dget_or ?d ''mqtt_password'' x = given JStr (acu_mqtt_password u) (dget_or d ''mqtt_password'' x)"
    "dget_or ?d ''mqtt_tls'' x = given JBool (acu_mqtt_tls u) (dget_or d ''mqtt_tls'' x)"
    "dget_or ?d ''mqtt_client_id'' x = given JStr (acu_mqtt_client_id u) (dget_or d ''mqtt_client_id'' x)"
    "dget_or ?d ''mqtt_base_topic'' x = given JStr (acu_mqtt_base_topic u) (dget_or d ''mqtt_base_topic'' x)"
    "dget_or ?d ''mqtt_qos'' x = given JInt (acu_mqtt_qos u) (dget_or d ''mqtt_qos'' x)" for x
    unfolding dump_config_update_def dupdate_opt_field by (simp_all add: dget_or_dset_opt)
  have through: "sort_keys (given JStr v x) = given JStr v (sort_keys x)" "py_int (given JInt p x) = given Inr p (py_int x)"
    "truthy (given JBool b x) = given id b (truthy x)" "given Inr p (Inr i) = Inr (given id p i)" for v x p b i
    by (simp_all add: given_def split: option.splits)
  obtain p0 q0 where c: "env_int env ''MQTT_PORT'' ''1883'' = Inr p0" "env_int env ''MQTT_QOS'' ''1'' = Inr q0"
    "py_int (dget_or d ''mqtt_port'' (JInt p0)) = Inr (eff_port c)"
    "py_int (dget_or d ''mqtt_qos'' (JInt q0)) = Inr (eff_qos c)"
    "eff_host c = dget_or d ''mqtt_host'' (JStr (getenv env ''MQTT_HOST'' (default_embedded_broker_host env)))"
    "eff_username c = dget_or d ''mqtt_username'' (env_or_none env ''MQTT_USERNAME'')"
    "eff_password c = dget_or d ''mqtt_password'' (env_or_none env ''MQTT_PASSWORD'')"
    "eff_tls c = truthy (dget_or d ''mqtt_tls'' (JBool (env_bool env ''MQTT_TLS'' ''false'')))"
    "eff_client_id c = dget_or d ''mqtt_client_id'' (JStr (getenv env ''MQTT_CLIENT_ID'' ''synthia-addon-mqtt''))"
    "eff_base_topic c = dget_or d ''mqtt_base_topic'' (JStr (getenv env ''MQTT_BASE_TOPIC'' ''synthia''))"
    using assms(3) unfolding get_effective_config_def assms(1) res_bind_simps res_bind_Inr_iff Let_def by auto
  show ?thesis
    unfolding get_effective_config_def load_overrides_save res_bind_simps c(1,2) Let_def updated_config_def c(5-10)
    by (simp add: rd env new through c(3,4))
qed

text \<open>
  C26: an update that is answered with success, on a readable configuration, has been stored and
  applied: the configuration that is now effective is the one before with exactly the fields
  given by the update replaced, the session file is as it was, the MQTT service has been
  replaced by one that runs with that configuration, connecting to its host and port, and the
  answer is that configuration with the password masked.
\<close>

theorem update_addon_config_applied:
  assumes "update_addon_config ar u w = (Inr view, w')"
    and "env_ok (ar_env ar)" and "config_ok (app_config w)"
  shows "\<exists>before s. get_effective_config (ar_env ar) False (app_config w) = Inr before \<and>
    get_effective_config (ar_env ar) False (app_config w') = Inr (updated_config u before) \<and>
    cs_install (app_config w') = cs_install (app_config w) \<and>
    gw_service (aw_gw w') = Some s \<and> ms_config s = updated_config u before \<and> cw_running (aw_gw w') \<and>
    cw_connection (aw_gw w') = Some (py_str (eff_host (updated_config u before)), eff_port (updated_config u before)) \<and>
    addon_config_effective ((updated_config u before)
      \<lparr>eff_password := mask_secret (eff_password (updated_config u before))\<rparr>) = Inr view"
proof -
  obtain d raw where d: "load_overrides (app_config w) = Inr d" "overrides_ok d"
    using assms(3) by (rule config_okE)
  obtain before where before: "get_effective_config (ar_env ar) False (app_config w) = Inr before"
    using config_total [OF assms(2,3)] by blast
  define c where "c = save_overrides (dupdate d (dump_config_update u)) (app_config w)"
  have eff: "get_effective_config (ar_env ar) False c = Inr (updated_config u before)"
    unfolding c_def by (rule effective_updated [OF d(1) _ before]) (use d(2) in \<open>simp add: overrides_ok_def\<close>)
  have upd: "on_config (update_config (ar_env ar) u) w = (Inr (updated_config u before), with_config w c)"
    unfolding with_config_def
    by (rule on_config_result) (simp add: update_config_def d(1) [unfolded app_config_def] c_def [symmetric, unfolded app_config_def] eff)
  obtain g where g: "reload_mqtt_service ar (aw_gw (with_config w c)) = (Inr (), g)" "w' = (with_config w c)\<lparr>aw_gw := g\<rparr>"
    and view: "get_effective_config_view ar w' = Inr view"
    using assms(1)
    by (auto simp: update_addon_config_def run_catch_def run_bind_def upd on_gw_def run_lift_def
        http_error_def run_raise_def split: sum.splits prod.splits)
  have gc: "gw_config g = c" using reload_keeps [OF g(1)] by simp
  obtain s where r: "gw_service g = Some s" "ms_config s = updated_config u before" "cw_running g"
    "cw_connection g = Some (py_str (eff_host (updated_config u before)), eff_port (updated_config u before))"
    using reload_success [OF g(1)] eff by auto
  have "addon_config_effective ((updated_config u before)
      \<lparr>eff_password := mask_secret (eff_password (updated_config u before))\<rparr>) = Inr view"
    using view masked_config [OF eff] by (simp add: get_effective_config_view_def g(2) gc)
  moreover have "app_config w' = c" by (simp add: g(2) app_config_def gc)
  moreover have "cs_install c = cs_install (app_config w)" by (simp add: c_def)
  ultimately show ?thesis using before eff r by (simp add: g(2))
qed

definition new_host :: addon_config_update where
  "new_host = \<lparr>acu_mqtt_host = Some ''mq2'', acu_mqtt_port = None, acu_mqtt_username = None,
     acu_mqtt_password = Some ''secret'', acu_mqtt_tls = None, acu_mqtt_client_id = None,
     acu_mqtt_base_topic = None, acu_mqtt_qos = None\<rparr>"

lemma update_addon_config_applied_witness:
  "\<exists>view w' s. update_addon_config example_app new_host example_app_world = (Inr view, w') \<and>
     gw_service (aw_gw w') = Some s \<and> eff_host (ms_config s) = JStr ''mq2''"
proof -
  have "\<not> isl (fst (update_addon_config example_app new_host example_app_world))" by code_simp
  then obtain view where "fst (update_addon_config example_app new_host example_app_world) = Inr view"
    by (cases "fst (update_addon_config example_app new_host example_app_world)") simp_all
  then obtain w' where h: "update_addon_config example_app new_host example_app_world = (Inr view, w')"
    by (metis prod.collapse)
  have "eff_host (updated_config new_host c) = JStr ''mq2''" for c
    by (simp add: updated_config_def new_host_def given_def)
  with update_addon_config_applied [OF h example_app_ok] h show ?thesis by metis
qed

text \<open>The fields of the two status answers that the response models restrict, with their values.\<close>

definition install_status_typed :: "app_runtime \<Rightarrow> install_status \<Rightarrow> bool" where
  "install_status_typed ar v =
     (is_mode v \<in> set install_modes \<and> is_external_direct_access_mode v \<in> set direct_access_modes \<and>
      is_setup_state v \<in> {''unconfigured'', ''configuring'', ''ready'', ''error'', ''degraded''} \<and>
      is_deployment_mode v \<in> {''base_only'', ''expanded''} \<and>
      is_reconcile_state v \<in> {''idle'', ''waiting_for_reconcile'', ''starting'', ''active'', ''failed'', ''mixed''} \<and>
      is_readiness_state v \<in> {''not_ready'', ''partial'', ''full''} \<and>
      is_readiness_full v = (is_readiness_state v = ''full'') \<and>
      set (is_missing_groups v) \<subseteq> set (is_required_groups v) \<and>
      set (is_required_groups v) \<subseteq> set (is_groups_requested v) \<and>
      set (is_groups_requested v @ is_groups_active v @ is_groups_starting v @ is_groups_failed v) \<subseteq> supported_ids ar)"

definition addon_health_typed :: "addon_health \<Rightarrow> bool" where
  "addon_health_typed v =
     (ah_status v \<in> {''healthy'', ''degraded'', ''offline'', ''error'', ''unconfigured''} \<and>
      ah_setup_state v \<in> {''unconfigured'', ''configuring'', ''ready'', ''error'', ''degraded''} \<and>
      ah_broker_mode v \<in> set install_modes \<and>
      ah_broker_health v \<in> {''healthy'', ''degraded'', ''unreachable'', ''unknown''})"

lemma reconcile_state_values:
  "optional_reconcile_state requested active starting failed \<in>
     {''idle'', ''waiting_for_reconcile'', ''starting'', ''active'', ''failed'', ''mixed''}"
  by (simp add: optional_reconcile_state_def)

lemma readiness_state_values:
  "readiness_state setup_state requested active required = (state, full, missing) \<Longrightarrow>
   state \<in> {''not_ready'', ''partial'', ''full''} \<and> full = (state = ''full'') \<and> set missing \<subseteq> set required"
  by (auto simp: readiness_state_def Let_def split: if_splits)

lemma shown_setup_state_values:
  "shown_setup_state configured setup_state connected has_error \<in>
     {''unconfigured'', ''configuring'', ''ready'', ''error'', ''degraded''}"
  by (simp add: shown_setup_state_def)

lemma clamped: "d \<in> S \<Longrightarrow> (if x \<notin> S then d else x) \<in> S"
  by simp

lemma status_view_typed:
  assumes "mode \<in> set install_modes"
  shows "install_status_typed ar (status_view ar w install_state mode shown_error)"
proof -
  let ?v = "status_view ar w install_state mode shown_error"
  have "(is_readiness_state ?v, is_readiness_full ?v, is_missing_groups ?v) =
      readiness_state (is_setup_state ?v) (is_groups_requested ?v) (is_groups_active ?v) (is_required_groups ?v)"
    unfolding status_view_def Let_def install_status.simps prod.collapse by (rule refl)
  note ready = readiness_state_values [OF this [symmetric]]
  have direct: "is_external_direct_access_mode ?v \<in> set direct_access_modes"
    unfolding status_view_def Let_def install_status.simps by (rule clamped) (simp add: direct_access_modes_def)
  have deployment: "is_deployment_mode ?v \<in> {''base_only'', ''expanded''}"
    unfolding status_view_def Let_def install_status.simps by simp
  have modes: "is_mode ?v \<in> set install_modes"
    unfolding status_view_def Let_def install_status.simps by (rule assms)
  have reconciled: "is_reconcile_state ?v =
       optional_reconcile_state (is_groups_requested ?v) (is_groups_active ?v) (is_groups_starting ?v) (is_groups_failed ?v)"
    unfolding status_view_def Let_def install_status.simps by (rule refl)
  have reconcile: "is_reconcile_state ?v \<in>
      {''idle'', ''waiting_for_reconcile'', ''starting'', ''active'', ''failed'', ''mixed''}"
    unfolding reconciled by (rule reconcile_state_values)
  have shown: "is_setup_state ?v \<in> {''unconfigured'', ''configuring'', ''ready'', ''error'', ''degraded''}"
    unfolding status_view_def Let_def install_status.simps by (rule shown_setup_state_values)
  have groups: "set (is_required_groups ?v) \<subseteq> set (is_groups_requested ?v)"
    "set (is_groups_requested ?v @ is_groups_active ?v @ is_groups_starting ?v @ is_groups_failed ?v) \<subseteq> supported_ids ar"
    unfolding status_view_def Let_def install_status.simps by (rule filter_is_subset) (auto split: if_splits)
  show ?thesis
    unfolding install_status_typed_def
    using modes direct shown deployment reconcile ready groups by (elim conjE) (intro conjI)
qed

lemma health_view_typed: "addon_health_typed (health_view ar (snapshot n h) install_state e)"
proof -
  have known: "known_setup_state install_state \<in> {''unconfigured'', ''configuring'', ''ready'', ''error'', ''degraded''}"
    unfolding known_setup_state_def Let_def by (rule clamped) simp
  have snap: "snap_status (snapshot n h) \<in> {''healthy'', ''degraded'', ''offline''}"
    by (simp add: snapshot_def Let_def)
  show ?thesis
    using known snap unfolding addon_health_typed_def health_view_def Let_def
    by (cases "dget install_state ''mode'' = JStr ''embedded''") (auto simp: install_modes_def)
qed

text \<open>
  C25: on a readable configuration both status endpoints answer, whatever the state, the
  supervisor's files and the rest of the session hold, unless the error to be shown (the
  client's, or else the session's last one) is neither a text nor missing, when both raise.
  Every restricted field of the two answers has one of the values that its response model
  allows; and the groups reported are consistent: the missing ones are required, the required
  ones requested, and all of them supported.
\<close>

theorem status_answers_typed:
  assumes "env_ok (ar_env ar)" and "config_ok (app_config w)"
  shows "\<exists>s. read_session ar w = Inr s \<and>
    (case opt_str_of (status_error ar w s) of
       None \<Rightarrow> isl (get_status ar w) \<and> isl (get_health ar w)
     | Some shown \<Rightarrow> \<exists>v h. get_status ar w = Inr v \<and> get_health ar w = Inr h \<and>
         is_last_error v = shown \<and> ah_last_error h = shown \<and> install_status_typed ar v \<and> addon_health_typed h)"
proof -
  obtain s m where s: "read_session ar w = Inr s" "dget s ''mode'' = JStr m" "m \<in> set install_modes"
    using config_total [OF assms] unfolding read_session_def app_config_def by blast
  have "is_last_error (status_view ar w s m e) = e" for e
    unfolding status_view_def Let_def by simp
  moreover have "ah_last_error (health_view ar b s e) = e" for b e
    unfolding health_view_def Let_def by (simp split: prod.splits)
  ultimately show ?thesis
    using s status_view_typed [OF s(3), of ar w s] health_view_typed [of ar _ "cw_health (aw_gw w)" s]
    by (auto simp: get_status_def get_health_def Let_def opt_str_field_def split: option.splits)
qed

lemma status_answers_typed_witness:
  "\<exists>v h. get_status example_app example_app_world = Inr v \<and> get_health example_app example_app_world = Inr h \<and>
     install_status_typed example_app v \<and> addon_health_typed h"
proof -
  have "\<not> isl (get_status example_app example_app_world)" by code_simp
  with status_answers_typed [OF example_app_ok] show ?thesis by (auto split: option.splits)
qed

text \<open>The answer 500 does not mean that nothing was stored: here only the new connection failed.\<close>

lemma failed_update_is_stored:
  "fst (update_addon_config (example_app\<lparr>ar_connect := (\<lambda>_ _. Some (ValueError ''Invalid host.''))\<rparr>) new_host
     example_app_world) = Inl (HTTPException 500 ''Failed to persist config'')"
  "map_sum id eff_host (get_effective_config (\<lambda>_. None) False (app_config (snd (update_addon_config
     (example_app\<lparr>ar_connect := (\<lambda>_ _. Some (ValueError ''Invalid host.''))\<rparr>) new_host example_app_world)))) =
     Inr (JStr ''mq2'')"
  by code_simp+

end
