(* ===== verification/Broker_Admin.thy ===== *)
theory Broker_Admin
  imports Install_Facts
begin

text \<open>
  app/api/broker_admin.py with the lock of app/services/lock.py: restarting the embedded
  broker. A restart that waits for ever for the port is \<open>None\<close>.
\<close>

section \<open>The restart\<close>

text \<open>
  What the host answers to a restart: whether the lock is free within its timeout, the
  readings of the monotonic clock (in milliseconds) and the connection attempts by host and
  port.
\<close>

record restart_host =
  rh_lock_free :: bool
  rh_clock :: clock
  rh_attempts :: "string \<Rightarrow> int \<Rightarrow> attempts"

record restart_report =
  rp_ok :: bool
  rp_restarted :: bool
  rp_broker_ready :: "bool option"
  rp_reason :: "string option"
  rp_operator_action :: "string option"
  rp_elapsed_ms :: int

definition restart_broker_flow ::
  "env \<Rightarrow> docker_host \<Rightarrow> restart_host \<Rightarrow> string list \<Rightarrow> (restart_report res \<times> string list) option" where
  "restart_broker_flow env dk rh restarts =
     (let clock = rh_clock rh;
          start = clock 0 in
      if \<not> rh_lock_free rh then
        Some (Inr \<lparr>rp_ok = False, rp_restarted = False, rp_broker_ready = None,
          rp_reason = Some ''Broker admin lock timeout'', rp_operator_action = None,
          rp_elapsed_ms = clock 1 - start\<rparr>, restarts)
      else
        (case restart_container dk DEFAULT_CONTAINER_NAME of (restart_result, container) \<Rightarrow>
           let restarts' = restarts @ (case container of Some c \<Rightarrow> [c] | None \<Rightarrow> []) in
           if \<not> br_restarted restart_result then
             Some (Inr \<lparr>rp_ok = False, rp_restarted = False, rp_broker_ready = None,
               rp_reason = br_reason restart_result, rp_operator_action = br_operator_action restart_result,
               rp_elapsed_ms = clock 1 - start\<rparr>, restarts')
           else
             let mqtt_host = getenv env ''MQTT_HOST'' ''mosquitto'' in
             (case py_int (JStr (getenv env ''MQTT_PORT'' ''1883'')) of
                Inl e \<Rightarrow> Some (Inl e, restarts')
              | Inr mqtt_port \<Rightarrow>
                  (case wait_for_port clock (rh_attempts rh mqtt_host mqtt_port) 20000 1 of
                     None \<Rightarrow> None
                   | Some (Inl e, n) \<Rightarrow> Some (Inl e, restarts')
                   | Some (Inr broker_ready, n) \<Rightarrow>
                       Some (Inr \<lparr>rp_ok = broker_ready, rp_restarted = True, rp_broker_ready = Some broker_ready,
                         rp_reason = (if broker_ready then None else Some ''Broker did not become ready in time''),
                         rp_operator_action = None, rp_elapsed_ms = clock n - start\<rparr>, restarts')))))"

definition restart_broker ::
  "app_runtime \<Rightarrow> restart_host \<Rightarrow> app_world \<Rightarrow> (restart_report res \<times> app_world) option" where
  "restart_broker ar rh w =
     (case restart_broker_flow (ar_env ar) (ar_docker ar) rh (aw_restarts w) of
        None \<Rightarrow> None
      | Some (Inl e, restarts) \<Rightarrow> Some (Inl e, w\<lparr>aw_restarts := restarts\<rparr>)
      | Some (Inr result, restarts) \<Rightarrow>
          Some (run_bind
            (if rp_ok result then
               update_session ar [(''mode'', JStr ''embedded''), (''verified'', JBool True), (''last_error'', JNull)]
             else
               update_session ar [(''mode'', JStr ''embedded''), (''verified'', JBool False),
                 (''last_error'', JStr (reason_or (rp_reason result) ''Broker restart failed''))])
            (\<lambda>_. run_return result) (w\<lparr>aw_restarts := restarts\<rparr>)))"

section \<open>Properties\<close>

text \<open>The container the restart is asked of, and what a report says.\<close>

lemma restart_container_cases:
  "restart_container dk name = (r, c) \<Longrightarrow>
   (br_restarted r \<and> c = Some name) \<or> (\<not> br_restarted r \<and> c = None \<and> (\<exists>t. br_reason r = Some t \<and> t \<noteq> []))"
  by (auto simp: restart_container_def not_restarted_def split: if_splits option.splits)

text \<open>
  A clock that does not go back between the deadline's reading and the first one of the wait, and
  that moves on by the 200 ms slept after each failed attempt before the deadline.
\<close>

definition port_attempts :: "env \<Rightarrow> restart_host \<Rightarrow> int \<Rightarrow> attempts" where
  "port_attempts env rh port = rh_attempts rh (getenv env ''MQTT_HOST'' ''mosquitto'') port"

definition advancing :: "env \<Rightarrow> restart_host \<Rightarrow> bool" where
  "advancing env rh = (rh_clock rh 1 \<le> rh_clock rh 2 \<and>
     (\<forall>port j. 1 < j \<and> retries (rh_clock rh) (port_attempts env rh port) (rh_clock rh 1 + 20000) j \<longrightarrow>
        rh_clock rh j + 200 \<le> rh_clock rh (Suc j)))"

lemma wait_returns:
  assumes "advancing env rh"
  shows "wait_for_port (rh_clock rh) (rh_attempts rh (getenv env ''MQTT_HOST'' ''mosquitto'') port) 20000 1 \<noteq> None"
proof -
  let ?attempt = "rh_attempts rh (getenv env ''MQTT_HOST'' ''mosquitto'') port"
  have 1: "rh_clock rh 1 + 20000 \<le> rh_clock rh 2 + int 100 * 200" using assms by (simp add: advancing_def)
  have 2: "rh_clock rh j + 200 \<le> rh_clock rh (Suc j)"
    if "2 \<le> j" "retries (rh_clock rh) ?attempt (rh_clock rh 1 + 20000) j" for j
    using assms that by (auto simp: advancing_def port_attempts_def)
  from wait_loop_returns [of 200 2 "rh_clock rh" ?attempt "rh_clock rh 1 + 20000", OF _ 2 1] show ?thesis
    by (auto simp: wait_for_port_def Let_def numeral_2_eq_2)
qed

lemma flow_reports:
  assumes "advancing env rh"
  shows "\<exists>res rs. restart_broker_flow env dk rh restarts = Some (res, rs) \<and>
    (case res of
       Inl e \<Rightarrow> rs = restarts @ [DEFAULT_CONTAINER_NAME]
     | Inr r \<Rightarrow> rs = restarts @ (if rp_restarted r then [DEFAULT_CONTAINER_NAME] else []) \<and>
         (rp_ok r \<longleftrightarrow> rp_restarted r \<and> rp_broker_ready r = Some True) \<and>
         (if rp_ok r then rp_reason r = None else (\<exists>t. rp_reason r = Some t \<and> t \<noteq> [])))"
proof (cases "rh_lock_free rh")
  case True
  obtain r c where rc: "restart_container dk DEFAULT_CONTAINER_NAME = (r, c)" by fastforce
  show ?thesis
  proof (cases "br_restarted r")
    case False
    with True rc restart_container_cases [OF rc] show ?thesis
      by (auto simp: restart_broker_flow_def Let_def)
  next
    case restarted: True
    then have c: "c = Some DEFAULT_CONTAINER_NAME" using restart_container_cases [OF rc] by simp
    show ?thesis
    proof (cases "py_int (JStr (getenv env ''MQTT_PORT'' ''1883''))")
      case (Inl e)
      with True rc restarted c show ?thesis by (simp add: restart_broker_flow_def Let_def del: py_int.simps)
    next
      case (Inr port)
      obtain b n where "wait_for_port (rh_clock rh) (rh_attempts rh (getenv env ''MQTT_HOST'' ''mosquitto'') port) 20000 1 =
          Some (b, n)"
        using wait_returns [OF assms] by fastforce
      with True rc restarted c Inr show ?thesis
        by (cases b) (simp_all add: restart_broker_flow_def Let_def del: py_int.simps)
    qed
  qed
qed (simp add: restart_broker_flow_def Let_def)

lemma verified_update:
  assumes "env_ok (ar_env ar)" and "config_ok (app_config w)" and "sort_keys e = e"
  obtains s t c where "update_session ar [(''mode'', JStr m), (''verified'', JBool b), (''last_error'', e)] w =
      (Inr t, with_config w c)" "read_session ar (with_config w c) = Inr s" "dget s ''verified'' = JBool b"
    "dget s ''last_error'' = e"
proof -
  let ?u = "[(''mode'', JStr m), (''verified'', JBool b), (''last_error'', e)]"
  have ok: "session_update_ok ?u" by (simp add: session_update_ok_def session_flags_def session_names_def)
  obtain s0 t s c where h: "read_session ar w = Inr s0" "update_session ar ?u w = (Inr t, with_config w c)"
    "read_session ar (with_config w c) = Inr s" "config_ok c"
    "cs_config c = cs_config (app_config w)" "cs_fs c = cs_fs (app_config w)" "cs_mounts c = cs_mounts (app_config w)"
    and rd: "\<And>k. k \<in> set session_keys \<Longrightarrow> k \<noteq> ''mode'' \<Longrightarrow> k \<noteq> ''optional_groups_requested'' \<Longrightarrow>
      dget s k = sort_keys (if dhas ?u k then dget ?u k else dget s0 k)"
    by (rule update_session_step [OF assms(1,2) ok]) (rule that)
  have "dget s ''verified'' = JBool b" "dget s ''last_error'' = e"
    by (simp_all add: rd session_keys_def dhas_def assms(3))
  with that h show thesis by blast
qed


text \<open>A host whose third attempt reaches the port, and which reads the clock again at once.\<close>

definition example_restart :: restart_host where
  "example_restart = \<lparr>rh_lock_free = True, rh_clock = (\<lambda>j. 200 * int (min j 4)),
     rh_attempts = (\<lambda>_ _ j. if j < 4 then Some (OSError 111) else None)\<rparr>"

definition docker_app :: app_runtime where
  "docker_app = example_app\<lparr>ar_docker := \<lparr>dk_socket = True, dk_sdk_error = None, dk_restart_error = (\<lambda>_. None),
     dk_attrs = (\<lambda>_. None)\<rparr>\<rparr>"

lemma example_restart_advancing: "advancing env example_restart"
  by (auto simp: advancing_def example_restart_def port_attempts_def retries_def split: if_splits)

lemma example_restart_flow:
  "restart_broker_flow (ar_env docker_app) (ar_docker docker_app) example_restart rs =
     Some (Inr \<lparr>rp_ok = True, rp_restarted = True, rp_broker_ready = Some True, rp_reason = None,
       rp_operator_action = None, rp_elapsed_ms = 800\<rparr>, rs @ [DEFAULT_CONTAINER_NAME])"
proof -
  have "wait_for_port (rh_clock example_restart) (rh_attempts example_restart h p) 20000 1 = Some (Inr True, 5)" for h p
    by (simp add: wait_for_port_def example_restart_def wait_loop.simps)
  moreover have "py_int (JStr (getenv (ar_env docker_app) ''MQTT_PORT'' ''1883'')) = Inr 1883" by code_simp
  ultimately show ?thesis
    by (simp add: restart_broker_flow_def Let_def restart_container_def docker_app_def example_restart_def
        del: py_int.simps)
qed


text \<open>
  The port is read from the environment after the restart: a value that is no number makes
  the request fail with the broker restarted and the session as it was.
\<close>

lemma bad_port_after_restart:
  "map_option (map_sum id rp_ok \<circ> fst) (restart_broker_flow ((\<lambda>_. None)(''MQTT_PORT'' := Some ''mqtt''))
     \<lparr>dk_socket = True, dk_sdk_error = None, dk_restart_error = (\<lambda>_. None), dk_attrs = (\<lambda>_. None)\<rparr> example_restart []) =
     Some (Inl (ValueError ''invalid literal for int()''))"
  by code_simp

end
