(* ===== verification/Session_Gate.thy ===== *)
theory Session_Gate
  imports Config_Roundtrip
begin

text \<open>
  The setup state that the session file holds, which the publishing endpoints ask for: once it
  is neither ready nor degraded, no operation of the configuration store but an install
  opens it again.
\<close>

section \<open>A closed session\<close>

definition closed_state :: "json \<Rightarrow> bool" where
  "closed_state v = (case v of JStr s \<Rightarrow> s \<notin> {''ready'', ''degraded''} | _ \<Rightarrow> False)"

lemma closed_state_simps [simp]:
  "closed_state (JStr s) \<longleftrightarrow> s \<noteq> ''ready'' \<and> s \<noteq> ''degraded''" "closed_state (sort_keys v) = closed_state v"
  by (simp add: closed_state_def, cases v) (simp_all add: closed_state_def)

definition session_closed :: "config_store \<Rightarrow> bool" where
  "session_closed st =
     (case load_install_session_state st of Inr (JObj raw) \<Rightarrow> closed_state (dget raw ''setup_state'') | _ \<Rightarrow> False)"

lemma session_closedE:
  assumes "session_closed st"
  obtains raw where "load_install_session_state st = Inr (JObj raw)" "closed_state (dget raw ''setup_state'')"
  using assms by (auto simp: session_closed_def split: sum.splits json.splits)

text \<open>An update that does not open the session.\<close>

definition setup_closing :: "dict \<Rightarrow> bool" where
  "setup_closing u = (if dhas u ''setup_state'' then closed_state (dget u ''setup_state'') else True)"

lemma session_closed_cong [simp]:
  "session_closed (save_overrides d st) = session_closed st" "session_closed (st\<lparr>cs_assets := x\<rparr>) = session_closed st"
  "session_closed (st\<lparr>cs_fs := y\<rparr>) = session_closed st"
  by (simp_all add: session_closed_def load_install_session_state_def save_overrides_def)

text \<open>Whoever reads a closed session finds it closed.\<close>

lemma closed_read:
  assumes "session_closed st" and "get_install_session_state env st = Inr s"
  shows "closed_state (dget s ''setup_state'')" and "map fst s = session_keys"
proof -
  obtain raw where raw: "load_install_session_state st = Inr (JObj raw)" "closed_state (dget raw ''setup_state'')"
    using assms(1) by (rule session_closedE)
  obtain c where c: "get_install_state env st = Inr c"
    using assms(2) by (auto simp: get_install_session_state_def Let_def raw(1) res_bind_Inr_iff)
  have has: "dhas raw ''setup_state''" by (rule ccontr) (use raw(2) in \<open>simp add: dget_not closed_state_def\<close>)
  have "dget (session_of_raw raw default_install_session_state) ''setup_state'' = dget raw ''setup_state''"
    by (simp add: dget_session_of_raw session_names_def session_flags_def session_keys_def dget_or_dget [OF has])
  then show "closed_state (dget s ''setup_state'')"
    using assms(2) raw(2) unfolding get_install_session_state_eq [OF raw(1) c] Let_def by (auto split: if_splits)
  show "map fst s = session_keys" using get_session_typed [OF assms(2) raw(1) c] by (simp add: session_typed_def)
qed

lemma closed_update:
  assumes "session_closed st" and "setup_closing u"
  shows "session_closed (snd (update_install_session_state env u st))"
proof (cases "get_install_session_state env st")
  case (Inr s)
  note s = closed_read [OF assms(1) Inr]
  have "distinct (map fst (merge_session u s))"
    by (simp add: merge_session_fields(1) [OF s(2)] distinct_session_keys)
  then have "dget (sort_dict (merge_session u s)) ''setup_state'' = sort_keys (dget (merge_session u s) ''setup_state'')"
    by (simp only: dget_sort_dict)
  moreover have "closed_state (dget (merge_session u s) ''setup_state'')"
    using s(1) assms(2) unfolding merge_session_fields(2) [OF s(2)] by (auto simp: setup_closing_def)
  ultimately show ?thesis
    by (simp add: update_install_session_state_def Inr Let_def session_closed_def)
qed (simp add: update_install_session_state_def assms(1))

text \<open>An update with a state that is closed closes the session, whatever it was.\<close>

lemma closing_update:
  assumes "update_install_session_state env u st = (Inr s, st')"
    and "dhas u ''setup_state''" and "closed_state (dget u ''setup_state'')"
  shows "session_closed st'"
proof -
  obtain s0 where s0: "get_install_session_state env st = Inr s0" and st': "st' = save_install_session_state (merge_session u s0) st"
    using assms(1) by (auto simp: update_install_session_state_def Let_def split: sum.splits)
  obtain raw where raw: "load_install_session_state st = Inr (JObj raw)"
    using s0 by (auto simp: get_install_session_state_def load_install_session_state_def Let_def res_bind_def split: sum.splits)
  obtain c where c: "get_install_state env st = Inr c"
    using s0 by (auto simp: get_install_session_state_def Let_def raw res_bind_Inr_iff)
  have keys: "map fst s0 = session_keys" using get_session_typed [OF s0 raw c] by (simp add: session_typed_def)
  have "distinct (map fst (merge_session u s0))"
    by (simp add: merge_session_fields(1) [OF keys] distinct_session_keys)
  then have "dget (sort_dict (merge_session u s0)) ''setup_state'' = sort_keys (dget u ''setup_state'')"
    using assms(2) by (simp add: dget_sort_dict merge_session_fields(2) [OF keys] session_keys_def)
  with assms(3) show ?thesis by (simp add: st' session_closed_def)
qed

text \<open>The operations of the configuration store that leave it closed: all but the install.\<close>

inductive closing_step :: "env \<Rightarrow> config_store \<Rightarrow> config_store \<Rightarrow> bool" for env where
  "closing_step env st (snd (set_core_base_url env t url st))"
| "closing_step env st (snd (update_config env u st))"
| "closing_step env st (snd (update_install_session_state env v st))" if "setup_closing v"
| "closing_step env st (snd (set_selected_mode env mode direct st))"
| "closing_step env st (snd (reset_install_session_state mode st))"
| "closing_step env st (snd (set_requested_optional_groups env t ids supported st))"

lemma closing_step_config: "closing_step env st st' \<Longrightarrow> config_step env st st'"
  by (cases rule: closing_step.cases) (auto intro: config_step.intros)

lemma closing_step_closed:
  assumes "closing_step env st st'" and "session_closed st"
  shows "session_closed st'"
  using assms
proof cases
  case (1 t url)
  with assms(2) show ?thesis by (simp add: set_core_base_url_def Let_def split: sum.splits prod.splits)
next
  case (2 u)
  with assms(2) show ?thesis by (simp add: update_config_def Let_def split: sum.splits)
next
  case (3 v)
  with assms(2) show ?thesis by (simp add: closed_update)
next
  case (4 mode direct)
  have "session_closed (snd (update_install_session_state env [(''mode'', JStr mode),
      (''external_direct_access_mode'', JStr d), (''setup_state'', JStr ''configuring''), (''configured'', JBool False),
      (''verified'', JBool False), (''last_error'', JNull)] (save_overrides o' st)))" for d o'
    by (rule closed_update) (simp_all add: assms(2) setup_closing_def)
  with 4 assms(2) show ?thesis by (simp add: set_selected_mode_def Let_def split: sum.splits)
next
  case (5 mode)
  have "dget (dset ''mode'' v default_install_session_state) ''setup_state'' = JStr ''unconfigured''"
    "dget default_install_session_state ''setup_state'' = JStr ''unconfigured''" for v
    by (simp_all add: default_install_session_state_def)
  moreover have "distinct (map fst default_install_session_state)"
    by (simp add: map_fst_default distinct_session_keys)
  ultimately show ?thesis
    using 5 by (simp add: reset_install_session_state_def Let_def session_closed_def dget_sort_dict distinct_dset)
next
  case (6 t ids supported)
  have "session_closed (snd (update_install_session_state env [(''optional_groups_requested'', a),
      (''optional_groups_active'', b), (''optional_groups_failed'', c)] st1))" if "session_closed st1" for a b c st1
    by (rule closed_update [OF that]) (simp add: setup_closing_def)
  with 6 assms(2) show ?thesis
    by (auto simp: set_requested_optional_groups_def write_desired_optional_groups_def Let_def
        split: sum.splits prod.splits)
qed

end
