(* ===== verification/System.thy ===== *)
theory System
  imports Registration_Api Addon_Api Broker_Admin Session_Gate
begin

text \<open>
  The running program: app/main.py with app/api/auth.py. A request that changes state is
  checked for its scope and handed to its endpoint; paho calls the callbacks of the service;
  the telemetry thread flushes its queue; the application starts and stops. A run is a
  sequence of such events, each with parameters of its own, and the theorems are about every
  run, whatever the endpoints do to each other's state.
\<close>

section \<open>Requests and events\<close>

text \<open>The requests that may change state, with the bodies the request models have accepted.\<close>

datatype api_request =
    Rq_Publish publish_request
  | Rq_Gateway gateway_publish_request
  | Rq_Sensor ha_discovery_sensor_request
  | Rq_State ha_state_publish_request
  | Rq_Register registration_request
  | Rq_Config addon_config_update
  | Rq_Groups "string list"
  | Rq_Reset_Groups
  | Rq_Mode string string
  | Rq_Test_External external_config
  | Rq_Apply install_apply_request
  | Rq_Core_Url string
  | Rq_Core core_registry_request
  | Rq_Reset
  | Rq_Restart restart_host

text \<open>The scope each router is built with; the connection test has none.\<close>

fun route_scope :: "api_request \<Rightarrow> string option" where
  "route_scope (Rq_Publish _) = Some ''mqtt.publish''"
| "route_scope (Rq_Gateway _) = Some ''mqtt.publish''"
| "route_scope (Rq_Sensor _) = Some ''mqtt.publish''"
| "route_scope (Rq_State _) = Some ''mqtt.publish''"
| "route_scope (Rq_Register _) = Some ''core.register''"
| "route_scope (Rq_Config _) = Some ''addon.config.write''"
| "route_scope (Rq_Groups _) = Some ''install.apply''"
| "route_scope Rq_Reset_Groups = Some ''install.apply''"
| "route_scope (Rq_Mode _ _) = Some ''install.apply''"
| "route_scope (Rq_Test_External _) = None"
| "route_scope (Rq_Apply _) = Some ''install.apply''"
| "route_scope (Rq_Core_Url _) = Some ''core.register''"
| "route_scope (Rq_Core _) = Some ''core.register''"
| "route_scope Rq_Reset = Some ''install.reset''"
| "route_scope (Rq_Restart _) = Some ''broker.admin''"

text \<open>
  What surrounds one event: the application's parameters, the keyed hash and the reader of
  token segments, and the time in seconds that expiry is compared with.
\<close>

record surroundings =
  sr_app :: app_runtime
  sr_hmac :: "string \<Rightarrow> string \<Rightarrow> string"
  sr_loads :: "string \<Rightarrow> json option"
  sr_time :: int

definition no_claims :: service_token_claims where
  "no_claims = \<lparr>sub = [], aud = [], jti = [], scopes = {}, raw = []\<rparr>"

text \<open>The claims the endpoint gets, from the dependency; none for a route without a scope.\<close>

definition request_claims :: "surroundings \<Rightarrow> string option \<Rightarrow> api_request \<Rightarrow> service_token_claims res" where
  "request_claims sr authorization request =
     (case route_scope request of
        None \<Rightarrow> Inr no_claims
      | Some scope \<Rightarrow>
          require_scope (sr_hmac sr) (sr_loads sr) (ar_env (sr_app sr)) (mf_addon_id (ar_manifest (sr_app sr)))
            (sr_time sr) authorization scope)"

text \<open>An answer is a success or an exception; the state after it comes with it.\<close>

type_synonym answer = "exn option"

definition failure :: "'a res \<Rightarrow> answer" where
  "failure res = (case res of Inl e \<Rightarrow> Some e | Inr _ \<Rightarrow> None)"

definition by_gateway :: "'a handler \<Rightarrow> app_world \<Rightarrow> (answer \<times> app_world) option" where
  "by_gateway handle w =
     (case handle (aw_gw w) of None \<Rightarrow> None | Some (res, g) \<Rightarrow> Some (failure res, w\<lparr>aw_gw := g\<rparr>))"

definition by_run :: "'a app_run \<Rightarrow> app_world \<Rightarrow> (answer \<times> app_world) option" where
  "by_run m w = (case m w of (res, w') \<Rightarrow> Some (failure res, w'))"

text \<open>The endpoint of a request; \<open>None\<close> when it never answers.\<close>

fun respond :: "app_runtime \<Rightarrow> service_token_claims \<Rightarrow> api_request \<Rightarrow> app_world \<Rightarrow> (answer \<times> app_world) option" where
  "respond ar claims (Rq_Publish r) w = by_gateway (publish_message (ar_api ar) claims r) w"
| "respond ar claims (Rq_Gateway r) w = by_gateway (gateway_publish (ar_api ar) claims r) w"
| "respond ar claims (Rq_Sensor r) w = by_gateway (publish_sensor_discovery (ar_api ar) claims r) w"
| "respond ar claims (Rq_State r) w = by_gateway (publish_gateway_state (ar_api ar) claims r) w"
| "respond ar claims (Rq_Register r) w = by_run (on_gw (upsert_registration ar claims r)) w"
| "respond ar claims (Rq_Config u) w = by_run (update_addon_config ar u) w"
| "respond ar claims (Rq_Groups ids) w = by_run (set_optional_groups ar ids) w"
| "respond ar claims Rq_Reset_Groups w = by_run (reset_optional_groups ar) w"
| "respond ar claims (Rq_Mode mode direct) w = by_run (set_mode ar mode direct) w"
| "respond ar claims (Rq_Test_External x) w = by_run (test_external ar x) w"
| "respond ar claims (Rq_Apply r) w = by_run (apply_install ar r) w"
| "respond ar claims (Rq_Core_Url url) w = by_run (set_core_base_url_request ar url) w"
| "respond ar claims (Rq_Core r) w = by_run (register_core ar r) w"
| "respond ar claims Rq_Reset w = by_run (reset_install_state ar) w"
| "respond ar claims (Rq_Restart rh) w =
     (case restart_broker ar rh w of None \<Rightarrow> None | Some (res, w') \<Rightarrow> Some (failure res, w'))"

datatype app_event =
    Request "string option" api_request
  | Callback client_event
  | Flush
  | Startup
  | Shutdown

text \<open>
  The body of the loop of the telemetry thread. A flush that never returns has sent the
  whole queue and waits, with the lock, for the lock. One that raises ends the thread; a run
  may go on with flushes all the same, of a thread that a later start makes.
\<close>

definition telemetry_tick :: "app_runtime \<Rightarrow> telemetry \<Rightarrow> telemetry" where
  "telemetry_tick ar t =
     (case flush_once (ar_http ar) (ar_env ar) (rt_disk (ar_api ar)) t of
        Some (_, t') \<Rightarrow> t'
      | None \<Rightarrow> if tel_lock_held t then t else t\<lparr>tel_queue := [], tel_lock_held := True\<rparr>)"

text \<open>One event; \<open>None\<close> for one that waits for ever.\<close>

fun app_step :: "surroundings \<Rightarrow> app_event \<Rightarrow> app_world \<Rightarrow> (answer \<times> app_world) option" where
  "app_step sr (Request authorization request) w =
     (case request_claims sr authorization request of
        Inl e \<Rightarrow> Some (Some e, w)
      | Inr claims \<Rightarrow> respond (sr_app sr) claims request w)"
| "app_step sr (Callback event) w =
     (case gw_service (aw_gw w) of
        None \<Rightarrow> Some (None, w)
      | Some s \<Rightarrow> Some (None, w\<lparr>aw_gw := client_step (base_runtime (ar_api (sr_app sr))) s event (aw_gw w)\<rparr>))"
| "app_step sr Flush w =
     Some (None, w\<lparr>aw_gw := (aw_gw w)\<lparr>gw_telemetry := telemetry_tick (sr_app sr) (gw_telemetry (aw_gw w))\<rparr>\<rparr>)"
| "app_step sr Startup w = by_run (on_gw (startup_event (sr_app sr))) w"
| "app_step sr Shutdown w =
     (case shutdown_event (sr_app sr) (aw_gw w) of
        None \<Rightarrow> None | Some (res, g) \<Rightarrow> Some (failure res, w\<lparr>aw_gw := g\<rparr>))"

text \<open>A run with its log: for each event its surroundings, the state it found and its answer.\<close>

type_synonym log_entry = "surroundings \<times> app_event \<times> app_world \<times> answer"

inductive app_run_log :: "app_world \<Rightarrow> log_entry list \<Rightarrow> app_world \<Rightarrow> bool" where
  stopped: "app_run_log w [] w"
| event: "app_run_log w ((sr, e, w, a) # entries) w'" if "app_step sr e w = Some (a, w1)" and "app_run_log w1 entries w'"

inductive_cases app_run_log_NilE: "app_run_log w [] w'"
inductive_cases app_run_log_ConsE: "app_run_log w (entry # entries) w'"

lemma app_run_log_append:
  "app_run_log w (log1 @ log2) w' \<longleftrightarrow> (\<exists>w1. app_run_log w log1 w1 \<and> app_run_log w1 log2 w')"
  by (induction log1 arbitrary: w)
    (auto intro: app_run_log.intros elim!: app_run_log_NilE app_run_log_ConsE, blast intro: app_run_log.event)

section \<open>What the management endpoints do to the state\<close>

text \<open>
  A relation between the state before and after that holds for every way such an endpoint
  changes state: an operation of the configuration store, a new MQTT service, the broker's
  files, the requests to Core, the containers. If it is reflexive and transitive it holds for
  the endpoints themselves: for all but the install if it holds for the operations that do
  not open the session, for all of them if it holds for every operation.
\<close>

definition keeps :: "('s \<Rightarrow> 's \<Rightarrow> bool) \<Rightarrow> ('s, 'a) run \<Rightarrow> bool" where
  "keeps R m = (\<forall>s. R s (snd (m s)))"

lemma keepsD: "keeps R m \<Longrightarrow> m s = (res, s') \<Longrightarrow> R s s'"
  by (metis keeps_def snd_conv)

lemma on_config_state: "snd (on_config m w) = with_config w (snd (m (app_config w)))"
  by (simp add: on_config_simps with_config_def app_config_def)

locale settings =
  fixes R :: "app_world \<Rightarrow> app_world \<Rightarrow> bool"
  assumes refl: "R w w"
    and trans: "R w w1 \<Longrightarrow> R w1 w2 \<Longrightarrow> R w w2"
    and stores: "closing_step env (app_config w) c \<Longrightarrow> R w (with_config w c)"
    and reloads: "R w (w\<lparr>aw_gw := snd (reload_mqtt_service ar (aw_gw w))\<rparr>)"
    and brokers: "R w (w\<lparr>aw_broker := b\<rparr>)"
    and cores: "R w (w\<lparr>aw_core := k\<rparr>)"
    and containers: "R w (w\<lparr>aw_restarts := cs\<rparr>)"
begin

lemma keeps_bind:
  assumes "keeps R m" and "\<And>x. keeps R (f x)"
  shows "keeps R (run_bind m f)"
  unfolding keeps_def
proof
  fix w
  obtain res w1 where m: "m w = (res, w1)" by fastforce
  note q = keepsD [OF assms(1) m]
  show "R w (snd (run_bind m f w))"
  proof (cases res)
    case (Inr x)
    have "R w1 (snd (f x w1))" using assms(2) by (simp add: keeps_def)
    with trans [OF q] Inr m show ?thesis by (simp add: run_bind_def)
  qed (use q m in \<open>simp add: run_bind_def\<close>)
qed

lemma keeps_catch:
  assumes "keeps R m" and "\<And>e. keeps R (h e)"
  shows "keeps R (run_catch m h)"
  unfolding keeps_def
proof
  fix w
  obtain res w1 where m: "m w = (res, w1)" by fastforce
  note q = keepsD [OF assms(1) m]
  show "R w (snd (run_catch m h w))"
  proof (cases res)
    case (Inl e)
    have "R w1 (snd (h e w1))" using assms(2) by (simp add: keeps_def)
    with trans [OF q] Inl m show ?thesis by (simp add: run_catch_def)
  qed (use q m in \<open>simp add: run_catch_def\<close>)
qed

lemma keeps_basic:
  "keeps R (run_return x)" "keeps R (run_raise e)" "keeps R (run_res r)" "keeps R (run_get f)"
  "keeps R (http_error code t)" "keeps R (\<lambda>w. (g w, w))"
  by (simp_all add: keeps_def runs http_error_def refl)

lemma keeps_parts:
  "keeps R (on_gw (reload_mqtt_service ar))" "keeps R (on_broker b)" "keeps R (on_core k)"
  by (simp_all add: keeps_def run_lift_def on_gw_def on_broker_def on_core_def split_beta reloads brokers cores)

lemma keeps_on_config: "(\<And>c. closing_step env c (snd (m c))) \<Longrightarrow> keeps R (on_config m)"
  unfolding keeps_def on_config_state by (blast intro: stores)

lemma keeps_store:
  "keeps R (on_config (set_core_base_url env t url))" "keeps R (on_config (update_config env u))"
  "keeps R (on_config (set_selected_mode env mode direct))" "keeps R (on_config (reset_install_session_state mode))"
  "keeps R (on_config (set_requested_optional_groups env t ids supported))"
  by (rule keeps_on_config, rule closing_step.intros)+

lemma keeps_session: "setup_closing v \<Longrightarrow> keeps R (on_config (update_install_session_state env v))"
  by (rule keeps_on_config, rule closing_step.intros)

lemma keeps_if: "(b \<Longrightarrow> keeps R m) \<Longrightarrow> (\<not> b \<Longrightarrow> keeps R m') \<Longrightarrow> keeps R (if b then m else m')"
  by simp

lemma keeps_option: "keeps R m \<Longrightarrow> (\<And>x. keeps R (f x)) \<Longrightarrow> keeps R (case_option m f o')"
  by (cases o') simp_all

lemma keeps_prod: "(\<And>x y. keeps R (f x y)) \<Longrightarrow> keeps R (case_prod f p)"
  by (cases p) simp

lemma keeps_exn:
  assumes "\<And>s. keeps R (f1 s)" "keeps R f2" "keeps R f3" "\<And>s. keeps R (f4 s)" "\<And>s. keeps R (f5 s)"
    "\<And>s. keeps R (f6 s)" "\<And>s. keeps R (f7 s)" "keeps R f8" "keeps R f9" "\<And>s. keeps R (f10 s)"
    "keeps R f11" "\<And>i. keeps R (f12 i)" "keeps R f13" "\<And>i s. keeps R (f14 i s)"
  shows "keeps R (case_exn f1 f2 f3 f4 f5 f6 f7 f8 f9 f10 f11 f12 f13 f14 e)"
  using assms by (cases e) simp_all

lemmas keeps_rules = keeps_bind keeps_catch keeps_if keeps_option keeps_prod keeps_exn keeps_store
  keeps_session keeps_parts keeps_basic

lemmas endpoint_parts = update_session_def select_groups_def failing_with_def session_failed_def session_ready_def
  require_tested_def Let_def

lemma keeps_endpoints:
  "keeps R (update_addon_config ar u)" "keeps R (set_optional_groups ar ids)" "keeps R (reset_optional_groups ar)"
  "keeps R (set_mode ar mode direct)" "keeps R (test_external ar x)" "keeps R (set_core_base_url_request ar url)"
  "keeps R (reset_install_state ar)"
  unfolding update_addon_config_def reset_optional_groups_def set_optional_groups_def set_mode_def
    test_external_def set_core_base_url_request_def reset_install_state_def endpoint_parts
  by (intro keeps_rules; simp add: setup_closing_def)+

lemma keeps_core: "keeps R (register_core ar r)"
  unfolding register_core_def endpoint_parts
  by (intro keeps_rules) (simp_all add: setup_closing_def)

lemma keeps_restart:
  assumes "restart_broker ar rh w = Some (res, w')"
  shows "R w w'"
proof -
  let ?u = "\<lambda>b e. [(''mode'', JStr ''embedded''), (''verified'', JBool b), (''last_error'', e)]"
  have q: "keeps R (run_bind (if b then update_session ar (?u x e) else update_session ar (?u y e')) (\<lambda>_. run_return z))"
    for b x y e e' z
    unfolding update_session_def by (intro keeps_rules) (simp_all add: setup_closing_def)
  have "R w w'"
    if "run_bind (if b then update_session ar (?u x e) else update_session ar (?u y e')) (\<lambda>_. run_return z)
      (w\<lparr>aw_restarts := r\<rparr>) = (res, w')" for b x y e e' z r
    by (rule trans [OF containers keepsD [OF q that]])
  with assms containers show ?thesis
    unfolding restart_broker_def by (auto split: option.splits prod.splits sum.splits)
qed

end

locale management = settings +
  assumes all_stores: "config_step env (app_config w) c \<Longrightarrow> R w (with_config w c)"
begin

lemma keeps_all_stores:
  "keeps R (on_config (update_install_session_state env v))" "keeps R (on_config (apply_install_config env r))"
  unfolding keeps_def on_config_state by (blast intro: all_stores config_step.intros)+

lemma keeps_apply: "keeps R (apply_install ar r)"
  unfolding apply_install_def apply_embedded_def endpoint_parts
  by (intro keeps_all_stores keeps_rules)

end

section \<open>What they leave alone\<close>

text \<open>They send no message and change neither the policy cache nor the telemetry.\<close>

definition same_gateway :: "gateway_world \<Rightarrow> gateway_world \<Rightarrow> bool" where
  "same_gateway g g' = (cw_outbox g' = cw_outbox g \<and> cw_policy g' = cw_policy g \<and> gw_telemetry g' = gw_telemetry g)"

abbreviation quietly :: "app_world \<Rightarrow> app_world \<Rightarrow> bool" where
  "quietly w w' \<equiv> same_gateway (aw_gw w) (aw_gw w')"

lemma same_gateway_reload: "same_gateway g (snd (reload_mqtt_service ar g))"
  using reload_keeps [OF surjective_pairing [of "reload_mqtt_service ar g"]] by (simp add: same_gateway_def)

lemma gw_telemetry_with_config [simp]: "gw_telemetry (aw_gw (with_config w c)) = gw_telemetry (aw_gw w)"
  by (simp add: with_config_def)

interpretation quiet: management quietly
  by unfold_locales (simp_all add: same_gateway_reload, simp_all add: same_gateway_def)

text \<open>They leave a configuration that can be read in that state.\<close>

abbreviation config_safe :: "app_world \<Rightarrow> app_world \<Rightarrow> bool" where
  "config_safe w w' \<equiv> config_ok (app_config w) \<longrightarrow> config_ok (app_config w')"

lemma app_config_reload: "app_config (w\<lparr>aw_gw := snd (reload_mqtt_service ar (aw_gw w))\<rparr>) = app_config w"
  using reload_keeps [OF surjective_pairing [of "reload_mqtt_service ar (aw_gw w)"]] by (simp add: app_config_def)

interpretation safe_config: management config_safe
  by unfold_locales
    (auto simp: app_config_reload intro: config_ok_step config_ok_step [OF closing_step_config], simp_all add: app_config_def)

text \<open>All but the install leave a session closed that is.\<close>

abbreviation stays_closed :: "app_world \<Rightarrow> app_world \<Rightarrow> bool" where
  "stays_closed w w' \<equiv> session_closed (app_config w) \<longrightarrow> session_closed (app_config w')"

interpretation gate: settings stays_closed
  by unfold_locales (auto simp: app_config_reload intro: closing_step_closed, simp_all add: app_config_def)

text \<open>Registering is no operation of the configuration, but leaves the same things alone.\<close>

lemma registration_keeps:
  "keeps quietly (on_gw (upsert_registration ar claims r))" "keeps config_safe (on_gw (upsert_registration ar claims r))"
  "keeps stays_closed (on_gw (upsert_registration ar claims r))"
proof -
  have "same_gateway g (snd (upsert_registration ar claims r g)) \<and>
      gw_config (snd (upsert_registration ar claims r g)) = gw_config g" for g
    using upsert_registration_keeps [OF surjective_pairing [of "upsert_registration ar claims r g"]]
    by (simp add: same_gateway_def)
  then show "keeps quietly (on_gw (upsert_registration ar claims r))"
    "keeps config_safe (on_gw (upsert_registration ar claims r))"
    "keeps stays_closed (on_gw (upsert_registration ar claims r))"
    by (simp_all add: keeps_def on_gw_def run_lift_def split_beta app_config_def)
qed

section \<open>What one event sends\<close>

text \<open>
  For a publishing request, accepted: at most one message, one that the endpoint allows in
  the state it finds, and exactly one after a success. For a callback: at most the
  announcement and the health message. Nothing else sends.
\<close>

definition one_allowed :: "(mqtt_message \<Rightarrow> bool) \<Rightarrow> answer \<Rightarrow> mqtt_message list \<Rightarrow> bool" where
  "one_allowed allowed a ms = (ms = [] \<and> a \<noteq> None \<or> (\<exists>m. ms = [m] \<and> allowed m))"

fun request_sends ::
  "api_runtime \<Rightarrow> service_token_claims \<Rightarrow> api_request \<Rightarrow> gateway_world \<Rightarrow> answer \<Rightarrow> mqtt_message list \<Rightarrow> bool" where
  "request_sends rt claims (Rq_Publish r) g a ms = one_allowed (publish_allowed rt (claims, r) g) a ms"
| "request_sends rt claims (Rq_Gateway r) g a ms = one_allowed (gateway_allowed rt (claims, r) g) a ms"
| "request_sends rt claims (Rq_Sensor r) g a ms = one_allowed (discovery_allowed rt (claims, r) g) a ms"
| "request_sends rt claims (Rq_State r) g a ms = one_allowed (state_allowed rt (claims, r) g) a ms"
| "request_sends rt claims _ g a ms = (ms = [])"

definition lifecycle_message :: "mqtt_service \<Rightarrow> mqtt_message \<Rightarrow> bool" where
  "lifecycle_message s m =
     (mm_topic m \<in> {announce_topic (ms_lifecycle s), health_topic (ms_lifecycle s)} \<and> mm_retain m \<and> mm_qos m = ms_qos s)"

definition callback_sends :: "mqtt_service option \<Rightarrow> mqtt_message list \<Rightarrow> bool" where
  "callback_sends current ms =
     (case current of None \<Rightarrow> ms = [] | Some s \<Rightarrow> length ms \<le> 2 \<and> list_all (lifecycle_message s) ms)"

fun event_sends :: "surroundings \<Rightarrow> app_event \<Rightarrow> gateway_world \<Rightarrow> answer \<Rightarrow> mqtt_message list \<Rightarrow> bool" where
  "event_sends sr (Request authorization request) g a ms =
     (case request_claims sr authorization request of
        Inl e \<Rightarrow> a = Some e \<and> ms = []
      | Inr claims \<Rightarrow> request_sends (ar_api (sr_app sr)) claims request g a ms)"
| "event_sends sr (Callback e) g a ms = callback_sends (gw_service g) ms"
| "event_sends sr Flush g a ms = (ms = [])"
| "event_sends sr Startup g a ms = (ms = [])"
| "event_sends sr Shutdown g a ms = (ms = [])"

definition entry_sends :: "log_entry \<Rightarrow> mqtt_message list \<Rightarrow> bool" where
  "entry_sends entry ms = (case entry of (sr, e, w, a) \<Rightarrow> event_sends sr e (aw_gw w) a ms)"

lemma entry_sends_simps [simp]: "entry_sends (sr, e, w, a) ms = event_sends sr e (aw_gw w) a ms"
  by (simp add: entry_sends_def)

lemma failure_isl: "isl res \<Longrightarrow> failure res \<noteq> None"
  by (cases res) (simp_all add: failure_def)

lemma one_allowed_of_sends:
  assumes "isl res \<and> cw_outbox g' = cw_outbox g \<or> (\<exists>m. allowed m \<and> cw_outbox g' = cw_outbox g @ [m])"
  shows "\<exists>ms. cw_outbox g' = cw_outbox g @ ms \<and> one_allowed allowed (failure res) ms"
  using assms
proof
  assume "isl res \<and> cw_outbox g' = cw_outbox g"
  then show ?thesis using failure_isl [of res] by (intro exI [of _ "[]"]) (simp add: one_allowed_def)
next
  assume "\<exists>m. allowed m \<and> cw_outbox g' = cw_outbox g @ [m]"
  then show ?thesis by (auto simp: one_allowed_def)
qed

lemma by_run_keeps:
  assumes "keeps R m" and "by_run m w = Some (a, w')"
  shows "R w w'"
  using assms keepsD by (fastforce simp: by_run_def split: prod.splits)

text \<open>The contracts of the four publishing endpoints, as the router calls them.\<close>

lemma publishing_sends:
  "publish_message rt claims r1 g = Some (res1, g') \<Longrightarrow>
     \<exists>ms. cw_outbox g' = cw_outbox g @ ms \<and> one_allowed (publish_allowed rt (claims, r1) g) (failure res1) ms"
  "gateway_publish rt claims r2 g = Some (res2, g') \<Longrightarrow>
     \<exists>ms. cw_outbox g' = cw_outbox g @ ms \<and> one_allowed (gateway_allowed rt (claims, r2) g) (failure res2) ms"
  "publish_sensor_discovery rt claims r3 g = Some (res3, g') \<Longrightarrow>
     \<exists>ms. cw_outbox g' = cw_outbox g @ ms \<and> one_allowed (discovery_allowed rt (claims, r3) g) (failure res3) ms"
  "publish_gateway_state rt claims r4 g = Some (res4, g') \<Longrightarrow>
     \<exists>ms. cw_outbox g' = cw_outbox g @ ms \<and> one_allowed (state_allowed rt (claims, r4) g) (failure res4) ms"
  by (rule one_allowed_of_sends, use publish_endpoint.sends [where r = "(claims, r1)" and rt = rt]
      gateway_endpoint.sends [where r = "(claims, r2)" and rt = rt]
      discovery_endpoint.sends [where r = "(claims, r3)" and rt = rt]
      state_endpoint.sends [where r = "(claims, r4)" and rt = rt] in simp)+

lemma by_gateway_sends:
  assumes "by_gateway handle w = Some (a, w')"
    and "\<And>res g'. handle (aw_gw w) = Some (res, g') \<Longrightarrow>
      \<exists>ms. cw_outbox g' = cw_outbox (aw_gw w) @ ms \<and> one_allowed allowed (failure res) ms"
  shows "\<exists>ms. cw_outbox (aw_gw w') = cw_outbox (aw_gw w) @ ms \<and> one_allowed allowed a ms"
  using assms by (auto simp: by_gateway_def split: option.splits)

lemmas endpoint_rules = quiet.keeps_endpoints quiet.keeps_apply quiet.keeps_core registration_keeps
  safe_config.keeps_endpoints safe_config.keeps_apply safe_config.keeps_core gate.keeps_endpoints gate.keeps_core

lemma management_keeps:
  assumes "respond ar claims request w = Some (a, w')" and "route_scope request \<noteq> Some ''mqtt.publish''"
  shows "quietly w w'" and "config_safe w w'" and "(\<forall>r. request \<noteq> Rq_Apply r) \<Longrightarrow> stays_closed w w'"
proof -
  have "quietly w w' \<and> config_safe w w' \<and> ((\<forall>r. request \<noteq> Rq_Apply r) \<longrightarrow> stays_closed w w')"
  proof (cases request)
    case (Rq_Restart rh)
    with assms(1) show ?thesis
      by (auto split: option.splits dest: quiet.keeps_restart dest: safe_config.keeps_restart dest: gate.keeps_restart)
  qed (use assms in \<open>auto dest: endpoint_rules [THEN by_run_keeps]\<close>)
  then show "quietly w w'" "config_safe w w'" "(\<forall>r. request \<noteq> Rq_Apply r) \<Longrightarrow> stays_closed w w'" by blast+
qed

lemma respond_sends:
  assumes "respond ar claims request w = Some (a, w')"
  shows "\<exists>ms. cw_outbox (aw_gw w') = cw_outbox (aw_gw w) @ ms \<and>
    request_sends (ar_api ar) claims request (aw_gw w) a ms"
proof (cases "route_scope request = Some ''mqtt.publish''")
  case False
  from management_keeps(1) [OF assms this] False show ?thesis by (cases request) (simp_all add: same_gateway_def)
next
  case True
  then show ?thesis using assms
    by (cases request) (auto intro: publishing_sends elim!: by_gateway_sends)
qed

text \<open>The callbacks of a service send on its two lifecycle topics only.\<close>

lemma mqtt_publish_sends:
  "\<exists>ms. cw_outbox (snd (mqtt_publish rt t p True q w)) = cw_outbox w @ ms \<and> length ms \<le> 1 \<and>
     (\<forall>m\<in>set ms. mm_topic m = t \<and> mm_retain m \<and> mm_qos m = q)"
  by (rule exI, rule conjI, rule mqtt_publish_outbox) (simp split: sum.splits)

lemma lifecycle_sends:
  "\<exists>ms. cw_outbox (snd (publish_announce rt s w)) = cw_outbox w @ ms \<and> length ms \<le> 1 \<and> list_all (lifecycle_message s) ms"
  "\<exists>ms. cw_outbox (snd (publish_health rt s w)) = cw_outbox w @ ms \<and> length ms \<le> 1 \<and> list_all (lifecycle_message s) ms"
  unfolding publish_announce_def publish_health_def lifecycle_message_def list_all_iff
  by (insert mqtt_publish_sends) (fast, fast)

lemma connect_sends:
  "\<exists>ms. cw_outbox (snd (on_connect rt s rc w)) = cw_outbox w @ ms \<and> length ms \<le> 2 \<and> list_all (lifecycle_message s) ms"
proof (cases "rc = 0")
  case True
  let ?w2 = "subscribe_policy_topics rt s (w\<lparr>cw_health := set_mqtt_connected True (cw_health w)\<rparr>)"
  let ?w3 = "snd (publish_announce rt s ?w2)"
  obtain ms where ms: "cw_outbox ?w3 = cw_outbox w @ ms" "length ms \<le> 1" "list_all (lifecycle_message s) ms"
    using lifecycle_sends(1) [of rt s ?w2] by auto
  obtain ns where ns: "cw_outbox (snd (publish_health rt s ?w3)) = cw_outbox ?w3 @ ns" "length ns \<le> 1"
    "list_all (lifecycle_message s) ns"
    using lifecycle_sends(2) [of rt s ?w3] by auto
  show ?thesis
  proof (cases "fst (publish_announce rt s ?w2)")
    case (Inl e)
    with True ms show ?thesis by (intro exI [of _ ms]) (simp add: on_connect_snd Let_def)
  next
    case (Inr b)
    with True ms ns show ?thesis by (intro exI [of _ "ms @ ns"]) (simp add: on_connect_snd Let_def)
  qed
qed (simp add: on_connect_def)

lemma callback_outbox:
  "\<exists>ms. cw_outbox (client_step rt s e w) = cw_outbox w @ ms \<and> callback_sends (Some s) ms"
proof (cases e)
  case (Ev_Connect rc)
  with connect_sends [of rt s rc w] show ?thesis by (simp add: callback_sends_def)
next
  case Ev_Heartbeat
  with lifecycle_sends(2) [of rt s w] show ?thesis by (auto simp: callback_sends_def)
qed (simp_all add: callback_sends_def on_disconnect_fields on_message_def)

lemma app_step_sends:
  assumes "app_step sr e w = Some (a, w')"
  shows "\<exists>ms. cw_outbox (aw_gw w') = cw_outbox (aw_gw w) @ ms \<and> event_sends sr e (aw_gw w) a ms"
proof (cases e)
  case (Request authorization request)
  with assms show ?thesis by (cases "request_claims sr authorization request") (auto dest: respond_sends)
next
  case (Callback ce)
  with assms show ?thesis
    using callback_outbox [of "base_runtime (ar_api (sr_app sr))" _ ce "aw_gw w"]
    by (cases "gw_service (aw_gw w)") (auto simp: callback_sends_def)
next
  case Startup
  with assms have "quietly w w'" by (auto simp: startup_event_def dest: by_run_keeps [OF quiet.keeps_parts(1)])
  with Startup show ?thesis by (auto simp: same_gateway_def)
next
  case Shutdown
  with assms show ?thesis by (auto simp: shutdown_event_def Let_def split: option.splits)
qed (use assms in auto)

section \<open>What an event leaves of revocations and of the lock\<close>

lemma publishing_keeps:
  assumes "respond ar claims request w = Some (a, w')" and "route_scope request = Some ''mqtt.publish''"
  shows "cw_policy (aw_gw w') = cw_policy (aw_gw w) \<and> gw_config (aw_gw w') = gw_config (aw_gw w)"
  using assms
  by (cases request)
    (auto simp: by_gateway_def split: option.splits
      dest: handler_end_keeps [OF publish_message_end] handler_end_keeps [OF gateway_publish_end]
        handler_end_keeps [OF sensor_discovery_end] handler_end_keeps [OF gateway_state_end])

lemma respond_policy:
  assumes "respond ar claims request w = Some (a, w')"
  shows "cw_policy (aw_gw w') = cw_policy (aw_gw w)"
  using publishing_keeps [OF assms] management_keeps(1) [OF assms]
  by (cases "route_scope request = Some ''mqtt.publish''") (simp_all add: same_gateway_def)

lemma client_step_revoked:
  "revoked_jti (cw_policy w) \<subseteq> revoked_jti (cw_policy (client_step rt s e w))"
proof (cases e)
  case (Ev_Message t p)
  then show ?thesis
    using ingest_cases [of "rt_loads rt" "rt_env rt" t p "cw_policy w"]
    by (auto simp: step_policy simp del: client_step.simps dest: subsetD [OF policy_step_revoked_jti])
qed (simp_all add: step_policy del: client_step.simps)

text \<open>A revoked token id stays revoked, whatever happens.\<close>

lemma app_step_revoked:
  assumes "app_step sr e w = Some (a, w')"
  shows "revoked_jti (cw_policy (aw_gw w)) \<subseteq> revoked_jti (cw_policy (aw_gw w'))"
proof (cases e)
  case (Request authorization request)
  with assms show ?thesis by (cases "request_claims sr authorization request") (auto dest: respond_policy)
next
  case (Callback ce)
  with assms show ?thesis
    by (cases "gw_service (aw_gw w)") (auto simp del: client_step.simps dest: subsetD [OF client_step_revoked])
next
  case Startup
  with assms have "quietly w w'" by (auto simp: startup_event_def dest: by_run_keeps [OF quiet.keeps_parts(1)])
  with Startup show ?thesis by (auto simp: same_gateway_def)
next
  case Shutdown
  with assms show ?thesis by (auto simp: shutdown_event_def Let_def split: option.splits)
qed (use assms in auto)

text \<open>The callbacks do not touch what the service does not know.\<close>

lemma client_step_keeps:
  fixes g :: gateway_world
  shows "gw_telemetry (client_step rt s e g) = gw_telemetry g \<and> gw_config (client_step rt s e g) = gw_config g"
  by (cases e)
    (auto simp: on_connect_snd on_disconnect_def on_message_def publish_announce_def publish_health_def
      mqtt_publish_def subscribe_policy_topics_def Let_def split: sum.splits prod.splits)

text \<open>Events that return while the telemetry lock is free, which they leave free.\<close>

fun prompt :: "surroundings \<Rightarrow> app_event \<Rightarrow> bool" where
  "prompt sr (Request _ (Rq_Restart rh)) = advancing (ar_env (sr_app sr)) rh"
| "prompt sr Flush = False"
| "prompt sr Shutdown = False"
| "prompt sr _ = True"

abbreviation lock_free :: "app_world \<Rightarrow> bool" where
  "lock_free w \<equiv> \<not> tel_lock_held (gw_telemetry (aw_gw w))"

lemma by_gateway_returns:
  assumes "\<exists>res g'. handle (aw_gw w) = Some (res, g') \<and> \<not> tel_lock_held (gw_telemetry g')"
  shows "\<exists>a w'. by_gateway handle w = Some (a, w') \<and> lock_free w'"
  using assms by (auto simp: by_gateway_def)

lemma publishing_returns:
  assumes "\<not> tel_lock_held (gw_telemetry g)"
  shows "\<exists>res g'. publish_message rt claims r1 g = Some (res, g') \<and> \<not> tel_lock_held (gw_telemetry g')"
    and "\<exists>res g'. gateway_publish rt claims r2 g = Some (res, g') \<and> \<not> tel_lock_held (gw_telemetry g')"
    and "\<exists>res g'. publish_sensor_discovery rt claims r3 g = Some (res, g') \<and> \<not> tel_lock_held (gw_telemetry g')"
    and "\<exists>res g'. publish_gateway_state rt claims r4 g = Some (res, g') \<and> \<not> tel_lock_held (gw_telemetry g')"
  using publish_endpoint.returns [OF assms, where r = "(claims, r1)" and rt = rt]
    gateway_endpoint.returns [OF assms, where r = "(claims, r2)" and rt = rt]
    discovery_endpoint.returns [OF assms, where r = "(claims, r3)" and rt = rt]
    state_endpoint.returns [OF assms, where r = "(claims, r4)" and rt = rt]
  by simp_all

lemma by_run_returns: "\<exists>a w'. by_run m w = Some (a, w')"
  by (simp add: by_run_def split_beta)

lemma restart_returns:
  assumes "advancing (ar_env ar) rh"
  shows "\<exists>res w'. restart_broker ar rh w = Some (res, w')"
proof -
  obtain res rs where f: "restart_broker_flow (ar_env ar) (ar_docker ar) rh (aw_restarts w) = Some (res, rs)"
    using flow_reports [OF assms] by blast
  then show ?thesis by (cases res) (simp_all add: restart_broker_def split: prod.splits)
qed

lemma respond_returns:
  assumes "prompt sr (Request authorization request)" and "lock_free w"
  shows "\<exists>a w'. respond (sr_app sr) claims request w = Some (a, w') \<and> lock_free w'"
proof (cases "route_scope request = Some ''mqtt.publish''")
  case True
  then show ?thesis
    by (cases request) (auto intro!: by_gateway_returns publishing_returns [OF assms(2)])
next
  case False
  obtain a w' where h: "respond (sr_app sr) claims request w = Some (a, w')"
  proof (cases request)
    case (Rq_Restart rh)
    with assms(1) restart_returns [of "sr_app sr" rh w] that show ?thesis by auto
  qed (use that False by_run_returns in \<open>simp_all, blast+\<close>)
  from management_keeps(1) [OF h False] assms(2) h show ?thesis by (simp add: same_gateway_def)
qed

lemma prompt_returns:
  assumes "prompt sr e" and "lock_free w"
  shows "\<exists>a w'. app_step sr e w = Some (a, w') \<and> lock_free w'"
proof (cases e)
  case (Request authorization request)
  with assms respond_returns [of sr authorization request w] show ?thesis
    by (cases "request_claims sr authorization request") auto
next
  case (Callback ce)
  have "gw_telemetry (client_step (base_runtime (ar_api (sr_app sr))) s ce g) = gw_telemetry g" for s and g :: gateway_world
    by (simp only: client_step_keeps)
  with assms(2) Callback show ?thesis by (cases "gw_service (aw_gw w)") auto
next
  case Startup
  obtain a w' where h: "app_step sr e w = Some (a, w')" using Startup by_run_returns by fastforce
  then have "quietly w w'" using Startup by (auto simp: startup_event_def dest: by_run_keeps [OF quiet.keeps_parts(1)])
  with h assms(2) show ?thesis by (auto simp: same_gateway_def)
qed (use assms in auto)

section \<open>Tokens and revocations\<close>

definition token_for :: "surroundings \<Rightarrow> string option \<Rightarrow> string \<Rightarrow> bool" where
  "token_for sr authorization scope =
     (let env = ar_env (sr_app sr) in
      \<exists>token payload. bearer_token authorization = Inr token \<and>
        signed_token (sr_hmac sr) (sr_loads sr) (getenv env ''SYNTHIA_JWT_SIGNING_KEY'' []) token payload \<and>
        acceptable_claims env (mf_addon_id (ar_manifest (sr_app sr))) (sr_time sr) scope payload)"

lemma admitted_token:
  assumes "request_claims sr authorization request = Inr claims" and "route_scope request = Some scope"
    and "auth_required (ar_env (sr_app sr))"
  shows "token_for sr authorization scope"
proof -
  let ?env = "ar_env (sr_app sr)"
  have v: "validate_bearer (sr_hmac sr) (sr_loads sr) ?env (mf_addon_id (ar_manifest (sr_app sr))) (sr_time sr)
      authorization scope = Inr claims"
    using assms(1,2) by (auto simp: request_claims_def require_scope_def split: sum.splits exn.splits)
  with assms(3) obtain token where t: "bearer_token authorization = Inr token"
    and k: "getenv ?env ''SYNTHIA_JWT_SIGNING_KEY'' [] \<noteq> []"
    by (cases "bearer_token authorization") (auto simp: validate_bearer_def Let_def split: if_splits)
  from v t show ?thesis
    unfolding token_for_def validate_bearer_required [OF assms(3) k t] by (auto simp: Let_def)
qed

lemma request_sends_scope:
  "request_sends rt claims request g a ms \<Longrightarrow> ms \<noteq> [] \<Longrightarrow>
   route_scope request = Some ''mqtt.publish'' \<and> length ms = 1 \<and> caller_admitted rt claims g"
  by (cases request)
    (auto simp: one_allowed_def publish_allowed_def publish_sendable_def gateway_allowed_def gateway_sendable_def
      discovery_allowed_def state_allowed_def)

lemma revoked_not_admitted:
  assumes "jti claims \<in> revoked_jti (cw_policy g)" and "enforcement_enabled (rt_env rt)"
  shows "\<not> caller_admitted rt claims g"
  using assms by (simp add: caller_admitted_def authorize_allowed_iff)

text \<open>A request made with the token \<open>j\<close>.\<close>

definition uses_token :: "string \<Rightarrow> log_entry \<Rightarrow> bool" where
  "uses_token j entry =
     (case entry of
        (sr, Request authorization request, w, a) \<Rightarrow>
          (case request_claims sr authorization request of Inr claims \<Rightarrow> jti claims = j | Inl _ \<Rightarrow> False)
      | _ \<Rightarrow> False)"

definition enforced :: "log_entry \<Rightarrow> bool" where
  "enforced entry = (case entry of (sr, _) \<Rightarrow> enforcement_enabled (ar_env (sr_app sr)))"

definition authenticated :: "log_entry \<Rightarrow> bool" where
  "authenticated entry = (case entry of (sr, _) \<Rightarrow> auth_required (ar_env (sr_app sr)))"

lemma entry_revoked:
  assumes "entry_sends (sr, e, w, a) ms" and "j \<in> revoked_jti (cw_policy (aw_gw w))" and "enforced (sr, e, w, a)"
    and "uses_token j (sr, e, w, a)"
  shows "ms = []"
proof (rule ccontr)
  assume ms: "ms \<noteq> []"
  from assms(4) obtain authorization request claims where
    r: "e = Request authorization request" "request_claims sr authorization request = Inr claims" "jti claims = j"
    by (auto simp: uses_token_def split: app_event.splits sum.splits)
  with assms(1) have "request_sends (ar_api (sr_app sr)) claims request (aw_gw w) a ms"
    by simp
  from request_sends_scope [OF this ms] revoked_not_admitted [of claims "aw_gw w" "ar_api (sr_app sr)"] assms(2,3) r
  show False by (simp add: enforced_def ar_env_def)
qed

lemma run_accounted:
  assumes "app_run_log w entries w'"
  shows "\<exists>mss. cw_outbox (aw_gw w') = cw_outbox (aw_gw w) @ concat mss \<and> list_all2 entry_sends entries mss"
  using assms
proof (induction rule: app_run_log.induct)
  case (stopped w)
  show ?case by (intro exI [of _ "[]"]) simp
next
  case (event sr e w a w1 entries w')
  obtain ms where ms: "cw_outbox (aw_gw w1) = cw_outbox (aw_gw w) @ ms" "event_sends sr e (aw_gw w) a ms"
    using app_step_sends [OF event.hyps(1)] by blast
  from event.IH obtain mss where "cw_outbox (aw_gw w') = cw_outbox (aw_gw w1) @ concat mss"
    "list_all2 entry_sends entries mss" by blast
  with ms show ?case by (intro exI [of _ "ms # mss"]) simp
qed

lemma run_revoked:
  assumes "app_run_log w entries w'" and "j \<in> revoked_jti (cw_policy (aw_gw w))" and "list_all enforced entries"
  shows "\<exists>mss. cw_outbox (aw_gw w') = cw_outbox (aw_gw w) @ concat mss \<and>
    list_all2 (\<lambda>entry ms. entry_sends entry ms \<and> (uses_token j entry \<longrightarrow> ms = [])) entries mss"
  using assms
proof (induction rule: app_run_log.induct)
  case (stopped w)
  show ?case by (intro exI [of _ "[]"]) simp
next
  case (event sr e w a w1 entries w')
  obtain ms where ms: "cw_outbox (aw_gw w1) = cw_outbox (aw_gw w) @ ms" "event_sends sr e (aw_gw w) a ms"
    using app_step_sends [OF event.hyps(1)] by blast
  then have s: "entry_sends (sr, e, w, a) ms" by simp
  have j: "j \<in> revoked_jti (cw_policy (aw_gw w1))"
    using app_step_revoked [OF event.hyps(1)] event.prems(1) by blast
  from event.IH [OF j] event.prems(2) obtain mss where "cw_outbox (aw_gw w') = cw_outbox (aw_gw w1) @ concat mss"
    "list_all2 (\<lambda>entry ms. entry_sends entry ms \<and> (uses_token j entry \<longrightarrow> ms = [])) entries mss" by auto
  with ms s entry_revoked [OF s event.prems(1)] event.prems(2) show ?case
    by (intro exI [of _ "ms # mss"]) simp
qed

section \<open>The telemetry thread and the requests\<close>

text \<open>A publish request that passes every check ends with the usage report, for which it waits.\<close>

lemma publish_held:
  assumes "publish_sendable rt claims g (strip (pr_topic request)) (pr_payload request)" and "gw_service g \<noteq> None"
    and "fst (gw_publish rt (strip (pr_topic request)) (pr_payload request) (pr_retain request) (pr_qos request) g) = Inr True"
    and "tel_lock_held (gw_telemetry g)" and "tel_enabled (rt_env rt)"
  shows "publish_message rt claims request g = None"
proof -
  obtain w1 where p: "gw_publish rt (strip (pr_topic request)) (pr_payload request) (pr_retain request)
      (pr_qos request) g = (Inr True, w1)"
    using assms(3) by (metis prod.collapse)
  have "tel_lock_held (gw_telemetry w1)" using gw_publish_keeps [OF p] assms(4) by simp
  with publish_message_admitted [OF assms(1)] p assms(2,5) show ?thesis
    by (auto simp: finish_blocked Let_def split: option.split)
qed

text \<open>
  A flush that keeps the lock: telemetry is on, a Core URL is set, Core takes every event of
  the queue (or there is none), and the runtime directory is there.
\<close>

definition flush_drains :: "app_runtime \<Rightarrow> telemetry \<Rightarrow> bool" where
  "flush_drains ar t =
     (tel_enabled (ar_env ar) \<and> tel_core_base_url (ar_env ar) \<noteq> [] \<and> td_mkdir (rt_disk (ar_api ar)) = None \<and>
      first_refused (accepted (ar_http ar) (ar_env ar)) 0 (tel_queue t) = None)"

lemma tick_blocks:
  assumes "\<not> tel_lock_held t" and "flush_drains ar t"
  shows "telemetry_tick ar t = t\<lparr>tel_queue := [], tel_lock_held := True\<rparr>"
proof -
  have "tel_queue t = [] \<or> url_typed (telemetry_url (ar_env ar))"
    using assms(2) by (cases "tel_queue t") (auto simp: flush_drains_def accepted_def post_event_def Let_def split: if_splits)
  then show ?thesis
    using assms by (auto simp: telemetry_tick_def flush_drains_def flush_once_free)
qed

lemma flush_once_held:
  assumes "tel_lock_held t"
  shows "flush_once http env disk t \<in> {None, Some (Inr (), t)}"
proof (cases "tel_enabled env \<and> tel_core_base_url env \<noteq> []")
  case True
  with assms show ?thesis
    by (simp add: flush_once_def) (subst flush_loop.simps, simp add: peek_event_def with_lock_def)
next
  case False
  then show ?thesis by (simp add: flush_once_off)
qed

lemma tick_held: "tel_lock_held t \<Longrightarrow> telemetry_tick ar t = t"
  using flush_once_held [of t "ar_http ar" "ar_env ar" "rt_disk (ar_api ar)"] by (auto simp: telemetry_tick_def)

lemma tel_stop_held: "tel_lock_held t \<Longrightarrow> tel_stop http env disk t = Some (res, t') \<Longrightarrow> tel_lock_held t'"
  using flush_once_held [of t http env disk] by (auto simp: tel_stop_def persist_queue_held split: option.splits)

text \<open>The events for the four publishing endpoints.\<close>

fun publishing :: "app_event \<Rightarrow> bool" where
  "publishing (Request _ request) = (route_scope request = Some ''mqtt.publish'')"
| "publishing _ = False"

lemma publishing_held:
  assumes "respond ar claims request w = Some (a, w')" and "route_scope request = Some ''mqtt.publish''"
    and "tel_lock_held (gw_telemetry (aw_gw w))"
  shows "tel_lock_held (gw_telemetry (aw_gw w')) \<and> (tel_enabled (ar_env ar) \<longrightarrow> a \<noteq> None)"
proof -
  note held = handler_end_held [OF publish_message_end] handler_end_held [OF gateway_publish_end]
    handler_end_held [OF sensor_discovery_end] handler_end_held [OF gateway_state_end]
  from assms show ?thesis
    by (cases request) (auto simp: by_gateway_def ar_env_def split: option.splits dest!: held dest: failure_isl)
qed

text \<open>A held lock stays held, and meanwhile nothing that publishes is answered with success.\<close>

lemma app_step_held:
  assumes "app_step sr e w = Some (a, w')" and "\<not> lock_free w"
  shows "\<not> lock_free w' \<and> (publishing e \<and> tel_enabled (ar_env (sr_app sr)) \<longrightarrow> a \<noteq> None)"
proof (cases e)
  case (Request authorization request)
  have "\<not> lock_free w' \<and> (publishing e \<and> tel_enabled (ar_env (sr_app sr)) \<longrightarrow> a \<noteq> None)"
    if "respond (sr_app sr) claims request w = Some (a, w')" for claims
    using publishing_held [OF that] management_keeps(1) [OF that] assms(2) Request
    by (cases "route_scope request = Some ''mqtt.publish''") (auto simp: same_gateway_def)
  with assms Request show ?thesis by (cases "request_claims sr authorization request") auto
next
  case (Callback ce)
  with assms show ?thesis
    by (cases "gw_service (aw_gw w)") (auto simp: client_step_keeps simp del: client_step.simps)
next
  case Flush
  with assms show ?thesis by (auto simp: tick_held)
next
  case Startup
  with assms have "quietly w w'" by (auto simp: startup_event_def dest: by_run_keeps [OF quiet.keeps_parts(1)])
  with Startup assms(2) show ?thesis by (auto simp: same_gateway_def)
next
  case Shutdown
  with assms show ?thesis by (auto simp: shutdown_event_def Let_def split: option.splits dest: tel_stop_held)
qed

text \<open>No publishing request of the entry was answered with success.\<close>

definition no_success :: "log_entry \<Rightarrow> bool" where
  "no_success entry = (case entry of (sr, e, w, a) \<Rightarrow> publishing e \<longrightarrow> a \<noteq> None)"

definition telemetry_on :: "log_entry \<Rightarrow> bool" where
  "telemetry_on entry = (case entry of (sr, _) \<Rightarrow> tel_enabled (ar_env (sr_app sr)))"

lemma run_held:
  assumes "app_run_log w entries w'" and "\<not> lock_free w" and "list_all telemetry_on entries"
  shows "\<not> lock_free w' \<and> list_all no_success entries"
  using assms
proof (induction rule: app_run_log.induct)
  case (event sr e w a w1 entries w')
  from app_step_held [OF event.hyps(1) event.prems(1)] event.IH event.prems(2) show ?case
    by (auto simp: no_success_def telemetry_on_def)
qed simp

section \<open>The setup gate\<close>

text \<open>Every publishing endpoint asks for it first.\<close>

lemma gate_unread:
  assumes "setup_complete rt g = Inl e"
  shows "publish_message rt claims r1 g = Some (Inl e, g)" "gateway_publish rt claims r2 g = Some (Inl e, g)"
    "publish_sensor_discovery rt claims r3 g = Some (Inl e, g)" "publish_gateway_state rt claims r4 g = Some (Inl e, g)"
  by (simp_all add: publish_message_def gateway_publish_def publish_sensor_discovery_def publish_gateway_state_def
      Let_def assms raise_as_is_def)

lemma gate_shut:
  assumes "setup_complete rt g = Inr False"
  shows "\<exists>m g'. publish_message rt claims r1 g = Some (Inl (HTTPException 409 m), g')"
    "\<exists>m g'. gateway_publish rt claims r2 g = Some (Inl (HTTPException 409 m), g')"
    "\<exists>m g'. publish_sensor_discovery rt claims r3 g = Some (Inl (HTTPException 409 m), g')"
    "\<exists>m g'. publish_gateway_state rt claims r4 g = Some (Inl (HTTPException 409 m), g')"
  by (simp_all add: publish_message_def gateway_publish_def publish_sensor_discovery_def publish_gateway_state_def
      Let_def assms refuse_def)

lemma closed_setup:
  assumes "session_closed (app_config w)"
  shows "setup_complete (ar_api ar) (aw_gw w) = (case read_session ar w of Inl e \<Rightarrow> Inl e | Inr _ \<Rightarrow> Inr False)"
proof (cases "read_session ar w")
  case (Inl e)
  then show ?thesis by (simp add: setup_complete_def read_session_def ar_env_def)
next
  case (Inr s)
  then have "closed_state (dget s ''setup_state'')"
    using closed_read(1) [OF assms] by (simp add: read_session_def app_config_def)
  then obtain state where "dget s ''setup_state'' = JStr state" "state \<notin> {''ready'', ''degraded''}"
    by (auto simp: closed_state_def split: json.splits)
  with setup_complete_read [OF Inr] Inr show ?thesis by simp
qed

text \<open>
  What a closed gate makes of a publishing request: nothing is sent; a caller that is not
  accepted is told so, and one that is accepted is refused with status 409, unless the
  session cannot be read.
\<close>

definition shut_out :: "log_entry \<Rightarrow> mqtt_message list \<Rightarrow> bool" where
  "shut_out entry ms =
     (case entry of
        (sr, Request authorization request, w, a) \<Rightarrow>
          (if route_scope request = Some ''mqtt.publish'' then
             ms = [] \<and>
             (case request_claims sr authorization request of
                Inl e \<Rightarrow> a = Some e
              | Inr _ \<Rightarrow>
                  (case read_session (sr_app sr) w of
                     Inl e \<Rightarrow> a = Some e | Inr _ \<Rightarrow> \<exists>m. a = Some (HTTPException 409 m)))
           else True)
      | _ \<Rightarrow> True)"

lemma closed_respond:
  assumes "respond ar claims request w = Some (a, w')" and "route_scope request = Some ''mqtt.publish''"
    and "session_closed (app_config w)"
  shows "case read_session ar w of Inl e \<Rightarrow> a = Some e | Inr _ \<Rightarrow> \<exists>m. a = Some (HTTPException 409 m)"
proof (cases "read_session ar w")
  case (Inl e)
  with closed_setup [OF assms(3), of ar] have g: "setup_complete (ar_api ar) (aw_gw w) = Inl e" by simp
  from assms(1,2) Inl show ?thesis by (cases request) (auto simp: by_gateway_def failure_def gate_unread [OF g])
next
  case (Inr s)
  with closed_setup [OF assms(3), of ar] have g: "setup_complete (ar_api ar) (aw_gw w) = Inr False" by simp
  note shut = gate_shut [OF g, of claims]
  from assms(1,2) Inr show ?thesis
  proof (cases request)
    case (Rq_Publish r)
    with shut(1) [of r] assms(1) Inr show ?thesis by (auto simp: by_gateway_def failure_def)
  next
    case (Rq_Gateway r)
    with shut(2) [of r] assms(1) Inr show ?thesis by (auto simp: by_gateway_def failure_def)
  next
    case (Rq_Sensor r)
    with shut(3) [of r] assms(1) Inr show ?thesis by (auto simp: by_gateway_def failure_def)
  next
    case (Rq_State r)
    with shut(4) [of r] assms(1) Inr show ?thesis by (auto simp: by_gateway_def failure_def)
  qed simp_all
qed

lemma entry_shut:
  assumes "app_step sr e w = Some (a, w')" and "entry_sends (sr, e, w, a) ms" and "session_closed (app_config w)"
  shows "shut_out (sr, e, w, a) ms"
proof (cases e)
  case (Request authorization request)
  show ?thesis
  proof (cases "request_claims sr authorization request")
    case (Inr claims)
    have "setup_complete (ar_api (sr_app sr)) (aw_gw w) \<noteq> Inr True"
      using closed_setup [OF assms(3), of "sr_app sr"] by (simp split: sum.splits)
    then have "ms = []" if "route_scope request = Some ''mqtt.publish''"
      using assms(2) request_sends_scope [of "ar_api (sr_app sr)" claims request "aw_gw w" a ms] Request Inr
      by (auto simp: caller_admitted_def)
    with assms Request Inr closed_respond [of "sr_app sr" claims request w a w'] show ?thesis by (simp add: shut_out_def)
  qed (use assms Request in \<open>simp add: shut_out_def\<close>)
qed (simp_all add: shut_out_def)

fun applies_install :: "app_event \<Rightarrow> bool" where
  "applies_install (Request _ (Rq_Apply _)) = True"
| "applies_install _ = False"

lemma app_step_closed:
  assumes "app_step sr e w = Some (a, w')" and "\<not> applies_install e"
  shows "stays_closed w w'"
proof (cases e)
  case (Request authorization request)
  have "\<forall>r. request \<noteq> Rq_Apply r" using assms(2) Request by auto
  then have "stays_closed w w'" if "respond (sr_app sr) claims request w = Some (a, w')" for claims
    using publishing_keeps [OF that] management_keeps(3) [OF that]
    by (cases "route_scope request = Some ''mqtt.publish''") (simp_all add: app_config_def)
  with assms Request show ?thesis by (cases "request_claims sr authorization request") auto
next
  case (Callback ce)
  with assms show ?thesis
    by (cases "gw_service (aw_gw w)") (auto simp: app_config_def client_step_keeps simp del: client_step.simps)
next
  case Startup
  with assms show ?thesis by (auto simp: startup_event_def dest: by_run_keeps [OF gate.keeps_parts(1)])
next
  case Shutdown
  with assms show ?thesis by (auto simp: shutdown_event_def app_config_def Let_def split: option.splits)
qed (use assms in \<open>auto simp: app_config_def\<close>)

definition no_install :: "log_entry \<Rightarrow> bool" where
  "no_install entry = (case entry of (sr, e, w, a) \<Rightarrow> \<not> applies_install e)"

lemma run_shut:
  assumes "app_run_log w entries w'" and "session_closed (app_config w)" and "list_all no_install entries"
  shows "\<exists>mss. cw_outbox (aw_gw w') = cw_outbox (aw_gw w) @ concat mss \<and>
    list_all2 (\<lambda>entry ms. entry_sends entry ms \<and> shut_out entry ms) entries mss"
  using assms
proof (induction rule: app_run_log.induct)
  case (stopped w)
  show ?case by (intro exI [of _ "[]"]) simp
next
  case (event sr e w a w1 entries w')
  obtain ms where ms: "cw_outbox (aw_gw w1) = cw_outbox (aw_gw w) @ ms" "event_sends sr e (aw_gw w) a ms"
    using app_step_sends [OF event.hyps(1)] by blast
  then have s: "entry_sends (sr, e, w, a) ms" by simp
  have c: "session_closed (app_config w1)"
    using app_step_closed [OF event.hyps(1)] event.prems by (simp add: no_install_def)
  from event.IH [OF c] event.prems(2) obtain mss where "cw_outbox (aw_gw w') = cw_outbox (aw_gw w1) @ concat mss"
    "list_all2 (\<lambda>entry ms. entry_sends entry ms \<and> shut_out entry ms) entries mss" by auto
  with ms s entry_shut [OF event.hyps(1) s event.prems(1)] show ?case
    by (intro exI [of _ "ms # mss"]) simp
qed

text \<open>A connection test that is answered has closed the session, and sent nothing.\<close>

lemma tested_session_closed:
  assumes "app_step sr (Request authorization (Rq_Test_External x)) w = Some (None, w')"
  shows "session_closed (app_config w')" and "cw_outbox (aw_gw w') = cw_outbox (aw_gw w)"
proof -
  let ?ar = "sr_app sr"
  obtain response where t: "test_external ?ar x w = (Inr response, w')"
    using assms by (auto simp: by_run_def failure_def request_claims_def split: sum.splits prod.splits)
  obtain u s where u: "update_session ?ar u w = (Inr s, w')" "dhas u ''setup_state''"
    "closed_state (dget u ''setup_state'')"
    using t by (auto simp: test_external_def Let_def run_bind_def run_return_def split: prod.splits sum.splits)
  obtain c where c: "update_install_session_state (ar_env ?ar) u (app_config w) = (Inr s, c)" "w' = with_config w c"
    using u(1) by (auto simp: update_session_def on_config_simps app_config_def with_config_def prod_eq_iff)
  show "session_closed (app_config w')" using closing_update [OF c(1) u(2,3)] by (simp add: c(2))
  show "cw_outbox (aw_gw w') = cw_outbox (aw_gw w)" by (simp add: c(2))
qed

section \<open>Runs\<close>

text \<open>The configuration stays readable.\<close>

lemma app_step_config:
  assumes "app_step sr e w = Some (a, w')"
  shows "config_safe w w'"
proof (cases e)
  case (Request authorization request)
  have "config_safe w w'" if "respond (sr_app sr) claims request w = Some (a, w')" for claims
    using publishing_keeps [OF that] management_keeps(2) [OF that]
    by (cases "route_scope request = Some ''mqtt.publish''") (simp_all add: app_config_def)
  with assms Request show ?thesis by (cases "request_claims sr authorization request") auto
next
  case (Callback ce)
  with assms show ?thesis
    by (cases "gw_service (aw_gw w)") (auto simp: app_config_def client_step_keeps simp del: client_step.simps)
next
  case Startup
  with assms show ?thesis by (auto simp: startup_event_def dest: by_run_keeps [OF safe_config.keeps_parts(1)])
next
  case Shutdown
  with assms show ?thesis by (auto simp: shutdown_event_def app_config_def Let_def split: option.splits)
qed (use assms in \<open>auto simp: app_config_def\<close>)

lemma run_config_ok:
  assumes "app_run_log w entries w'" and "config_ok (app_config w)"
  shows "config_ok (app_config w')"
  using assms by (induction rule: app_run_log.induct) (auto dest: app_step_config)

text \<open>A run for every sequence of prompt events.\<close>

definition entry_event :: "log_entry \<Rightarrow> surroundings \<times> app_event" where
  "entry_event entry = (case entry of (sr, e, w, a) \<Rightarrow> (sr, e))"

lemma entry_event_simps [simp]: "entry_event (sr, e, w, a) = (sr, e)"
  by (simp add: entry_event_def)

lemma prompt_run:
  assumes "lock_free w" and "list_all (\<lambda>(sr, e). prompt sr e) events"
  shows "\<exists>entries w'. app_run_log w entries w' \<and> map entry_event entries = events \<and> lock_free w'"
  using assms
proof (induction events arbitrary: w)
  case Nil
  then show ?case by (intro exI [of _ "[]"] exI [of _ w]) (simp add: app_run_log.stopped)
next
  case (Cons ev events)
  obtain sr e where ev: "ev = (sr, e)" by fastforce
  obtain a w1 where h: "app_step sr e w = Some (a, w1)" "lock_free w1"
    using prompt_returns [of sr e w] Cons.prems ev by auto
  obtain entries w' where r: "app_run_log w1 entries w'" "map entry_event entries = events" "lock_free w'"
    using Cons.IH [OF h(2)] Cons.prems by auto
  from app_run_log.event [OF h(1) r(1)] r ev show ?case
    by (intro exI [of _ "(sr, e, w, a) # entries"] exI [of _ w']) simp
qed

section \<open>Concrete surroundings\<close>

definition surroundings_of :: "env \<Rightarrow> (string \<Rightarrow> json option) \<Rightarrow> surroundings" where
  "surroundings_of env loads = \<lparr>sr_app = example_app\<lparr>ar_api := example_api\<lparr>rt_env := env, rt_loads := loads\<rparr>\<rparr>,
     sr_hmac = (\<lambda>k m. ''hi''), sr_loads = example_loads, sr_time = 100\<rparr>"

definition open_surroundings :: surroundings where
  "open_surroundings = surroundings_of (\<lambda>_. None) (\<lambda>_. None)"

definition token_surroundings :: surroundings where
  "token_surroundings = surroundings_of example_auth_env (\<lambda>_. None)"

definition enforcing_surroundings :: surroundings where
  "enforcing_surroundings = surroundings_of example_policy_env (\<lambda>_. Some (JObj [(''jti'', JStr ''auth-disabled'')]))"

definition flushing_surroundings :: surroundings where
  "flushing_surroundings = surroundings_of example_tel_env (\<lambda>_. None)"

definition vision_post :: app_event where
  "vision_post = Request (Some ''Bearer e30.e10.aGk'') (Rq_Publish vision_request)"

lemma example_lock_free: "lock_free example_app_world"
  by code_simp

section \<open>Properties\<close>

text \<open>
  C1: in every run of the application, whatever requests, callbacks, flushes and restarts are
  interleaved, each message handed to paho belongs to one event: a publishing request whose
  caller was accepted sends at most one, which its endpoint allows in the state it found,
  and exactly one when it is answered with success; a callback sends at most the service's
  announcement and health message; no other event sends anything.
\<close>

theorem every_message_accounted:
  assumes "app_run_log w entries w'"
  shows "\<exists>mss. cw_outbox (aw_gw w') = cw_outbox (aw_gw w) @ concat mss \<and> list_all2 entry_sends entries mss"
  by (rule run_accounted [OF assms])

lemma every_message_accounted_witness:
  "\<exists>entries w' mss. app_run_log example_app_world entries w' \<and> map entry_event entries = [(open_surroundings, Startup), (open_surroundings, vision_post)] \<and>
     cw_outbox (aw_gw w') = cw_outbox (aw_gw example_app_world) @ concat mss \<and> list_all2 entry_sends entries mss"
proof -
  obtain entries w' where r: "app_run_log example_app_world entries w'"
    "map entry_event entries = [(open_surroundings, Startup), (open_surroundings, vision_post)]"
    using prompt_run [OF example_lock_free, of "[(open_surroundings, Startup), (open_surroundings, vision_post)]"]
    by (auto simp: vision_post_def)
  obtain mss where "cw_outbox (aw_gw w') = cw_outbox (aw_gw example_app_world) @ concat mss"
    "list_all2 entry_sends entries mss"
    using every_message_accounted [OF r(1)] by (elim exE conjE)
  with r show ?thesis by (intro exI conjI)
qed

text \<open>What authentication allows an event to send.\<close>

definition message_by_token :: "log_entry \<Rightarrow> mqtt_message list \<Rightarrow> bool" where
  "message_by_token entry ms =
     (case entry of
        (sr, Callback e, w, a) \<Rightarrow> callback_sends (gw_service (aw_gw w)) ms
      | (sr, Request authorization request, w, a) \<Rightarrow>
          ms = [] \<or> length ms = 1 \<and> token_for sr authorization ''mqtt.publish''
      | _ \<Rightarrow> ms = [])"

text \<open>
  C3: in every run with authentication on, a message is sent only for a callback, or, one message,
  for a request that carries a bearer token signed with the service's key, not expired, for
  this service and with the publish scope.
\<close>

theorem messages_need_tokens:
  assumes "app_run_log w entries w'" and "list_all authenticated entries"
  shows "\<exists>mss. cw_outbox (aw_gw w') = cw_outbox (aw_gw w) @ concat mss \<and> list_all2 message_by_token entries mss"
proof -
  have "message_by_token (sr, e, w, a) ms" if s: "entry_sends (sr, e, w, a) ms" and auth: "authenticated (sr, e, w, a)" for sr e w a ms
  proof (cases e)
    case (Request authorization request)
    show ?thesis
    proof (cases "request_claims sr authorization request")
      case (Inr claims)
      from s Request Inr have q: "request_sends (ar_api (sr_app sr)) claims request (aw_gw w) a ms" by simp
      have "token_for sr authorization ''mqtt.publish'' \<and> length ms = 1" if "ms \<noteq> []"
        using request_sends_scope [OF q that] admitted_token [OF Inr] auth by (simp add: authenticated_def)
      with Request show ?thesis by (auto simp: message_by_token_def)
    qed (use s Request in \<open>simp add: message_by_token_def\<close>)
  qed (use s in \<open>simp_all add: message_by_token_def\<close>)
  then have each: "entry_sends entry ms \<Longrightarrow> authenticated entry \<Longrightarrow> message_by_token entry ms" for entry ms
    by (cases entry) blast
  obtain mss where mss: "cw_outbox (aw_gw w') = cw_outbox (aw_gw w) @ concat mss" "list_all2 entry_sends entries mss"
    using run_accounted [OF assms(1)] by blast
  from mss(2) assms(2) have "list_all2 message_by_token entries mss"
    by (induction entries mss rule: list_all2_induct) (auto intro: each)
  with mss(1) show ?thesis by blast
qed

lemma messages_need_tokens_witness:
  "\<exists>entries w' mss. app_run_log example_app_world entries w' \<and> map entry_event entries = [(token_surroundings, vision_post), (token_surroundings, Request None (Rq_Publish vision_request))] \<and>
     cw_outbox (aw_gw w') = cw_outbox (aw_gw example_app_world) @ concat mss \<and> list_all2 message_by_token entries mss"
proof -
  let ?es = "[(token_surroundings, vision_post), (token_surroundings, Request None (Rq_Publish vision_request))]"
  obtain entries w' where r: "app_run_log example_app_world entries w'" "map entry_event entries = ?es"
    using prompt_run [OF example_lock_free, of ?es] by (auto simp: vision_post_def)
  have "auth_required (ar_env (sr_app token_surroundings))" by code_simp
  then have au: "list_all authenticated entries"
    using r(2) by (auto simp: map_eq_Cons_conv authenticated_def entry_event_def split: prod.splits)
  obtain mss where "cw_outbox (aw_gw w') = cw_outbox (aw_gw example_app_world) @ concat mss"
    "list_all2 message_by_token entries mss"
    using messages_need_tokens [OF r(1) au] by (elim exE conjE)
  with r show ?thesis by (intro exI conjI)
qed

text \<open>
  C2: once a revocation that names a token id has reached a service that enforces the policy, no
  request made with that token sends anything, in whatever continuation of the run, for as
  long as the policy is enforced.
\<close>

theorem revocation_silences_token:
  assumes "app_run_log w (before @ (sr, Callback (Ev_Message topic text), w1, a) # after) w'"
    and "gw_service (aw_gw w1) = Some s" and "policy_active (base_runtime (ar_api (sr_app sr))) s"
    and "rt_loads (ar_api (sr_app sr)) text = Some (JObj data)"
    and "contains ''/policy/revocations/'' topic" and "\<not> contains ''/policy/grants/'' topic"
    and "first_text data [''jti'', ''token_jti''] = j" and "j \<noteq> []"
    and "list_all enforced after"
  shows "\<exists>mss. cw_outbox (aw_gw w') = cw_outbox (aw_gw w1) @ concat mss \<and>
    list_all2 (\<lambda>entry ms. entry_sends entry ms \<and> (uses_token j entry \<longrightarrow> ms = [])) after mss"
proof -
  obtain w2 where h: "app_step sr (Callback (Ev_Message topic text)) w1 = Some (a, w2)" "app_run_log w2 after w'"
    using assms(1) unfolding app_run_log_append by (blast elim: app_run_log_ConsE)
  let ?rt = "base_runtime (ar_api (sr_app sr))"
  have rt: "rt_loads ?rt = rt_loads (ar_api (sr_app sr))" "rt_env ?rt = rt_env (ar_api (sr_app sr))"
    by (simp_all add: base_runtime_def runtime.defs)
  have "aw_gw w2 = on_message ?rt s topic text (aw_gw w1)" using h(1) assms(2) by auto
  then have out: "cw_outbox (aw_gw w2) = cw_outbox (aw_gw w1)"
    and pol: "cw_policy (aw_gw w2) = apply_revocation data (cw_policy (aw_gw w1))"
    using assms(3-6) by (auto simp: on_message_def ingest_def policy_active_def rt)
  have "j \<in> revoked_jti (cw_policy (aw_gw w2))"
    using assms(7,8) by (simp add: pol apply_revocation_def Let_def)
  from run_revoked [OF h(2) this assms(9)] out show ?thesis by simp
qed

lemma revocation_silences_token_witness:
  "\<exists>before after w' mss. app_run_log example_app_world (before @ after) w' \<and> map entry_event after = [(enforcing_surroundings, Request None (Rq_Publish vision_request))] \<and>
     list_all (uses_token ''auth-disabled'') after \<and>
     cw_outbox (aw_gw w') = cw_outbox (aw_gw example_app_world) @ concat mss \<and> concat mss = []"
proof -
  let ?revoke = "Callback (Ev_Message ''synthia/policy/revocations/t'' [])"
  let ?es = "[(enforcing_surroundings, ?revoke), (enforcing_surroundings, Request None (Rq_Publish vision_request))]"
  obtain entries w' where r: "app_run_log example_app_world entries w'" "map entry_event entries = ?es"
    using prompt_run [OF example_lock_free, of ?es] by auto
  then obtain w1 a after where e: "entries = (enforcing_surroundings, ?revoke, w1, a) # after"
    and af: "map entry_event after = [(enforcing_surroundings, Request None (Rq_Publish vision_request))]"
    by (auto simp: map_eq_Cons_conv entry_event_def split: prod.splits)
  have w1: "w1 = example_app_world" using r(1) e by (auto elim: app_run_log_ConsE)
  have s: "gw_service (aw_gw w1) = Some example_service"
    by (simp add: w1 example_app_world_def example_gateway_def client_world.defs)
  have c: "policy_active (base_runtime (ar_api (sr_app enforcing_surroundings))) example_service"
    "contains ''/policy/revocations/'' ''synthia/policy/revocations/t''"
    "\<not> contains ''/policy/grants/'' ''synthia/policy/revocations/t''"
    "first_text [(''jti'', JStr ''auth-disabled'')] [''jti'', ''token_jti''] = ''auth-disabled''"
    "enforcement_enabled (ar_env (sr_app enforcing_surroundings))"
    "map_sum id jti (request_claims enforcing_surroundings None (Rq_Publish vision_request)) = Inr ''auth-disabled''"
    by code_simp+
  have l: "rt_loads (ar_api (sr_app enforcing_surroundings)) [] = Some (JObj [(''jti'', JStr ''auth-disabled'')])"
    by (simp add: enforcing_surroundings_def surroundings_of_def)
  have en: "list_all enforced after"
    using af c(5) by (auto simp: map_eq_Cons_conv enforced_def entry_event_def split: prod.splits)
  have us: "list_all (uses_token ''auth-disabled'') after"
    using af c(6) by (auto simp: map_eq_Cons_conv uses_token_def entry_event_def split: prod.splits sum.splits)
  have n: "''auth-disabled'' \<noteq> []" by simp
  have run: "app_run_log example_app_world ([] @ (enforcing_surroundings, ?revoke, w1, a) # after) w'"
    using r(1) e by simp
  obtain mss where m: "cw_outbox (aw_gw w') = cw_outbox (aw_gw w1) @ concat mss"
    "list_all2 (\<lambda>entry ms. entry_sends entry ms \<and> (uses_token ''auth-disabled'' entry \<longrightarrow> ms = [])) after mss"
    using revocation_silences_token [OF run s c(1) l c(2,3,4) n en] by (elim exE conjE)
  have "concat mss = []" using m(2) us by (induction after mss rule: list_all2_induct) auto
  then show ?thesis using m(1) af us r(1) unfolding w1 e
    by (intro exI [of _ "[(enforcing_surroundings, ?revoke, example_app_world, a)]"] exI [of _ after] exI [of _ w'] exI [of _ mss])
      simp
qed

text \<open>
  C5: while the telemetry lock is free, every sequence of requests, callbacks and starts (a
  restart of the broker on a host whose clock moves on by the 200 ms slept after each failed
  attempt to reach the port) has a run in which each event returns, and it leaves the lock
  free: no request waits for another for ever.
\<close>

theorem prompt_events_return:
  assumes "lock_free w" and "list_all (\<lambda>(sr, e). prompt sr e) events"
  shows "\<exists>entries w'. app_run_log w entries w' \<and> map entry_event entries = events \<and> lock_free w'"
  by (rule prompt_run [OF assms])

lemma prompt_events_return_witness:
  "\<exists>entries w'. app_run_log example_app_world entries w' \<and>
     map entry_event entries = [(open_surroundings, Startup), (open_surroundings, vision_post),
       (open_surroundings, Request None (Rq_Test_External tested_broker)), (open_surroundings, vision_post)] \<and> lock_free w'"
  by (rule prompt_events_return [OF example_lock_free]) (simp add: vision_post_def)

text \<open>
  C6: once the telemetry thread finds the lock free and flushes its queue while telemetry is on, a
  Core URL is set, the runtime directory is there and Core takes every event (an empty queue,
  as after the start, is enough), it keeps the lock for ever: in every continuation with
  telemetry on the lock is still held at the end, no request to a publishing endpoint was
  answered with success, and a publish request that then passes every check is never
  answered.
\<close>

theorem flush_blocks_publishing:
  assumes "app_run_log w (before @ (sr, Flush, w1, a) # after) w'"
    and "lock_free w1" and "flush_drains (sr_app sr) (gw_telemetry (aw_gw w1))" and "list_all telemetry_on after"
  shows "\<not> lock_free w' \<and> list_all no_success after \<and>
    (\<forall>sr' authorization request claims.
       request_claims sr' authorization (Rq_Publish request) = Inr claims \<and> tel_enabled (ar_env (sr_app sr')) \<and>
       publish_sendable (ar_api (sr_app sr')) claims (aw_gw w') (strip (pr_topic request)) (pr_payload request) \<and>
       gw_service (aw_gw w') \<noteq> None \<and>
       fst (gw_publish (ar_api (sr_app sr')) (strip (pr_topic request)) (pr_payload request) (pr_retain request)
         (pr_qos request) (aw_gw w')) = Inr True \<longrightarrow>
       app_step sr' (Request authorization (Rq_Publish request)) w' = None)"
proof -
  obtain w2 where h: "app_step sr Flush w1 = Some (a, w2)" "app_run_log w2 after w'"
    using assms(1) unfolding app_run_log_append by (blast elim: app_run_log_ConsE)
  have "\<not> lock_free w2" using h(1) tick_blocks [OF assms(2,3)] by auto
  from run_held [OF h(2) this assms(4)] have held: "\<not> lock_free w'" "list_all no_success after" by blast+
  have "app_step sr' (Request authorization (Rq_Publish request)) w' = None"
    if "request_claims sr' authorization (Rq_Publish request) = Inr claims" "tel_enabled (ar_env (sr_app sr'))"
      "publish_sendable (ar_api (sr_app sr')) claims (aw_gw w') (strip (pr_topic request)) (pr_payload request)"
      "gw_service (aw_gw w') \<noteq> None"
      "fst (gw_publish (ar_api (sr_app sr')) (strip (pr_topic request)) (pr_payload request) (pr_retain request)
         (pr_qos request) (aw_gw w')) = Inr True" for sr' authorization request claims
    using that publish_held [OF that(3-5)] held(1) by (simp add: by_gateway_def ar_env_def)
  with held show ?thesis by blast
qed

text \<open>The example's state with the lock held.\<close>

definition held_world :: app_world where
  "held_world = example_app_world\<lparr>aw_gw := (aw_gw example_app_world)\<lparr>gw_telemetry :=
     (gw_telemetry (aw_gw example_app_world))\<lparr>tel_queue := [], tel_lock_held := True\<rparr>\<rparr>\<rparr>"

lemma example_flush_drains: "flush_drains (sr_app flushing_surroundings) (gw_telemetry (aw_gw example_app_world))"
  by code_simp

lemma flush_blocks_publishing_witness:
  "\<exists>after. app_run_log example_app_world ((flushing_surroundings, Flush, example_app_world, None) # after) held_world \<and>
     map entry_event after = [(token_surroundings, Request None (Rq_Publish vision_request))] \<and>
     list_all no_success after \<and>
     app_step flushing_surroundings (Request None (Rq_Publish vision_request)) held_world = None"
proof -
  let ?ar = "sr_app flushing_surroundings"
  let ?g = "aw_gw held_world"
  have flush: "app_step flushing_surroundings Flush example_app_world = Some (None, held_world)"
    using tick_blocks [OF example_lock_free example_flush_drains] by (simp add: held_world_def)
  obtain e where e: "request_claims token_surroundings None (Rq_Publish vision_request) = Inl e"
  proof (cases "request_claims token_surroundings None (Rq_Publish vision_request)")
    case (Inr c)
    have "isl (request_claims token_surroundings None (Rq_Publish vision_request))" by code_simp
    with Inr show thesis by simp
  qed
  let ?after = "[(token_surroundings, Request None (Rq_Publish vision_request), held_world, Some e)]"
  have run: "app_run_log example_app_world ([] @ (flushing_surroundings, Flush, example_app_world, None) # ?after) held_world"
    using flush e by (auto intro!: app_run_log.intros)
  have on: "list_all telemetry_on ?after" by code_simp
  obtain claims where c: "request_claims flushing_surroundings None (Rq_Publish vision_request) = Inr claims"
    and anonymous: "sub claims = ''anonymous''"
  proof (cases "request_claims flushing_surroundings None (Rq_Publish vision_request)")
    case (Inr c)
    have "map_sum id sub (request_claims flushing_surroundings None (Rq_Publish vision_request)) = Inr ''anonymous''"
      by code_simp
    with Inr that show thesis by simp
  next
    case (Inl e)
    have "\<not> isl (request_claims flushing_surroundings None (Rq_Publish vision_request))" by code_simp
    with Inl show thesis by simp
  qed
  have t: "strip (pr_topic vision_request) = ''synthia/addons/vision/event''" by code_simp
  have f: "tel_enabled (ar_env ?ar)" "gw_service ?g \<noteq> None"
    by (code_simp, simp add: held_world_def example_app_world_def example_gateway_def client_world.defs)
  have ok: "setup_complete (ar_api ?ar) ?g = Inr True" "\<not> enforcement_enabled (rt_env (ar_api ?ar))"
    "envelope_checked ''synthia/addons/vision/event'' (pr_payload vision_request)"
    "validate_publish_topic ''synthia/addons/vision/event'' (Some ''anonymous'') = Inr ''synthia/addons/vision/event''"
    "fst (gw_publish (ar_api ?ar) ''synthia/addons/vision/event'' (pr_payload vision_request)
      (pr_retain vision_request) (pr_qos vision_request) ?g) = Inr True"
    by code_simp+
  have sendable: "publish_sendable (ar_api ?ar) claims ?g (strip (pr_topic vision_request)) (pr_payload vision_request)"
    unfolding t using ok(1-3) ok(4) [unfolded publish_topic_iff]
    by (simp add: publish_sendable_def caller_admitted_def authorize_def anonymous)
  note blocked = flush_blocks_publishing [OF run example_lock_free example_flush_drains on]
  have "app_step flushing_surroundings (Request None (Rq_Publish vision_request)) held_world = None"
    by (rule blocked [THEN conjunct2, THEN conjunct2, rule_format, of _ _ _ claims])
      (use c f ok(5) sendable in \<open>simp add: t\<close>)
  moreover have "list_all no_success ?after" using blocked by blast
  ultimately show ?thesis using run by (intro exI [of _ ?after]) simp
qed

text \<open>
  C13: from the moment a connection test has been answered, whatever it has found and although it
  needs no token, until an install is applied, publishing is closed: in every continuation
  of the run without a request to apply an install no request to one of the four publishing
  endpoints sends anything; each whose caller is accepted is refused with status 409, or with
  the exception that reading the session raises.
\<close>

theorem test_external_stops_publishing:
  assumes "app_run_log w (before @ (sr, Request authorization (Rq_Test_External x), w1, None) # after) w'"
    and "list_all no_install after"
  shows "\<exists>mss. cw_outbox (aw_gw w') = cw_outbox (aw_gw w1) @ concat mss \<and>
    list_all2 (\<lambda>entry ms. entry_sends entry ms \<and> shut_out entry ms) after mss"
proof -
  obtain w2 where h: "app_step sr (Request authorization (Rq_Test_External x)) w1 = Some (None, w2)"
    "app_run_log w2 after w'"
    using assms(1) unfolding app_run_log_append by (blast elim: app_run_log_ConsE)
  from tested_session_closed [OF h(1)] run_shut [OF h(2) _ assms(2)] show ?thesis by simp
qed

lemma test_external_stops_publishing_witness:
  "\<exists>after w' mss. app_run_log example_app_world
       ((open_surroundings, Request None (Rq_Test_External tested_broker), example_app_world, None) # after) w' \<and>
     map entry_event after = [(open_surroundings, Startup), (open_surroundings, vision_post)] \<and>
     cw_outbox (aw_gw w') = cw_outbox (aw_gw example_app_world) @ concat mss \<and>
     list_all2 (\<lambda>entry ms. entry_sends entry ms \<and> shut_out entry ms) after mss"
proof -
  let ?test = "Request None (Rq_Test_External tested_broker)"
  let ?es = "[(open_surroundings, Startup), (open_surroundings, vision_post)]"
  obtain entries w' where r: "app_run_log example_app_world entries w'"
    "map entry_event entries = (open_surroundings, ?test) # ?es"
    using prompt_run [OF example_lock_free, of "(open_surroundings, ?test) # ?es"] by (auto simp: vision_post_def)
  then obtain w1 a after where e: "entries = (open_surroundings, ?test, w1, a) # after"
    and af: "map entry_event after = ?es"
    by (auto simp: map_eq_Cons_conv entry_event_def split: prod.splits)
  have w1: "w1 = example_app_world" using r(1) e by (auto elim: app_run_log_ConsE)
  have "case app_step open_surroundings ?test example_app_world of Some (None, _) \<Rightarrow> True | _ \<Rightarrow> False" by code_simp
  moreover have "\<exists>w2. app_step open_surroundings ?test example_app_world = Some (a, w2)"
    using r(1) unfolding e w1 by (blast elim: app_run_log_ConsE)
  ultimately have a: "a = None" by (cases a) auto
  have run: "app_run_log example_app_world ([] @ (open_surroundings, ?test, example_app_world, None) # after) w'"
    using r(1) unfolding e w1 a by simp
  have "list_all no_install after"
    using af by (auto simp: map_eq_Cons_conv no_install_def entry_event_def vision_post_def split: prod.splits)
  from test_external_stops_publishing [OF run this] obtain mss where
    "cw_outbox (aw_gw w') = cw_outbox (aw_gw example_app_world) @ concat mss"
    "list_all2 (\<lambda>entry ms. entry_sends entry ms \<and> shut_out entry ms) after mss" by (elim exE conjE)
  with run af show ?thesis by (intro exI conjI) simp_all
qed

text \<open>
  C4: in every run that starts with a configuration that can be read, whatever is configured,
  installed, selected or reset on the way, the configuration can still be read at the end:
  each request that reads it finds an effective configuration and a session, with a mode the
  model knows.
\<close>

theorem configuration_survives:
  assumes "app_run_log w entries w'" and "config_ok (app_config w)" and "env_ok (ar_env ar)"
  shows "config_ok (app_config w') \<and>
    (\<exists>eff s mode. get_effective_config (ar_env ar) masked (app_config w') = Inr eff \<and> read_session ar w' = Inr s \<and>
       dget s ''mode'' = JStr mode \<and> mode \<in> set install_modes)"
proof
  show ok: "config_ok (app_config w')" using assms(1,2) by (rule run_config_ok)
  show "\<exists>eff s mode. get_effective_config (ar_env ar) masked (app_config w') = Inr eff \<and> read_session ar w' = Inr s \<and>
       dget s ''mode'' = JStr mode \<and> mode \<in> set install_modes"
    using config_total [OF assms(3) ok, of masked] by (auto simp: read_session_def app_config_def)
qed

lemma configuration_survives_witness:
  "\<exists>entries w' eff. app_run_log example_app_world entries w' \<and>
     map entry_event entries = [(open_surroundings, Request None Rq_Reset), (open_surroundings, Startup)] \<and>
     get_effective_config (ar_env example_app) True (app_config w') = Inr eff"
proof -
  let ?es = "[(open_surroundings, Request None Rq_Reset), (open_surroundings, Startup)]"
  obtain entries w' where r: "app_run_log example_app_world entries w'" "map entry_event entries = ?es"
    using prompt_run [OF example_lock_free, of ?es] by auto
  obtain eff where "get_effective_config (ar_env example_app) True (app_config w') = Inr eff"
    using configuration_survives [OF r(1) example_app_ok(2,1), of True] by (elim exE conjE)
  with r show ?thesis by (intro exI conjI)
qed

end
