(* ===== verification/Config_Desired.thy ===== *)
theory Config_Desired
  imports Config_Facts
begin

text \<open>
  The configuration store and the desired state: the base URL of the core, the selection of
  optional groups, the mask of secrets, and two divergences of the code from its
  documentation, as concrete runs.
\<close>

section \<open>Secrets\<close>

text \<open>
  what the mask of a secret shows. Two secrets have the same mask exactly if they have
  the same length and, when they are longer than two characters, the same first and last
  character: nothing else of a masked password can be told from the configuration the API
  shows.
\<close>

theorem mask_secret_shows:
  "mask_secret (JStr p) = mask_secret (JStr q) \<longleftrightarrow>
     length p = length q \<and> (if length p \<le> 2 then True else hd p = hd q \<and> last p = last q)"
proof (cases "p = [] \<or> q = []")
  case True
  then show ?thesis by (auto simp: mask_secret_def)
next
  case False
  have len: "length (if length x \<le> 2 then replicate (length x) CHR ''*''
      else hd x # replicate (length x - 2) CHR ''*'' @ [last x]) = length x" for x :: string
    by auto
  have mask: "mask_secret (JStr x) = JStr (if length x \<le> 2 then replicate (length x) CHR ''*''
      else hd x # replicate (length x - 2) CHR ''*'' @ [last x])" if "x \<noteq> []" for x
    using that by (simp add: mask_secret_def Let_def)
  show ?thesis
  proof (cases "length p = length q")
    case True
    with False show ?thesis by (simp add: mask)
  next
    case neq: False
    then have "mask_secret (JStr p) \<noteq> mask_secret (JStr q)"
      using False mask len by (metis json.inject(4))
    with neq show ?thesis by simp
  qed
qed

section \<open>The base URL of the core\<close>

text \<open>
  a base URL that is not blank, set on a readable configuration, is what is used from
  then on, even when writing it to the desired state fails; and the call reports success only
  with that URL.
\<close>

theorem core_base_url_read_back:
  assumes "load_overrides st = Inr d" and "distinct (map fst d)" and "strip url \<noteq> []"
  shows "get_core_base_url env (snd (set_core_base_url env time_ns url st)) = Inr (strip url) \<and>
    (case fst (set_core_base_url env time_ns url st) of
       Inr v \<Rightarrow> v = strip url
     | Inl e \<Rightarrow> fst (update_desired env (cs_mounts st)
         (core_url_mutator (strip url) time_ns) (cs_fs st)) = Inl e)"
proof -
  let ?d = "dset ''core_base_url'' (JStr (strip url)) d"
  let ?st = "save_overrides ?d st"
  obtain r fs where r: "update_desired env (cs_mounts ?st)
      (core_url_mutator (strip url) time_ns) (cs_fs ?st) = (r, fs)" by fastforce
  have run: "set_core_base_url env time_ns url st =
      (case r of Inl e \<Rightarrow> Inl e | Inr _ \<Rightarrow> Inr (strip url), ?st\<lparr>cs_fs := fs\<rparr>)"
    using assms r by (simp add: set_core_base_url_def Let_def)
  have "load_overrides (?st\<lparr>cs_fs := fs\<rparr>) = Inr (sort_dict ?d)"
    using load_overrides_save [of ?d st] by (simp add: load_overrides_def)
  moreover have "dget (sort_dict ?d) ''core_base_url'' = JStr (strip url)"
    by (simp add: dget_sort_dict distinct_dset assms(2))
  ultimately have "get_core_base_url env (?st\<lparr>cs_fs := fs\<rparr>) = Inr (strip url)"
    using assms(3) by (simp add: get_core_base_url_def py_or_def Let_def)
  then show ?thesis using r unfolding run by (simp split: sum.splits)
qed

lemma core_base_url_read_back_witness:
  "get_core_base_url empty_env (snd (set_core_base_url empty_env 7 '' http://core '' example_config))
     = Inr ''http://core''"
proof -
  have s: "strip '' http://core '' = ''http://core''" by code_simp
  have "load_overrides example_config = Inr [(''mqtt_host'', JStr ''broker'')]" by code_simp
  from core_base_url_read_back [OF this, of "'' http://core ''" empty_env 7]
  show ?thesis by (simp add: s)
qed


section \<open>Optional groups\<close>

lemma wf_json_as_dict: "wf_json v \<Longrightarrow> wf_json (JObj (as_dict v))"
  by (cases v) simp_all

lemma wf_json_distinct: "wf_json (JObj d) \<Longrightarrow> distinct (map fst d)"
  by simp

text \<open>What the mutator writes is what \<open>get_desired_optional_groups\<close> looks for.\<close>

lemma desired_groups_mutator_read:
  assumes "wf_json (JObj old)" and "normal_names requested"
    and "read_desired env (cs_fs st) (cs_mounts st) = sort_dict (desired_groups_mutator requested t old)"
  shows "get_desired_optional_groups env st = requested"
proof -
  let ?runtime = "as_dict (dget old ''runtime'')"
  let ?og = "as_dict (dget ?runtime ''optional_docker_groups'')"
  let ?new = "desired_groups_mutator requested t old"
  have sort_names: "sort_keys (name_list requested) = name_list requested"
    by (simp add: name_list_def)
  have norm: "normalize_string_list (name_list requested) = requested"
    by (simp add: name_list_def normalize_normal_names assms(2))
  have d0: "distinct (map fst old)" "distinct (map fst ?runtime)" "distinct (map fst ?og)"
    using assms(1) wf_json_distinct wf_json_as_dict wf_json_dget by blast+
  have dist: "distinct (map fst ?new)"
    unfolding desired_groups_mutator_def Let_def by (intro distinct_dset d0)
  have 1: "dget (sort_dict ?new) ''enabled_docker_groups'' = name_list requested"
    "dget (sort_dict ?new) ''optional_groups_requested'' = name_list requested"
    unfolding dget_sort_dict [OF dist] by (simp_all add: desired_groups_mutator_def Let_def sort_names)
  have 2: "dget (sort_dict ?new) ''runtime'' =
      sort_keys (JObj (dset ''optional_docker_groups'' (JObj (dset ''requested'' (name_list requested) ?og)) ?runtime))"
    unfolding dget_sort_dict [OF dist]
    by (simp add: desired_groups_mutator_def Let_def del: sort_keys.simps)
  have 3: "dget (sort_dict (dset ''optional_docker_groups''
        (JObj (dset ''requested'' (name_list requested) ?og)) ?runtime)) ''optional_docker_groups'' =
      sort_keys (JObj (dset ''requested'' (name_list requested) ?og))"
    by (simp add: dget_sort_dict distinct_dset d0 del: sort_keys.simps)
  have 4: "dget (sort_dict (dset ''requested'' (name_list requested) ?og)) ''requested'' = name_list requested"
    by (simp add: dget_sort_dict distinct_dset d0 sort_names)
  show ?thesis
    by (simp only: get_desired_optional_groups_def assms(3) Let_def 1 2 3 4 norm sort_keys_JObj
        json.case) simp
qed

lemma session_read_inverse:
  assumes "get_install_session_state env st = Inr s"
  shows "\<exists>raw c. load_install_session_state st = Inr (JObj raw) \<and> get_install_state env st = Inr c"
  using assms unfolding get_install_session_state_def Let_def res_bind_Inr_iff
  by (auto simp: load_install_session_state_def res_bind_Inr_iff)

text \<open>The asset directories after preparing: those of the selection, with fresh documents.\<close>

lemma fold_assets:
  "map_of (foldl (\<lambda>a g. dset g (f g) a) assets gs) k = (if k \<in> set gs then Some (f k) else map_of assets k)"
  by (induction gs arbitrary: assets) auto

lemma map_of_filter_key: "map_of (filter (\<lambda>(k, _). P k) d) k = (if P k then map_of d k else None)"
  by (induction d) auto

lemma prepared_assets:
  "map_of (prepare_optional_group_assets requested supported assets) k =
     (if k \<in> set requested then Some (sort_keys (group_document supported k)) else None)"
  by (simp add: prepare_optional_group_assets_def map_of_filter_key fold_assets)

text \<open>
  a selection of optional groups that succeeds writes the resolved selection everywhere:
  the desired state the supervisor reads asks for exactly the resolved groups in dependency
  order, and the asset directories are those of the resolved groups, each with the document
  of its group.
\<close>

theorem selected_groups_read_back:
  assumes "fst (set_requested_optional_groups env t ids supported st) = Inr s"
    and "\<not> starts_with (ms_base_dir (cs_mounts st)) ''/state''"
    and "wf_json (JObj (read_desired env (cs_fs st) (cs_mounts st)))"
    and "requested = resolve_requested_optional_groups (normalize_string_list (name_list ids)) supported"
  shows "get_desired_optional_groups env (snd (set_requested_optional_groups env t ids supported st)) = requested \<and>
    map_of (cs_assets (snd (set_requested_optional_groups env t ids supported st))) =
      (\<lambda>g. if g \<in> set requested then Some (sort_keys (group_document supported g)) else None)"
proof -
  note normal = resolve_normal [OF normal_names_normalize [of "name_list ids"], where groups = supported, folded assms(4)]
  have filter: "filter (\<lambda>g. dhas supported g) requested = requested"
    using normal(2) by (simp add: filter_id_conv)
  define st1 where "st1 = st\<lparr>cs_assets := prepare_optional_group_assets requested supported (cs_assets st)\<rparr>"
  obtain s1 where s1: "get_install_session_state env st1 = Inr s1"
    using assms(1) by (auto simp: set_requested_optional_groups_def Let_def filter st1_def
        assms(4) [symmetric] split: sum.splits)
  obtain r fs where upd: "update_desired env (cs_mounts st) (desired_groups_mutator requested t) (cs_fs st) = (r, fs)"
    by fastforce
  then obtain v where v: "r = Inr v"
    using assms(1) s1 by (auto simp: set_requested_optional_groups_def Let_def filter st1_def
        assms(4) [symmetric] write_desired_optional_groups_def split: sum.splits)
  have "fst (update_desired env (cs_mounts st) (desired_groups_mutator requested t) (cs_fs st)) = Inr v"
    by (simp add: upd v)
  from update_desired_success [OF this assms(2)]
  have rd: "read_desired env fs (cs_mounts st) =
      sort_dict (desired_groups_mutator requested t (read_desired env (cs_fs st) (cs_mounts st)))"
    by (simp add: upd)
  define st2 where "st2 = st1\<lparr>cs_fs := fs\<rparr>"
  have st2: "get_desired_optional_groups env st2 = requested"
    by (rule desired_groups_mutator_read [OF assms(3) normal(1)])
      (simp add: st2_def st1_def rd)
  obtain u where run: "set_requested_optional_groups env t ids supported st =
      update_install_session_state env u st2"
    using upd v s1 by (simp add: set_requested_optional_groups_def Let_def filter st1_def st2_def
        assms(4) [symmetric] write_desired_optional_groups_def)
  have st3: "cs_fs (snd (update_install_session_state env u st2)) = cs_fs st2"
    "cs_mounts (snd (update_install_session_state env u st2)) = cs_mounts st2"
    "cs_assets (snd (update_install_session_state env u st2)) = cs_assets st2"
    by (simp_all add: update_install_session_state_def save_install_session_state_def Let_def
        split: sum.splits)
  have "get_desired_optional_groups env (snd (update_install_session_state env u st2)) = requested"
    unfolding st2 [symmetric] by (rule get_desired_cong [OF st3(1,2)])
  moreover have "map_of (cs_assets st2) =
      (\<lambda>g. if g \<in> set requested then Some (sort_keys (group_document supported g)) else None)"
    by (rule ext) (simp add: st2_def st1_def prepared_assets)
  ultimately show ?thesis unfolding run st3(3) by blast
qed


lemma selected_groups_read_back_witness:
  "get_desired_optional_groups empty_env
     (snd (set_requested_optional_groups empty_env 7 [''grafana''] example_groups example_config))
   = [''influx'', ''grafana'']"
proof -
  let ?r = "set_requested_optional_groups empty_env 7 [''grafana''] example_groups example_config"
  have "\<not> isl (fst ?r)" by code_simp
  then obtain s where 1: "fst ?r = Inr s" by (cases "fst ?r") simp_all
  have 2: "\<not> starts_with (ms_base_dir (cs_mounts example_config)) ''/state''" by code_simp
  have 3: "wf_json (JObj (read_desired empty_env (cs_fs example_config) (cs_mounts example_config)))"
    by code_simp
  have 4: "[''influx'', ''grafana''] = resolve_requested_optional_groups
      (normalize_string_list (name_list [''grafana''])) example_groups" by code_simp
  from selected_groups_read_back [OF 1 2 3 4] show ?thesis by blast
qed

section \<open>Divergences\<close>

text \<open>
  The loader of the session never returns anything but a dictionary, so the branch that
  reconstructs a lost session from the overrides is not reached: without install_state.json
  the session is unconfigured, whatever the configuration says.
\<close>

theorem lost_session_is_unconfigured:
  assumes "cs_install st = Absent" and "get_install_session_state env st = Inr s"
  shows "dget s ''setup_state'' = JStr ''unconfigured'' \<and> dget s ''configured'' = JBool False"
proof -
  have raw: "load_install_session_state st = Inr (JObj [])"
    by (simp add: load_install_session_state_def assms(1) load_object_strict_def load_object_def)
  obtain c where c: "get_install_state env st = Inr c"
    using session_read_inverse [OF assms(2)] by blast
  have "session_of_raw [] default_install_session_state = default_install_session_state" by code_simp
  with assms(2) show ?thesis
    unfolding get_install_session_state_eq [OF raw c] Let_def
    by (auto simp: default_install_session_state_def split: if_splits)
qed

definition configured_without_session :: config_store where
  "configured_without_session = example_config\<lparr>cs_config := Doc (JObj
     [(''external'', JObj [(''host'', JStr ''mq''), (''port'', JInt 1883)]), (''mode'', JStr ''external'')])\<rparr>"

lemma reconstruction_not_used:
  "reconstruct_install_session_from_overrides (load_object (cs_config configured_without_session)) =
     Some [(''mode'', JStr ''external''), (''setup_state'', JStr ''ready''), (''configured'', JBool True),
       (''verified'', JBool True), (''external_direct_access_mode'', JStr ''gateway_only''),
       (''last_error'', JNull)]"
  "get_install_session_state empty_env configured_without_session = Inr default_install_session_state"
  by code_simp+

text \<open>
  \<open>update_config\<close> changes the connection in use but not the \<open>external\<close> block of the
  overrides, so after it the install state still shows the host of the last install.
\<close>

definition no_update :: addon_config_update where
  "no_update = \<lparr>acu_mqtt_host = None, acu_mqtt_port = None, acu_mqtt_username = None,
     acu_mqtt_password = None, acu_mqtt_tls = None, acu_mqtt_client_id = None,
     acu_mqtt_base_topic = None, acu_mqtt_qos = None\<rparr>"

lemma update_config_leaves_install_state:
  "map_sum id eff_host (fst (update_config empty_env (no_update\<lparr>acu_mqtt_host := Some ''new''\<rparr>)
     configured_without_session)) = Inr (JStr ''new'')"
  "map_sum id (\<lambda>c. dget (ic_external c) ''host'') (get_install_state empty_env
     (snd (update_config empty_env (no_update\<lparr>acu_mqtt_host := Some ''new''\<rparr>)
        configured_without_session))) = Inr (JStr ''mq'')"
  by code_simp+

end
