(* ===== verification/Spec2Isabelle.thy ===== *)
theory Spec2Isabelle
  imports System Config_Desired
begin

text \<open>
  Synthia MQTT addon: a verification library for the Python program under src/app.

  The program is a FastAPI service between the addons of a home system and an MQTT broker.
  An operator sets it up (install workflow): an external broker that has been tested, or an
  embedded one whose files it writes, with optional docker groups. Addons register with the
  topics they want (registration store), and publish through HTTP endpoints that check the
  caller's token, the policy distributed over MQTT, the topic and the message envelope; every
  decision is traced and reported (publish traces, telemetry). The broker connection is a paho
  client whose callbacks keep the health state, the policy cache and the reconnect counter.
  What is configured, selected and installed lives in JSON files (configuration store, mounted
  state store).

  Theories and the code they model, from the bottom up:
   - Prelude: the exceptions, \<open>res\<close> (an exception or a value) and \<open>run\<close> (a state change that may
     raise, keeping what was changed), slices. Py_Str: the string methods the code uses. Py_Json:
     JSON values and dictionaries in insertion order, \<open>str\<close>, \<open>int\<close>, truth, and a JSON file as
     absent, not JSON, or a document.
   - Topic_Permissions: services/topic_permissions.py and services/envelope_validation.py.
   - Token_Auth: services/token_auth.py and api/auth.py.
   - Policy_Cache: services/policy_cache.py, also as a machine fed by grants and revocations.
   - Bounded_Log: the contract of a log that keeps its newest entries, a locale that
     Publish_Trace_Store (services/publish_trace_store.py) and Telemetry_Reporter
     (services/telemetry_reporter.py) provide. Http: what \<open>urlopen\<close> may answer.
   - Health_Service: services/health.py, services/lifecycle_topics.py, services/mqtt_metrics_store.py.
   - Mounted_State_Store: services/mounted_state_store.py, services/fs_utils.py.
   - Optional_Groups: the resolution of selected groups with their dependencies in
     services/config_store.py; Config_Store: the rest of it, with its facts in Config_Facts
     (which reads succeed, the invariant), Config_Roundtrip (session and install) and
     Config_Desired (masks, base URL, selected groups).
   - Registration_Store: services/registration_store.py; its facts in Registration_Facts.
   - Mqtt_Client: services/mqtt_client.py, its callbacks as a machine.
   - Gateway: the state of the publishing endpoints, the two ways they end, and the locale
     \<open>publishing_handler\<close>, the contract of an endpoint that publishes; Publish_Api:
     api/mqtt_publish.py, which provides it twice; Ha_Api: api/ha_discovery.py, twice more.
   - Broker_Manager: services/broker_manager.py and the two functions of
     services/config_store.py that write the files of the embedded broker.
   - Core_Registry: services/core_registry.py.
   - App_State: the state all endpoints share, the manifest of api/addon_contract.py, and the
     start, reload and stop of main.py.
   - Registration_Api: api/mqtt_registration.py.
   - Install_Rules: the functions of api/install_workflow.py outside its router; Install_Api:
     the router's endpoints; Install_Facts: what they do to the rest of the application.
   - Addon_Api: the endpoints of api/addon_contract.py. Broker_Admin: api/broker_admin.py.
   - System: the requests with their scopes and dependency, the callbacks, the telemetry
     thread, start and shutdown as one machine, with runs as an inductive relation that keeps
     a log; and the locale \<open>management\<close>, the contract of an endpoint that only manages.

  State is a record per component, passed explicitly; \<open>gateway_world\<close> extends the state of the
  client by the stores the endpoints share, \<open>app_world\<close> adds the broker's files, the requests
  sent to Core and the containers restarted. A request that waits for ever, for a lock or for
  a clock that stands still, is \<open>None\<close>: the telemetry's lock is part of the state, and
  \<open>wait_loop\<close> is a partial function, with a theorem that says when it returns. Everything else
  is a total function, so that no fuel is needed: the two loops that are not structural end
  by a measure (the groups not yet on the path, the queue).

  What the lemmas show, by group: which inputs each check lets through, as an equivalence with
  a specification (\<open>*_iff\<close>, \<open>*_spec\<close>); that stores give back what was written and survive
  failures unchanged (\<open>*_read_back\<close>, \<open>*_round_trip\<close>, \<open>*_failure_*\<close>); that logs keep exactly the
  newest entries (\<open>*_keeps_newest\<close>); that the caches and the client follow their events; that
  an install takes effect when it is answered with success, and what a refused one leaves
  behind; that the answers have the values of their models; and, over every run of the whole
  application, that each message sent is accounted for by the event that may send it, that
  authentication and revocation hold, that the configuration stays readable, that requests
  return, and after which flush of the telemetry they no longer do.

  Parameters, with what is assumed of them where a theorem needs it: HMAC-SHA256 and SHA-256,
  \<open>crypt\<close>, \<open>json.loads\<close>, the conversions of dates (a written instant is read back:
  \<open>dt_roundtrip\<close>, \<open>reg_lib_ok\<close>), paho, the network, docker, the environment and what the
  operating system answers to reads and writes of files. Characters are those of Latin-1, on
  which Python's string methods are modelled. Clocks are integers (nanoseconds, milliseconds
  or seconds, as the code reads them).

  Not modelled: what runs inside threads at the same time (operations are atomic, and
  interleavings are sequences of operations; a request that hangs is left out of a run, so
  that what it did before is not in the state); the files a directory needs and their mode
  bits; log output; the static files and the redirect of main.py; the package filelock, of
  which the model keeps whether the lock is free; the front end, scripts and container files.
\<close>

end
